(* ===== verification/Prelude.thy ===== *)
theory Prelude
  imports Complex_Main "HOL-Library.Char_ord" "HOL-Library.List_Lexorder"
begin

text \<open>
  Shared notions of the development: Python exceptions as values, the early-exit
  sequencing that every validator of the code uses (\<open>raise\<close> stops the function),
  the two loop shapes (a comprehension that may raise, a loop over an accumulator that
  may raise), and the lemma collections that the component theories extend.
\<close>

section \<open>Exceptions as values\<close>

text \<open>
  \<open>Exc c m\<close> is an instance of the Python exception class named \<open>c\<close> with
  \<open>str(exc) = m\<close>.  A function of the code that may raise returns \<open>exc + 'a\<close>.
\<close>

datatype exc = Exc (exc_type: string) (exc_msg: string)

type_synonym 'a result = "exc + 'a"

abbreviation ValueError :: "string \<Rightarrow> exc" where
  "ValueError m \<equiv> Exc ''ValueError'' m"

abbreviation TypeError :: "string \<Rightarrow> exc" where
  "TypeError m \<equiv> Exc ''TypeError'' m"

abbreviation KeyError :: "string \<Rightarrow> exc" where
  "KeyError m \<equiv> Exc ''KeyError'' m"

abbreviation RuntimeError :: "string \<Rightarrow> exc" where
  "RuntimeError m \<equiv> Exc ''RuntimeError'' m"

named_theorems exc_elims "inversion facts for computations that did not raise"

subsection \<open>Sequencing\<close>

definition bindE :: "'e + 'a \<Rightarrow> ('a \<Rightarrow> 'e + 'b) \<Rightarrow> 'e + 'b" where
  "bindE m f = (case m of Inl e \<Rightarrow> Inl e | Inr x \<Rightarrow> f x)"

lemma bindE_simps [simp]:
  "bindE (Inl e) f = Inl e"
  "bindE (Inr x) f = f x"
  by (simp_all add: bindE_def)

lemma bindE_eq_Inr [exc_elims]:
  "bindE m f = Inr y \<longleftrightarrow> (\<exists>x. m = Inr x \<and> f x = Inr y)"
  by (cases m) auto

lemma bindE_eq_Inl:
  "bindE m f = Inl e \<longleftrightarrow> m = Inl e \<or> (\<exists>x. m = Inr x \<and> f x = Inl e)"
  by (cases m) auto

lemma bindE_assoc: "bindE (bindE m f) g = bindE m (\<lambda>x. bindE (f x) g)"
  by (cases m) auto

lemma bindE_cong [fundef_cong]:
  "m = m' \<Longrightarrow> (\<And>x. m' = Inr x \<Longrightarrow> f x = f' x) \<Longrightarrow> bindE m f = bindE m' f'"
  by (cases m') auto

lemma if_Inl_eq_Inr [exc_elims, simp]:
  "(if c then Inl e else r) = Inr y \<longleftrightarrow> \<not> c \<and> r = Inr y"
  by auto

definition isOk :: "'e + 'a \<Rightarrow> bool" where
  "isOk r = (case r of Inl _ \<Rightarrow> False | Inr _ \<Rightarrow> True)"

lemma isOk_simps [simp]: "\<not> isOk (Inl e)" "isOk (Inr x)"
  by (simp_all add: isOk_def)

lemma isOk_iff: "isOk r \<longleftrightarrow> (\<exists>x. r = Inr x)"
  by (cases r) auto

subsection \<open>Loops that may raise\<close>

text \<open>A comprehension \<open>[f(x) for x in xs]\<close> whose body may raise.\<close>

fun mapE :: "('a \<Rightarrow> 'e + 'b) \<Rightarrow> 'a list \<Rightarrow> 'e + 'b list" where
  "mapE f [] = Inr []"
| "mapE f (x # xs) = bindE (f x) (\<lambda>y. bindE (mapE f xs) (\<lambda>ys. Inr (y # ys)))"

lemma mapE_cong [fundef_cong]:
  "xs = ys \<Longrightarrow> (\<And>x. x \<in> set ys \<Longrightarrow> f x = g x) \<Longrightarrow> mapE f xs = mapE g ys"
  by (induction ys arbitrary: xs) auto

lemma mapE_eq_Inr [exc_elims]:
  "mapE f xs = Inr ys \<longleftrightarrow> list_all2 (\<lambda>x y. f x = Inr y) xs ys"
proof (induction xs arbitrary: ys)
  case Nil
  then show ?case by auto
next
  case (Cons x xs)
  then show ?case
    by (cases "f x"; cases ys) (auto simp: bindE_eq_Inr)
qed

lemma mapE_length: "mapE f xs = Inr ys \<Longrightarrow> length ys = length xs"
  by (auto simp: mapE_eq_Inr dest: list_all2_lengthD)

lemma mapE_set:
  assumes "mapE f xs = Inr ys" and "y \<in> set ys"
  obtains x where "x \<in> set xs" and "f x = Inr y"
proof -
  from assms have "list_all2 (\<lambda>x y. f x = Inr y) xs ys" by (simp add: mapE_eq_Inr)
  with assms(2) that show thesis by (auto simp: list_all2_conv_all_nth in_set_conv_nth) metis
qed

lemma mapE_total: "(\<And>x. x \<in> set xs \<Longrightarrow> \<exists>y. f x = Inr y) \<Longrightarrow> \<exists>ys. mapE f xs = Inr ys"
proof (induction xs)
  case (Cons x xs)
  from Cons.prems obtain y where "f x = Inr y" by force
  moreover from Cons obtain ys where "mapE f xs = Inr ys" by force
  ultimately show ?case by simp
qed simp

lemma mapE_pure: "(\<And>x. x \<in> set xs \<Longrightarrow> f x = Inr (g x)) \<Longrightarrow> mapE f xs = Inr (map g xs)"
  by (induction xs) auto

text \<open>A \<open>for\<close> loop over an accumulator whose body may raise.\<close>

fun foldE :: "('s \<Rightarrow> 'a \<Rightarrow> 'e + 's) \<Rightarrow> 's \<Rightarrow> 'a list \<Rightarrow> 'e + 's" where
  "foldE f s [] = Inr s"
| "foldE f s (x # xs) = bindE (f s x) (\<lambda>s'. foldE f s' xs)"

lemma foldE_cong [fundef_cong]:
  "s = t \<Longrightarrow> xs = ys \<Longrightarrow> (\<And>s x. x \<in> set ys \<Longrightarrow> f s x = g s x) \<Longrightarrow> foldE f s xs = foldE g t ys"
  by (induction ys arbitrary: xs s t) (auto intro!: bindE_cong)

lemma foldE_append: "foldE f s (xs @ ys) = bindE (foldE f s xs) (\<lambda>s'. foldE f s' ys)"
  by (induction xs arbitrary: s) (auto simp: bindE_assoc)

text \<open>The loop rule: an invariant indexed by what has been consumed.\<close>

lemma foldE_invariant:
  assumes "foldE f s xs = Inr s'" and "I s []"
    and "\<And>s ys x t. I s ys \<Longrightarrow> x \<in> set xs \<Longrightarrow> f s x = Inr t \<Longrightarrow> I t (ys @ [x])"
  shows "I s' xs"
proof -
  have "foldE f s xs = Inr s' \<Longrightarrow> I s pre \<Longrightarrow> set xs \<subseteq> A \<Longrightarrow>
      (\<And>s ys x t. I s ys \<Longrightarrow> x \<in> A \<Longrightarrow> f s x = Inr t \<Longrightarrow> I t (ys @ [x])) \<Longrightarrow> I s' (pre @ xs)"
    for pre A
  proof (induction xs arbitrary: s pre)
    case (Cons x xs)
    then obtain t where t: "f s x = Inr t" "foldE f t xs = Inr s'"
      by (auto simp: bindE_eq_Inr)
    from Cons.prems t(1) have "I t (pre @ [x])" by auto
    from Cons.IH [OF t(2) this] Cons.prems have "I s' ((pre @ [x]) @ xs)" by auto
    then show ?case by simp
  qed simp
  from this [of "[]" "set xs"] assms show ?thesis by auto
qed

section \<open>Lists\<close>

lemma distinct_snoc: "distinct (xs @ [x]) \<longleftrightarrow> distinct xs \<and> x \<notin> set xs"
  by auto

lemma list_all_filter_length:
  "length (filter P xs) = length xs \<longleftrightarrow> list_all P xs"
  by (metis filter_True length_filter_less list_all_iff nat_less_le)

lemma sort_key_eq_Nil [simp]: "sort_key f xs = [] \<longleftrightarrow> xs = []"
  by (metis length_0_conv length_sort)

lemma filter_length_split:
  "length (filter P xs) + length (filter (\<lambda>x. \<not> P x) xs) = length xs"
  by (induction xs) auto

text \<open>A stable sort by a key that is already sorted changes nothing.\<close>

lemma sort_key_id: "sorted (map f xs) \<Longrightarrow> sort_key f xs = xs"
  by (induction xs) (auto simp: insort_is_Cons)

lemma sort_key_idem: "sort_key f (sort_key f xs) = sort_key f xs"
  by (rule sort_key_id) (rule sorted_sort_key)

end
