(* ===== verification/PyFloat.thy ===== *)
theory PyFloat
  imports Prelude "HOL-Library.Log_Nat"
begin

text \<open>
  Python's \<open>float\<close>: IEEE 754 binary64.  A finite float is represented by the rational it
  denotes (negative zero is identified with zero); the arithmetic the code performs on
  floats is the exact operation followed by \<open>rnd\<close>, rounding to nearest with ties to
  even, at 53 significant bits and with gradual underflow.  Overflow to an infinity is
  \<open>to_float\<close>.  The lemmas are the few facts the components need: values
  that are already floats are not changed, rounding does not cross a power of two, and
  a proper fraction with a numerator and denominator below \<open>2^53\<close> stays below one.
\<close>

section \<open>Rounding\<close>

text \<open>\<open>floor(log2 x)\<close> of a positive rational.\<close>

definition ilog2 :: "rat \<Rightarrow> int" where
  "ilog2 x = (case quotient_of x of (n, d) \<Rightarrow>
     (let e = bitlen n - bitlen d in if 2 powi e \<le> x then e else e - 1))"

text \<open>Nearest integer, ties to even.\<close>

definition rhe :: "rat \<Rightarrow> int" where
  "rhe y = (let f = \<lfloor>y\<rfloor>; r = y - of_int f in
     if r < 1 / 2 then f else if 1 / 2 < r then f + 1 else if even f then f else f + 1)"

definition quantum :: "rat \<Rightarrow> rat" where
  "quantum x = 2 powi (max (ilog2 \<bar>x\<bar> - 52) (- 1074))"

definition rnd :: "rat \<Rightarrow> rat" where
  "rnd x = (if x = 0 then 0 else of_int (rhe (x / quantum x)) * quantum x)"

datatype flt = Fin rat | PInf | NInf | NaN

definition to_float :: "rat \<Rightarrow> flt" where
  "to_float x = (let r = rnd x in
     if 2 ^ 1024 \<le> r then PInf else if r \<le> - (2 ^ 1024) then NInf else Fin r)"

definition is_finite :: "flt \<Rightarrow> bool" where
  "is_finite f \<longleftrightarrow> (case f of Fin _ \<Rightarrow> True | _ \<Rightarrow> False)"

section \<open>Facts\<close>

lemma ilog2_bounds:
  assumes "0 < x"
  shows "2 powi (ilog2 x) \<le> x" and "x < 2 powi (ilog2 x + 1)"
proof -
  obtain n d where q: "quotient_of x = (n, d)" by (cases "quotient_of x")
  have d: "0 < d" using q quotient_of_denom_pos by blast
  have x: "x = of_int n / of_int d" by (rule quotient_of_div [OF q])
  with assms d have n: "0 < n" by (simp add: zero_less_divide_iff)
  let ?a = "bitlen n" and ?b = "bitlen d"
  have a: "1 \<le> ?a" "1 \<le> ?b" using n d by (simp_all add: bitlen_alt_def)
  have nb: "2 powi (?a - 1) \<le> (of_int n :: rat)" "(of_int n :: rat) < 2 powi ?a"
  proof -
    from bitlen_bounds [OF n] have "(of_int (2 ^ nat (?a - 1)) :: rat) \<le> of_int n"
      "(of_int n :: rat) < of_int (2 ^ nat ?a)" by (simp_all only: of_int_le_iff of_int_less_iff)
    with a show "2 powi (?a - 1) \<le> (of_int n :: rat)" "(of_int n :: rat) < 2 powi ?a"
      by (simp_all add: power_int_def)
  qed
  have db: "2 powi (?b - 1) \<le> (of_int d :: rat)" "(of_int d :: rat) < 2 powi ?b"
  proof -
    from bitlen_bounds [OF d] have "(of_int (2 ^ nat (?b - 1)) :: rat) \<le> of_int d"
      "(of_int d :: rat) < of_int (2 ^ nat ?b)" by (simp_all only: of_int_le_iff of_int_less_iff)
    with a show "2 powi (?b - 1) \<le> (of_int d :: rat)" "(of_int d :: rat) < 2 powi ?b"
      by (simp_all add: power_int_def)
  qed
  have up: "x < 2 powi (?a - ?b + 1)"
  proof -
    have "(of_int n :: rat) < 2 powi (?a - ?b + 1) * 2 powi (?b - 1)"
      using nb(2) by (simp add: power_int_add [symmetric])
    also have "\<dots> \<le> 2 powi (?a - ?b + 1) * of_int d"
      using db(1) by (intro mult_left_mono) auto
    finally show ?thesis using d by (simp add: x divide_less_eq)
  qed
  have lo: "2 powi (?a - ?b - 1) \<le> x"
  proof -
    have "2 powi (?a - ?b - 1) * (of_int d :: rat) \<le> 2 powi (?a - ?b - 1) * 2 powi ?b"
      using db(2) by (intro mult_left_mono) auto
    also have "\<dots> = 2 powi (?a - 1)" by (simp add: power_int_add [symmetric])
    also have "\<dots> \<le> of_int n" by (rule nb(1))
    finally show ?thesis using d by (simp add: x le_divide_eq)
  qed
  show "2 powi (ilog2 x) \<le> x" using lo by (auto simp: ilog2_def q Let_def)
  show "x < 2 powi (ilog2 x + 1)" using up by (auto simp: ilog2_def q Let_def)
qed

lemma rhe_of_int [simp]: "rhe (of_int m) = m"
  by (simp add: rhe_def)

lemma rhe_le: "y \<le> of_int m \<Longrightarrow> rhe y \<le> m"
proof -
  assume y: "y \<le> of_int m"
  then have f: "\<lfloor>y\<rfloor> \<le> m" by linarith
  show ?thesis
  proof (cases "\<lfloor>y\<rfloor> = m")
    case True
    with y have "y = of_int m" by (metis antisym of_int_floor_le)
    then show ?thesis by simp
  next
    case False
    with f show ?thesis by (auto simp: rhe_def Let_def)
  qed
qed

lemma rhe_ge: "of_int m \<le> y \<Longrightarrow> m \<le> rhe y"
proof -
  assume "of_int m \<le> y"
  then have "m \<le> \<lfloor>y\<rfloor>" by (simp add: le_floor_iff)
  then show ?thesis by (auto simp: rhe_def Let_def)
qed

definition qexp :: "rat \<Rightarrow> int" where
  "qexp x = max (ilog2 \<bar>x\<bar> - 52) (- 1074)"

lemma quantum_qexp: "quantum x = 2 powi (qexp x)"
  by (simp add: quantum_def qexp_def)

lemma quantum_pos [simp]: "0 < quantum x"
  by (simp add: quantum_def)

lemma rnd_0 [simp]: "rnd 0 = 0"
  by (simp add: rnd_def)

lemma rnd_nonneg: "0 \<le> x \<Longrightarrow> 0 \<le> rnd x"
proof -
  assume "0 \<le> x"
  then have "of_int 0 \<le> x / quantum x" by (simp add: less_imp_le)
  then have "0 \<le> rhe (x / quantum x)" by (rule rhe_ge)
  then show ?thesis by (simp add: rnd_def less_imp_le mult_nonneg_nonneg)
qed

text \<open>A bound that is a multiple of the quantum survives rounding.\<close>

lemma rnd_le_multiple:
  assumes "x \<noteq> 0" and "x \<le> of_int m * quantum x"
  shows "rnd x \<le> of_int m * quantum x"
proof -
  from assms(2) have "x / quantum x \<le> of_int m" by (simp add: divide_le_eq)
  then have "rhe (x / quantum x) \<le> m" by (rule rhe_le)
  then have "(of_int (rhe (x / quantum x)) :: rat) \<le> of_int m" by (simp only: of_int_le_iff)
  then show ?thesis using assms(1) by (simp add: rnd_def mult_right_mono less_imp_le)
qed

lemma powi_split: "e \<le> k \<Longrightarrow> (2::rat) powi k = of_int (2 ^ nat (k - e)) * 2 powi e"
proof -
  assume "e \<le> k"
  then have "(2::rat) powi (k - e) = of_int (2 ^ nat (k - e))" by (simp add: power_int_def)
  moreover have "(2::rat) powi k = 2 powi (k - e) * 2 powi e"
    by (simp add: power_int_add [symmetric])
  ultimately show ?thesis by simp
qed

text \<open>An integral multiple of the quantum is a float already.\<close>

lemma rnd_multiple: "x = of_int m * quantum x \<Longrightarrow> rnd x = x"
  by (metis nonzero_mult_div_cancel_right order_less_irrefl quantum_pos rhe_of_int rnd_def)

lemma ilog2_less:
  assumes "0 < x" and "x < 2 powi e"
  shows "ilog2 x < e"
proof (rule ccontr)
  assume "\<not> ilog2 x < e"
  then have "(2::rat) powi e \<le> 2 powi (ilog2 x)"
    by (intro power_int_increasing) auto
  with ilog2_bounds(1) [OF assms(1)] assms(2) show False by linarith
qed

lemma ilog2_ge:
  assumes "0 < x" and "2 powi e \<le> x"
  shows "e \<le> ilog2 x"
proof (rule ccontr)
  assume "\<not> e \<le> ilog2 x"
  then have "(2::rat) powi (ilog2 x + 1) \<le> 2 powi e"
    by (intro power_int_increasing) auto
  with ilog2_bounds(2) [OF assms(1)] assms(2) show False by linarith
qed

text \<open>Integers below \<open>2^53\<close> are floats.\<close>

lemma rnd_of_int:
  assumes "\<bar>i\<bar> < 2 ^ 53"
  shows "rnd (of_int i) = of_int i"
proof (cases "i = 0")
  case False
  let ?x = "of_int i :: rat"
  have "(of_int \<bar>i\<bar> :: rat) < of_int (2 ^ 53)" using assms by (simp only: of_int_less_iff)
  then have "\<bar>?x\<bar> < 2 powi 53" by (simp add: power_int_def)
  with False have "ilog2 \<bar>?x\<bar> < 53" by (intro ilog2_less) auto
  then have "qexp ?x \<le> 0" by (simp add: qexp_def)
  from powi_split [OF this] have "?x = of_int (i * 2 ^ nat (- qexp ?x)) * quantum ?x"
    by (simp add: quantum_qexp mult.assoc)
  then show ?thesis by (rule rnd_multiple)
qed simp

text \<open>Rounding does not carry a value above a power of two that bounds it.\<close>

lemma rnd_le_power:
  assumes "0 \<le> x" and "x \<le> 2 powi k" and "- 1021 \<le> k"
  shows "rnd x \<le> 2 powi k"
proof (cases "x = 0")
  case False
  with assms(1) have pos: "0 < x" by simp
  have "x < 2 powi (k + 1)"
    using assms(2) by (rule order_le_less_trans) (rule power_int_strict_increasing, auto)
  with pos have "ilog2 x < k + 1" by (rule ilog2_less)
  with assms(3) pos have "qexp x \<le> k" by (simp add: qexp_def)
  then have "2 powi k = of_int (2 ^ nat (k - qexp x)) * quantum x"
    unfolding quantum_qexp by (rule powi_split)
  with False assms(2) show ?thesis by (metis rnd_le_multiple)
qed simp

lemma rnd_unit: "0 \<le> x \<Longrightarrow> x \<le> 1 \<Longrightarrow> 0 \<le> rnd x \<and> rnd x \<le> 1"
  using rnd_le_power [of x 0] by (simp add: rnd_nonneg)

lemma rnd_1 [simp]: "rnd 1 = 1"
  using rnd_of_int [of 1] by simp

text \<open>A power of two below a number is below its rounding.\<close>

lemma rnd_ge_power:
  assumes "2 powi k \<le> x" and "- 1074 \<le> k"
  shows "2 powi k \<le> rnd x"
proof -
  have pos: "0 < x" by (rule less_le_trans [OF _ assms(1)]) simp
  let ?e = "ilog2 x"
  have ke: "k \<le> ?e" by (rule ilog2_ge [OF pos assms(1)])
  with assms(2) pos have q: "qexp x \<le> ?e" by (simp add: qexp_def)
  have eq: "(2::rat) powi ?e = of_int (2 ^ nat (?e - qexp x)) * quantum x"
    using powi_split [OF q] by (simp only: quantum_qexp)
  have "of_int (2 ^ nat (?e - qexp x)) * quantum x \<le> x"
    using ilog2_bounds(1) [OF pos] by (simp only: eq)
  then have "of_int (2 ^ nat (?e - qexp x)) \<le> x / quantum x" by (simp add: le_divide_eq)
  then have "2 ^ nat (?e - qexp x) \<le> rhe (x / quantum x)" by (rule rhe_ge)
  then have "(of_int (2 ^ nat (?e - qexp x)) :: rat) \<le> of_int (rhe (x / quantum x))"
    by (simp only: of_int_le_iff)
  then have "2 powi ?e \<le> rnd x"
    using pos by (simp only: eq rnd_def) (simp add: mult_right_mono less_imp_le)
  moreover have "(2::rat) powi k \<le> 2 powi ?e" using ke by (intro power_int_increasing) auto
  ultimately show ?thesis by linarith
qed

text \<open>A proper fraction of integers up to \<open>2^53\<close> does not round up to one.\<close>

lemma rnd_below_1:
  assumes "0 \<le> x" and "x \<le> 1 - 2 powi (- 53)"
  shows "rnd x \<le> 1 - 2 powi (- 53)"
proof (cases "x = 0")
  case True
  then show ?thesis by (simp add: power_int_minus)
next
  case False
  with assms(1) have pos: "0 < x" by simp
  have "(0::rat) < 2 powi (- 53)" by simp
  with assms(2) have "x < 2 powi 0" by simp
  with pos have "ilog2 x < 0" by (rule ilog2_less)
  with pos have q: "qexp x \<le> - 53" "qexp x \<le> 0" by (simp_all add: qexp_def)
  have "1 - 2 powi (- 53) = of_int (2 ^ nat (- qexp x) - 2 ^ nat (- 53 - qexp x)) * quantum x"
    using powi_split [OF q(1)] powi_split [OF q(2)] by (simp add: quantum_qexp left_diff_distrib)
  with False assms(2) show ?thesis by (metis rnd_le_multiple)
qed

lemma rnd_fraction_less_1:
  assumes "k < n" and "n \<le> 2 ^ 53"
  shows "rnd (of_nat k / of_nat n) < 1"
proof -
  have n: "(0::rat) < of_nat n" using assms(1) by simp
  have "(of_nat n :: rat) \<le> of_nat (2 ^ 53)" using assms(2) by (simp only: of_nat_le_iff)
  then have "2 powi (- 53) * (of_nat n :: rat) \<le> 1" by (simp add: power_int_minus divide_le_eq)
  moreover have "(of_nat k :: rat) + 1 \<le> of_nat n"
    using assms(1) by (metis Suc_leI of_nat_Suc of_nat_le_iff add.commute)
  ultimately have "(of_nat k :: rat) \<le> (1 - 2 powi (- 53)) * of_nat n"
    by (simp add: left_diff_distrib)
  with n have "of_nat k / of_nat n \<le> (1 - 2 powi (- 53) :: rat)" by (simp add: divide_le_eq)
  then have "rnd (of_nat k / of_nat n) \<le> 1 - 2 powi (- 53)"
    by (intro rnd_below_1) auto
  also have "(1 - 2 powi (- 53) :: rat) < 1" by simp
  finally show ?thesis .
qed

lemma rnd_pos_fraction:
  assumes "0 < (k::nat)" and "0 < n" and "n \<le> 2 ^ 53"
  shows "0 < rnd (of_nat k / of_nat n)"
proof -
  have k: "(1::rat) \<le> of_nat k" using assms(1) by simp
  have "(of_nat n :: rat) \<le> of_nat (2 ^ 53)" using assms(3) by (simp only: of_nat_le_iff)
  then have "2 powi (- 53) * (of_nat n :: rat) \<le> 1" by (simp add: power_int_minus divide_le_eq)
  then have "(2::rat) powi (- 53) \<le> 1 / of_nat n" using assms(2) by (simp add: le_divide_eq)
  also have "\<dots> \<le> of_nat k / of_nat n" by (rule divide_right_mono [OF k]) simp
  finally have ge: "(2::rat) powi (- 53) \<le> of_nat k / of_nat n" .
  have "(2::rat) powi (- 53) \<le> rnd (of_nat k / of_nat n)" by (rule rnd_ge_power [OF ge]) simp
  then show ?thesis by (rule less_le_trans [rotated]) simp
qed

end
