(* ===== verification/PyJson.thy ===== *)
theory PyJson
  imports PyText PyFloat
begin

text \<open>
  JSON values as Python holds them after \<open>json.loads\<close>, and what the code does
  with them: dictionary access, truth, \<open>==\<close> (which compares \<open>True\<close>, \<open>1\<close> and
  \<open>1.0\<close> as equal and ignores the order of keys), and \<open>json.dumps\<close> with
  \<open>ensure_ascii=False, separators=(",", ":"), sort_keys=True\<close>, the canonical text
  every fingerprint of the repository is taken of.

  A \<open>dict\<close> is its list of items in insertion order.  The lists that stand for
  dictionaries have distinct keys (\<open>json_ok\<close>), as Python's always have.  Values have no
  identity: two lists holding the same NaN object, which Python finds equal by its
  identity shortcut, are unequal here.
\<close>

section \<open>Values\<close>

datatype json =
    JNull
  | JBool bool
  | JInt int
  | JFloat flt
  | JStr string
  | JArr "json list"
  | JObj "(string \<times> json) list"

type_synonym obj = "(string \<times> json) list"

text \<open>\<open>d.get(k)\<close>: Python's \<open>None\<close> and JSON's \<open>null\<close> are the same value.\<close>

definition get :: "obj \<Rightarrow> string \<Rightarrow> json" where
  "get d k = (case map_of d k of None \<Rightarrow> JNull | Some v \<Rightarrow> v)"

definition get_or :: "obj \<Rightarrow> string \<Rightarrow> json \<Rightarrow> json" where
  "get_or d k v = (case map_of d k of None \<Rightarrow> v | Some w \<Rightarrow> w)"

text \<open>\<open>d[k]\<close>, which raises \<open>KeyError\<close> on a missing key.\<close>

definition item :: "obj \<Rightarrow> string \<Rightarrow> json result" where
  "item d k = (case map_of d k of None \<Rightarrow> Inl (KeyError (py_repr k)) | Some v \<Rightarrow> Inr v)"

definition has_key :: "obj \<Rightarrow> string \<Rightarrow> bool" where
  "has_key d k \<longleftrightarrow> k \<in> fst ` set d"

text \<open>\<open>d[k] = v\<close>: an existing key keeps its place.\<close>

fun put :: "obj \<Rightarrow> string \<Rightarrow> json \<Rightarrow> obj" where
  "put [] k v = [(k, v)]"
| "put ((k', w) # d) k v = (if k' = k then (k, v) # d else (k', w) # put d k v)"

lemma map_of_put [simp]: "map_of (put d k v) = (map_of d)(k \<mapsto> v)"
  by (induction d k v rule: put.induct) (auto simp: fun_eq_iff)

lemma keys_put: "map fst (put d k v) = (if k \<in> fst ` set d then map fst d else map fst d @ [k])"
  by (induction d k v rule: put.induct) auto

lemma distinct_put: "distinct (map fst d) \<Longrightarrow> distinct (map fst (put d k v))"
  by (auto simp: keys_put)

lemma get_put [simp]: "get (put d k v) k' = (if k' = k then v else get d k')"
  by (simp add: get_def)

lemma get_append: "get (a @ b) k = (if k \<in> fst ` set a then get a k else get b k)"
proof (cases "k \<in> fst ` set a")
  case True
  then obtain v where "map_of a k = Some v" by (metis not_None_eq map_of_eq_None_iff)
  with True show ?thesis by (simp add: get_def map_add_def)
next
  case False
  then have "map_of a k = None" by (simp add: map_of_eq_None_iff)
  with False show ?thesis by (simp add: get_def map_add_def split: option.splits)
qed

fun truthy :: "json \<Rightarrow> bool" where
  "truthy JNull = False"
| "truthy (JBool b) = b"
| "truthy (JInt i) = (i \<noteq> 0)"
| "truthy (JFloat f) = (f \<noteq> Fin 0)"
| "truthy (JStr s) = (s \<noteq> [])"
| "truthy (JArr xs) = (xs \<noteq> [])"
| "truthy (JObj d) = (d \<noteq> [])"

text \<open>
  Inversion of the type checks of the code: \<open>if not isinstance(v, T): raise\<close> is a
  case distinction with one branch that does not raise.
\<close>

lemma json_case_Inr [exc_elims]:
  "(case v of JNull \<Rightarrow> Inl e1 | JBool b \<Rightarrow> f b | JInt i \<Rightarrow> Inl e2 | JFloat r \<Rightarrow> Inl e3 | JStr s \<Rightarrow> Inl e4
     | JArr xs \<Rightarrow> Inl e5 | JObj d \<Rightarrow> Inl e6) = Inr y \<longleftrightarrow> (\<exists>b. v = JBool b \<and> f b = Inr y)"
  "(case v of JNull \<Rightarrow> Inl e1 | JBool b \<Rightarrow> Inl e2 | JInt i \<Rightarrow> g i | JFloat r \<Rightarrow> Inl e3 | JStr s \<Rightarrow> Inl e4
     | JArr xs \<Rightarrow> Inl e5 | JObj d \<Rightarrow> Inl e6) = Inr y \<longleftrightarrow> (\<exists>i. v = JInt i \<and> g i = Inr y)"
  "(case v of JNull \<Rightarrow> Inl e1 | JBool b \<Rightarrow> Inl e2 | JInt i \<Rightarrow> Inl e3 | JFloat r \<Rightarrow> Inl e4 | JStr s \<Rightarrow> h s
     | JArr xs \<Rightarrow> Inl e5 | JObj d \<Rightarrow> Inl e6) = Inr y \<longleftrightarrow> (\<exists>s. v = JStr s \<and> h s = Inr y)"
  "(case v of JNull \<Rightarrow> Inl e1 | JBool b \<Rightarrow> Inl e2 | JInt i \<Rightarrow> Inl e3 | JFloat r \<Rightarrow> Inl e4 | JStr s \<Rightarrow> Inl e5
     | JArr xs \<Rightarrow> k xs | JObj d \<Rightarrow> Inl e6) = Inr y \<longleftrightarrow> (\<exists>xs. v = JArr xs \<and> k xs = Inr y)"
  "(case v of JNull \<Rightarrow> Inl e1 | JBool b \<Rightarrow> Inl e2 | JInt i \<Rightarrow> Inl e3 | JFloat r \<Rightarrow> Inl e4 | JStr s \<Rightarrow> Inl e5
     | JArr xs \<Rightarrow> Inl e6 | JObj d \<Rightarrow> l d) = Inr y \<longleftrightarrow> (\<exists>d. v = JObj d \<and> l d = Inr y)"
  by (cases v; simp)+

section \<open>Equality\<close>

text \<open>\<open>bool\<close> is a subclass of \<open>int\<close>, and numbers compare by value.\<close>

fun num_of :: "json \<Rightarrow> flt option" where
  "num_of (JBool b) = Some (Fin (if b then 1 else 0))"
| "num_of (JInt i) = Some (Fin (of_int i))"
| "num_of (JFloat f) = Some f"
| "num_of _ = None"

definition num_eq :: "flt \<Rightarrow> flt \<Rightarrow> bool" where
  "num_eq a b \<longleftrightarrow> a \<noteq> NaN \<and> a = b"

fun py_eq :: "json \<Rightarrow> json \<Rightarrow> bool"
  and py_eq_list :: "json list \<Rightarrow> json list \<Rightarrow> bool"
  and py_eq_items :: "(string \<times> json) list \<Rightarrow> (string \<times> json) list \<Rightarrow> bool" where
  "py_eq JNull b = (b = JNull)"
| "py_eq (JStr s) b = (b = JStr s)"
| "py_eq (JArr xs) b = (case b of JArr ys \<Rightarrow> py_eq_list xs ys | _ \<Rightarrow> False)"
| "py_eq (JObj d) b =
     (case b of JObj e \<Rightarrow> length d = length e \<and> py_eq_items d e | _ \<Rightarrow> False)"
| "py_eq (JBool x) b =
     (case num_of b of None \<Rightarrow> False | Some v \<Rightarrow> num_eq (Fin (if x then 1 else 0)) v)"
| "py_eq (JInt i) b =
     (case num_of b of None \<Rightarrow> False | Some v \<Rightarrow> num_eq (Fin (of_int i)) v)"
| "py_eq (JFloat f) b =
     (case num_of b of None \<Rightarrow> False | Some v \<Rightarrow> num_eq f v)"
| "py_eq_list [] ys = (ys = [])"
| "py_eq_list (x # xs) ys = (case ys of [] \<Rightarrow> False | y # ys' \<Rightarrow> py_eq x y \<and> py_eq_list xs ys')"
| "py_eq_items [] e = True"
| "py_eq_items ((k, v) # d) e =
     ((case map_of e k of None \<Rightarrow> False | Some w \<Rightarrow> py_eq v w) \<and> py_eq_items d e)"

text \<open>\<open>x in xs\<close> for a list of JSON values.\<close>

definition py_in :: "json \<Rightarrow> json list \<Rightarrow> bool" where
  "py_in x xs \<longleftrightarrow> list_ex (\<lambda>y. py_eq x y) xs"

lemma py_eq_JStr [simp]:
  "py_eq v (JStr s) \<longleftrightarrow> v = JStr s"
  by (cases v) auto

lemma py_eq_JNull [simp]: "py_eq v JNull \<longleftrightarrow> v = JNull"
  by (cases v) auto

lemma py_in_JStr: "py_in v (map JStr ss) \<longleftrightarrow> (\<exists>s \<in> set ss. v = JStr s)"
  by (induction ss) (auto simp: py_in_def)

text \<open>
  \<open>v in S\<close> for a set (or the keys of a dictionary): the value is hashed first, so a list
  or a dictionary raises.
\<close>

definition unhashable :: "json \<Rightarrow> string option" where
  "unhashable v = (case v of JArr _ \<Rightarrow> Some ''list'' | JObj _ \<Rightarrow> Some ''dict'' | _ \<Rightarrow> None)"

definition in_set :: "json \<Rightarrow> json list \<Rightarrow> bool result" where
  "in_set v vs = (case unhashable v of
      Some t \<Rightarrow> Inl (TypeError (''unhashable type: '' @ [CHR 0x27] @ t @ [CHR 0x27]))
    | None \<Rightarrow> Inr (py_in v vs))"

lemma in_set_JStr [simp]: "in_set (JStr s) vs = Inr (JStr s \<in> set vs)"
proof -
  have "py_eq (JStr s) w \<longleftrightarrow> w = JStr s" for w by simp
  then show ?thesis by (auto simp: in_set_def unhashable_def py_in_def list_ex_iff)
qed

text \<open>\<open>isinstance(v, int)\<close>, true of booleans too, with the integer it holds.\<close>

fun int_value :: "json \<Rightarrow> int option" where
  "int_value (JBool b) = Some (if b then 1 else 0)"
| "int_value (JInt i) = Some i"
| "int_value _ = None"

section \<open>Well-formed documents\<close>

fun json_ok :: "json \<Rightarrow> bool"
  and json_ok_list :: "json list \<Rightarrow> bool"
  and json_ok_items :: "(string \<times> json) list \<Rightarrow> bool" where
  "json_ok (JArr xs) = json_ok_list xs"
| "json_ok (JObj d) = (distinct (map fst d) \<and> json_ok_items d)"
| "json_ok _ = True"
| "json_ok_list [] = True"
| "json_ok_list (x # xs) = (json_ok x \<and> json_ok_list xs)"
| "json_ok_items [] = True"
| "json_ok_items ((k, v) # d) = (json_ok v \<and> json_ok_items d)"

lemma json_ok_list_iff: "json_ok_list xs \<longleftrightarrow> list_all json_ok xs"
  by (induction xs) auto

lemma json_ok_items_iff: "json_ok_items d \<longleftrightarrow> list_all (\<lambda>kv. json_ok (snd kv)) d"
  by (induction d) auto

text \<open>On well-formed values without NaN, \<open>==\<close> is reflexive.\<close>

fun nan_free :: "json \<Rightarrow> bool" where
  "nan_free (JFloat f) = (f \<noteq> NaN)"
| "nan_free (JArr xs) = list_all nan_free xs"
| "nan_free (JObj d) = list_all (\<lambda>kv. nan_free (snd kv)) d"
| "nan_free _ = True"

lemma py_eq_items_sub:
  "\<forall>kv \<in> set d. map_of e (fst kv) = Some (snd kv) \<and> py_eq (snd kv) (snd kv) \<Longrightarrow> py_eq_items d e"
  by (induction d) auto

lemma py_eq_list_refl: "(\<And>x. x \<in> set xs \<Longrightarrow> py_eq x x) \<Longrightarrow> py_eq_list xs xs"
  by (induction xs) auto

lemma py_eq_refl: "json_ok v \<Longrightarrow> nan_free v \<Longrightarrow> py_eq v v"
proof (induction v)
  case (JArr xs)
  then show ?case
    by (auto intro!: py_eq_list_refl simp: json_ok_list_iff list_all_iff)
next
  case (JObj d)
  then show ?case
    by (force intro!: py_eq_items_sub simp: json_ok_items_iff list_all_iff snds.simps)
qed (auto simp: num_eq_def)

section \<open>The canonical text\<close>

subsection \<open>\<open>float.__repr__\<close>\<close>

text \<open>
  The shortest decimal that reads back as the same float, the closest one among those of
  that length.  \<open>ilog10 x\<close> is the exponent of the leading decimal digit, found by
  counting from an estimate; \<open>shortest\<close> tries 1 to 17 digits (17 always suffice
  for binary64).
\<close>

fun ilog10_nat :: "nat \<Rightarrow> nat" where
  "ilog10_nat n = (if n < 10 then 0 else Suc (ilog10_nat (n div 10)))"

declare ilog10_nat.simps [simp del]

definition ilog10 :: "rat \<Rightarrow> int" where
  "ilog10 x = (case quotient_of x of (n, d) \<Rightarrow>
     (let e = int (ilog10_nat (nat n)) - int (ilog10_nat (nat d))
      in if 10 powi e \<le> x then e else e - 1))"

definition decimal :: "nat \<Rightarrow> int \<Rightarrow> rat" where
  "decimal m k = of_nat m * 10 powi k"

definition shortest_at :: "rat \<Rightarrow> nat \<Rightarrow> (nat \<times> int) option" where
  "shortest_at x n =
     (let k = ilog10 x - int n + 1; y = x / 10 powi k;
          lo = nat \<lfloor>y\<rfloor>; hi = lo + 1;
          lo_ok = (rnd (decimal lo k) = x); hi_ok = (rnd (decimal hi k) = x)
      in if lo_ok \<and> (\<not> hi_ok \<or> y - of_nat lo \<le> of_nat hi - y) then Some (lo, k)
         else if hi_ok then Some (hi, k) else None)"

fun first_some :: "('a \<Rightarrow> 'b option) \<Rightarrow> 'a list \<Rightarrow> 'b option" where
  "first_some f [] = None"
| "first_some f (x # xs) = (case f x of Some y \<Rightarrow> Some y | None \<Rightarrow> first_some f xs)"

definition shortest :: "rat \<Rightarrow> (nat \<times> int) option" where
  "shortest x = first_some (shortest_at x) [1..<18]"

text \<open>Trailing zeros of the digit string are dropped; \<open>dp\<close> is \<open>repr\<close>'s decimal point.\<close>

definition digits_and_point :: "nat \<Rightarrow> int \<Rightarrow> string \<times> int" where
  "digits_and_point m k =
     (let ds = show_nat m
      in (rstrip_by (\<lambda>c. c = CHR ''0'') ds, int (length ds) + k))"

definition exponent_text :: "int \<Rightarrow> string" where
  "exponent_text e =
     (let t = show_nat (nat \<bar>e\<bar>)
      in (if e < 0 then CHR ''-'' else CHR ''+'') # (if length t < 2 then CHR ''0'' # t else t))"

definition format_float :: "string \<Rightarrow> int \<Rightarrow> string" where
  "format_float ds dp =
     (if - 4 < dp \<and> dp \<le> 16 then
        (if dp \<le> 0 then ''0.'' @ replicate (nat (- dp)) CHR ''0'' @ ds
         else if nat dp < length ds then take (nat dp) ds @ ''.'' @ drop (nat dp) ds
         else ds @ replicate (nat dp - length ds) CHR ''0'' @ ''.0'')
      else (case ds of [] \<Rightarrow> [] | d # rest \<Rightarrow>
        d # (if rest = [] then [] else CHR ''.'' # rest) @ ''e'' @ exponent_text (dp - 1)))"

definition repr_pos :: "rat \<Rightarrow> string" where
  "repr_pos x = (case shortest x of
      None \<Rightarrow> ''0.0''
    | Some (m, k) \<Rightarrow> (case digits_and_point m k of (ds, dp) \<Rightarrow> format_float ds dp))"

fun float_repr :: "flt \<Rightarrow> string" where
  "float_repr NaN = ''NaN''"
| "float_repr PInf = ''Infinity''"
| "float_repr NInf = ''-Infinity''"
| "float_repr (Fin x) =
     (if x = 0 then ''0.0'' else if x < 0 then CHR ''-'' # repr_pos (- x) else repr_pos x)"

subsection \<open>\<open>json.dumps\<close>\<close>

definition escape_char :: "char \<Rightarrow> string" where
  "escape_char c = (let n = code c in
     if n = 34 \<or> n = 92 then [CHR 0x5C, c]
     else if n = 8 then [CHR 0x5C, CHR ''b''] else if n = 9 then [CHR 0x5C, CHR ''t'']
     else if n = 10 then [CHR 0x5C, CHR ''n''] else if n = 12 then [CHR 0x5C, CHR ''f'']
     else if n = 13 then [CHR 0x5C, CHR ''r'']
     else if n < 32 then CHR 0x5C # CHR ''u'' # CHR ''0'' # CHR ''0'' # hex2 n
     else [c])"

definition quote :: "string \<Rightarrow> string" where
  "quote s = CHR 0x22 # concat (map escape_char s) @ [CHR 0x22]"

text \<open>\<open>sort_keys=True\<close> orders every dictionary by key before it is written.\<close>

fun canon :: "json \<Rightarrow> json" where
  "canon (JArr xs) = JArr (map canon xs)"
| "canon (JObj d) = JObj (sort_key fst (map (\<lambda>(k, v). (k, canon v)) d))"
| "canon v = v"

fun dump :: "json \<Rightarrow> string" where
  "dump JNull = ''null''"
| "dump (JBool b) = (if b then ''true'' else ''false'')"
| "dump (JInt i) = show_int i"
| "dump (JFloat f) = float_repr f"
| "dump (JStr s) = quote s"
| "dump (JArr xs) = ''['' @ join '','' (map dump xs) @ '']''"
| "dump (JObj d) = ''{'' @ join '','' (map (\<lambda>(k, v). quote k @ '':'' @ dump v) d) @ ''}''"

definition json_dumps :: "json \<Rightarrow> string" where
  "json_dumps v = dump (canon v)"

text \<open>\<open>str(v)\<close> where the code applies it to a value of unknown type.\<close>

fun py_repr_json :: "json \<Rightarrow> string" where
  "py_repr_json JNull = ''None''"
| "py_repr_json (JBool b) = (if b then ''True'' else ''False'')"
| "py_repr_json (JInt i) = show_int i"
| "py_repr_json (JFloat f) =
     (case f of NaN \<Rightarrow> ''nan'' | PInf \<Rightarrow> ''inf'' | NInf \<Rightarrow> ''-inf'' | Fin _ \<Rightarrow> float_repr f)"
| "py_repr_json (JStr s) = py_repr s"
| "py_repr_json (JArr xs) = ''['' @ join '', '' (map py_repr_json xs) @ '']''"
| "py_repr_json (JObj d) =
     ''{'' @ join '', '' (map (\<lambda>(k, v). py_repr k @ '': '' @ py_repr_json v) d) @ ''}''"

definition py_str :: "json \<Rightarrow> string" where
  "py_str v = (case v of JStr s \<Rightarrow> s | _ \<Rightarrow> py_repr_json v)"

lemma py_str_JStr [simp]: "py_str (JStr s) = s"
  by (simp add: py_str_def)

text \<open>\<open>float(i)\<close> of an integer.\<close>

definition int_to_float :: "int \<Rightarrow> flt result" where
  "int_to_float i = (case to_float (of_int i) of
      Fin x \<Rightarrow> Inr (Fin x) | _ \<Rightarrow> Inl (Exc ''OverflowError'' ''int too large to convert to float''))"

end
