(* ===== verification/JsonText.thy ===== *)
theory JsonText
  imports PyJson "HOL-Library.Multiset"
begin

text \<open>
  \<open>json.loads\<close> on the texts the code stores and reads back, and the fact that the
  canonical text of a document determines it: reading what \<open>json.dumps\<close> wrote gives
  the document with its keys sorted.  Numbers are read as Python reads them (an
  integer without fraction and exponent is an \<open>int\<close>, anything else a correctly rounded
  \<open>float\<close>).  A \<open>\u\<close> escape beyond code point 255 is outside the model of strings
  and is refused.  The parser carries fuel; twice the length of the text is enough.
\<close>

section \<open>Scanning\<close>

definition is_json_ws :: "char \<Rightarrow> bool" where
  "is_json_ws c \<longleftrightarrow> code c \<in> {9, 10, 13, 32}"

definition skip_ws :: "string \<Rightarrow> string" where
  "skip_ws s = dropWhile is_json_ws s"

definition hex_value :: "char \<Rightarrow> nat option" where
  "hex_value c = (let n = code c in
     if 48 \<le> n \<and> n \<le> 57 then Some (n - 48)
     else if 97 \<le> n \<and> n \<le> 102 then Some (n - 87)
     else if 65 \<le> n \<and> n \<le> 70 then Some (n - 55) else None)"

definition unescape :: "char \<Rightarrow> char option" where
  "unescape e = (let n = code e in
     if n = 34 \<or> n = 92 \<or> n = 47 then Some e
     else if n = 98 then Some (CHR 0x08) else if n = 102 then Some (CHR 0x0C)
     else if n = 110 then Some (CHR 0x0A) else if n = 114 then Some (CHR 0x0D)
     else if n = 116 then Some (CHR 0x09) else None)"

definition unicode_escape :: "string \<Rightarrow> (char \<times> string) option" where
  "unicode_escape s = (case s of
      a # b # c # d # r \<Rightarrow>
        (case (hex_value a, hex_value b, hex_value c, hex_value d) of
           (Some w, Some x, Some y, Some z) \<Rightarrow>
             (if w = 0 \<and> x = 0 then Some (char_of (16 * y + z), r) else None)
         | _ \<Rightarrow> None)
    | _ \<Rightarrow> None)"

text \<open>The text after an opening quote: the string and what follows the closing quote.\<close>

function scan_string :: "string \<Rightarrow> (string \<times> string) option" where
  "scan_string s = (case s of
      [] \<Rightarrow> None
    | c # r \<Rightarrow>
        if code c = 34 then Some ([], r)
        else if code c = 92 then
          (case r of
             [] \<Rightarrow> None
           | e # r' \<Rightarrow>
               if code e = 117 then
                 (case unicode_escape r' of
                    None \<Rightarrow> None
                  | Some (u, r'') \<Rightarrow>
                      if length r'' < length s
                      then map_option (\<lambda>(t, q). (u # t, q)) (scan_string r'') else None)
               else (case unescape e of
                       None \<Rightarrow> None
                     | Some u \<Rightarrow> map_option (\<lambda>(t, q). (u # t, q)) (scan_string r')))
        else if code c < 32 then None
        else map_option (\<lambda>(t, q). (c # t, q)) (scan_string r))"
  by pat_completeness auto
termination
  by (relation "measure length") auto

declare scan_string.simps [simp del]

definition fneg :: "flt \<Rightarrow> flt" where
  "fneg f = (case f of Fin x \<Rightarrow> Fin (- x) | PInf \<Rightarrow> NInf | NInf \<Rightarrow> PInf | NaN \<Rightarrow> NaN)"

definition scan_int_part :: "string \<Rightarrow> (string \<times> string) option" where
  "scan_int_part s = (case s of
      [] \<Rightarrow> None
    | c # r \<Rightarrow> if c = CHR ''0'' then Some (''0'', r)
               else if is_digit c then Some (takeWhile is_digit s, dropWhile is_digit s)
               else None)"

definition scan_frac :: "string \<Rightarrow> string option \<times> string" where
  "scan_frac s = (case s of
      c # r \<Rightarrow> if c = CHR ''.'' \<and> r \<noteq> [] \<and> is_digit (hd r)
               then (Some (takeWhile is_digit r), dropWhile is_digit r) else (None, s)
    | [] \<Rightarrow> (None, s))"

definition scan_exp :: "string \<Rightarrow> int option \<times> string" where
  "scan_exp s = (case s of
      [] \<Rightarrow> (None, s)
    | c # r \<Rightarrow>
        if c = CHR ''e'' \<or> c = CHR ''E'' then
          (let (sg, t) = (case r of
               [] \<Rightarrow> (1, r)
             | d # r' \<Rightarrow> if d = CHR ''-'' then (- 1, r') else if d = CHR ''+'' then (1, r') else (1, r))
           in if t \<noteq> [] \<and> is_digit (hd t)
              then (Some (sg * int (nat_of_digits (takeWhile is_digit t))), dropWhile is_digit t)
              else (None, s))
        else (None, s))"

definition scan_number :: "string \<Rightarrow> (json \<times> string) option" where
  "scan_number s =
     (let (neg, s1) = (case s of c # r \<Rightarrow> if c = CHR ''-'' then (True, r) else (False, s) | [] \<Rightarrow> (False, s))
      in case scan_int_part s1 of
           None \<Rightarrow> None
         | Some (ip, s2) \<Rightarrow>
             (case scan_frac s2 of (fr, s3) \<Rightarrow>
             (case scan_exp s3 of (ex, s4) \<Rightarrow>
                (if fr = None \<and> ex = None then
                   Some (JInt (if neg then - int (nat_of_digits ip) else int (nat_of_digits ip)), s4)
                 else
                   (let f = (case fr of None \<Rightarrow> [] | Some t \<Rightarrow> t);
                        e = (case ex of None \<Rightarrow> 0 | Some e \<Rightarrow> e);
                        v = to_float (decimal (nat_of_digits (ip @ f)) (e - int (length f)))
                    in Some (JFloat (if neg then fneg v else v), s4))))))"

definition from_pairs :: "(string \<times> json) list \<Rightarrow> obj" where
  "from_pairs ps = foldl (\<lambda>d (k, v). put d k v) [] ps"

definition scan_word :: "string \<Rightarrow> json \<Rightarrow> string \<Rightarrow> (json \<times> string) option" where
  "scan_word w v s = (if starts_with w s then Some (v, drop (length w) s) else None)"

definition eat :: "char \<Rightarrow> string \<Rightarrow> string option" where
  "eat c s = (case s of [] \<Rightarrow> None | d # r \<Rightarrow> if d = c then Some r else None)"

fun scan_value :: "nat \<Rightarrow> string \<Rightarrow> (json \<times> string) option"
  and scan_elements :: "nat \<Rightarrow> string \<Rightarrow> (json list \<times> string) option"
  and scan_members :: "nat \<Rightarrow> string \<Rightarrow> ((string \<times> json) list \<times> string) option" where
  "scan_value 0 s = None"
| "scan_value (Suc n) s = (case s of
      [] \<Rightarrow> None
    | c # r \<Rightarrow>
        if c = CHR 0x22 then map_option (\<lambda>(t, q). (JStr t, q)) (scan_string r)
        else if c = CHR ''{'' then
          (case eat (CHR ''}'') (skip_ws r) of
             Some q \<Rightarrow> Some (JObj [], q)
           | None \<Rightarrow> map_option (\<lambda>(ps, q). (JObj (from_pairs ps), q)) (scan_members n (skip_ws r)))
        else if c = CHR ''['' then
          (case eat (CHR '']'') (skip_ws r) of
             Some q \<Rightarrow> Some (JArr [], q)
           | None \<Rightarrow> map_option (\<lambda>(xs, q). (JArr xs, q)) (scan_elements n (skip_ws r)))
        else if c = CHR ''n'' then scan_word ''null'' JNull s
        else if c = CHR ''t'' then scan_word ''true'' (JBool True) s
        else if c = CHR ''f'' then scan_word ''false'' (JBool False) s
        else if c = CHR ''N'' then scan_word ''NaN'' (JFloat NaN) s
        else if c = CHR ''I'' then scan_word ''Infinity'' (JFloat PInf) s
        else if starts_with ''-Infinity'' s then scan_word ''-Infinity'' (JFloat NInf) s
        else scan_number s)"
| "scan_elements 0 s = None"
| "scan_elements (Suc n) s = (case scan_value n s of
      None \<Rightarrow> None
    | Some (v, r) \<Rightarrow> (case eat (CHR '','') (skip_ws r) of
          Some q \<Rightarrow> map_option (\<lambda>(vs, q'). (v # vs, q')) (scan_elements n (skip_ws q))
        | None \<Rightarrow> (case eat (CHR '']'') (skip_ws r) of
              Some q \<Rightarrow> Some ([v], q)
            | None \<Rightarrow> None)))"
| "scan_members 0 s = None"
| "scan_members (Suc n) s = (case eat (CHR 0x22) s of
      None \<Rightarrow> None
    | Some r \<Rightarrow> (case scan_string r of
          None \<Rightarrow> None
        | Some (k, r1) \<Rightarrow> (case eat (CHR '':'') (skip_ws r1) of
              None \<Rightarrow> None
            | Some r2 \<Rightarrow> (case scan_value n (skip_ws r2) of
                  None \<Rightarrow> None
                | Some (v, r3) \<Rightarrow> (case eat (CHR '','') (skip_ws r3) of
                      Some q \<Rightarrow> map_option (\<lambda>(ps, q'). ((k, v) # ps, q')) (scan_members n (skip_ws q))
                    | None \<Rightarrow> (case eat (CHR ''}'') (skip_ws r3) of
                          Some q \<Rightarrow> Some ([(k, v)], q)
                        | None \<Rightarrow> None))))))"

definition json_loads :: "string \<Rightarrow> json result" where
  "json_loads s = (case scan_value (2 * length s + 2) (skip_ws s) of
      Some (v, r) \<Rightarrow> if skip_ws r = [] then Inr v else Inl (Exc ''JSONDecodeError'' ''Extra data'')
    | None \<Rightarrow> Inl (Exc ''JSONDecodeError'' ''Expecting value''))"


section \<open>Reading back numbers\<close>


lemma takeWhile_digits:
  "list_all P xs \<Longrightarrow> ys = [] \<or> \<not> P (hd ys) \<Longrightarrow> takeWhile P (xs @ ys) = xs \<and> dropWhile P (xs @ ys) = ys"
  by (induction xs) (auto, (cases ys, auto)+)

definition number_end :: "string \<Rightarrow> bool" where
  "number_end r \<longleftrightarrow> r = [] \<or> (\<not> is_digit (hd r) \<and> hd r \<noteq> CHR ''.'' \<and> hd r \<noteq> CHR ''e'' \<and> hd r \<noteq> CHR ''E'')"

definition int_part_ok :: "string \<Rightarrow> bool" where
  "int_part_ok ip \<longleftrightarrow> ip = ''0'' \<or> (ip \<noteq> [] \<and> hd ip \<noteq> CHR ''0'' \<and> list_all is_digit ip)"

definition frac_text :: "string option \<Rightarrow> string" where
  "frac_text fr = (case fr of None \<Rightarrow> [] | Some t \<Rightarrow> CHR ''.'' # t)"

definition frac_ok :: "string option \<Rightarrow> bool" where
  "frac_ok fr \<longleftrightarrow> (case fr of None \<Rightarrow> True | Some t \<Rightarrow> t \<noteq> [] \<and> list_all is_digit t)"

definition exp_text :: "(char \<times> string) option \<Rightarrow> string" where
  "exp_text ex = (case ex of None \<Rightarrow> [] | Some (sg, t) \<Rightarrow> CHR ''e'' # sg # t)"

definition exp_ok :: "(char \<times> string) option \<Rightarrow> bool" where
  "exp_ok ex \<longleftrightarrow> (case ex of None \<Rightarrow> True
     | Some (sg, t) \<Rightarrow> (sg = CHR ''-'' \<or> sg = CHR ''+'') \<and> t \<noteq> [] \<and> list_all is_digit t)"

definition exp_value :: "(char \<times> string) option \<Rightarrow> int option" where
  "exp_value ex = (case ex of None \<Rightarrow> None
     | Some (sg, t) \<Rightarrow> Some ((if sg = CHR ''-'' then - 1 else 1) * int (nat_of_digits t)))"

lemma not_digit [simp]:
  "\<not> is_digit CHR ''.''" "\<not> is_digit CHR ''e''" "\<not> is_digit CHR ''-''" "\<not> is_digit CHR ''+''"
  "\<not> is_digit CHR '',''" "\<not> is_digit CHR '']''" "\<not> is_digit CHR ''}''"
  by (simp_all add: is_digit_def code_def)

lemma scan_exp_text:
  assumes "exp_ok ex" and "number_end r"
  shows "scan_exp (exp_text ex @ r) = (exp_value ex, r)"
proof (cases ex)
  case None
  with assms show ?thesis
    by (cases r) (auto simp: scan_exp_def exp_text_def exp_value_def number_end_def)
next
  case (Some p)
  obtain sg t where p: "p = (sg, t)" by (cases p)
  from assms have t: "t \<noteq> []" "list_all is_digit t" and e: "r = [] \<or> \<not> is_digit (hd r)"
    by (auto simp: Some p exp_ok_def number_end_def)
  from t have h: "is_digit (hd (t @ r))" by (cases t) auto
  show ?thesis
    using assms takeWhile_digits [OF t(2) e] h t(1)
    by (auto simp: Some p scan_exp_def exp_text_def exp_value_def exp_ok_def)
qed

lemma scan_frac_text:
  assumes "frac_ok fr" and "exp_ok ex" and "number_end r"
  shows "scan_frac (frac_text fr @ exp_text ex @ r) = (fr, exp_text ex @ r)"
proof -
  let ?q = "exp_text ex @ r"
  have q: "?q = [] \<or> \<not> is_digit (hd ?q)" "?q = [] \<or> hd ?q \<noteq> CHR ''.''"
    using assms(3) by (auto simp: exp_text_def number_end_def split: option.splits)
  show ?thesis
  proof (cases fr)
    case None
    with q show ?thesis by (cases ?q) (auto simp: frac_text_def scan_frac_def)
  next
    case (Some t)
    with assms(1) have t: "t \<noteq> []" "list_all is_digit t" by (auto simp: frac_ok_def)
    then have "is_digit (hd (t @ ?q))" by (cases t) auto
    with Some t(1) takeWhile_digits [OF t(2) q(1)] show ?thesis
      by (simp add: frac_text_def scan_frac_def)
  qed
qed

lemma scan_int_part_text:
  assumes "int_part_ok ip" and "frac_ok fr" and "exp_ok ex" and "number_end r"
  shows "scan_int_part (ip @ frac_text fr @ exp_text ex @ r) = Some (ip, frac_text fr @ exp_text ex @ r)"
proof -
  let ?q = "frac_text fr @ exp_text ex @ r"
  have q: "?q = [] \<or> \<not> is_digit (hd ?q)"
    using assms(4) by (auto simp: frac_text_def exp_text_def number_end_def split: option.splits)
  show ?thesis
  proof (cases "ip = ''0''")
    case True
    then show ?thesis by (simp add: scan_int_part_def)
  next
    case False
    with assms(1) have i: "ip \<noteq> []" "hd ip \<noteq> CHR ''0''" "list_all is_digit ip"
      by (auto simp: int_part_ok_def)
    then show ?thesis
      using takeWhile_digits [OF i(3) q] by (cases ip) (auto simp: scan_int_part_def)
  qed
qed

definition number_value :: "bool \<Rightarrow> string \<Rightarrow> string option \<Rightarrow> (char \<times> string) option \<Rightarrow> json" where
  "number_value neg ip fr ex =
     (if fr = None \<and> ex = None then JInt (if neg then - int (nat_of_digits ip) else int (nat_of_digits ip))
      else (let f = (case fr of None \<Rightarrow> [] | Some t \<Rightarrow> t);
                e = (case exp_value ex of None \<Rightarrow> 0 | Some e \<Rightarrow> e);
                v = to_float (decimal (nat_of_digits (ip @ f)) (e - int (length f)))
            in JFloat (if neg then fneg v else v)))"

lemma scan_number_text:
  assumes "int_part_ok ip" and "frac_ok fr" and "exp_ok ex" and "number_end r"
  shows "scan_number ((if neg then ''-'' else []) @ ip @ frac_text fr @ exp_text ex @ r)
       = Some (number_value neg ip fr ex, r)"
proof -
  have h: "ip \<noteq> []" "hd ip \<noteq> CHR ''-''"
    using assms(1) by (cases ip; auto simp: int_part_ok_def)+
  have en: "exp_value ex = None \<longleftrightarrow> ex = None"
    by (auto simp: exp_value_def split: option.splits)
  note parts = scan_int_part_text [OF assms] scan_frac_text [OF assms(2-4)] scan_exp_text [OF assms(3,4)]
  show ?thesis
  proof (cases neg)
    case True
    with parts en show ?thesis
      by (simp add: scan_number_def number_value_def Let_def)
  next
    case False
    obtain c t where "ip = c # t" "c \<noteq> CHR ''-''" using h by (cases ip) auto
    with parts en False show ?thesis
      by (simp add: scan_number_def number_value_def Let_def)
  qed
qed

lemma scan_number_int:
  assumes "number_end r"
  shows "scan_number (show_int i @ r) = Some (JInt i, r)"
proof -
  have ok: "int_part_ok (show_nat n)" for n
    using hd_show_nat [of n] show_nat_digits [of n] by (cases "n = 0") (auto simp: int_part_ok_def)
  have "scan_number ((if i < 0 then ''-'' else []) @ show_nat (nat \<bar>i\<bar>) @ frac_text None @ exp_text None @ r)
     = Some (number_value (i < 0) (show_nat (nat \<bar>i\<bar>)) None None, r)"
    by (rule scan_number_text) (simp_all add: ok frac_ok_def exp_ok_def assms)
  then show ?thesis
    by (cases "i < 0") (simp_all add: show_int_def frac_text_def exp_text_def number_value_def)
qed

section \<open>Floats\<close>

lemma nat_of_digits_append: "nat_of_digits (a @ b) = nat_of_digits a * 10 ^ length b + nat_of_digits b"
proof (induction b rule: rev_induct)
  case (snoc c b)
  have "nat_of_digits (a @ b @ [c]) = 10 * nat_of_digits (a @ b) + digit_value c"
    using nat_of_digits_snoc [of "a @ b" c] by simp
  with snoc show ?case by (simp add: nat_of_digits_snoc algebra_simps)
qed (simp add: nat_of_digits_def)

lemma nat_of_digits_zeros [simp]: "nat_of_digits (replicate n CHR ''0'') = 0"
  by (induction n)
    (simp_all add: nat_of_digits_def digit_value_def code_def replicate_append_same [symmetric])

lemma nat_of_digits_0 [simp]: "nat_of_digits ''0'' = 0" "nat_of_digits [] = 0"
  by (simp_all add: nat_of_digits_def digit_value_def code_def)

lemma digits_and_point_split:
  assumes "digits_and_point m k = (ds, dp)" and "0 < m"
  shows "ds \<noteq> []" and "hd ds \<noteq> CHR ''0''" and "list_all is_digit ds"
    and "decimal (nat_of_digits ds) (dp - int (length ds)) = decimal m k"
proof -
  let ?P = "\<lambda>c. c = CHR ''0''"
  from assms(1) have ds: "ds = rstrip_by ?P (show_nat m)" and dp: "dp = int (length (show_nat m)) + k"
    by (auto simp: digits_and_point_def Let_def)
  from rstrip_by_prefix [of "show_nat m" ?P] obtain t where
    t: "show_nat m = ds @ t" "list_all ?P t" by (auto simp: ds)
  from t(2) have tz: "t = replicate (length t) CHR ''0''"
    by (induction t) auto
  have m: "m = nat_of_digits ds * 10 ^ length t"
    using nat_of_digits_append [of ds t] t(1) nat_of_digits_zeros [of "length t"] tz
    by (metis add.right_neutral nat_of_digits_show_nat)
  with assms(2) show "ds \<noteq> []" by (cases ds) auto
  with t(1) hd_show_nat [of m] assms(2) show "hd ds \<noteq> CHR ''0''"
    by (metis hd_append2 less_irrefl)
  show "list_all is_digit ds" using show_nat_digits [of m] t(1) by simp
  have "dp - int (length ds) = int (length t) + k" using dp t(1) by simp
  moreover have "decimal (nat_of_digits ds) (int (length t) + k) = decimal (nat_of_digits ds * 10 ^ length t) k"
    by (simp add: decimal_def power_int_add)
  ultimately show "decimal (nat_of_digits ds) (dp - int (length ds)) = decimal m k"
    using m by metis
qed

lemma number_end_text: "fr \<noteq> None \<or> ex \<noteq> None \<Longrightarrow> exp_value ex = e \<Longrightarrow>
   number_value neg ip fr ex = JFloat ((if neg then fneg else id)
     (to_float (decimal (nat_of_digits (ip @ (case fr of None \<Rightarrow> [] | Some t \<Rightarrow> t)))
        ((case e of None \<Rightarrow> 0 | Some e \<Rightarrow> e) - int (length (case fr of None \<Rightarrow> [] | Some t \<Rightarrow> t))))))"
  by (auto simp: number_value_def Let_def)

text \<open>The text of a float splits into the parts the reader looks for.\<close>

lemma format_float_split:
  assumes "ds \<noteq> []" and "hd ds \<noteq> CHR ''0''" and "list_all is_digit ds"
  obtains ip fr ex where "format_float ds dp = ip @ frac_text fr @ exp_text ex"
    and "int_part_ok ip" and "frac_ok fr" and "exp_ok ex" and "fr \<noteq> None \<or> ex \<noteq> None"
    and "number_value neg ip fr ex =
         JFloat ((if neg then fneg else id) (to_float (decimal (nat_of_digits ds) (dp - int (length ds)))))"
proof -
  let ?r = "\<lambda>x. JFloat ((if neg then fneg else id) (to_float x))"
  consider (small) "- 4 < dp" "dp \<le> 0" | (mid) "0 < dp" "dp \<le> 16" "nat dp < length ds"
    | (big) "0 < dp" "dp \<le> 16" "length ds \<le> nat dp" | (exp) "\<not> (- 4 < dp \<and> dp \<le> 16)" by linarith
  then show thesis
  proof cases
    case small
    let ?f = "replicate (nat (- dp)) CHR ''0'' @ ds"
    show thesis
    proof (rule that [of "''0''" "Some ?f" None])
      show "number_value neg ''0'' (Some ?f) None = ?r (decimal (nat_of_digits ds) (dp - int (length ds)))"
        using small nat_of_digits_append [of "''0''" ?f] nat_of_digits_append [of "replicate (nat (- dp)) CHR ''0''" ds]
        by (simp add: number_end_text exp_value_def)
    qed (use small assms in \<open>auto simp: format_float_def frac_text_def exp_text_def int_part_ok_def
        frac_ok_def exp_ok_def list_all_iff is_digit_def code_def\<close>)
  next
    case mid
    have ne: "take (nat dp) ds \<noteq> []" "drop (nat dp) ds \<noteq> []" using mid assms(1) by auto
    have dg: "list_all is_digit (take (nat dp) ds)" "list_all is_digit (drop (nat dp) ds)"
      using assms(3) by (auto simp: list_all_iff dest: in_set_takeD in_set_dropD)
    show thesis
    proof (rule that [of "take (nat dp) ds" "Some (drop (nat dp) ds)" None])
      show "number_value neg (take (nat dp) ds) (Some (drop (nat dp) ds)) None =
          ?r (decimal (nat_of_digits ds) (dp - int (length ds)))"
        using mid by (simp add: number_end_text exp_value_def of_nat_diff)
    qed (use mid assms ne dg in \<open>auto simp: format_float_def frac_text_def exp_text_def int_part_ok_def
        frac_ok_def exp_ok_def hd_take\<close>)
  next
    case big
    let ?z = "replicate (nat dp - length ds) CHR ''0''"
    have z: "list_all is_digit ?z" by (simp add: list_all_iff is_digit_def code_def)
    show thesis
    proof (rule that [of "ds @ ?z" "Some ''0''" None])
      have "decimal (nat_of_digits ((ds @ ?z) @ ''0'')) (- 1) = decimal (nat_of_digits ds) (dp - int (length ds))"
        using big nat_of_digits_append [of "ds @ ?z" "''0''"] nat_of_digits_append [of ds ?z]
        by (simp add: decimal_def power_int_minus power_int_def nat_diff_distrib)
      then show "number_value neg (ds @ ?z) (Some ''0'') None =
          ?r (decimal (nat_of_digits ds) (dp - int (length ds)))"
        by (simp add: number_end_text exp_value_def)
    qed (use big assms z in \<open>auto simp: format_float_def frac_text_def exp_text_def int_part_ok_def
        frac_ok_def exp_ok_def is_digit_def code_def\<close>)
  next
    case exp
    obtain d rest where ds: "ds = d # rest" using assms(1) by (cases ds) auto
    let ?fr = "if rest = [] then None else Some rest"
    let ?n = "show_nat (nat \<bar>dp - 1\<bar>)"
    let ?t = "if length ?n < 2 then CHR ''0'' # ?n else ?n"
    let ?sg = "if dp - 1 < 0 then CHR ''-'' else CHR ''+''"
    have t: "list_all is_digit ?t" "?t \<noteq> []" "nat_of_digits ?t = nat \<bar>dp - 1\<bar>"
      using show_nat_digits [of "nat \<bar>dp - 1\<bar>"] nat_of_digits_append [of "''0''" ?n]
      by (auto simp: is_digit_def code_def)
    show thesis
    proof (rule that [of "[d]" ?fr "Some (?sg, ?t)"])
      have "exp_value (Some (?sg, ?t)) = Some (dp - 1)"
        using t(3) by (auto simp: exp_value_def)
      then show "number_value neg [d] ?fr (Some (?sg, ?t)) =
          ?r (decimal (nat_of_digits ds) (dp - int (length ds)))"
        using ds by (subst number_end_text) (auto simp: diff_diff_eq)
      show "format_float ds dp = [d] @ frac_text ?fr @ exp_text (Some (?sg, ?t))"
        using exp ds by (auto simp: format_float_def frac_text_def exp_text_def exponent_text_def Let_def)
    qed (use assms ds t in \<open>auto simp: int_part_ok_def frac_ok_def exp_ok_def\<close>)
  qed
qed



lemma first_some_Some: "first_some f xs = Some y \<Longrightarrow> \<exists>x \<in> set xs. f x = Some y"
  by (induction xs) (auto split: option.splits)

lemma shortest_reads_back:
  assumes "shortest x = Some (m, k)"
  shows "rnd (decimal m k) = x"
proof -
  from assms obtain n where "shortest_at x n = Some (m, k)"
    by (auto simp: shortest_def dest: first_some_Some)
  then show ?thesis by (auto simp: shortest_at_def Let_def split: if_splits)
qed

definition float_ok :: "flt \<Rightarrow> bool" where
  "float_ok f \<longleftrightarrow> (case f of Fin x \<Rightarrow> x = 0 \<or> (shortest \<bar>x\<bar> \<noteq> None \<and> \<bar>x\<bar> < 2 ^ 1024) | _ \<Rightarrow> True)"

lemma scan_repr_pos:
  assumes "0 < x" and "shortest x \<noteq> None" and "x < 2 ^ 1024" and "number_end r"
  shows "scan_number ((if neg then ''-'' else []) @ repr_pos x @ r)
       = Some (JFloat (if neg then Fin (- x) else Fin x), r)"
proof -
  obtain m k where mk: "shortest x = Some (m, k)" using assms(2) by auto
  have x: "rnd (decimal m k) = x" by (rule shortest_reads_back [OF mk])
  have m: "0 < m" using x assms(1) by (cases "m = 0") (auto simp: decimal_def)
  obtain ds dp where dp: "digits_and_point m k = (ds, dp)" by (cases "digits_and_point m k")
  note ds = digits_and_point_split [OF dp m]
  obtain ip fr ex where f: "format_float ds dp = ip @ frac_text fr @ exp_text ex"
    and ok: "int_part_ok ip" "frac_ok fr" "exp_ok ex"
    and v: "number_value neg ip fr ex =
       JFloat ((if neg then fneg else id) (to_float (decimal (nat_of_digits ds) (dp - int (length ds)))))"
    by (rule format_float_split [OF ds(1-3)])
  have "to_float (decimal m k) = Fin x"
    using x assms(1,3) by (auto simp: to_float_def Let_def)
  then have "number_value neg ip fr ex = JFloat (if neg then Fin (- x) else Fin x)"
    by (simp add: v ds(4) fneg_def)
  moreover have "repr_pos x = ip @ frac_text fr @ exp_text ex"
    by (simp add: repr_pos_def mk dp f)
  ultimately show ?thesis
    using scan_number_text [OF ok assms(4), of neg] by simp
qed

lemma repr_pos_head:
  assumes "0 < x" and "shortest x \<noteq> None"
  shows "\<exists>c t. repr_pos x = c # t \<and> is_digit c"
proof -
  obtain m k where mk: "shortest x = Some (m, k)" using assms(2) by auto
  have m: "0 < m" using shortest_reads_back [OF mk] assms(1) by (cases "m = 0") (auto simp: decimal_def)
  obtain ds dp where dp: "digits_and_point m k = (ds, dp)" by (cases "digits_and_point m k")
  obtain ip fr ex where f: "format_float ds dp = ip @ frac_text fr @ exp_text ex" and ip: "int_part_ok ip"
    by (rule format_float_split [OF digits_and_point_split(1-3) [OF dp m], of dp False])
  from ip have "\<exists>c t. ip = c # t \<and> is_digit c"
    by (cases ip) (auto simp: int_part_ok_def is_digit_def code_def)
  then show ?thesis by (auto simp: repr_pos_def mk dp f)
qed

section \<open>Strings\<close>

lemma code_inj: "code c = code d \<longleftrightarrow> c = d"
  by (simp add: code_def)

lemma char_of_code [simp]: "char_of (code c) = c"
  by (simp add: code_def)

lemma code_char_of: "n < 256 \<Longrightarrow> code (char_of n) = n"
  by (simp add: code_def)

lemma hex_value_digit: "n < 16 \<Longrightarrow> hex_value (hex_digit n) = Some n"
  by (auto simp: hex_value_def hex_digit_def code_char_of Let_def)

lemma scan_string_escape:
  "scan_string (escape_char c @ s) = map_option (\<lambda>(t, q). (c # t, q)) (scan_string s)"
proof -
  have c: "c = char_of n" if "code c = n" for n using that by auto
  consider "code c = 34" | "code c = 92" | "code c = 8" | "code c = 9" | "code c = 10"
    | "code c = 12" | "code c = 13"
    | (ctl) "code c < 32" "code c \<notin> {8, 9, 10, 12, 13}"
    | (plain) "\<not> code c < 32" "code c \<noteq> 34" "code c \<noteq> 92" by fastforce
  then show ?thesis
  proof cases
    case ctl
    have h: "hex_value (hex_digit (code c div 16)) = Some (code c div 16)"
      "hex_value (hex_digit (code c mod 16)) = Some (code c mod 16)"
      using ctl by (simp_all add: hex_value_digit)
    have z: "hex_value CHR ''0'' = Some 0" by (simp add: hex_value_def code_def)
    have "code c mod 16 + 16 * (code c div 16) = code c" by simp
    then have "char_of (16 * (code c div 16) + code c mod 16) = c"
      by (metis add.commute char_of_code)
    then have "unicode_escape (CHR ''0'' # CHR ''0'' # hex2 (code c) @ s) = Some (c, s)"
      using h z by (simp add: unicode_escape_def hex2_def)
    with ctl show ?thesis
      by (subst scan_string.simps) (simp add: escape_char_def Let_def code_def [of "CHR 0x5C"]
          code_def [of "CHR ''u''"] hex2_def)
  next
    case plain
    then show ?thesis by (subst scan_string.simps) (simp add: escape_char_def Let_def)
  qed (use c in \<open>(subst scan_string.simps, simp add: escape_char_def Let_def code_def unescape_def,
      (simp add: char_of_def bit_iff_odd)?)\<close>)+
qed

lemma scan_string_quote: "scan_string (concat (map escape_char s) @ CHR 0x22 # r) = Some (s, r)"
proof (induction s)
  case Nil
  show ?case by (subst scan_string.simps) (simp add: code_def)
next
  case (Cons c s)
  then show ?case by (simp add: scan_string_escape)
qed




section \<open>Reading back documents\<close>

fun text_ok :: "json \<Rightarrow> bool" where
  "text_ok (JFloat f) = float_ok f"
| "text_ok (JArr xs) = list_all text_ok xs"
| "text_ok (JObj d) = (distinct (map fst d) \<and> list_all (\<lambda>kv. text_ok (snd kv)) d)"
| "text_ok _ = True"

lemma eat_simps [simp]:
  "eat c [] = None" "eat c (d # r) = (if d = c then Some r else None)"
  by (simp_all add: eat_def)

lemma skip_ws_other [simp]: "\<not> is_json_ws c \<Longrightarrow> skip_ws (c # r) = c # r"
  by (simp add: skip_ws_def)

lemma not_ws [simp]:
  "\<not> is_json_ws CHR '',''" "\<not> is_json_ws CHR '']''" "\<not> is_json_ws CHR ''}''"
  "\<not> is_json_ws CHR '':''" "\<not> is_json_ws CHR 0x22" "\<not> is_json_ws CHR ''{''"
  "\<not> is_json_ws CHR ''[''"
  by (simp_all add: is_json_ws_def code_def)

lemma number_end_seps [simp]:
  "number_end (CHR '','' # r)" "number_end (CHR '']'' # r)" "number_end (CHR ''}'' # r)"
  "number_end []"
  by (simp_all add: number_end_def)

text \<open>What a value's text starts with.\<close>

definition value_head :: "char \<Rightarrow> bool" where
  "value_head c \<longleftrightarrow> \<not> is_json_ws c \<and> c \<noteq> CHR '']'' \<and> c \<noteq> CHR ''}''"

definition number_head :: "char \<Rightarrow> bool" where
  "number_head c \<longleftrightarrow> is_digit c \<or> c = CHR ''-''"

lemma number_head_other:
  "number_head c \<Longrightarrow> c \<noteq> CHR 0x22 \<and> c \<noteq> CHR ''{'' \<and> c \<noteq> CHR ''['' \<and> c \<noteq> CHR ''n'' \<and>
     c \<noteq> CHR ''t'' \<and> c \<noteq> CHR ''f'' \<and> c \<noteq> CHR ''N'' \<and> c \<noteq> CHR ''I'' \<and> value_head c"
  by (auto simp: number_head_def is_digit_def code_def value_head_def is_json_ws_def)

lemma show_nat_head: "\<exists>c t. show_nat n = c # t \<and> is_digit c"
  using show_nat_digits [of n] show_nat_nonempty [of n] by (cases "show_nat n") auto

text \<open>The texts of numbers: a head and no \<open>-Infinity\<close>.\<close>

definition number_text :: "string \<Rightarrow> bool" where
  "number_text s \<longleftrightarrow> (\<exists>c t. s = c # t \<and> is_digit c) \<or> (\<exists>c t. s = CHR ''-'' # c # t \<and> is_digit c)"

lemma number_text_int: "number_text (show_int i)"
  using show_nat_head [of "nat (- i)"] show_nat_head [of "nat i"]
  by (auto simp: number_text_def show_int_def)

lemma float_ok_cases:
  assumes "float_ok (Fin x)"
  obtains "x = 0" | "0 < x" "shortest x \<noteq> None" "x < 2 ^ 1024"
    | "x < 0" "0 < - x" "shortest (- x) \<noteq> None" "- x < 2 ^ 1024"
proof -
  from assms have "x = 0 \<or> (shortest \<bar>x\<bar> \<noteq> None \<and> \<bar>x\<bar> < 2 ^ 1024)"
    by (simp only: float_ok_def flt.case)
  then show thesis using that by (cases x "0 :: rat" rule: linorder_cases) simp_all
qed

lemma number_text_float: "float_ok (Fin x) \<Longrightarrow> number_text (float_repr (Fin x))"
proof (erule float_ok_cases)
  assume x: "x = 0"
  have "is_digit CHR ''0''" by (simp add: is_digit_def code_def)
  with x show ?thesis by (simp add: number_text_def)
next
  assume "0 < x" "shortest x \<noteq> None"
  with repr_pos_head [of x] show ?thesis by (auto simp: number_text_def)
next
  assume "x < 0" "0 < - x" "shortest (- x) \<noteq> None"
  with repr_pos_head [of "- x"] show ?thesis by (auto simp: number_text_def)
qed

lemma number_text_head:
  assumes "number_text s"
  obtains c t where "s = c # t" and "number_head c"
  using assms unfolding number_text_def number_head_def by blast

lemma number_text_not_infinity:
  assumes "number_text s"
  shows "\<not> starts_with ''-Infinity'' (s @ r)"
proof -
  have "\<not> is_digit CHR ''I''" "\<not> is_digit CHR ''-''" by (simp_all add: is_digit_def code_def)
  with assms show ?thesis unfolding number_text_def by (elim disjE exE conjE) auto
qed

lemma scan_value_number:
  assumes "number_text s" and "scan_number (s @ r) = Some (v, r)"
  shows "scan_value (Suc n) (s @ r) = Some (v, r)"
proof -
  obtain c t where s: "s = c # t" "number_head c" using assms(1) by (rule number_text_head)
  from number_head_other [OF s(2)] assms(2) number_text_not_infinity [OF assms(1), of r]
  show ?thesis by (auto simp: s(1))
qed

lemma to_float_0 [simp]: "to_float 0 = Fin 0"
  by (simp add: to_float_def Let_def)

lemma scan_float:
  assumes "float_ok (Fin x)" and r: "number_end r"
  shows "scan_number (float_repr (Fin x) @ r) = Some (JFloat (Fin x), r)"
  using assms(1)
proof (cases rule: float_ok_cases)
  case 1
  have ok: "int_part_ok ''0''" "frac_ok (Some ''0'')" "exp_ok None"
    by (simp_all add: int_part_ok_def frac_ok_def exp_ok_def is_digit_def code_def)
  have "nat_of_digits ''00'' = 0" using nat_of_digits_zeros [of 2] by (simp add: numeral_2_eq_2)
  then have "number_value False ''0'' (Some ''0'') None = JFloat (Fin 0)"
    by (simp add: number_value_def exp_value_def decimal_def)
  with 1 scan_number_text [OF ok r, of False] show ?thesis
    by (simp add: frac_text_def exp_text_def)
next
  case 2
  with scan_repr_pos [OF 2 r, of False] show ?thesis by simp
next
  case 3
  with scan_repr_pos [OF 3(2-4) r, of True] show ?thesis by simp
qed

lemma number_text_value_head: "number_text s \<Longrightarrow> \<exists>c t. s = c # t \<and> value_head c"
  by (metis number_text_head number_head_other)

lemma dump_head: "text_ok v \<Longrightarrow> \<exists>c t. dump v = c # t \<and> value_head c"
proof (cases v)
  case (JInt i)
  then show ?thesis using number_text_value_head [OF number_text_int [of i]] by simp
next
  case (JFloat f)
  assume "text_ok v"
  show ?thesis
  proof (cases f)
    case (Fin x)
    with JFloat \<open>text_ok v\<close> have "number_text (dump v)" by (simp add: number_text_float del: float_repr.simps)
    then show ?thesis by (rule number_text_value_head)
  qed (simp_all add: JFloat value_head_def is_json_ws_def code_def)
qed (auto simp: value_head_def is_json_ws_def code_def quote_def)

lemma skip_ws_dump [simp]: "text_ok v \<Longrightarrow> skip_ws (dump v @ r) = dump v @ r"
  using dump_head [of v] by (auto simp: value_head_def)

lemma eat_dump [simp]:
  "text_ok v \<Longrightarrow> eat (CHR '']'') (dump v @ r) = None"
  "text_ok v \<Longrightarrow> eat (CHR ''}'') (dump v @ r) = None"
  using dump_head [of v] by (auto simp: value_head_def)

lemma from_pairs_distinct: "distinct (map fst ps) \<Longrightarrow> from_pairs ps = ps"
proof -
  have put_new: "k \<notin> fst ` set d \<Longrightarrow> put d k v = d @ [(k, v)]" for d k v
    by (induction d k v rule: put.induct) auto
  have "distinct (map fst (d @ ps)) \<Longrightarrow> foldl (\<lambda>d (k, v). put d k v) d ps = d @ ps" for d
    by (induction ps arbitrary: d) (auto simp: put_new)
  from this [of "[]"] show "distinct (map fst ps) \<Longrightarrow> from_pairs ps = ps"
    by (simp add: from_pairs_def)
qed

definition reads_back :: "json \<Rightarrow> bool" where
  "reads_back v \<longleftrightarrow> (\<forall>n r. 2 * length (dump v) + 1 \<le> n \<longrightarrow> number_end r \<longrightarrow>
      scan_value n (dump v @ r) = Some (v, r))"

lemma reads_backI:
  assumes "\<And>n r. 2 * length (dump v) \<le> n \<Longrightarrow> number_end r \<Longrightarrow> scan_value (Suc n) (dump v @ r) = Some (v, r)"
  shows "reads_back v"
  unfolding reads_back_def by (metis Suc_eq_plus1 Suc_le_D Suc_le_mono assms)

lemma reads_backD:
  "reads_back v \<Longrightarrow> 2 * length (dump v) + 1 \<le> n \<Longrightarrow> number_end r \<Longrightarrow>
     scan_value n (dump v @ r) = Some (v, r)"
  by (simp add: reads_back_def)

lemma scan_elements_reads:
  assumes "\<And>v. v \<in> set vs \<Longrightarrow> reads_back v \<and> text_ok v" and "vs \<noteq> []"
    and "2 * length (join '','' (map dump vs)) + 2 \<le> n"
  shows "scan_elements n (join '','' (map dump vs) @ CHR '']'' # r) = Some (vs, r)"
  using assms
proof (induction vs arbitrary: n)
  case (Cons v vs)
  then obtain k where n: "n = Suc k" by (cases n) auto
  have v: "reads_back v" "text_ok v" using Cons.prems(1) by auto
  show ?case
  proof (cases vs)
    case Nil
    with v Cons.prems(3) n show ?thesis by (simp add: reads_back_def)
  next
    case (Cons w ws)
    have w: "text_ok w" using Cons.prems(1) Cons by auto
    have "scan_elements k (join '','' (map dump vs) @ CHR '']'' # r) = Some (vs, r)"
      using Cons.prems Cons n dump_head [OF v(2)] by (intro Cons.IH) auto
    moreover have "skip_ws (join '','' (map dump vs) @ q) = join '','' (map dump vs) @ q" for q
      using Cons w by (cases ws) auto
    moreover have "scan_value k (dump v @ CHR '','' # q) = Some (v, CHR '','' # q)" for q
      using v(1) Cons.prems(3) n Cons by (auto simp: reads_back_def)
    ultimately show ?thesis using n Cons by simp
  qed
qed simp

definition dump_item :: "string \<times> json \<Rightarrow> string" where
  "dump_item kv = quote (fst kv) @ '':'' @ dump (snd kv)"

lemma scan_members_item:
  assumes "scan_value m (dump v @ s) = Some (v, s)" and "text_ok v"
  shows "scan_members (Suc m) (dump_item (k, v) @ s) = (case eat (CHR '','') (skip_ws s) of
      Some q \<Rightarrow> map_option (\<lambda>(ps, q'). ((k, v) # ps, q')) (scan_members m (skip_ws q))
    | None \<Rightarrow> (case eat (CHR ''}'') (skip_ws s) of Some q \<Rightarrow> Some ([(k, v)], q) | None \<Rightarrow> None))"
  using assms by (simp add: dump_item_def quote_def scan_string_quote)

lemma skip_ws_items: "d \<noteq> [] \<Longrightarrow> skip_ws (join '','' (map dump_item d) @ q) = join '','' (map dump_item d) @ q"
  by (cases d; cases "tl d") (auto simp: dump_item_def quote_def)

lemma scan_members_reads:
  assumes "\<And>kv. kv \<in> set d \<Longrightarrow> reads_back (snd kv) \<and> text_ok (snd kv)" and "d \<noteq> []"
    and "2 * length (join '','' (map dump_item d)) + 2 \<le> n"
  shows "scan_members n (join '','' (map dump_item d) @ CHR ''}'' # r) = Some (d, r)"
  using assms
proof (induction d arbitrary: n)
  case (Cons kv d)
  obtain k v where kv: "kv = (k, v)" by (cases kv)
  obtain m where n: "n = Suc m" using Cons.prems(3) by (cases n) auto
  have v: "reads_back v" "text_ok v" using Cons.prems(1) [of kv] kv by auto
  have len: "length (dump v) \<le> length (dump_item (k, v))" by (simp add: dump_item_def)
  show ?case
  proof (cases d)
    case Nil
    have "scan_value m (dump v @ CHR ''}'' # r) = Some (v, CHR ''}'' # r)"
      using Cons.prems(3) n Nil kv len by (intro reads_backD v) auto
    from scan_members_item [OF this v(2), of k] show ?thesis by (simp add: n kv Nil)
  next
    case (Cons w ws)
    let ?J = "join '','' (map dump_item d)"
    have J: "join '','' (map dump_item (kv # d)) = dump_item (k, v) @ CHR '','' # ?J"
      using Cons kv by simp
    have "scan_members m (?J @ CHR ''}'' # r) = Some (d, r)"
      using Cons.prems Cons n J by (intro Cons.IH) auto
    moreover have "scan_value m (dump v @ CHR '','' # ?J @ CHR ''}'' # r) = Some (v, CHR '','' # ?J @ CHR ''}'' # r)"
      using Cons.prems(3) n J len by (intro reads_backD v) auto
    from scan_members_item [OF this v(2), of k] have
      "scan_members (Suc m) (dump_item (k, v) @ CHR '','' # ?J @ CHR ''}'' # r) =
        map_option (\<lambda>(ps, q'). ((k, v) # ps, q')) (scan_members m (skip_ws (?J @ CHR ''}'' # r)))"
      by simp
    moreover have "skip_ws (?J @ CHR ''}'' # r) = ?J @ CHR ''}'' # r"
      using Cons by (intro skip_ws_items) simp
    ultimately show ?thesis unfolding J n
      by (simp add: kv del: scan_members.simps)
  qed
qed simp

lemma dump_JObj: "dump (JObj d) = ''{'' @ join '','' (map dump_item d) @ ''}''"
  by (simp add: dump_item_def [abs_def] case_prod_unfold)

lemma join_head:
  "xs \<noteq> [] \<Longrightarrow> hd xs = c # t \<Longrightarrow> \<exists>u. join s xs = c # u"
  by (cases xs; cases "tl xs") auto

lemma reads_back_all: "text_ok v \<Longrightarrow> reads_back v"
proof (induction v)
  case (JArr xs)
  then have all: "\<And>v. v \<in> set xs \<Longrightarrow> reads_back v \<and> text_ok v" by (auto simp: list_all_iff)
  show ?case
  proof (rule reads_backI)
    fix n r assume n: "2 * length (dump (JArr xs)) \<le> n"
    show "scan_value (Suc n) (dump (JArr xs) @ r) = Some (JArr xs, r)"
    proof (cases xs)
      case (Cons x ys)
      have "text_ok x" using all Cons by auto
      then have "\<exists>c t. join '','' (map dump xs) = c # t \<and> value_head c"
        using dump_head [of x] join_head [of "map dump xs"] Cons by fastforce
      moreover have "scan_elements n (join '','' (map dump xs) @ CHR '']'' # r) = Some (xs, r)"
        using n Cons by (intro scan_elements_reads all) auto
      ultimately show ?thesis by (auto simp: value_head_def)
    qed simp
  qed
next
  case (JObj d)
  then have all: "\<And>kv. kv \<in> set d \<Longrightarrow> reads_back (snd kv) \<and> text_ok (snd kv)"
    by (force simp: list_all_iff snds.simps)
  have fp: "from_pairs d = d" using JObj.prems by (simp add: from_pairs_distinct)
  show ?case
  proof (rule reads_backI)
    fix n r assume n: "2 * length (dump (JObj d)) \<le> n"
    show "scan_value (Suc n) (dump (JObj d) @ r) = Some (JObj d, r)"
    proof (cases d)
      case (Cons x ys)
      have "\<exists>t. join '','' (map dump_item d) = CHR 0x22 # t"
        using join_head [of "map dump_item d"] Cons by (simp add: dump_item_def quote_def)
      moreover have "scan_members n (join '','' (map dump_item d) @ CHR ''}'' # r) = Some (d, r)"
        using n Cons by (intro scan_members_reads all) (auto simp: dump_JObj simp del: dump.simps)
      ultimately show ?thesis using fp by (auto simp: dump_JObj simp del: dump.simps)
    qed simp
  qed
next
  case (JInt i)
  show ?case
    by (rule reads_backI) (simp add: scan_value_number number_text_int scan_number_int
        del: scan_value.simps)
next
  case (JFloat f)
  show ?case
  proof (cases f)
    case (Fin x)
    with JFloat have "float_ok (Fin x)" by simp
    with Fin show ?thesis
      by (intro reads_backI) (simp add: scan_value_number number_text_float scan_float
          del: float_repr.simps scan_value.simps)
  qed (auto intro!: reads_backI simp: scan_word_def)
qed (auto intro!: reads_backI simp: quote_def scan_string_quote scan_word_def)

text \<open>\<open>json.loads(json.dumps(v, ...))\<close> without sorting: the document itself.\<close>

theorem loads_dump: "text_ok v \<Longrightarrow> json_loads (dump v) = Inr v"
proof -
  assume v: "text_ok v"
  then have "scan_value (2 * length (dump v) + 2) (dump v @ []) = Some (v, [])"
    by (intro reads_backD reads_back_all) auto
  moreover have "skip_ws (dump v) = dump v" using skip_ws_dump [OF v, of "[]"] by simp
  ultimately show ?thesis by (simp add: json_loads_def skip_ws_def)
qed



subsection \<open>Sorted documents\<close>

definition canon_items :: "obj \<Rightarrow> obj" where
  "canon_items d = sort_key fst (map (\<lambda>(k, v). (k, canon v)) d)"

lemma canon_JObj: "canon (JObj d) = JObj (canon_items d)"
  by (simp add: canon_items_def)

lemma set_canon_items: "set (canon_items d) = (\<lambda>kv. (fst kv, canon (snd kv))) ` set d"
  by (auto simp: canon_items_def case_prod_unfold)

lemma mset_map_fst_canon_items: "mset (map fst (canon_items d)) = mset (map fst d)"
  by (simp add: canon_items_def case_prod_unfold multiset.map_comp comp_def)

lemma distinct_canon_items [simp]: "distinct (map fst (canon_items d)) \<longleftrightarrow> distinct (map fst d)"
  using mset_map_fst_canon_items mset_eq_imp_distinct_iff by blast

lemma map_of_canon_items:
  assumes "distinct (map fst d)"
  shows "map_of (canon_items d) k = map_option canon (map_of d k)"
proof (cases "map_of d k")
  case None
  then have "k \<notin> fst ` set (canon_items d)" by (force simp: set_canon_items map_of_eq_None_iff)
  then have "map_of (canon_items d) k = None" by (simp add: map_of_eq_None_iff)
  with None show ?thesis by simp
next
  case (Some v)
  then have "(k, canon v) \<in> set (canon_items d)" by (force simp: set_canon_items dest: map_of_SomeD)
  with assms Some show ?thesis by simp
qed

lemma get_canon_items: "distinct (map fst d) \<Longrightarrow> get (canon_items d) k = canon (get d k)"
  by (simp add: get_def map_of_canon_items split: option.splits)

lemma text_ok_canon: "text_ok v \<Longrightarrow> text_ok (canon v)"
proof (induction v)
  case (JArr xs)
  then show ?case by (auto simp: list_all_iff)
next
  case (JObj d)
  then show ?case
    by (force simp: canon_JObj set_canon_items list_all_iff snds.simps simp del: canon.simps)
qed auto

lemma canon_idem: "canon (canon v) = canon v"
proof (induction v)
  case (JObj d)
  have "map (\<lambda>(k, v). (k, canon v)) (canon_items d) = canon_items d"
    using JObj by (force intro!: map_idI simp: set_canon_items snds.simps)
  then have "canon_items (canon_items d) = sort_key fst (canon_items d)"
    by (subst canon_items_def) simp
  also have "\<dots> = canon_items d" unfolding canon_items_def by (rule sort_key_idem)
  finally show ?case by (simp only: canon_JObj)
qed auto

theorem loads_dumps: "text_ok v \<Longrightarrow> json_loads (json_dumps v) = Inr (canon v)"
  by (simp add: json_dumps_def loads_dump text_ok_canon)

text \<open>The canonical text determines the document up to the order of keys.\<close>

theorem json_dumps_inject:
  assumes "text_ok a" and "text_ok b"
  shows "json_dumps a = json_dumps b \<longleftrightarrow> canon a = canon b"
  by (metis Inr_inject assms json_dumps_def loads_dumps)

lemma json_dumps_canon [simp]: "json_dumps (canon v) = json_dumps v"
  by (simp add: json_dumps_def canon_idem)


end
