(* ===== verification/Sha256.thy ===== *)
theory Sha256
  imports JsonText
begin

unbundle bit_operations_syntax

text \<open>
  \<open>hashlib.sha256(data).hexdigest()\<close>, FIPS 180-4 on 32-bit words, and the
  repository's identity of a document: the digest of the UTF-8 bytes of its canonical
  text.  The components never open the digest; what they use of it is that it is a
  function of the canonical text and that it is 64 lower-case hexadecimal digits.
\<close>

type_synonym w32 = "32 word"

definition rotr :: "nat \<Rightarrow> w32 \<Rightarrow> w32" where
  "rotr n x = drop_bit n x OR push_bit (32 - n) x"

text \<open>
  The constants of the standard are the first 32 bits of the fractional parts of roots of
  primes: cube roots of the first 64 for the rounds, square roots of the first 8 for the
  initial state.  \<open>root_bits\<close> finds \<open>\<lfloor>n ^ (1 / k)\<rfloor>\<close> bit by bit from bit \<open>b\<close>; the word keeps
  the 32 bits after the binary point.
\<close>

fun root_bits :: "nat \<Rightarrow> nat \<Rightarrow> nat \<Rightarrow> nat \<Rightarrow> nat" where
  "root_bits k n r 0 = r"
| "root_bits k n r (Suc b) = root_bits k n (if (r + 2 ^ b) ^ k \<le> n then r + 2 ^ b else r) b"

definition root_fraction :: "nat \<Rightarrow> nat \<Rightarrow> w32" where
  "root_fraction k p = word_of_nat (root_bits k (p * 2 ^ (32 * k)) 0 40)"

definition primes_up_to :: "nat \<Rightarrow> nat list" where
  "primes_up_to n = filter (\<lambda>p. list_all (\<lambda>d. \<not> d dvd p) [2..<p]) [2..<Suc n]"

definition sha_k :: "w32 list" where
  "sha_k = map (root_fraction 3) (primes_up_to 311)"

definition sha_init :: "w32 list" where
  "sha_init = map (root_fraction 2) (primes_up_to 19)"

text \<open>The message schedule, newest word first: 16 words of the block, then 48 more.\<close>

fun sha_extend :: "nat \<Rightarrow> w32 list \<Rightarrow> w32 list" where
  "sha_extend 0 ws = ws"
| "sha_extend (Suc n) ws =
     (let w15 = ws ! 14; w2 = ws ! 1;
          s0 = rotr 7 w15 XOR rotr 18 w15 XOR drop_bit 3 w15;
          s1 = rotr 17 w2 XOR rotr 19 w2 XOR drop_bit 10 w2
      in sha_extend n ((ws ! 15 + s0 + ws ! 6 + s1) # ws))"

definition sha_round :: "w32 list \<Rightarrow> w32 \<times> w32 \<Rightarrow> w32 list" where
  "sha_round st kw = (case (st, kw) of
      ([a, b, c, d, e, f, g, h], (k, w)) \<Rightarrow>
        (let s1 = rotr 6 e XOR rotr 11 e XOR rotr 25 e;
             ch = (e AND f) XOR (NOT e AND g);
             t1 = h + s1 + ch + k + w;
             s0 = rotr 2 a XOR rotr 13 a XOR rotr 22 a;
             maj = (a AND b) XOR (a AND c) XOR (b AND c);
             t2 = s0 + maj
         in [t1 + t2, a, b, c, d + t1, e, f, g])
    | _ \<Rightarrow> st)"

definition sha_block :: "w32 list \<Rightarrow> w32 list \<Rightarrow> w32 list" where
  "sha_block st ws =
     map2 (+) st (foldl sha_round st (zip sha_k (rev (sha_extend 48 (rev ws)))))"

definition sha_pad :: "bytes \<Rightarrow> bytes" where
  "sha_pad m = m @ [0x80] @ replicate ((119 - length m mod 64) mod 64) 0
     @ map (\<lambda>i. of_nat ((8 * length m) div 256 ^ i)) (rev [0..<8])"

fun chunks :: "nat \<Rightarrow> 'a list \<Rightarrow> 'a list list" where
  "chunks n xs = (if n = 0 \<or> xs = [] then [] else take n xs # chunks n (drop n xs))"

declare chunks.simps [simp del]

definition word_of_bytes :: "bytes \<Rightarrow> w32" where
  "word_of_bytes bs = of_nat (foldl (\<lambda>a b. 256 * a + unat b) 0 bs)"

definition sha256_words :: "bytes \<Rightarrow> w32 list" where
  "sha256_words m =
     foldl sha_block sha_init (map (\<lambda>b. map word_of_bytes (chunks 4 b)) (chunks 64 (sha_pad m)))"

definition hex_word :: "w32 \<Rightarrow> string" where
  "hex_word w = map (\<lambda>i. hex_digit (unat w div 16 ^ i mod 16)) (rev [0..<8])"

definition sha256_hex :: "bytes \<Rightarrow> string" where
  "sha256_hex m = concat (map hex_word (sha256_words m))"

section \<open>Shape of a digest\<close>

lemma length_sha_round [simp]: "length (sha_round st kw) = length st"
  by (auto simp: sha_round_def Let_def split: list.splits prod.splits)

lemma length_sha_rounds: "length (foldl sha_round st kws) = length st"
  by (induction kws arbitrary: st) auto

lemma length_sha_block [simp]: "length (sha_block st ws) = length st"
  by (simp add: sha_block_def length_sha_rounds)

lemma length_sha_blocks: "length (foldl sha_block st bs) = length st"
  by (induction bs arbitrary: st) auto

lemma eight_primes: "length (primes_up_to 19) = 8"
  by code_simp

lemma length_sha256_words: "length (sha256_words m) = 8"
  by (simp add: sha256_words_def length_sha_blocks sha_init_def eight_primes)

definition is_hex :: "char \<Rightarrow> bool" where
  "is_hex c \<longleftrightarrow> (48 \<le> code c \<and> code c \<le> 57) \<or> (97 \<le> code c \<and> code c \<le> 102)"

lemma is_hex_digit: "n < 16 \<Longrightarrow> is_hex (hex_digit n)"
  by (auto simp: is_hex_def hex_digit_def code_char_of)

definition is_sha256_hex :: "string \<Rightarrow> bool" where
  "is_sha256_hex s \<longleftrightarrow> length s = 64 \<and> list_all is_hex s"

theorem sha256_hex_shape: "is_sha256_hex (sha256_hex m)"
proof -
  have "length (concat (map hex_word ws)) = 8 * length ws" for ws
    by (induction ws) (auto simp: hex_word_def)
  moreover have "list_all is_hex (hex_word w)" for w
    by (auto simp: hex_word_def list_all_iff intro!: is_hex_digit)
  ultimately show ?thesis
    by (auto simp: is_sha256_hex_def sha256_hex_def length_sha256_words list_all_iff)
qed

section \<open>Identity of a text and of a document\<close>

definition sha256_text :: "string \<Rightarrow> string" where
  "sha256_text s = sha256_hex (utf8_encode s)"

lemma sha256_text_shape [simp]: "is_sha256_hex (sha256_text s)"
  by (simp add: sha256_text_def sha256_hex_shape)

lemma sha256_text_nonempty [simp]: "sha256_text s \<noteq> []"
  using sha256_text_shape [of s] by (auto simp: is_sha256_hex_def)

end
