(* ===== verification/EvalLoaders.thy ===== *)
theory EvalLoaders
  imports Sha256
begin

text \<open>
  Loading and validation of evaluation documents (\<open>evaluation_lab.py\<close>): the fenced
  JSON of a case card, the closure case suite, the historical benchmark and the
  mitigation specification.  Every \<open>raise\<close> of the code is an \<open>Inl\<close> with its
  message; the order of the checks is the order of the code.  The content of a file is an
  argument (reading it is the only I/O), and Companion-Mind, the runtime that lives in
  another repository, is the record \<open>companion\<close> of the functions the code calls on it.
\<close>

section \<open>Reading a case document\<close>

definition backticks :: string where
  "backticks = replicate 3 (CHR 0x60)"

text \<open>\<open>\{.*?\}\<close> followed by white space and a fence: the shortest such body.\<close>

fun fence_body :: "string \<Rightarrow> string \<Rightarrow> string option" where
  "fence_body acc [] = None"
| "fence_body acc (c # s) =
     (if c = CHR ''}'' \<and> starts_with backticks (dropWhile py_isspace s)
      then Some (rev (c # acc)) else fence_body (c # acc) s)"

fun find_fence :: "string \<Rightarrow> string option" where
  "find_fence [] = None"
| "find_fence (c # s) =
     (let here = (if starts_with (backticks @ ''json'') (c # s) then
          (case dropWhile py_isspace (drop 6 s) of
             d # r \<Rightarrow> if d = CHR ''{'' then fence_body [d] r else None
           | [] \<Rightarrow> None) else None)
      in case here of Some t \<Rightarrow> Some t | None \<Rightarrow> find_fence s)"

definition read_case_document :: "string \<Rightarrow> string \<Rightarrow> string \<Rightarrow> json result" where
  "read_case_document path ext text =
     (if lower ext \<in> {''.md'', ''.markdown''} then
        (case find_fence text of
           None \<Rightarrow> Inl (ValueError (path @ '': no fenced JSON case fixture found''))
         | Some t \<Rightarrow> json_loads t)
      else json_loads text)"

section \<open>Field readers\<close>

definition required_text :: "obj \<Rightarrow> string \<Rightarrow> string \<Rightarrow> string result" where
  "required_text d key path = (case get d key of
      JStr s \<Rightarrow> if blank s then Inl (ValueError (path @ '': '' @ py_repr key @ '' must be a non-empty string''))
                else Inr s
    | _ \<Rightarrow> Inl (ValueError (path @ '': '' @ py_repr key @ '' must be a non-empty string'')))"

definition string_array :: "obj \<Rightarrow> string \<Rightarrow> string \<Rightarrow> string list result" where
  "string_array d key path = (case get d key of
      JArr xs \<Rightarrow>
        if xs = [] then Inl (ValueError (path @ '': '' @ py_repr key @ '' must be a non-empty array''))
        else mapE (\<lambda>(i, x).
          let bad = Inl (ValueError (path @ '': '' @ key @ ''['' @ show_nat i @ ''] must be a non-empty string''))
          in case x of JStr s \<Rightarrow> if blank s then bad else Inr (strip s) | _ \<Rightarrow> bad) (enumerate 0 xs)
    | _ \<Rightarrow> Inl (ValueError (path @ '': '' @ py_repr key @ '' must be a non-empty array'')))"

definition positive_integer :: "obj \<Rightarrow> string \<Rightarrow> string \<Rightarrow> int result" where
  "positive_integer d key path = (case get d key of
      JInt i \<Rightarrow> if i < 1 then Inl (ValueError (path @ '': '' @ py_repr key @ '' must be a positive integer''))
                else Inr i
    | _ \<Rightarrow> Inl (ValueError (path @ '': '' @ py_repr key @ '' must be a positive integer'')))"

lemma required_text_Inr:
  "required_text d k p = Inr s \<longleftrightarrow> get d k = JStr s \<and> \<not> blank s"
  by (auto simp: required_text_def split: json.splits if_splits)

lemma positive_integer_Inr:
  "positive_integer d k p = Inr i \<longleftrightarrow> get d k = JInt i \<and> 1 \<le> i"
  by (auto simp: positive_integer_def split: json.splits if_splits)

section \<open>The closure case suite\<close>

record child =
  ch_child_id :: string
  ch_status :: string

record closure_case =
  cc_variant_id :: string
  cc_children :: "child list"
  cc_expected_close :: bool

record case_suite =
  cs_case_id :: string
  cs_title :: string
  cs_run_id :: string
  cs_mitigation_id :: string
  cs_safeguard_id :: string
  cs_privacy :: string
  cs_cases :: "closure_case list"

definition validate_child :: "string \<Rightarrow> nat \<times> json \<Rightarrow> child result" where
  "validate_child label ix = (case ix of (i, raw) \<Rightarrow>
     (let cl = label @ ''.children['' @ show_nat i @ '']'' in
      case raw of
        JObj c \<Rightarrow>
          (case get c ''child_id'' of
             JStr cid \<Rightarrow>
               if blank cid then Inl (ValueError (cl @ ''.child_id must be a non-empty string''))
               else (case get c ''status'' of
                       JStr st \<Rightarrow>
                         if blank st then Inl (ValueError (cl @ ''.status must be a non-empty string''))
                         else Inr \<lparr>ch_child_id = cid, ch_status = st\<rparr>
                     | _ \<Rightarrow> Inl (ValueError (cl @ ''.status must be a non-empty string'')))
           | _ \<Rightarrow> Inl (ValueError (cl @ ''.child_id must be a non-empty string'')))
      | _ \<Rightarrow> Inl (ValueError (cl @ '' must be an object''))))"

text \<open>One iteration of the loop over \<open>inputs\<close>; the state is \<open>(normalized, seen)\<close>.\<close>

definition validate_case_step ::
    "string \<Rightarrow> closure_case list \<times> string list \<Rightarrow> nat \<times> json \<Rightarrow> (closure_case list \<times> string list) result" where
  "validate_case_step path st ix = (case (st, ix) of ((normalized, seen), (index, raw)) \<Rightarrow>
     (let label = path @ '': inputs['' @ show_nat index @ '']'' in
      case raw of
        JObj c \<Rightarrow>
          (case get c ''variant_id'' of
             JStr vid \<Rightarrow>
               if blank vid then Inl (ValueError (label @ ''.variant_id must be a non-empty string''))
               else if vid \<in> set seen then Inl (ValueError (path @ '': duplicate variant_id '' @ py_repr vid))
               else (case get c ''expected_close'' of
                       JBool ex \<Rightarrow>
                         (case get c ''children'' of
                            JArr kids \<Rightarrow>
                              if kids = [] then Inl (ValueError (label @ ''.children must be a non-empty array''))
                              else bindE (mapE (validate_child label) (enumerate 0 kids)) (\<lambda>cs.
                                Inr (normalized @ [\<lparr>cc_variant_id = vid, cc_children = cs, cc_expected_close = ex\<rparr>],
                                     vid # seen))
                          | _ \<Rightarrow> Inl (ValueError (label @ ''.children must be a non-empty array'')))
                     | _ \<Rightarrow> Inl (ValueError (label @ ''.expected_close must be boolean'')))
           | _ \<Rightarrow> Inl (ValueError (label @ ''.variant_id must be a non-empty string'')))
      | _ \<Rightarrow> Inl (ValueError (label @ '' must be an object''))))"

definition validate_cases :: "json \<Rightarrow> string \<Rightarrow> closure_case list result" where
  "validate_cases raw path = (case raw of
      JArr xs \<Rightarrow>
        if xs = [] then Inl (ValueError (path @ '': '' @ py_repr ''inputs'' @ '' must be a non-empty array''))
        else bindE (foldE (validate_case_step path) ([], []) (enumerate 0 xs)) (\<lambda>st. Inr (fst st))
    | _ \<Rightarrow> Inl (ValueError (path @ '': '' @ py_repr ''inputs'' @ '' must be a non-empty array'')))"

definition load_case_suite :: "string \<Rightarrow> string \<Rightarrow> string \<Rightarrow> case_suite result" where
  "load_case_suite path ext text =
     bindE (read_case_document path ext text) (\<lambda>doc. case doc of
        JObj d \<Rightarrow>
          bindE (required_text d ''privacy'' path) (\<lambda>privacy.
          if privacy \<notin> {''PUBLIC'', ''PUBLIC_SAFE'', ''REDACTED''}
          then Inl (ValueError (path @ '': unsupported privacy value '' @ py_repr privacy))
          else bindE (required_text d ''case_id'' path) (\<lambda>case_id.
          bindE (required_text d ''title'' path) (\<lambda>title.
          bindE (required_text d ''run_id'' path) (\<lambda>run_id.
          bindE (required_text d ''mitigation_id'' path) (\<lambda>mitigation_id.
          bindE (required_text d ''safeguard_id'' path) (\<lambda>safeguard_id.
          bindE (validate_cases (get d ''inputs'') path) (\<lambda>cases.
          Inr \<lparr>cs_case_id = case_id, cs_title = title, cs_run_id = run_id,
               cs_mitigation_id = mitigation_id, cs_safeguard_id = safeguard_id,
               cs_privacy = privacy, cs_cases = cases\<rparr>)))))))
      | _ \<Rightarrow> Inl (ValueError (path @ '': case document must be an object'')))"

subsection \<open>What a validated suite satisfies\<close>

definition child_ok :: "child \<Rightarrow> bool" where
  "child_ok c \<longleftrightarrow> \<not> blank (ch_child_id c) \<and> \<not> blank (ch_status c)"

definition closure_case_ok :: "closure_case \<Rightarrow> bool" where
  "closure_case_ok c \<longleftrightarrow> \<not> blank (cc_variant_id c) \<and> cc_children c \<noteq> [] \<and> list_all child_ok (cc_children c)"

definition closure_cases_ok :: "closure_case list \<Rightarrow> bool" where
  "closure_cases_ok cs \<longleftrightarrow> cs \<noteq> [] \<and> distinct (map cc_variant_id cs) \<and> list_all closure_case_ok cs"

lemma validate_child_ok: "validate_child l ix = Inr c \<Longrightarrow> child_ok c"
  by (auto simp: validate_child_def child_ok_def Let_def split: prod.splits json.splits if_splits)

lemma validate_case_step_Inr:
  assumes "validate_case_step p st ix = Inr st'"
  obtains c where "st' = (fst st @ [c], cc_variant_id c # snd st)" and "closure_case_ok c"
    and "cc_variant_id c \<notin> set (snd st)"
proof -
  obtain ns seen i raw where st: "st = (ns, seen)" "ix = (i, raw)" by (cases st; cases ix)
  from assms obtain d vid ex kids cs where
    raw: "raw = JObj d" and vid: "\<not> blank vid" "vid \<notin> set seen" and kids: "kids \<noteq> []"
    and cs: "mapE (validate_child (p @ '': inputs['' @ show_nat i @ '']'')) (enumerate 0 kids) = Inr cs"
    and st': "st' = (ns @ [\<lparr>cc_variant_id = vid, cc_children = cs, cc_expected_close = ex\<rparr>], vid # seen)"
    by (auto simp: validate_case_step_def st Let_def bindE_eq_Inr split: json.splits if_splits)
  have "list_all child_ok cs"
    unfolding list_all_iff by (metis cs mapE_set validate_child_ok)
  moreover have "cs \<noteq> []" using mapE_length [OF cs] kids by auto
  ultimately show thesis
    using that [of "\<lparr>cc_variant_id = vid, cc_children = cs, cc_expected_close = ex\<rparr>"] vid st' st
    by (simp add: closure_case_ok_def)
qed

lemma validate_cases_ok:
  assumes "validate_cases raw p = Inr cs"
  shows "closure_cases_ok cs"
proof -
  from assms obtain xs st where xs: "xs \<noteq> []"
    and run: "foldE (validate_case_step p) ([], []) (enumerate 0 xs) = Inr st" and cs: "cs = fst st"
    by (auto simp: validate_cases_def bindE_eq_Inr split: json.splits if_splits)
  let ?I = "\<lambda>(ns, seen) (ys :: (nat \<times> json) list). length ns = length ys \<and> set seen = cc_variant_id ` set ns
    \<and> distinct (map cc_variant_id ns) \<and> list_all closure_case_ok ns"
  have "?I st (enumerate 0 xs)"
    using run
  proof (rule foldE_invariant [where I = ?I])
    fix s ys x t
    assume I: "?I s ys" and step: "validate_case_step p s x = Inr t"
    from step obtain c where "t = (fst s @ [c], cc_variant_id c # snd s)" "closure_case_ok c"
      "cc_variant_id c \<notin> set (snd s)" by (rule validate_case_step_Inr)
    with I show "?I t (ys @ [x])" by (auto split: prod.splits)
  qed simp
  with xs cs show ?thesis by (auto simp: closure_cases_ok_def split: prod.splits)
qed

end
