(* ===== verification/EvalHistorical.thy ===== *)
theory EvalHistorical
  imports EvalLoaders
begin

text \<open>
  The historical failure benchmark of \<open>evaluation_lab.py\<close>: mechanisms, their minimal
  pairs of a TRAP and a CONTROL case, and the loader that refuses a benchmark whose
  pairs are incomplete or whose declared counts differ from the fixture.
\<close>

record mechanism =
  me_id :: string
  me_name :: string
  me_gate :: string
  me_source_categories :: string

record hist_case =
  hc_variant_id :: string
  hc_mechanism_id :: string
  hc_variant :: string
  hc_scenario :: string
  hc_candidate :: string
  hc_surface_confidence :: string
  hc_evidence_state :: string
  hc_constraints :: "(string \<times> string) list"
  hc_expected_accept :: bool

record historical_suite =
  hs_benchmark_id :: string
  hs_title :: string
  hs_run_id :: string
  hs_privacy :: string
  hs_source_observations :: int
  hs_source_categories :: int
  hs_mechanisms :: "mechanism list"
  hs_cases :: "hist_case list"

text \<open>The dictionary the loader builds for a case, which the policies read.\<close>

definition constraint_obj :: "string \<times> string \<Rightarrow> json" where
  "constraint_obj c = JObj [(''constraint_id'', JStr (fst c)), (''status'', JStr (snd c))]"

definition hist_case_obj :: "hist_case \<Rightarrow> obj" where
  "hist_case_obj c =
    [(''variant_id'', JStr (hc_variant_id c)),
     (''mechanism_id'', JStr (hc_mechanism_id c)),
     (''variant'', JStr (hc_variant c)),
     (''scenario'', JStr (hc_scenario c)),
     (''candidate'', JStr (hc_candidate c)),
     (''surface_confidence'', JStr (hc_surface_confidence c)),
     (''evidence_state'', JStr (hc_evidence_state c)),
     (''constraints'', JArr (map constraint_obj (hc_constraints c))),
     (''expected_accept'', JBool (hc_expected_accept c))]"

section \<open>Mechanisms\<close>

definition validate_mechanism_step ::
    "string \<Rightarrow> mechanism list \<times> string list \<Rightarrow> nat \<times> json \<Rightarrow> (mechanism list \<times> string list) result" where
  "validate_mechanism_step path st ix = (case (st, ix) of ((normalized, seen), (index, raw)) \<Rightarrow>
     (case raw of
        JObj m \<Rightarrow>
          bindE (required_text m ''mechanism_id'' path) (\<lambda>mid.
          if mid \<in> set seen then Inl (ValueError (path @ '': duplicate mechanism_id '' @ py_repr mid))
          else bindE (required_text m ''name'' path) (\<lambda>name.
          bindE (required_text m ''gate'' path) (\<lambda>gate.
          bindE (required_text m ''source_categories'' path) (\<lambda>src.
          Inr (normalized @ [\<lparr>me_id = mid, me_name = name, me_gate = gate, me_source_categories = src\<rparr>],
               mid # seen)))))
      | _ \<Rightarrow> Inl (ValueError (path @ '': mechanisms['' @ show_nat index @ ''] must be an object''))))"

definition validate_mechanisms :: "json \<Rightarrow> string \<Rightarrow> mechanism list result" where
  "validate_mechanisms raw path = (case raw of
      JArr xs \<Rightarrow>
        if xs = [] then Inl (ValueError (path @ '': '' @ py_repr ''mechanisms'' @ '' must be a non-empty array''))
        else bindE (foldE (validate_mechanism_step path) ([], []) (enumerate 0 xs)) (\<lambda>st. Inr (fst st))
    | _ \<Rightarrow> Inl (ValueError (path @ '': '' @ py_repr ''mechanisms'' @ '' must be a non-empty array'')))"

section \<open>Cases\<close>

definition validate_constraint :: "string \<Rightarrow> string \<Rightarrow> nat \<times> json \<Rightarrow> (string \<times> string) result" where
  "validate_constraint label path ix = (case ix of (i, raw) \<Rightarrow>
     (let cl = label @ ''.constraints['' @ show_nat i @ '']'' in
      case raw of
        JObj c \<Rightarrow>
          bindE (required_text c ''status'' path) (\<lambda>status.
          if status \<notin> {''PASS'', ''FAIL'', ''UNKNOWN''}
          then Inl (ValueError (cl @ '': unsupported status '' @ py_repr status))
          else bindE (required_text c ''constraint_id'' path) (\<lambda>cid. Inr (cid, status)))
      | _ \<Rightarrow> Inl (ValueError (cl @ '' must be an object''))))"

text \<open>
  The loop state: the cases accepted so far, the variant ids seen, and
  \<open>pair_variants\<close> as the list of its (mechanism, variant) entries.
\<close>

type_synonym hist_state = "hist_case list \<times> string list \<times> (string \<times> string) list"

definition hist_body :: "string \<Rightarrow> string \<Rightarrow> hist_state \<Rightarrow> obj \<Rightarrow> string \<Rightarrow> string \<Rightarrow> string \<Rightarrow> hist_state result" where
  "hist_body path label st c vid mid var = (case st of (normalized, seen, pairs) \<Rightarrow>
     bindE (required_text c ''evidence_state'' path) (\<lambda>ev.
     if ev \<notin> {''SUPPORTED'', ''CONTRADICTED'', ''UNKNOWN'', ''NOT_LOADED''}
     then Inl (ValueError (label @ '': unsupported evidence_state '' @ py_repr ev))
     else bindE (required_text c ''surface_confidence'' path) (\<lambda>sc.
     if sc \<notin> {''HIGH'', ''LOW''}
     then Inl (ValueError (label @ '': surface_confidence must be HIGH or LOW''))
     else (case get c ''expected_accept'' of
        JBool ex \<Rightarrow>
          (case get c ''constraints'' of
             JArr cs \<Rightarrow>
               if cs = [] then Inl (ValueError (label @ ''.constraints must be a non-empty array''))
               else bindE (mapE (validate_constraint label path) (enumerate 0 cs)) (\<lambda>constraints.
                 bindE (required_text c ''scenario'' path) (\<lambda>scenario.
                 bindE (required_text c ''candidate'' path) (\<lambda>candidate.
                 Inr (normalized @ [\<lparr>hc_variant_id = vid, hc_mechanism_id = mid, hc_variant = var,
                        hc_scenario = scenario, hc_candidate = candidate, hc_surface_confidence = sc,
                        hc_evidence_state = ev, hc_constraints = constraints, hc_expected_accept = ex\<rparr>],
                      seen, pairs))))
           | _ \<Rightarrow> Inl (ValueError (label @ ''.constraints must be a non-empty array'')))
      | _ \<Rightarrow> Inl (ValueError (label @ ''.expected_accept must be boolean''))))))"

definition validate_hist_step ::
    "string list \<Rightarrow> string \<Rightarrow> hist_state \<Rightarrow> nat \<times> json \<Rightarrow> hist_state result" where
  "validate_hist_step ids path st ix = (case (st, ix) of ((normalized, seen, pairs), (index, raw)) \<Rightarrow>
     (let label = path @ '': historical inputs['' @ show_nat index @ '']'' in
      case raw of
        JObj c \<Rightarrow>
          bindE (required_text c ''variant_id'' path) (\<lambda>vid.
          if vid \<in> set seen then Inl (ValueError (path @ '': duplicate historical variant_id '' @ py_repr vid))
          else bindE (required_text c ''mechanism_id'' path) (\<lambda>mid.
          if mid \<notin> set ids then Inl (ValueError (label @ '': unknown mechanism_id '' @ py_repr mid))
          else bindE (required_text c ''variant'' path) (\<lambda>var.
          if var \<notin> {''TRAP'', ''CONTROL''} then Inl (ValueError (label @ '': variant must be TRAP or CONTROL''))
          else if (mid, var) \<in> set pairs
          then Inl (ValueError (path @ '': duplicate '' @ var @ '' for mechanism '' @ mid))
          else hist_body path label (normalized, vid # seen, (mid, var) # pairs) c vid mid var)))
      | _ \<Rightarrow> Inl (ValueError (label @ '' must be an object''))))"

definition incomplete_mechanisms :: "string list \<Rightarrow> (string \<times> string) list \<Rightarrow> string list" where
  "incomplete_mechanisms ids pairs =
     sort (filter (\<lambda>m. snd ` {p \<in> set pairs. fst p = m} \<noteq> {''TRAP'', ''CONTROL''}) ids)"

definition validate_historical_cases :: "json \<Rightarrow> string list \<Rightarrow> string \<Rightarrow> hist_case list result" where
  "validate_historical_cases raw ids path = (case raw of
      JArr xs \<Rightarrow>
        if xs = [] then Inl (ValueError (path @ '': historical '' @ py_repr ''inputs'' @ '' must be a non-empty array''))
        else bindE (foldE (validate_hist_step ids path) ([], [], []) (enumerate 0 xs)) (\<lambda>(normalized, seen, pairs).
          if incomplete_mechanisms ids pairs \<noteq> []
          then Inl (ValueError (path @ '': every mechanism needs one TRAP and one CONTROL: ''
                 @ join '', '' (incomplete_mechanisms ids pairs)))
          else Inr normalized)
    | _ \<Rightarrow> Inl (ValueError (path @ '': historical '' @ py_repr ''inputs'' @ '' must be a non-empty array'')))"

definition load_historical_benchmark :: "string \<Rightarrow> string \<Rightarrow> string \<Rightarrow> historical_suite result" where
  "load_historical_benchmark path ext text =
     bindE (read_case_document path ext text) (\<lambda>root. case root of
       JObj r \<Rightarrow> (case get r ''historical_benchmark'' of
         JObj d \<Rightarrow>
           bindE (required_text d ''privacy'' path) (\<lambda>privacy.
           if privacy \<noteq> ''PUBLIC_SAFE''
           then Inl (ValueError (path @ '': historical benchmark must be PUBLIC_SAFE''))
           else (case get d ''source_scope'' of
             JObj sc \<Rightarrow>
               bindE (validate_mechanisms (get d ''mechanisms'') path) (\<lambda>mechanisms.
               bindE (validate_historical_cases (get d ''inputs'') (map me_id mechanisms) path) (\<lambda>cases.
               bindE (positive_integer sc ''mechanism_clusters'' path) (\<lambda>dm.
               bindE (positive_integer sc ''public_cases'' path) (\<lambda>dc.
               if dm \<noteq> int (length mechanisms)
               then Inl (ValueError (path @ '': declared mechanism cluster count does not match fixture''))
               else if dc \<noteq> int (length cases)
               then Inl (ValueError (path @ '': declared public case count does not match fixture''))
               else bindE (required_text d ''benchmark_id'' path) (\<lambda>bid.
               bindE (required_text d ''title'' path) (\<lambda>title.
               bindE (required_text d ''run_id'' path) (\<lambda>rid.
               bindE (positive_integer sc ''observations'' path) (\<lambda>obs.
               bindE (positive_integer sc ''raw_categories'' path) (\<lambda>cats.
               Inr \<lparr>hs_benchmark_id = bid, hs_title = title, hs_run_id = rid, hs_privacy = privacy,
                    hs_source_observations = obs, hs_source_categories = cats,
                    hs_mechanisms = mechanisms, hs_cases = cases\<rparr>)))))))))
           | _ \<Rightarrow> Inl (ValueError (path @ '': source_scope must be an object''))))
       | _ \<Rightarrow> Inl (ValueError (path @ '': missing historical_benchmark object'')))
     | _ \<Rightarrow> Inl (ValueError (path @ '': case document must be an object'')))"

section \<open>What the loader guarantees\<close>

definition pair_of :: "hist_case \<Rightarrow> string \<times> string" where
  "pair_of c = (hc_mechanism_id c, hc_variant c)"

definition hist_case_ok :: "string list \<Rightarrow> hist_case \<Rightarrow> bool" where
  "hist_case_ok ids c \<longleftrightarrow> \<not> blank (hc_variant_id c) \<and> hc_mechanism_id c \<in> set ids
     \<and> hc_variant c \<in> {''TRAP'', ''CONTROL''}
     \<and> hc_evidence_state c \<in> {''SUPPORTED'', ''CONTRADICTED'', ''UNKNOWN'', ''NOT_LOADED''}
     \<and> hc_surface_confidence c \<in> {''HIGH'', ''LOW''}
     \<and> hc_constraints c \<noteq> []
     \<and> list_all (\<lambda>k. snd k \<in> {''PASS'', ''FAIL'', ''UNKNOWN''}) (hc_constraints c)"

lemma validate_constraint_status:
  "validate_constraint l p ix = Inr c \<Longrightarrow> snd c \<in> {''PASS'', ''FAIL'', ''UNKNOWN''}"
  by (auto simp: validate_constraint_def Let_def bindE_eq_Inr split: prod.splits json.splits if_splits)

lemma hist_body_Inr:
  assumes "hist_body path label (ns, seen, pairs) c vid mid var = Inr st'"
    and "\<not> blank vid" and "mid \<in> set ids" and "var \<in> {''TRAP'', ''CONTROL''}"
  obtains h where "st' = (ns @ [h], seen, pairs)" and "hist_case_ok ids h"
    and "hc_variant_id h = vid" and "pair_of h = (mid, var)"
proof -
  from assms(1) obtain ev sc ex cs ks scen cand where
    f: "ev \<in> {''SUPPORTED'', ''CONTRADICTED'', ''UNKNOWN'', ''NOT_LOADED''}" "sc \<in> {''HIGH'', ''LOW''}"
    and cs: "cs \<noteq> []" "mapE (validate_constraint label path) (enumerate 0 cs) = Inr ks"
    and st': "st' = (ns @ [\<lparr>hc_variant_id = vid, hc_mechanism_id = mid, hc_variant = var,
                        hc_scenario = scen, hc_candidate = cand, hc_surface_confidence = sc,
                        hc_evidence_state = ev, hc_constraints = ks, hc_expected_accept = ex\<rparr>], seen, pairs)"
    unfolding hist_body_def prod.case exc_elims by blast
  have "ks \<noteq> []" using mapE_length [OF cs(2)] cs(1) by auto
  moreover have "list_all (\<lambda>k. snd k \<in> {''PASS'', ''FAIL'', ''UNKNOWN''}) ks"
    unfolding list_all_iff by (metis cs(2) mapE_set validate_constraint_status)
  ultimately show thesis
    using assms(2-4) f st' by (intro that) (auto simp: hist_case_ok_def pair_of_def)
qed

lemma validate_hist_step_Inr:
  assumes "validate_hist_step ids path (ns, seen, pairs) ix = Inr st'"
  obtains h where "st' = (ns @ [h], hc_variant_id h # seen, pair_of h # pairs)" and "hist_case_ok ids h"
    and "hc_variant_id h \<notin> set seen" and "pair_of h \<notin> set pairs"
proof -
  obtain i raw where ix: "ix = (i, raw)" by (cases ix)
  from assms obtain c vid mid var where
    v: "\<not> blank vid" "vid \<notin> set seen" "mid \<in> set ids" "var \<in> {''TRAP'', ''CONTROL''}" "(mid, var) \<notin> set pairs"
    and body: "hist_body path (path @ '': historical inputs['' @ show_nat i @ '']'')
       (ns, vid # seen, (mid, var) # pairs) c vid mid var = Inr st'"
    by (auto simp: validate_hist_step_def ix Let_def bindE_eq_Inr required_text_Inr
        split: json.splits if_splits)
  from body v(1,3,4) obtain h where "st' = (ns @ [h], vid # seen, (mid, var) # pairs)"
    "hist_case_ok ids h" "hc_variant_id h = vid" "pair_of h = (mid, var)"
    by (rule hist_body_Inr)
  with v that show thesis by metis
qed

definition complete_pairs :: "string list \<Rightarrow> hist_case list \<Rightarrow> bool" where
  "complete_pairs ids cs \<longleftrightarrow> list_all (hist_case_ok ids) cs \<and> distinct (map hc_variant_id cs)
     \<and> distinct (map pair_of cs)
     \<and> set (map pair_of cs) = set ids \<times> {''TRAP'', ''CONTROL''}"

lemma validate_historical_cases_ok:
  assumes "validate_historical_cases raw ids path = Inr cs"
  shows "complete_pairs ids cs"
proof -
  from assms obtain xs seen pairs where
    run: "foldE (validate_hist_step ids path) ([], [], []) (enumerate 0 xs) = Inr (cs, seen, pairs)"
    and inc: "incomplete_mechanisms ids pairs = []"
    by (auto simp: validate_historical_cases_def bindE_eq_Inr split: json.splits if_splits)
  let ?I = "\<lambda>(ns, seen, pairs) (ys :: (nat \<times> json) list). set seen = hc_variant_id ` set ns
      \<and> pairs = rev (map pair_of ns) \<and> distinct (map hc_variant_id ns) \<and> distinct (map pair_of ns)
      \<and> list_all (hist_case_ok ids) ns"
  have "?I (cs, seen, pairs) (enumerate 0 xs)"
    using run
  proof (rule foldE_invariant [where I = ?I])
    fix s ys x t
    assume I: "?I s ys" and step: "validate_hist_step ids path s x = Inr t"
    obtain ns sn ps where s: "s = (ns, sn, ps)" by (cases s)
    from step [unfolded s] obtain h where "t = (ns @ [h], hc_variant_id h # sn, pair_of h # ps)"
      "hist_case_ok ids h" "hc_variant_id h \<notin> set sn" "pair_of h \<notin> set ps"
      by (rule validate_hist_step_Inr)
    with I s show "?I t (ys @ [x])" by auto
  qed simp
  then have facts: "pairs = rev (map pair_of cs)" "distinct (map hc_variant_id cs)"
    "distinct (map pair_of cs)" "list_all (hist_case_ok ids) cs" by auto
  have "set (map pair_of cs) = set ids \<times> {''TRAP'', ''CONTROL''}"
  proof
    show "set (map pair_of cs) \<subseteq> set ids \<times> {''TRAP'', ''CONTROL''}"
      using facts(4) by (auto simp: list_all_iff hist_case_ok_def pair_of_def)
    show "set ids \<times> {''TRAP'', ''CONTROL''} \<subseteq> set (map pair_of cs)"
    proof
      fix p assume p: "p \<in> set ids \<times> {''TRAP'', ''CONTROL''}"
      from inc have none: "filter (\<lambda>m. snd ` {p \<in> set pairs. fst p = m} \<noteq> {''TRAP'', ''CONTROL''}) ids = []"
        by (simp only: incomplete_mechanisms_def sort_key_eq_Nil)
      then have each: "\<forall>m \<in> set ids. snd ` {q \<in> set pairs. fst q = m} = {''TRAP'', ''CONTROL''}"
        by (simp only: filter_empty_conv) blast
      obtain m v where mv: "p = (m, v)" "m \<in> set ids" "v \<in> {''TRAP'', ''CONTROL''}"
        using p by (elim SigmaE)
      have "v \<in> snd ` {q \<in> set pairs. fst q = m}" using each mv(2,3) by blast
      then obtain q where "q \<in> set pairs" "fst q = m" "snd q = v" by blast
      then have "(m, v) \<in> set pairs" by (metis prod.collapse)
      then show "p \<in> set (map pair_of cs)" using facts(1) mv(1) by (simp only: set_rev)
    qed
  qed
  with facts show ?thesis by (simp add: complete_pairs_def)
qed

lemma complete_pairs_count:
  assumes "complete_pairs ids cs" and "distinct ids"
  shows "length cs = 2 * length ids"
proof -
  have "length cs = card (set (map pair_of cs))"
    using assms(1) by (metis complete_pairs_def distinct_card length_map)
  also have "\<dots> = card (set ids \<times> {''TRAP'', ''CONTROL''})"
    using assms(1) by (simp only: complete_pairs_def)
  also have "\<dots> = length ids * card {''TRAP'', ''CONTROL''}"
    using assms(2) by (simp add: card_cartesian_product distinct_card)
  finally show ?thesis by simp
qed

lemma validate_mechanisms_distinct:
  assumes "validate_mechanisms raw path = Inr ms"
  shows "distinct (map me_id ms) \<and> ms \<noteq> []"
proof -
  from assms obtain xs seen where xs: "xs \<noteq> []"
    and run: "foldE (validate_mechanism_step path) ([], []) (enumerate 0 xs) = Inr (ms, seen)"
    by (auto simp: validate_mechanisms_def bindE_eq_Inr split: json.splits if_splits)
  let ?I = "\<lambda>(ns, seen) (ys :: (nat \<times> json) list). length ns = length ys
      \<and> set seen = me_id ` set ns \<and> distinct (map me_id ns)"
  have "?I (ms, seen) (enumerate 0 xs)"
    using run
    by (rule foldE_invariant [where I = ?I])
      (auto simp: validate_mechanism_step_def bindE_eq_Inr split: prod.splits json.splits if_splits)
  with xs show ?thesis by auto
qed

end
