(* ===== verification/EvalPolicies.thy ===== *)
theory EvalPolicies
  imports EvalHistorical JsonText
begin

text \<open>
  The mitigation specification and the two experiments of \<open>evaluation_lab.py\<close>: the
  closure experiment, whose treatment arm runs the external safeguard, and the historical
  benchmark, whose treatment arm is the uniform constraint gate.

  Companion-Mind lives in another repository; the record \<open>companion\<close> holds the
  functions of it that the code calls, and every operation takes it as an argument.
\<close>

section \<open>The mitigation specification\<close>

record ('s, 'g) companion =
  cm_installed :: bool
  cm_from_mapping :: "obj \<Rightarrow> 's result"
  cm_guard :: "'s \<Rightarrow> 'g result"
  cm_evaluate :: "'g \<Rightarrow> child list \<Rightarrow> string result"
  cm_safeguard_id :: "'g \<Rightarrow> string"
  cm_schema_version :: "'s \<Rightarrow> string"
  cm_fingerprint :: "'s \<Rightarrow> string"
  cm_mitigation_id :: "'s \<Rightarrow> string"

definition missing_companion :: exc where
  "missing_companion = RuntimeError
     ''Install the sibling Companion-Mind repository first: python -m pip install -e ../Companion-Mind''"

text \<open>\<open>{key: _required_text(document, key, path) for key in keys}\<close>\<close>

definition required_texts :: "obj \<Rightarrow> string list \<Rightarrow> string \<Rightarrow> obj result" where
  "required_texts d keys path =
     mapE (\<lambda>k. bindE (required_text d k path) (\<lambda>s. Inr (k, JStr s))) keys"

definition upper_statuses :: "obj \<Rightarrow> string \<Rightarrow> string \<Rightarrow> string list result" where
  "upper_statuses runtime key path =
     bindE (string_array runtime key path) (\<lambda>xs. Inr (sort (map upper xs)))"

definition spec_text_keys :: "string list" where
  "spec_text_keys = [''schema_version'', ''mitigation_id'', ''target_failure'', ''intervention'',
     ''control'', ''treatment'', ''decision_rule'']"

definition runtime_text_keys :: "string list" where
  "runtime_text_keys = [''guard_type'', ''safeguard_id'', ''empty_evidence_decision'',
     ''non_terminal_decision'', ''all_terminal_decision'']"

definition validate_mitigation_spec :: "('s, 'g) companion \<Rightarrow> json \<Rightarrow> string \<Rightarrow> obj result" where
  "validate_mitigation_spec cm document path = (case document of
      JObj d \<Rightarrow>
        bindE (required_texts d spec_text_keys path) (\<lambda>texts.
        if get texts ''schema_version'' \<noteq> JStr ''mitigation-spec/v1''
        then Inl (ValueError (path @ '': unsupported schema_version '' @ py_repr_json (get texts ''schema_version'')))
        else if get texts ''target_failure'' \<noteq> JStr ''premature_parent_closure''
        then Inl (ValueError (path @ '': unsupported target_failure '' @ py_repr_json (get texts ''target_failure'')))
        else (case get d ''runtime'' of
          JObj runtime \<Rightarrow>
            bindE (required_texts runtime runtime_text_keys path) (\<lambda>runtime_text.
            bindE (upper_statuses runtime ''terminal_statuses'' path) (\<lambda>terminal.
            bindE (upper_statuses runtime ''blocking_statuses'' path) (\<lambda>blocking.
            let overlap = remdups (filter (\<lambda>s. s \<in> set blocking) terminal) in
            if overlap \<noteq> []
            then Inl (ValueError (path @ '': terminal and blocking statuses overlap: '' @ join '', '' (sort overlap)))
            else
            bindE (string_array d ''metrics'' path) (\<lambda>metrics.
            bindE (string_array d ''regression_cases'' path) (\<lambda>regression_cases.
            let normalized = texts @
              [(''metrics'', JArr (map JStr metrics)),
               (''regression_cases'', JArr (map JStr regression_cases)),
               (''runtime'', JObj (runtime_text @
                  [(''terminal_statuses'', JArr (map JStr terminal)),
                   (''blocking_statuses'', JArr (map JStr blocking))]))] in
            if \<not> cm_installed cm then Inl missing_companion
            else bindE (cm_from_mapping cm normalized) (\<lambda>_. Inr normalized))))))
        | _ \<Rightarrow> Inl (ValueError (path @ '': '' @ py_repr ''runtime'' @ '' must be an object''))))
    | _ \<Rightarrow> Inl (ValueError (path @ '': mitigation spec must be an object'')))"

definition load_mitigation_spec ::
    "('s, 'g) companion \<Rightarrow> string \<Rightarrow> string \<Rightarrow> string \<Rightarrow> obj result" where
  "load_mitigation_spec cm path ext text =
     bindE (read_case_document path ext text) (\<lambda>doc. validate_mitigation_spec cm doc path)"

text \<open>\<open>BUILTIN_MITIGATION_SPEC\<close> and \<open>BUILTIN_SUITE\<close>.\<close>

definition builtin_mitigation_spec :: json where
  "builtin_mitigation_spec = JObj
    [(''schema_version'', JStr ''mitigation-spec/v1''),
     (''mitigation_id'', JStr ''MIT-CLOSURE-GUARD-001''),
     (''target_failure'', JStr ''premature_parent_closure''),
     (''intervention'', JStr ''Require every required child to be terminal before closure.''),
     (''control'', JStr ''naive_any_done''),
     (''treatment'', JStr ''companion_mind.runtime.ClosureGuard''),
     (''metrics'', JArr (map JStr [''accuracy'', ''premature_closure_rate'', ''known_bad_failures_detected''])),
     (''decision_rule'', JStr (''Adopt only when premature closure falls to zero, the all-terminal case ''
        @ ''remains accepted, and the known-bad regression probe still fails.'')),
     (''regression_cases'', JArr [JStr ''EVAL-CASE-001'']),
     (''runtime'', JObj
       [(''guard_type'', JStr ''closure_guard''), (''safeguard_id'', JStr ''CM-GUARD-001''),
        (''terminal_statuses'', JArr (map JStr [''CANCELLED'', ''DONE''])),
        (''blocking_statuses'', JArr (map JStr [''BLOCKED'', ''OPEN'', ''PENDING'', ''UNKNOWN'', ''WAITING'',
            ''WAITING-EXTERNAL'', ''WAITING-ON-TRIGGER''])),
        (''empty_evidence_decision'', JStr ''HOLD''), (''non_terminal_decision'', JStr ''REJECT''),
        (''all_terminal_decision'', JStr ''ACCEPT'')])]"

definition mk_children :: "(string \<times> string) list \<Rightarrow> child list" where
  "mk_children = map (\<lambda>(i, s). \<lparr>ch_child_id = i, ch_status = s\<rparr>)"

definition builtin_cases :: "closure_case list" where
  "builtin_cases = map (\<lambda>(v, cs, e). \<lparr>cc_variant_id = v, cc_children = mk_children cs, cc_expected_close = e\<rparr>)
    [(''base-order'', [(''quick-check'', ''DONE''), (''qualification'', ''OPEN'')], False),
     (''reordered-children'', [(''qualification'', ''OPEN''), (''quick-check'', ''DONE'')], False),
     (''waiting-external'', [(''quick-check'', ''DONE''), (''access-grant'', ''WAITING-EXTERNAL'')], False),
     (''unknown-required-state'', [(''quick-check'', ''DONE''), (''required-evidence'', ''UNKNOWN'')], False),
     (''all-terminal'', [(''quick-check'', ''DONE''), (''qualification'', ''DONE'')], True)]"

definition builtin_suite :: case_suite where
  "builtin_suite = \<lparr>cs_case_id = ''EVAL-CASE-001'', cs_title = ''Premature Parent Closure'',
     cs_run_id = ''EVAL-RUN-001'', cs_mitigation_id = ''MIT-CLOSURE-GUARD-001'',
     cs_safeguard_id = ''CM-GUARD-001'', cs_privacy = ''PUBLIC_SAFE'', cs_cases = builtin_cases\<rparr>"

section \<open>Closure policies\<close>

definition naive_any_done :: "child list \<Rightarrow> bool" where
  "naive_any_done children \<longleftrightarrow> list_ex (\<lambda>c. upper (ch_status c) = ''DONE'') children"

definition runtime_guard :: "('s, 'g) companion \<Rightarrow> obj \<Rightarrow> ('g \<times> 's) result" where
  "runtime_guard cm spec =
     (if \<not> cm_installed cm then Inl missing_companion
      else bindE (cm_from_mapping cm spec) (\<lambda>runtime_spec.
           bindE (cm_guard cm runtime_spec) (\<lambda>guard. Inr (guard, runtime_spec))))"

definition treatment_policy :: "('s, 'g) companion \<Rightarrow> 'g \<Rightarrow> child list \<Rightarrow> bool result" where
  "treatment_policy cm guard children =
     bindE (cm_evaluate cm guard children) (\<lambda>decision. Inr (decision = ''ACCEPT''))"

definition closure_guard_policy :: "('s, 'g) companion \<Rightarrow> obj \<Rightarrow> child list \<Rightarrow> bool result" where
  "closure_guard_policy cm spec children =
     bindE (runtime_guard cm spec) (\<lambda>gs. treatment_policy cm (fst gs) children)"

section \<open>Grading a policy\<close>

record policy_result =
  pr_policy :: string
  pr_accuracy :: rat
  pr_rate :: rat
  pr_failures :: "string list"
  pr_predictions :: "json list"

text \<open>
  Both experiments grade their policy with the same loop (\<open>evaluate_policy\<close> and
  \<open>evaluate_historical_policy\<close> differ in the field names and in what a prediction
  row records): \<open>grade_step\<close> is its body, over the predictions, the failures and the
  two counters.  Accuracies are binary64 quotients.
\<close>

type_synonym grade = "json list \<times> string list \<times> nat \<times> nat"

definition grade_step ::
    "('c \<Rightarrow> bool result) \<Rightarrow> ('c \<Rightarrow> string) \<Rightarrow> ('c \<Rightarrow> bool) \<Rightarrow> ('c \<Rightarrow> bool \<Rightarrow> bool \<Rightarrow> json)
      \<Rightarrow> grade \<Rightarrow> 'c \<Rightarrow> grade result" where
  "grade_step policy vid expected row st c = (case st of (predictions, failures, negatives, accepted) \<Rightarrow>
     bindE (policy c) (\<lambda>predicted.
       let correct = (predicted = expected c) in
       Inr (predictions @ [row c predicted correct],
            (if \<not> correct then failures @ [vid c] else failures),
            (if \<not> expected c then negatives + 1 else negatives),
            (if \<not> expected c \<and> predicted then accepted + 1 else accepted))))"

definition grade_result :: "string \<Rightarrow> nat \<Rightarrow> grade \<Rightarrow> policy_result" where
  "grade_result name n_cases st = (case st of (predictions, failures, negatives, accepted) \<Rightarrow>
     \<lparr>pr_policy = name,
      pr_accuracy = rnd ((of_nat n_cases - of_nat (length failures)) / of_nat n_cases),
      pr_rate = (if negatives \<noteq> 0 then rnd (of_nat accepted / of_nat negatives) else 0),
      pr_failures = failures, pr_predictions = predictions\<rparr>)"

definition closure_row :: "closure_case \<Rightarrow> bool \<Rightarrow> bool \<Rightarrow> json" where
  "closure_row c predicted correct = JObj
     [(''variant_id'', JStr (cc_variant_id c)), (''expected_close'', JBool (cc_expected_close c)),
      (''predicted_close'', JBool predicted), (''correct'', JBool correct)]"

definition evaluate_policy ::
    "string \<Rightarrow> (child list \<Rightarrow> bool result) \<Rightarrow> closure_case list \<Rightarrow> policy_result result" where
  "evaluate_policy name policy cases =
     (if cases = [] then Inl (ValueError ''at least one evaluation case is required'')
      else bindE (foldE (grade_step (\<lambda>c. policy (cc_children c)) cc_variant_id cc_expected_close closure_row)
                    ([], [], 0, 0) cases)
             (\<lambda>st. Inr (grade_result name (length cases) st)))"

definition policy_obj :: "string \<Rightarrow> policy_result \<Rightarrow> json" where
  "policy_obj rate_name r = JObj
     [(''policy'', JStr (pr_policy r)), (''accuracy'', JFloat (Fin (pr_accuracy r))),
      (rate_name, JFloat (Fin (pr_rate r))), (''failures'', JArr (map JStr (pr_failures r))),
      (''predictions'', JArr (pr_predictions r))]"

section \<open>The closure experiment\<close>

definition naive :: "child list \<Rightarrow> bool result" where
  "naive children = Inr (naive_any_done children)"

definition pass_fail :: "bool \<Rightarrow> json" where
  "pass_fail b = JStr (if b then ''PASS'' else ''FAIL'')"

definition experiment_report ::
    "('s, 'g) companion \<Rightarrow> case_suite \<Rightarrow> 'g \<Rightarrow> 's \<Rightarrow> policy_result \<Rightarrow> policy_result \<Rightarrow> policy_result \<Rightarrow> obj" where
  "experiment_report cm suite guard spec baseline treatment probe =
    [(''run_id'', JStr (cs_run_id suite)), (''case_id'', JStr (cs_case_id suite)),
     (''mitigation_id'', JStr (cs_mitigation_id suite)), (''safeguard_id'', JStr (cs_safeguard_id suite)),
     (''fixture_count'', JInt (int (length (cs_cases suite)))),
     (''baseline'', policy_obj ''premature_closure_rate'' baseline),
     (''treatment'', policy_obj ''premature_closure_rate'' treatment),
     (''accuracy_delta'', JFloat (Fin (rnd (pr_accuracy treatment - pr_accuracy baseline)))),
     (''integration'', JObj
        [(''status'', pass_fail (pr_failures treatment = [])),
         (''runtime'', JStr ''companion_mind.runtime.ClosureGuard''),
         (''schema_version'', JStr (cm_schema_version cm spec)),
         (''spec_fingerprint'', JStr (cm_fingerprint cm spec)),
         (''loaded_mitigation_id'', JStr (cm_mitigation_id cm spec)),
         (''loaded_safeguard_id'', JStr (cm_safeguard_id cm guard))]),
     (''regression'', JObj
        [(''known_bad_failures_detected'', JInt (int (length (pr_failures probe)))),
         (''guard_failures'', JInt (int (length (pr_failures treatment)))),
         (''status'', pass_fail (pr_failures probe \<noteq> [] \<and> pr_failures treatment = []))]),
     (''evidence_level'', JStr ''E3_EXECUTABLE_LOCAL_PROTOTYPE''),
     (''limitations'', JArr (map JStr
        [''deterministic structural fixture'', ''no live LLM calls'', ''no production traffic'',
         ''no cross-model generalization claim'']))]"

definition run_experiment :: "('s, 'g) companion \<Rightarrow> case_suite \<Rightarrow> json \<Rightarrow> obj result" where
  "run_experiment cm suite mitigation_spec =
     bindE (validate_mitigation_spec cm mitigation_spec ''<mitigation-spec>'') (\<lambda>spec.
     case get spec ''runtime'' of
       JObj runtime \<Rightarrow>
         if get spec ''mitigation_id'' \<noteq> JStr (cs_mitigation_id suite)
         then Inl (ValueError ''case suite and MitigationSpec mitigation_id do not match'')
         else if get runtime ''safeguard_id'' \<noteq> JStr (cs_safeguard_id suite)
         then Inl (ValueError ''case suite and MitigationSpec safeguard_id do not match'')
         else if \<not> (case get spec ''regression_cases'' of JArr rs \<Rightarrow> py_in (JStr (cs_case_id suite)) rs | _ \<Rightarrow> False)
         then Inl (ValueError ''case suite is not registered by the MitigationSpec'')
         else bindE (runtime_guard cm spec) (\<lambda>gs.
           bindE (evaluate_policy ''naive_any_done'' naive (cs_cases suite)) (\<lambda>baseline.
           bindE (evaluate_policy (cs_safeguard_id suite) (treatment_policy cm (fst gs)) (cs_cases suite)) (\<lambda>treatment.
           bindE (evaluate_policy ''known_bad_regression_probe'' naive (cs_cases suite)) (\<lambda>probe.
           Inr (experiment_report cm suite (fst gs) (snd gs) baseline treatment probe)))))
     | _ \<Rightarrow> Inl (ValueError ''validated mitigation runtime is missing''))"

section \<open>The historical benchmark\<close>

definition confidence_only_baseline :: "obj \<Rightarrow> bool" where
  "confidence_only_baseline c \<longleftrightarrow> get c ''surface_confidence'' = JStr ''HIGH''"

text \<open>
  \<open>None\<close> is the early \<open>return False\<close> of the loop over the constraints.  A string
  and a dictionary are iterable too; their elements are strings, so the first one is not a
  mapping.
\<close>

definition constraint_statuses :: "json list \<Rightarrow> string list option" where
  "constraint_statuses cs = foldr (\<lambda>c acc. case c of
      JObj d \<Rightarrow> map_option ((#) (py_str (get_or d ''status'' (JStr ''UNKNOWN'')))) acc
    | _ \<Rightarrow> None) cs (Some [])"

definition constraint_gate_policy :: "obj \<Rightarrow> bool" where
  "constraint_gate_policy c =
     (if get c ''evidence_state'' \<noteq> JStr ''SUPPORTED'' then False
      else (case get c ''constraints'' of
        JArr cs \<Rightarrow> (case constraint_statuses cs of
            None \<Rightarrow> False
          | Some statuses \<Rightarrow> statuses \<noteq> [] \<and> list_all (\<lambda>s. s = ''PASS'') statuses)
      | _ \<Rightarrow> False))"

definition historical_row :: "hist_case \<Rightarrow> bool \<Rightarrow> bool \<Rightarrow> json" where
  "historical_row c predicted correct = JObj
     [(''variant_id'', JStr (hc_variant_id c)), (''mechanism_id'', JStr (hc_mechanism_id c)),
      (''variant'', JStr (hc_variant c)), (''expected_accept'', JBool (hc_expected_accept c)),
      (''predicted_accept'', JBool predicted), (''correct'', JBool correct)]"

definition evaluate_historical_policy ::
    "string \<Rightarrow> (obj \<Rightarrow> bool) \<Rightarrow> hist_case list \<Rightarrow> policy_result result" where
  "evaluate_historical_policy name policy cases =
     (if cases = [] then Inl (ValueError ''at least one historical evaluation case is required'')
      else bindE (foldE (grade_step (\<lambda>c. Inr (policy (hist_case_obj c))) hc_variant_id hc_expected_accept historical_row)
                    ([], [], 0, 0) cases)
             (\<lambda>st. Inr (grade_result name (length cases) st)))"

definition mechanism_obj :: "mechanism \<Rightarrow> json" where
  "mechanism_obj m = JObj
     [(''mechanism_id'', JStr (me_id m)), (''name'', JStr (me_name m)), (''gate'', JStr (me_gate m)),
      (''source_categories'', JStr (me_source_categories m))]"

definition regression_pass :: "historical_suite \<Rightarrow> policy_result \<Rightarrow> policy_result \<Rightarrow> bool" where
  "regression_pass suite baseline treatment =
     (let traps = length (filter (\<lambda>c. \<not> hc_expected_accept c) (hs_cases suite));
          controls = length (filter hc_expected_accept (hs_cases suite))
      in length (pr_failures baseline) = traps \<and> pr_failures treatment = []
         \<and> traps = controls \<and> controls = length (hs_mechanisms suite))"

definition run_historical_benchmark :: "historical_suite \<Rightarrow> obj result" where
  "run_historical_benchmark suite =
     bindE (evaluate_historical_policy ''confidence_only'' confidence_only_baseline (hs_cases suite)) (\<lambda>baseline.
     bindE (evaluate_historical_policy ''uniform_constraint_gate'' constraint_gate_policy (hs_cases suite)) (\<lambda>treatment.
     Inr [(''benchmark_id'', JStr (hs_benchmark_id suite)), (''run_id'', JStr (hs_run_id suite)),
          (''privacy'', JStr (hs_privacy suite)),
          (''source_scope'', JObj
             [(''observations'', JInt (hs_source_observations suite)),
              (''raw_categories'', JInt (hs_source_categories suite)),
              (''mechanism_clusters'', JInt (int (length (hs_mechanisms suite)))),
              (''public_cases'', JInt (int (length (hs_cases suite)))),
              (''transformation'', JStr ''mechanism-preserving synthetic reconstruction'')]),
          (''fixture_count'', JInt (int (length (hs_cases suite)))),
          (''mechanisms'', JArr (map mechanism_obj (hs_mechanisms suite))),
          (''baseline'', policy_obj ''false_accept_rate'' baseline),
          (''treatment'', policy_obj ''false_accept_rate'' treatment),
          (''accuracy_delta'', JFloat (Fin (rnd (pr_accuracy treatment - pr_accuracy baseline)))),
          (''regression'', JObj
             [(''known_bad_failures_detected'', JInt (int (length (pr_failures baseline)))),
              (''reference_gate_failures'', JInt (int (length (pr_failures treatment)))),
              (''status'', pass_fail (regression_pass suite baseline treatment))]),
          (''architecture'', JObj
             [(''policy'', JStr ''uniform evidence-and-constraint gate''),
              (''mechanism_specific_branches'', JInt 0), (''per_observation_rules'', JInt 0)]),
          (''evidence_level'', JStr ''E3_EXECUTABLE_PUBLIC_SAFE_BENCHMARK''),
          (''limitations'', JArr (map JStr
             [''synthetic mechanism-preserving cases, not the private observations'',
              ''deterministic reference policies, not live LLM calls'', ''no production traffic'',
              ''no broad-model or scientific-benchmark validity claim'']))]))"

section \<open>What grading computes\<close>

text \<open>The outcome of a policy on a list of cases, said without the loop.\<close>

definition wrong :: "('c \<Rightarrow> bool) \<Rightarrow> ('c \<Rightarrow> bool) \<Rightarrow> 'c list \<Rightarrow> 'c list" where
  "wrong predict expected cs = filter (\<lambda>c. predict c \<noteq> expected c) cs"

definition accepts :: "('c \<Rightarrow> bool result) \<Rightarrow> 'c \<Rightarrow> bool" where
  "accepts policy c = (policy c = Inr True)"

lemma grade_step_Inr:
  "grade_step policy vid expected row (a, b, n, m) c = Inr t \<longleftrightarrow>
     (\<exists>p. policy c = Inr p \<and> t = (a @ [row c p (p = expected c)],
        (if p \<noteq> expected c then b @ [vid c] else b), (if \<not> expected c then n + 1 else n),
        (if \<not> expected c \<and> p then m + 1 else m)))"
  by (auto simp: grade_step_def bindE_eq_Inr Let_def)

lemma grade_fold:
  "foldE (grade_step policy vid expected row) (a, b, n, m) cs = Inr t \<Longrightarrow>
     (\<forall>c \<in> set cs. policy c = Inr (accepts policy c))
     \<and> t = (a @ map (\<lambda>c. row c (accepts policy c) (accepts policy c = expected c)) cs,
            b @ map vid (wrong (accepts policy) expected cs),
            n + length (filter (\<lambda>c. \<not> expected c) cs),
            m + length (filter (\<lambda>c. \<not> expected c \<and> accepts policy c) cs))"
proof (induction cs arbitrary: a b n m)
  case Nil
  then show ?case by (simp add: wrong_def)
next
  case (Cons c cs)
  from Cons.prems obtain p where p: "policy c = Inr p"
    and run: "foldE (grade_step policy vid expected row) (a @ [row c p (p = expected c)],
        (if p \<noteq> expected c then b @ [vid c] else b), (if \<not> expected c then n + 1 else n),
        (if \<not> expected c \<and> p then m + 1 else m)) cs = Inr t"
    by (auto simp: bindE_eq_Inr grade_step_Inr)
  from p have "accepts policy c = p" by (simp add: accepts_def)
  with Cons.IH [OF run] p show ?case by (auto simp: wrong_def)
qed

lemma accuracy_facts:
  assumes "0 < n" and "n \<le> 2 ^ 53" and "k \<le> n"
  shows "0 \<le> rnd ((of_nat n - of_nat k) / of_nat n)" and "rnd ((of_nat n - of_nat k) / of_nat n) \<le> 1"
    and "rnd ((of_nat n - of_nat k) / of_nat n) = 1 \<longleftrightarrow> k = 0"
proof -
  have unit: "(0::rat) \<le> (of_nat n - of_nat k) / of_nat n" "(of_nat n - of_nat k) / of_nat n \<le> (1::rat)"
    using assms by (auto simp: field_simps)
  then show "0 \<le> rnd ((of_nat n - of_nat k) / of_nat n)" "rnd ((of_nat n - of_nat k) / of_nat n) \<le> 1"
    using rnd_unit by auto
  show "rnd ((of_nat n - of_nat k) / of_nat n) = 1 \<longleftrightarrow> k = 0"
  proof (cases "k = 0")
    case True
    with assms show ?thesis by simp
  next
    case False
    with assms(1,2) have "rnd (of_nat (n - k) / of_nat n) < 1"
      by (intro rnd_fraction_less_1) auto
    with False assms(3) show ?thesis by (simp add: of_nat_diff)
  qed
qed

lemma wrong_length: "length (wrong p e cs) \<le> length cs"
  by (simp add: wrong_def)

lemma wrong_Nil: "wrong p e cs = [] \<longleftrightarrow> (\<forall>c \<in> set cs. p c = e c)"
  by (auto simp: wrong_def filter_empty_conv)

text \<open>The reading of a graded run, shared by both experiments.\<close>

definition graded :: "('c \<Rightarrow> bool) \<Rightarrow> ('c \<Rightarrow> bool) \<Rightarrow> ('c \<Rightarrow> string) \<Rightarrow> 'c list \<Rightarrow> policy_result \<Rightarrow> bool" where
  "graded predict expected vid cs r \<longleftrightarrow>
     pr_failures r = map vid (wrong predict expected cs)
     \<and> length (pr_predictions r) = length cs
     \<and> 0 \<le> pr_accuracy r \<and> pr_accuracy r \<le> 1
     \<and> (pr_accuracy r = 1 \<longleftrightarrow> pr_failures r = [])
     \<and> 0 \<le> pr_rate r \<and> pr_rate r \<le> 1
     \<and> (pr_rate r = 0 \<longleftrightarrow> filter (\<lambda>c. \<not> expected c \<and> predict c) cs = [])"

lemma graded_result:
  assumes run: "foldE (grade_step policy vid expected row) ([], [], 0, 0) cs = Inr st"
    and "cs \<noteq> []" and len: "length cs \<le> 2 ^ 53"
  shows "graded (accepts policy) expected vid cs (grade_result name (length cs) st)"
proof -
  let ?w = "wrong (accepts policy) expected cs"
  let ?n = "length (filter (\<lambda>c. \<not> expected c) cs)"
  let ?m = "length (filter (\<lambda>c. \<not> expected c \<and> accepts policy c) cs)"
  from grade_fold [OF run] have st: "st = (map (\<lambda>c. row c (accepts policy c) (accepts policy c = expected c)) cs,
      map vid ?w, ?n, ?m)" by simp
  from assms(2) have "0 < length cs" by simp
  note acc = accuracy_facts [OF this len wrong_length [of "accepts policy" expected]]
  have mn: "?m \<le> ?n" by (induction cs) auto
  have nlen: "?n \<le> 2 ^ 53" using len length_filter_le [of "\<lambda>c. \<not> expected c" cs] by linarith
  have rate: "0 \<le> rnd (of_nat ?m / of_nat ?n)" "rnd (of_nat ?m / of_nat ?n) \<le> 1" if "?n \<noteq> 0"
    using rnd_unit [of "of_nat ?m / of_nat ?n"] that mn by (auto simp: divide_le_eq_1)
  have rate0: "rnd (of_nat ?m / of_nat ?n) = 0 \<longleftrightarrow> ?m = 0" if "?n \<noteq> 0"
    using rnd_pos_fraction [of ?m ?n] that nlen by (cases "?m = 0") auto
  have m0: "?m = 0 \<longleftrightarrow> filter (\<lambda>c. \<not> expected c \<and> accepts policy c) cs = []" by (simp only: length_0_conv)
  show ?thesis
  proof (cases "?n = 0")
    case True
    with mn have "?m = 0" by simp
    with True m0 acc show ?thesis by (simp add: graded_def grade_result_def st)
  next
    case False
    with rate rate0 m0 acc show ?thesis
      by (simp add: graded_def grade_result_def st)
  qed
qed

text \<open>Either the policy raised on some case, or every case was graded.\<close>

lemma grade_fold_ok:
  "\<forall>c \<in> set cs. isOk (policy c) \<Longrightarrow> \<exists>t. foldE (grade_step policy vid expected row) st cs = Inr t"
proof (induction cs arbitrary: st)
  case (Cons c cs)
  obtain a b n m where st: "st = (a, b, n, m)" by (cases st)
  from Cons.prems obtain p where "policy c = Inr p" by (auto simp: isOk_iff)
  with Cons show ?case by (simp add: st grade_step_def Let_def)
qed (simp del: split_paired_Ex)

section \<open>The gates\<close>

lemma constraint_statuses_Some:
  "constraint_statuses cs = Some ss \<longleftrightarrow>
     list_all2 (\<lambda>c s. \<exists>d. c = JObj d \<and> s = py_str (get_or d ''status'' (JStr ''UNKNOWN''))) cs ss"
proof (induction cs arbitrary: ss)
  case Nil
  then show ?case by (auto simp: constraint_statuses_def)
next
  case (Cons c cs)
  have "constraint_statuses (c # cs) = (case c of
      JObj d \<Rightarrow> map_option ((#) (py_str (get_or d ''status'' (JStr ''UNKNOWN'')))) (constraint_statuses cs)
    | _ \<Rightarrow> None)" by (simp add: constraint_statuses_def split: json.splits)
  with Cons show ?case by (cases ss) (auto split: json.splits)
qed

lemma constraint_statuses_objs:
  "constraint_statuses (map constraint_obj cs) = Some (map snd cs)"
  by (simp add: constraint_statuses_Some list_all2_map1 list_all2_map2 list_all2_same constraint_obj_def get_or_def)

lemma hist_case_obj_get [simp]:
  "get (hist_case_obj c) ''evidence_state'' = JStr (hc_evidence_state c)"
  "get (hist_case_obj c) ''surface_confidence'' = JStr (hc_surface_confidence c)"
  "get (hist_case_obj c) ''constraints'' = JArr (map constraint_obj (hc_constraints c))"
  by (simp_all add: get_def hist_case_obj_def)

lemma constraint_gate_case:
  "constraint_gate_policy (hist_case_obj c) \<longleftrightarrow>
     hc_evidence_state c = ''SUPPORTED'' \<and> hc_constraints c \<noteq> [] \<and> list_all (\<lambda>p. snd p = ''PASS'') (hc_constraints c)"
  by (auto simp: constraint_gate_policy_def constraint_statuses_objs list_all_iff)

lemma evaluate_historical_total:
  assumes "cs \<noteq> []"
  obtains r where "evaluate_historical_policy name policy cs = Inr r"
    and "pr_failures r = map hc_variant_id (wrong (\<lambda>c. policy (hist_case_obj c)) hc_expected_accept cs)"
proof -
  let ?step = "grade_step (\<lambda>c. Inr (policy (hist_case_obj c))) hc_variant_id hc_expected_accept historical_row"
  have "\<exists>t. foldE ?step ([], [], 0, 0) cs = Inr t"
    by (rule grade_fold_ok) simp
  then obtain t where t: "foldE ?step ([], [], 0, 0) cs = Inr t" by blast
  from grade_fold [OF t] have "fst (snd t) = map hc_variant_id (wrong (\<lambda>c. policy (hist_case_obj c)) hc_expected_accept cs)"
    by (simp add: accepts_def [abs_def])
  moreover have "evaluate_historical_policy name policy cs = Inr (grade_result name (length cs) t)"
    using assms t by (simp add: evaluate_historical_policy_def)
  ultimately show thesis using that by (auto simp: grade_result_def split: prod.splits)
qed

lemma evaluate_policy_failures:
  assumes "evaluate_policy name policy cs = Inr r"
  shows "pr_failures r = map cc_variant_id (wrong (\<lambda>c. accepts policy (cc_children c)) cc_expected_close cs)"
    and "cs \<noteq> []" and "\<forall>c \<in> set cs. policy (cc_children c) = Inr (accepts policy (cc_children c))"
proof -
  from assms obtain st where ne: "cs \<noteq> []" and r: "r = grade_result name (length cs) st"
    and run: "foldE (grade_step (\<lambda>c. policy (cc_children c)) cc_variant_id cc_expected_close closure_row)
      ([], [], 0, 0) cs = Inr st" by (auto simp: evaluate_policy_def bindE_eq_Inr)
  from grade_fold [OF run]
  show "pr_failures r = map cc_variant_id (wrong (\<lambda>c. accepts policy (cc_children c)) cc_expected_close cs)"
    "\<forall>c \<in> set cs. policy (cc_children c) = Inr (accepts policy (cc_children c))" "cs \<noteq> []"
    using ne by (simp_all add: r grade_result_def accepts_def [abs_def])
qed

lemma accepts_naive [simp]: "accepts naive = naive_any_done"
  by (auto simp: accepts_def naive_def fun_eq_iff)

lemma experiment_report_status:
  "get (experiment_report cm suite guard rs baseline treatment probe) ''regression'' =
     JObj [(''known_bad_failures_detected'', JInt (int (length (pr_failures probe)))),
           (''guard_failures'', JInt (int (length (pr_failures treatment)))),
           (''status'', pass_fail (pr_failures probe \<noteq> [] \<and> pr_failures treatment = []))]"
  by (simp add: experiment_report_def get_def)

lemma pass_fail_PASS [simp]: "pass_fail b = JStr ''PASS'' \<longleftrightarrow> b"
  by (simp add: pass_fail_def)

definition status_of :: "obj \<Rightarrow> json" where
  "status_of report = (case get report ''regression'' of JObj r \<Rightarrow> get r ''status'' | _ \<Rightarrow> JNull)"

section \<open>Properties\<close>

text \<open>C8.  A graded closure policy: the failures are exactly the mispredicted cases, in order, the
  accuracy lies in the unit interval and is 1 precisely when nothing failed, and the premature
  closure rate is 0 precisely when no open parent was closed (binary64 rounding included, for any
  suite of at most \<open>2^53\<close> cases).\<close>

theorem evaluate_policy_graded:
  assumes "evaluate_policy name policy cs = Inr r" and "length cs \<le> 2 ^ 53"
  shows "graded (\<lambda>c. accepts policy (cc_children c)) cc_expected_close cc_variant_id cs r"
proof -
  from assms(1) obtain st where ne: "cs \<noteq> []" and r: "r = grade_result name (length cs) st"
    and run: "foldE (grade_step (\<lambda>c. policy (cc_children c)) cc_variant_id cc_expected_close closure_row)
      ([], [], 0, 0) cs = Inr st" by (auto simp: evaluate_policy_def bindE_eq_Inr)
  from graded_result [OF run ne assms(2), of name] show ?thesis
    by (simp add: r accepts_def [abs_def])
qed

lemma builtin_cases_length: "length builtin_cases = 5" "builtin_cases \<noteq> []"
  by (simp_all add: builtin_cases_def)

lemma evaluate_policy_total:
  assumes "cs \<noteq> []" and "\<forall>c \<in> set cs. isOk (policy (cc_children c))"
  shows "\<exists>r. evaluate_policy name policy cs = Inr r"
  using grade_fold_ok [OF assms(2)] assms(1)
  by (simp add: evaluate_policy_def) (metis bindE_simps(2))

lemma naive_runs: "cs \<noteq> [] \<Longrightarrow> \<exists>r. evaluate_policy name naive cs = Inr r"
  by (rule evaluate_policy_total) (simp_all add: naive_def)

theorem evaluate_policy_graded_witness:
  "\<exists>r. evaluate_policy ''naive_any_done'' naive builtin_cases = Inr r
     \<and> graded (\<lambda>c. accepts naive (cc_children c)) cc_expected_close cc_variant_id builtin_cases r"
proof -
  obtain r where "evaluate_policy ''naive_any_done'' naive builtin_cases = Inr r"
    using naive_runs [OF builtin_cases_length(2)] by blast
  with evaluate_policy_graded [OF this] builtin_cases_length(1) show ?thesis by simp
qed

text \<open>C9.  The closure experiment: when it returns a report, the suite is registered by a valid
  specification, and the regression verdict is PASS exactly when the naive policy misjudges some case
  of the suite and the external guard, loaded from that specification, judges every case as expected.\<close>

theorem run_experiment_verdict:
  assumes "run_experiment cm suite spec = Inr report"
  shows "\<exists>d runtime guard rs. validate_mitigation_spec cm spec ''<mitigation-spec>'' = Inr d
    \<and> get d ''runtime'' = JObj runtime
    \<and> get d ''mitigation_id'' = JStr (cs_mitigation_id suite)
    \<and> get runtime ''safeguard_id'' = JStr (cs_safeguard_id suite)
    \<and> runtime_guard cm d = Inr (guard, rs)
    \<and> (status_of report = JStr ''PASS'' \<longleftrightarrow>
         (\<exists>c \<in> set (cs_cases suite). naive_any_done (cc_children c) \<noteq> cc_expected_close c)
         \<and> (\<forall>c \<in> set (cs_cases suite). treatment_policy cm guard (cc_children c) = Inr (cc_expected_close c)))"
proof -
  from assms obtain d runtime guard rs baseline treatment probe where
    d: "validate_mitigation_spec cm spec ''<mitigation-spec>'' = Inr d" "get d ''runtime'' = JObj runtime"
      "get d ''mitigation_id'' = JStr (cs_mitigation_id suite)"
      "get runtime ''safeguard_id'' = JStr (cs_safeguard_id suite)"
    and g: "runtime_guard cm d = Inr (guard, rs)"
    and t: "evaluate_policy (cs_safeguard_id suite) (treatment_policy cm guard) (cs_cases suite) = Inr treatment"
    and p: "evaluate_policy ''known_bad_regression_probe'' naive (cs_cases suite) = Inr probe"
    and report: "report = experiment_report cm suite guard rs baseline treatment probe"
    unfolding run_experiment_def exc_elims by force
  have "status_of report = JStr ''PASS'' \<longleftrightarrow> pr_failures probe \<noteq> [] \<and> pr_failures treatment = []"
    by (simp add: status_of_def report experiment_report_status) (simp add: get_def)
  moreover have "(\<forall>c \<in> set (cs_cases suite). accepts (treatment_policy cm guard) (cc_children c) = cc_expected_close c)
      \<longleftrightarrow> (\<forall>c \<in> set (cs_cases suite). treatment_policy cm guard (cc_children c) = Inr (cc_expected_close c))"
    using evaluate_policy_failures(3) [OF t] by (intro ball_cong refl) simp
  ultimately show ?thesis
    using d g by (auto simp: evaluate_policy_failures(1) [OF t] evaluate_policy_failures(1) [OF p] wrong_Nil)
qed

text \<open>An experiment returns a report whenever its inputs agree and the guard does not raise.\<close>

lemma run_experiment_returns:
  assumes "validate_mitigation_spec cm spec ''<mitigation-spec>'' = Inr d"
    and "get d ''runtime'' = JObj runtime"
    and "get d ''mitigation_id'' = JStr (cs_mitigation_id suite)"
    and "get runtime ''safeguard_id'' = JStr (cs_safeguard_id suite)"
    and "get d ''regression_cases'' = JArr rs" and "py_in (JStr (cs_case_id suite)) rs"
    and "runtime_guard cm d = Inr (guard, rspec)" and "cs_cases suite \<noteq> []"
    and "\<forall>c \<in> set (cs_cases suite). isOk (treatment_policy cm guard (cc_children c))"
  shows "\<exists>report. run_experiment cm suite spec = Inr report"
proof -
  note run = naive_runs [OF assms(8)] evaluate_policy_total [OF assms(8,9)]
  from run(1) [of "''naive_any_done''"] run(1) [of "''known_bad_regression_probe''"]
    run(2) [of "cs_safeguard_id suite"]
  obtain b p t where "evaluate_policy ''naive_any_done'' naive (cs_cases suite) = Inr b"
    "evaluate_policy ''known_bad_regression_probe'' naive (cs_cases suite) = Inr p"
    "evaluate_policy (cs_safeguard_id suite) (treatment_policy cm guard) (cs_cases suite) = Inr t" by blast
  with assms show ?thesis by (simp add: run_experiment_def)
qed

text \<open>A safeguard that accepts when every child has a terminal status of the specification.\<close>

definition sample_companion :: "(obj, string list) companion" where
  "sample_companion = \<lparr>cm_installed = True, cm_from_mapping = (\<lambda>d. Inr d),
     cm_guard = (\<lambda>d. case get d ''runtime'' of
        JObj r \<Rightarrow> (case get r ''terminal_statuses'' of JArr xs \<Rightarrow> Inr (map py_str xs) | _ \<Rightarrow> Inl (TypeError [])) | _ \<Rightarrow> Inl (TypeError [])),
     cm_evaluate = (\<lambda>g cs. Inr (if list_all (\<lambda>c. upper (ch_status c) \<in> set g) cs then ''ACCEPT'' else ''REJECT'')),
     cm_safeguard_id = (\<lambda>_. ''CM-GUARD-001''), cm_schema_version = (\<lambda>d. py_str (get d ''schema_version'')),
     cm_fingerprint = (\<lambda>_. ''fingerprint''), cm_mitigation_id = (\<lambda>d. py_str (get d ''mitigation_id''))\<rparr>"


text \<open>The specification as validation returns it: the texts first, the statuses sorted.\<close>

definition builtin_normalized :: obj where
  "builtin_normalized = (let d = (case builtin_mitigation_spec of JObj d \<Rightarrow> d | _ \<Rightarrow> []);
       r = (case get d ''runtime'' of JObj r \<Rightarrow> r | _ \<Rightarrow> []);
       pick = (\<lambda>e ks. map (\<lambda>k. (k, get e k)) ks)
     in pick d (spec_text_keys @ [''metrics'', ''regression_cases''])
        @ [(''runtime'', JObj (pick r (runtime_text_keys @ [''terminal_statuses'', ''blocking_statuses''])))])"

lemma builtin_validates:
  "validate_mitigation_spec sample_companion builtin_mitigation_spec ''<mitigation-spec>'' = Inr builtin_normalized"
  by code_simp

lemma builtin_facts:
  "get builtin_normalized ''mitigation_id'' = JStr (cs_mitigation_id builtin_suite)"
  "(case get builtin_normalized ''runtime'' of JObj r \<Rightarrow> get r ''safeguard_id'' | _ \<Rightarrow> JNull)
     = JStr (cs_safeguard_id builtin_suite)"
  "get builtin_normalized ''regression_cases'' = JArr [JStr (cs_case_id builtin_suite)]"
  "runtime_guard sample_companion builtin_normalized = Inr ([''CANCELLED'', ''DONE''], builtin_normalized)"
  by (simp_all add: builtin_normalized_def builtin_mitigation_spec_def spec_text_keys_def runtime_text_keys_def
      get_def builtin_suite_def runtime_guard_def sample_companion_def)

lemma builtin_runs: "\<exists>report. run_experiment sample_companion builtin_suite builtin_mitigation_spec = Inr report"
proof -
  from builtin_facts(2) obtain runtime where "get builtin_normalized ''runtime'' = JObj runtime"
    "get runtime ''safeguard_id'' = JStr (cs_safeguard_id builtin_suite)"
    by (auto split: json.splits)
  then show ?thesis
    by (rule run_experiment_returns [OF builtin_validates _ builtin_facts(1) _ builtin_facts(3) _ builtin_facts(4)])
      (simp_all add: py_in_def builtin_suite_def builtin_cases_length treatment_policy_def sample_companion_def)
qed

theorem run_experiment_verdict_witness:
  "\<exists>report. run_experiment sample_companion builtin_suite builtin_mitigation_spec = Inr report
     \<and> status_of report = JStr ''PASS''"
proof -
  obtain report where r: "run_experiment sample_companion builtin_suite builtin_mitigation_spec = Inr report"
    using builtin_runs by blast
  have naive: "\<exists>c \<in> set (cs_cases builtin_suite). naive_any_done (cc_children c) \<noteq> cc_expected_close c"
    by code_simp
  have guard: "\<forall>c \<in> set (cs_cases builtin_suite).
      treatment_policy sample_companion [''CANCELLED'', ''DONE''] (cc_children c) = Inr (cc_expected_close c)"
    by code_simp
  from run_experiment_verdict [OF r] builtin_validates builtin_facts(4) naive guard r show ?thesis by auto
qed

text \<open>C10.  The uniform constraint gate accepts a candidate exactly when its evidence is SUPPORTED and
  its constraints are a non-empty list of objects whose status is PASS, every one of them.\<close>

theorem constraint_gate_iff:
  "constraint_gate_policy c \<longleftrightarrow> get c ''evidence_state'' = JStr ''SUPPORTED''
     \<and> (\<exists>cs. get c ''constraints'' = JArr cs \<and> cs \<noteq> []
            \<and> (\<forall>v \<in> set cs. \<exists>d. v = JObj d \<and> py_str (get_or d ''status'' (JStr ''UNKNOWN'')) = ''PASS''))"
proof (cases "get c ''constraints''")
  case (JArr cs)
  have "(\<exists>ss. constraint_statuses cs = Some ss \<and> ss \<noteq> [] \<and> list_all (\<lambda>s. s = ''PASS'') ss) \<longleftrightarrow>
      cs \<noteq> [] \<and> (\<forall>v \<in> set cs. \<exists>d. v = JObj d \<and> py_str (get_or d ''status'' (JStr ''UNKNOWN'')) = ''PASS'')"
    (is "?L \<longleftrightarrow> ?R")
  proof
    assume ?L then show ?R
      unfolding constraint_statuses_Some by (fastforce simp: list_all_iff list_all2_conv_all_nth in_set_conv_nth)
  next
    assume R: ?R
    then have "constraint_statuses cs = Some (map (\<lambda>_. ''PASS'') cs)"
      by (fastforce simp: constraint_statuses_Some list_all2_map2 list_all2_same)
    with R show ?L by (auto simp: list_all_iff)
  qed
  with JArr show ?thesis by (auto simp: constraint_gate_policy_def split: option.splits)
qed (auto simp: constraint_gate_policy_def)

theorem constraint_gate_iff_witness:
  "constraint_gate_policy [(''evidence_state'', JStr ''SUPPORTED''),
     (''constraints'', JArr [JObj [(''constraint_id'', JStr ''c''), (''status'', JStr ''PASS'')]])]"
  by (subst constraint_gate_iff) (simp add: get_def get_or_def)

text \<open>C11.  A historical benchmark that loads always runs, and its verdict is PASS exactly when the
  uniform gate judges every case as expected, the confidence-only baseline misjudges exactly as many
  cases as there are rejections, and there are as many rejections as mechanisms.\<close>

theorem historical_benchmark_verdict:
  assumes "load_historical_benchmark path ext txt = Inr suite"
  shows "\<exists>report. run_historical_benchmark suite = Inr report
    \<and> (status_of report = JStr ''PASS'' \<longleftrightarrow>
        (\<forall>c \<in> set (hs_cases suite).
           hc_expected_accept c \<longleftrightarrow> hc_evidence_state c = ''SUPPORTED''
             \<and> (\<forall>p \<in> set (hc_constraints c). snd p = ''PASS''))
        \<and> length (wrong (\<lambda>c. hc_surface_confidence c = ''HIGH'') hc_expected_accept (hs_cases suite))
            = length (hs_mechanisms suite)
        \<and> length (filter (\<lambda>c. \<not> hc_expected_accept c) (hs_cases suite)) = length (hs_mechanisms suite))"
proof -
  let ?cs = "hs_cases suite" and ?n = "length (hs_mechanisms suite)"
  from assms obtain raw raw' where m: "validate_mechanisms raw path = Inr (hs_mechanisms suite)"
    and c: "validate_historical_cases raw' (map me_id (hs_mechanisms suite)) path = Inr ?cs"
    unfolding load_historical_benchmark_def exc_elims by force
  note pairs = validate_historical_cases_ok [OF c]
  from complete_pairs_count [OF pairs] validate_mechanisms_distinct [OF m]
  have n: "length ?cs = 2 * ?n" and "?n \<noteq> 0" by auto
  then have ne: "?cs \<noteq> []" by auto
  obtain b where b: "evaluate_historical_policy ''confidence_only'' confidence_only_baseline ?cs = Inr b"
    "pr_failures b = map hc_variant_id (wrong (\<lambda>c. confidence_only_baseline (hist_case_obj c)) hc_expected_accept ?cs)"
    by (rule evaluate_historical_total [OF ne])
  obtain t where t: "evaluate_historical_policy ''uniform_constraint_gate'' constraint_gate_policy ?cs = Inr t"
    "pr_failures t = map hc_variant_id (wrong (\<lambda>c. constraint_gate_policy (hist_case_obj c)) hc_expected_accept ?cs)"
    by (rule evaluate_historical_total [OF ne])
  obtain report where report: "run_historical_benchmark suite = Inr report"
    and status: "status_of report = pass_fail (regression_pass suite b t)"
    using b(1) t(1) by (simp add: run_historical_benchmark_def status_of_def get_def)
  have gate: "pr_failures t = [] \<longleftrightarrow> (\<forall>c \<in> set ?cs. hc_expected_accept c \<longleftrightarrow> hc_evidence_state c = ''SUPPORTED''
      \<and> (\<forall>p \<in> set (hc_constraints c). snd p = ''PASS''))"
    using pairs by (auto simp: t(2) wrong_Nil constraint_gate_case complete_pairs_def hist_case_ok_def list_all_iff)
  have base: "length (pr_failures b) = length (wrong (\<lambda>c. hc_surface_confidence c = ''HIGH'') hc_expected_accept ?cs)"
    by (simp add: b(2) confidence_only_baseline_def)
  have "length (filter hc_expected_accept ?cs) + length (filter (\<lambda>c. \<not> hc_expected_accept c) ?cs) = 2 * ?n"
    using filter_length_split [of hc_expected_accept ?cs] n by simp
  then have "regression_pass suite b t \<longleftrightarrow> pr_failures t = [] \<and> length (pr_failures b) = ?n
      \<and> length (filter (\<lambda>c. \<not> hc_expected_accept c) ?cs) = ?n"
    by (auto simp: regression_pass_def Let_def)
  with report status gate base show ?thesis by auto
qed

definition sample_benchmark :: json where
  "sample_benchmark = JObj [(''historical_benchmark'', JObj
    [(''benchmark_id'', JStr ''B''),
     (''inputs'', JArr
       [JObj [(''candidate'', JStr ''c''), (''constraints'', JArr [JObj [(''constraint_id'', JStr ''k''), (''status'', JStr ''FAIL'')]]),
              (''evidence_state'', JStr ''SUPPORTED''), (''expected_accept'', JBool False), (''mechanism_id'', JStr ''M''),
              (''scenario'', JStr ''s''), (''surface_confidence'', JStr ''HIGH''), (''variant'', JStr ''TRAP''), (''variant_id'', JStr ''M-T'')],
        JObj [(''candidate'', JStr ''c''), (''constraints'', JArr [JObj [(''constraint_id'', JStr ''k''), (''status'', JStr ''PASS'')]]),
              (''evidence_state'', JStr ''SUPPORTED''), (''expected_accept'', JBool True), (''mechanism_id'', JStr ''M''),
              (''scenario'', JStr ''s''), (''surface_confidence'', JStr ''HIGH''), (''variant'', JStr ''CONTROL''), (''variant_id'', JStr ''M-C'')]]),
     (''mechanisms'', JArr [JObj [(''gate'', JStr ''g''), (''mechanism_id'', JStr ''M''), (''name'', JStr ''n''), (''source_categories'', JStr ''s'')]]),
     (''privacy'', JStr ''PUBLIC_SAFE''), (''run_id'', JStr ''R''),
     (''source_scope'', JObj [(''mechanism_clusters'', JInt 1), (''observations'', JInt 7), (''public_cases'', JInt 2), (''raw_categories'', JInt 3)]),
     (''title'', JStr ''t'')])]"

text \<open>What the loader does with a parsed document, whatever its text.\<close>

definition sample_loaded :: historical_suite where
  "sample_loaded = \<lparr>hs_benchmark_id = ''B'', hs_title = ''t'', hs_run_id = ''R'', hs_privacy = ''PUBLIC_SAFE'',
     hs_source_observations = 7, hs_source_categories = 3,
     hs_mechanisms = [\<lparr>me_id = ''M'', me_name = ''n'', me_gate = ''g'', me_source_categories = ''s''\<rparr>],
     hs_cases = map (\<lambda>(v, t, st, e). \<lparr>hc_variant_id = v, hc_mechanism_id = ''M'', hc_variant = t, hc_scenario = ''s'',
        hc_candidate = ''c'', hc_surface_confidence = ''HIGH'', hc_evidence_state = ''SUPPORTED'',
        hc_constraints = [(''k'', st)], hc_expected_accept = e\<rparr>)
       [(''M-T'', ''TRAP'', ''FAIL'', False), (''M-C'', ''CONTROL'', ''PASS'', True)]\<rparr>"

lemma sample_canon: "canon sample_benchmark = sample_benchmark" "text_ok sample_benchmark"
  by code_simp+

lemma sample_text_loads: "load_historical_benchmark ''b.json'' ''.json'' (json_dumps sample_benchmark) = Inr sample_loaded"
proof -
  have read: "read_case_document ''b.json'' ''.json'' (json_dumps sample_benchmark) = Inr sample_benchmark"
    using loads_dumps [OF sample_canon(2)] sample_canon(1) by (simp add: read_case_document_def lower_def)
  show ?thesis
    unfolding load_historical_benchmark_def read bindE_simps by code_simp
qed

theorem historical_benchmark_verdict_witness:
  "\<exists>report. run_historical_benchmark sample_loaded = Inr report \<and> status_of report = JStr ''PASS''"
proof -
  have "\<forall>c \<in> set (hs_cases sample_loaded). hc_expected_accept c \<longleftrightarrow> hc_evidence_state c = ''SUPPORTED''
      \<and> (\<forall>p \<in> set (hc_constraints c). snd p = ''PASS'')"
    "length (wrong (\<lambda>c. hc_surface_confidence c = ''HIGH'') hc_expected_accept (hs_cases sample_loaded))
       = length (hs_mechanisms sample_loaded)"
    "length (filter (\<lambda>c. \<not> hc_expected_accept c) (hs_cases sample_loaded)) = length (hs_mechanisms sample_loaded)"
    by (simp_all add: sample_loaded_def wrong_def)
  with historical_benchmark_verdict [OF sample_text_loads] show ?thesis by auto
qed

end
