(* ===== verification/Journal.thy ===== *)
theory Journal
  imports Prelude
begin

text \<open>
  The interface of every component that keeps a record of what happened: the experiment
  store, the trace of a search proxy, the resource ledger.  An operation takes the state
  and a request and returns a value or an exception with the next state; the component
  promises that its log is only ever extended and that its invariant survives; some also
  promise that a refused request leaves the log alone, and some that a key names one entry.
  What a client may rely on is proved once from that.
\<close>

text \<open>The state after a sequence of requests, refused ones included.\<close>

definition run_ops :: "('s \<Rightarrow> 'i \<Rightarrow> ('e + 'o) \<times> 's) \<Rightarrow> 's \<Rightarrow> 'i list \<Rightarrow> 's" where
  "run_ops step s is = foldl (\<lambda>s i. snd (step s i)) s is"

lemma run_ops_simps [simp]:
  "run_ops step s [] = s"
  "run_ops step s (i # is) = run_ops step (snd (step s i)) is"
  by (simp_all add: run_ops_def)

lemma run_ops_append: "run_ops step s (is @ js) = run_ops step (run_ops step s is) js"
  by (simp add: run_ops_def)

text \<open>The first entry of a key, the way a primary-key lookup reads a table.\<close>

definition lookup :: "('a \<Rightarrow> 'k) \<Rightarrow> 'k \<Rightarrow> 'a list \<Rightarrow> 'a option" where
  "lookup key k xs = List.find (\<lambda>x. key x = k) xs"

lemma lookup_append_Some: "lookup key k xs = Some v \<Longrightarrow> lookup key k (xs @ ys) = Some v"
  by (induction xs) (auto simp: lookup_def)

lemma lookup_append_None: "lookup key k xs = None \<Longrightarrow> lookup key k (xs @ ys) = lookup key k ys"
  by (induction xs) (auto simp: lookup_def split: if_splits)

lemma lookup_None_iff: "lookup key k xs = None \<longleftrightarrow> k \<notin> key ` set xs"
  by (auto simp: lookup_def find_None_iff)

lemma lookup_Some: "lookup key k xs = Some v \<Longrightarrow> v \<in> set xs \<and> key v = k"
  by (auto simp: lookup_def find_Some_iff)

lemma lookup_distinct: "distinct (map key xs) \<Longrightarrow> v \<in> set xs \<Longrightarrow> lookup key (key v) xs = Some v"
  by (induction xs) (auto simp: lookup_def)

locale journal =
  fixes step :: "'s \<Rightarrow> 'i \<Rightarrow> ('e + 'o) \<times> 's"
    and log :: "'s \<Rightarrow> 'ev list"
    and inv :: "'s \<Rightarrow> bool"
  assumes step_inv: "inv s \<Longrightarrow> inv (snd (step s i))"
    and step_extends: "inv s \<Longrightarrow> \<exists>new. log (snd (step s i)) = log s @ new"
begin

lemma run_inv: "inv s \<Longrightarrow> inv (run_ops step s is)"
  by (induction "is" arbitrary: s) (simp_all add: step_inv)

lemma run_extends: "inv s \<Longrightarrow> \<exists>new. log (run_ops step s is) = log s @ new"
proof (induction "is" arbitrary: s)
  case (Cons i "is")
  from Cons.prems have "inv (snd (step s i))" by (rule step_inv)
  from Cons.IH [OF this] obtain a where "log (run_ops step (snd (step s i)) is) = log (snd (step s i)) @ a" ..
  moreover obtain b where "log (snd (step s i)) = log s @ b" using step_extends [OF Cons.prems] ..
  ultimately show ?case by simp
qed simp

lemma run_length_mono: "inv s \<Longrightarrow> length (log s) \<le> length (log (run_ops step s is))"
  using run_extends [of s "is"] by auto

text \<open>What was read once is read again after any further requests.\<close>

lemma lookup_stable:
  assumes "inv s" and "lookup key k (log s) = Some v"
  shows "lookup key k (log (run_ops step s is)) = Some v"
  using run_extends [OF assms(1), of "is"] lookup_append_Some [OF assms(2)] by auto

lemma entry_stable:
  assumes "inv s" and "n < length (log s)"
  shows "log (run_ops step s is) ! n = log s ! n"
  using run_extends [OF assms(1), of "is"] assms(2) by (auto simp: nth_append)

end

text \<open>A journal that a refused request does not touch.\<close>

locale strict_journal = journal +
  assumes refused_unchanged: "inv s \<Longrightarrow> fst (step s i) = Inl e \<Longrightarrow> log (snd (step s i)) = log s"
begin

lemma grown_means_accepted:
  "inv s \<Longrightarrow> log (snd (step s i)) \<noteq> log s \<Longrightarrow> \<exists>v. fst (step s i) = Inr v"
  using refused_unchanged by (cases "fst (step s i)") auto

lemma all_refused_unchanged:
  assumes "inv s" and "\<And>t i. inv t \<Longrightarrow> log t = log s \<Longrightarrow> i \<in> set is \<Longrightarrow> \<exists>e. fst (step t i) = Inl e"
  shows "log (run_ops step s is) = log s"
  using assms
proof (induction "is" arbitrary: s)
  case (Cons i "is")
  from Cons.prems obtain e where "fst (step s i) = Inl e" by auto
  with refused_unchanged [OF Cons.prems(1)] have same: "log (snd (step s i)) = log s" .
  have "log (run_ops step (snd (step s i)) is) = log (snd (step s i))"
    by (rule Cons.IH) (use Cons.prems same in \<open>auto intro: step_inv\<close>)
  with same show ?case by simp
qed simp

end

text \<open>A journal with a key per entry, whose invariant keeps the keys apart.\<close>

locale keyed_journal = journal +
  fixes key :: "'d \<Rightarrow> 'k"
  assumes inv_distinct: "inv s \<Longrightarrow> distinct (map key (log s))"
begin

lemma lookup_iff: "inv s \<Longrightarrow> lookup key k (log s) = Some v \<longleftrightarrow> v \<in> set (log s) \<and> key v = k"
  using inv_distinct by (auto dest: lookup_Some intro: lookup_distinct)

lemma one_entry_per_key:
  "inv s \<Longrightarrow> v \<in> set (log (run_ops step s is)) \<Longrightarrow> w \<in> set (log (run_ops step s is)) \<Longrightarrow> key v = key w \<Longrightarrow> v = w"
  using inv_distinct [OF run_inv] by (metis distinct_map inj_onD)

end

end
