(* ===== verification/EvalStore.thy ===== *)
theory EvalStore
  imports EvalPolicies Journal "HOL-Library.Product_Lexorder"
begin

text \<open>
  The experiment store of \<open>evaluation_lab.py\<close>: one SQLite table of immutable runs, written
  by \<open>persist_experiment_run\<close> and read by \<open>list_experiment_runs\<close>, \<open>get_experiment_run\<close>
  and the read-only HTTP routes.

  A store file is \<open>None\<close> when it does not exist, and otherwise its \<open>user_version\<close> and
  its table \<open>experiment_runs\<close> (\<open>None\<close> before it is created).  The connection runs DDL
  outside a transaction, so the table and the version survive a refused insert; the insert
  itself is atomic.  SQLite stores a NaN as NULL, which the NOT NULL columns refuse.
\<close>

section \<open>State\<close>

record run_row =
  rr_run_id :: string
  rr_suite :: string
  rr_case_suite_version :: string
  rr_model :: string
  rr_prompt_version :: string
  rr_git_commit :: string
  rr_created_at_utc :: string
  rr_latency_ms :: flt
  rr_token_cost :: flt
  rr_baseline_accuracy :: flt
  rr_treatment_accuracy :: flt
  rr_regression_status :: string
  rr_result_json :: string

record store =
  st_version :: int
  st_table :: "run_row list option"

definition store_schema_version :: int where
  "store_schema_version = 1"

definition rows :: "store option \<Rightarrow> run_row list" where
  "rows f = (case f of None \<Rightarrow> [] | Some s \<Rightarrow> (case st_table s of None \<Rightarrow> [] | Some t \<Rightarrow> t))"

definition initialize_store :: "store option \<Rightarrow> store result" where
  "initialize_store f =
     (let version = (case f of None \<Rightarrow> 0 | Some s \<Rightarrow> st_version s) in
      if version \<notin> {0, store_schema_version}
      then Inl (ValueError (''unsupported experiment store schema version '' @ show_int version))
      else Inr \<lparr>st_version = (if version = 0 then store_schema_version else version), st_table = Some (rows f)\<rparr>)"

definition open_read_only_store :: "store option \<Rightarrow> run_row list result" where
  "open_read_only_store f = (case f of
      None \<Rightarrow> Inl (ValueError ''experiment store does not exist'')
    | Some s \<Rightarrow>
        if st_version s \<noteq> store_schema_version
        then Inl (ValueError (''unsupported experiment store schema version '' @ show_int (st_version s)))
        else (case st_table s of
            None \<Rightarrow> Inl (ValueError ''experiment store is missing experiment_runs'')
          | Some t \<Rightarrow> Inr t))"

section \<open>Writing a run\<close>

definition policy_accuracy :: "obj \<Rightarrow> string \<Rightarrow> flt result" where
  "policy_accuracy result key = (case get result key of
      JObj policy \<Rightarrow> (case get policy ''accuracy'' of
          JInt i \<Rightarrow> int_to_float i
        | JFloat f \<Rightarrow> Inr f
        | _ \<Rightarrow> Inl (ValueError (''result '' @ py_repr key @ '' accuracy must be numeric'')))
    | _ \<Rightarrow> Inl (ValueError (''result is missing '' @ py_repr key @ '' policy metrics'')))"

fun negative :: "flt \<Rightarrow> bool" where
  "negative (Fin x) = (x < 0)"
| "negative NInf = True"
| "negative _ = False"

text \<open>The arguments of one call; \<open>pq_now\<close> is what the clock would answer.\<close>

record persist_request =
  pq_result :: obj
  pq_suite :: string
  pq_model :: string
  pq_prompt_version :: string
  pq_git_commit :: string
  pq_latency_ms :: flt
  pq_token_cost :: flt
  pq_created_at_utc :: "string option"
  pq_now :: string

definition or_text :: "json \<Rightarrow> json \<Rightarrow> json" where
  "or_text a b = (if truthy a then a else b)"

definition check_labels :: "(string \<times> string) list \<Rightarrow> unit result" where
  "check_labels xs = bindE (mapE (\<lambda>(label, v).
      if blank v then Inl (ValueError (label @ '' must be a non-empty string'')) else Inr ()) xs) (\<lambda>_. Inr ())"

definition row_of_request :: "persist_request \<Rightarrow> run_row result" where
  "row_of_request q =
     (let result = pq_result q;
          run_id = strip (py_str (get_or result ''run_id'' (JStr []))) in
      if run_id = [] then Inl (ValueError ''result run_id must be a non-empty string'')
      else if pq_suite q \<notin> {''closure'', ''historical''}
      then Inl (ValueError (''unsupported suite '' @ py_repr (pq_suite q)))
      else bindE (check_labels [(''model'', pq_model q), (''prompt_version'', pq_prompt_version q),
                                (''git_commit'', pq_git_commit q)]) (\<lambda>_.
      if negative (pq_latency_ms q) \<or> negative (pq_token_cost q)
      then Inl (ValueError ''latency_ms and token_cost must be non-negative'')
      else
      let version = strip (py_str (or_text (get result ''benchmark_id'')
                      (or_text (get result ''case_id'') (JStr [])))) in
      if version = [] then Inl (ValueError ''result is missing case-suite identity'')
      else (case get result ''regression'' of
          JObj regression \<Rightarrow>
            (let status = strip (py_str (get_or regression ''status'' (JStr []))) in
             if status = [] then Inl (ValueError ''result regression status must be non-empty'')
             else bindE (policy_accuracy result ''baseline'') (\<lambda>baseline.
                  bindE (policy_accuracy result ''treatment'') (\<lambda>treatment.
                  Inr \<lparr>rr_run_id = run_id, rr_suite = pq_suite q, rr_case_suite_version = version,
                       rr_model = strip (pq_model q), rr_prompt_version = strip (pq_prompt_version q),
                       rr_git_commit = strip (pq_git_commit q),
                       rr_created_at_utc = (case pq_created_at_utc q of
                           Some c \<Rightarrow> if c = [] then pq_now q else c | None \<Rightarrow> pq_now q),
                       rr_latency_ms = pq_latency_ms q, rr_token_cost = pq_token_cost q,
                       rr_baseline_accuracy = baseline, rr_treatment_accuracy = treatment,
                       rr_regression_status = status, rr_result_json = json_dumps (JObj result)\<rparr>)))
        | _ \<Rightarrow> Inl (ValueError ''result is missing regression status''))))"

text \<open>The metadata a caller gets back, which is also what the table holds beside the payload.\<close>

definition row_obj :: "run_row \<Rightarrow> obj" where
  "row_obj r =
    [(''run_id'', JStr (rr_run_id r)), (''suite'', JStr (rr_suite r)),
     (''case_suite_version'', JStr (rr_case_suite_version r)), (''model'', JStr (rr_model r)),
     (''prompt_version'', JStr (rr_prompt_version r)), (''git_commit'', JStr (rr_git_commit r)),
     (''created_at_utc'', JStr (rr_created_at_utc r)), (''latency_ms'', JFloat (rr_latency_ms r)),
     (''token_cost'', JFloat (rr_token_cost r)), (''baseline_accuracy'', JFloat (rr_baseline_accuracy r)),
     (''treatment_accuracy'', JFloat (rr_treatment_accuracy r)),
     (''regression_status'', JStr (rr_regression_status r))]"

text \<open>\<open>sqlite3.IntegrityError\<close>: the primary key is taken, or a NOT NULL column would be NULL.\<close>

definition integrity_error :: "run_row list \<Rightarrow> run_row \<Rightarrow> bool" where
  "integrity_error t r \<longleftrightarrow> rr_run_id r \<in> rr_run_id ` set t
     \<or> NaN \<in> {rr_latency_ms r, rr_token_cost r, rr_baseline_accuracy r, rr_treatment_accuracy r}"

definition persist_experiment_run :: "store option \<Rightarrow> persist_request \<Rightarrow> obj result \<times> store option" where
  "persist_experiment_run f q = (case row_of_request q of
      Inl e \<Rightarrow> (Inl e, f)
    | Inr row \<Rightarrow> (case initialize_store f of
          Inl e \<Rightarrow> (Inl e, f)
        | Inr s \<Rightarrow>
            if integrity_error (rows (Some s)) row
            then (Inl (ValueError (''experiment run '' @ py_repr (rr_run_id row) @ '' already exists'')), Some s)
            else (Inr (row_obj row), Some (s\<lparr>st_table := Some (rows (Some s) @ [row])\<rparr>))))"

section \<open>Reading runs\<close>

definition newest_first :: "run_row list \<Rightarrow> run_row list" where
  "newest_first t = rev (sort_key (\<lambda>r. (rr_created_at_utc r, rr_run_id r)) t)"

definition list_experiment_runs :: "store option \<Rightarrow> int \<Rightarrow> obj list result" where
  "list_experiment_runs f limit =
     (if limit < 1 \<or> 1000 < limit then Inl (ValueError ''run list limit must be between 1 and 1000'')
      else bindE (open_read_only_store f) (\<lambda>t. Inr (map row_obj (take (nat limit) (newest_first t)))))"

definition get_experiment_run :: "store option \<Rightarrow> string \<Rightarrow> obj option result" where
  "get_experiment_run f run_id =
     (if blank run_id then Inl (ValueError ''run_id must be a non-empty string'')
      else bindE (open_read_only_store f) (\<lambda>t. case lookup rr_run_id (strip run_id) t of
          None \<Rightarrow> Inr None
        | Some r \<Rightarrow> bindE (json_loads (rr_result_json r)) (\<lambda>v. Inr (Some (row_obj r @ [(''result'', v)])))))"

section \<open>The HTTP routes\<close>

datatype response = Response (http_status: nat) (http_body: json)

definition unavailable :: "exc \<Rightarrow> response" where
  "unavailable e = Response 503 (JObj [(''detail'', JStr (exc_msg e))])"

definition healthz :: "store option \<Rightarrow> response" where
  "healthz f = (case open_read_only_store f of
      Inl e \<Rightarrow> unavailable e
    | Inr _ \<Rightarrow> Response 200 (JObj
        [(''status'', JStr ''ok''), (''service'', JStr ''llm-evaluation-lab''), (''read_only'', JBool True),
         (''store_schema_version'', JInt store_schema_version)]))"

text \<open>\<open>Query(default=20, ge=1, le=1000)\<close> is checked before the handler runs.\<close>

definition runs_route :: "store option \<Rightarrow> int option \<Rightarrow> response" where
  "runs_route f query =
     (let limit = (case query of None \<Rightarrow> 20 | Some n \<Rightarrow> n) in
      if limit < 1 \<or> 1000 < limit then Response 422 JNull
      else (case list_experiment_runs f limit of
          Inl e \<Rightarrow> unavailable e
        | Inr os \<Rightarrow> Response 200 (JArr (map JObj os))))"


section \<open>The store as a journal\<close>

definition store_ok :: "store option \<Rightarrow> bool" where
  "store_ok f \<longleftrightarrow> distinct (map rr_run_id (rows f))
     \<and> (\<forall>r \<in> set (rows f). rr_run_id r \<noteq> [] \<and> strip (rr_run_id r) = rr_run_id r)"

lemma initialize_store_rows:
  "initialize_store f = Inr s \<Longrightarrow> rows (Some s) = rows f \<and> st_version s = store_schema_version"
  by (auto simp: initialize_store_def rows_def Let_def split: if_splits)

lemma rows_table [simp]: "rows (Some (s\<lparr>st_table := Some t\<rparr>)) = t"
  by (simp add: rows_def)

lemma row_of_request_run_id:
  assumes "row_of_request q = Inr r"
  shows "rr_run_id r = strip (py_str (get_or (pq_result q) ''run_id'' (JStr [])))" and "rr_run_id r \<noteq> []"
    and "rr_result_json r = json_dumps (JObj (pq_result q))"
  using assms unfolding row_of_request_def Let_def exc_elims by auto

lemma persist_cases:
  obtains (refused) e where "fst (persist_experiment_run f q) = Inl e"
      and "rows (snd (persist_experiment_run f q)) = rows f"
  | (stored) r s where "persist_experiment_run f q = (Inr (row_obj r), Some (s\<lparr>st_table := Some (rows f @ [r])\<rparr>))"
      and "row_of_request q = Inr r" and "st_version s = store_schema_version"
      and "rr_run_id r \<notin> rr_run_id ` set (rows f)"
proof (cases "row_of_request q")
  case (Inl e)
  then show thesis by (intro refused) (simp_all add: persist_experiment_run_def)
next
  case r: (Inr r)
  show thesis
  proof (cases "initialize_store f")
    case (Inl e)
    with r show thesis by (intro refused) (simp_all add: persist_experiment_run_def)
  next
    case (Inr s)
    note i = initialize_store_rows [OF Inr]
    show thesis
    proof (cases "integrity_error (rows (Some s)) r")
      case True
      with r Inr i show thesis by (intro refused) (simp_all add: persist_experiment_run_def)
    next
      case False
      with r Inr i show thesis
        by (intro stored) (auto simp: persist_experiment_run_def integrity_error_def)
    qed
  qed
qed

interpretation runs: keyed_journal persist_experiment_run rows store_ok rr_run_id
proof
  fix s i
  assume ok: "store_ok s"
  show "store_ok (snd (persist_experiment_run s i))"
    by (rule persist_cases [of s i]) (use ok in \<open>auto simp: store_ok_def dest: row_of_request_run_id\<close>)
  show "\<exists>new. rows (snd (persist_experiment_run s i)) = rows s @ new"
    by (rule persist_cases [of s i]) auto
next
  show "distinct (map rr_run_id (rows s))" if "store_ok s" for s
    using that by (simp add: store_ok_def)
qed

interpretation runs: strict_journal persist_experiment_run rows store_ok
proof
  fix s i e
  assume "store_ok s" and e: "fst (persist_experiment_run s i) = Inl e"
  show "rows (snd (persist_experiment_run s i)) = rows s"
    by (rule persist_cases [of s i]) (use e in auto)
qed

section \<open>Reading what was written\<close>

lemma open_store_rows: "open_read_only_store f = Inr t \<Longrightarrow> rows f = t"
  by (auto simp: open_read_only_store_def rows_def split: option.splits if_splits)

lemma open_after_persist:
  assumes "open_read_only_store f = Inr t"
  shows "open_read_only_store (snd (persist_experiment_run f q)) = Inr (rows (snd (persist_experiment_run f q)))"
proof -
  from assms obtain s where f: "f = Some s" "st_version s = store_schema_version" "st_table s = Some t"
    by (auto simp: open_read_only_store_def split: option.splits if_splits)
  then show ?thesis
    by (auto simp: persist_experiment_run_def initialize_store_def open_read_only_store_def rows_def
        store_schema_version_def Let_def split: sum.splits)
qed

lemma open_after_run:
  "open_read_only_store f = Inr t \<Longrightarrow>
     open_read_only_store (run_ops persist_experiment_run f qs) = Inr (rows (run_ops persist_experiment_run f qs))"
proof (induction qs arbitrary: f t)
  case (Cons q qs)
  from Cons.IH [OF open_after_persist [OF Cons.prems]] show ?case by simp
qed (simp add: open_store_rows)

lemma newest_first_sorted:
  "sorted_wrt (\<lambda>a b. (rr_created_at_utc b, rr_run_id b) \<le> (rr_created_at_utc a, rr_run_id a)) (newest_first t)"
  unfolding newest_first_def sorted_wrt_rev
  using sorted_sort_key [of "\<lambda>r. (rr_created_at_utc r, rr_run_id r)" t] by (simp only: sorted_map)

lemma row_obj_hides_result: "\<not> has_key (row_obj r) ''result_json'' \<and> \<not> has_key (row_obj r) ''result''"
  by (simp add: has_key_def row_obj_def)

definition request_id :: "persist_request \<Rightarrow> string" where
  "request_id q = strip (py_str (get_or (pq_result q) ''run_id'' (JStr [])))"

section \<open>Properties\<close>

text \<open>C12.  A run that was stored is read back under its id with the metadata the writer was given and
  with its result in canonical form, and it is still read back so after any further requests,
  accepted or refused.\<close>

theorem persisted_run_is_read_back:
  assumes "store_ok f" and "persist_experiment_run f q = (Inr metadata, f')"
    and "text_ok (JObj (pq_result q))"
  shows "get_experiment_run (run_ops persist_experiment_run f' qs) (request_id q)
    = Inr (Some (metadata @ [(''result'', canon (JObj (pq_result q)))]))"
proof (rule persist_cases [of f q])
  fix e assume "fst (persist_experiment_run f q) = Inl e"
  with assms(2) show ?thesis by simp
next
  fix r s
  assume p: "persist_experiment_run f q = (Inr (row_obj r), Some (s\<lparr>st_table := Some (rows f @ [r])\<rparr>))"
    and row: "row_of_request q = Inr r" and v: "st_version s = store_schema_version"
    and new: "rr_run_id r \<notin> rr_run_id ` set (rows f)"
  note id = row_of_request_run_id [OF row]
  from p assms(2) have m: "metadata = row_obj r" and f': "f' = Some (s\<lparr>st_table := Some (rows f @ [r])\<rparr>)" by auto
  have "open_read_only_store f' = Inr (rows f')" using v by (simp add: f' open_read_only_store_def)
  from open_after_run [OF this] have "open_read_only_store (run_ops persist_experiment_run f' qs)
    = Inr (rows (run_ops persist_experiment_run f' qs))" .
  moreover have "lookup rr_run_id (rr_run_id r) (rows f') = Some r"
    using new lookup_append_None [of rr_run_id "rr_run_id r" "rows f" "[r]"]
    by (simp add: f' lookup_None_iff) (simp add: lookup_def)
  then have "lookup rr_run_id (rr_run_id r) (rows (run_ops persist_experiment_run f' qs)) = Some r"
    using runs.lookup_stable [OF runs.step_inv [OF assms(1), of q]] assms(2) by simp
  moreover have "request_id q = rr_run_id r" by (simp add: request_id_def id(1))
  moreover have "strip (rr_run_id r) = rr_run_id r" by (simp add: id(1))
  ultimately show ?thesis
    using id(2,3) by (simp add: get_experiment_run_def blank_def m loads_dumps [OF assms(3)])
qed

definition sample_request :: persist_request where
  "sample_request = \<lparr>pq_result =
      [(''run_id'', JStr '' RUN-1 ''), (''case_id'', JStr ''C''), (''regression'', JObj [(''status'', JStr ''PASS'')]),
       (''baseline'', JObj [(''accuracy'', JFloat (Fin 0))]), (''treatment'', JObj [(''accuracy'', JFloat (Fin 0))])],
     pq_suite = ''closure'', pq_model = ''m'', pq_prompt_version = ''none'', pq_git_commit = ''unknown'',
     pq_latency_ms = Fin 3, pq_token_cost = Fin 0, pq_created_at_utc = Some ''2026-01-01T00:00:00Z'', pq_now = []\<rparr>"

lemma sample_request_stored:
  "\<exists>metadata f'. persist_experiment_run None sample_request = (Inr metadata, f')"
proof -
  have "isOk (fst (persist_experiment_run None sample_request))" by code_simp
  then show ?thesis by (cases "persist_experiment_run None sample_request") (auto simp: isOk_iff)
qed

lemma empty_store_ok: "store_ok None"
  by (simp add: store_ok_def rows_def)

theorem persisted_run_is_read_back_witness:
  "\<exists>metadata f'. persist_experiment_run None sample_request = (Inr metadata, f')
     \<and> get_experiment_run (run_ops persist_experiment_run f' [sample_request]) ''RUN-1''
       = Inr (Some (metadata @ [(''result'', canon (JObj (pq_result sample_request)))]))"
proof -
  obtain metadata f' where p: "persist_experiment_run None sample_request = (Inr metadata, f')"
    using sample_request_stored by blast
  have "text_ok (JObj (pq_result sample_request))" "request_id sample_request = ''RUN-1''" by code_simp+
  with persisted_run_is_read_back [OF empty_store_ok p, of "[sample_request]"] p show ?thesis by auto
qed

text \<open>C13.  Stored runs are immutable and their ids unique: from any well-formed store, whatever
  requests follow, the rows already there keep their places and contents, no id occurs twice, and a
  request whose id is taken is refused without touching the rows.\<close>

theorem stored_runs_immutable:
  assumes "store_ok f"
  shows "\<exists>new. rows (run_ops persist_experiment_run f qs) = rows f @ new
    \<and> distinct (map rr_run_id (rows (run_ops persist_experiment_run f qs)))
    \<and> (\<forall>q. request_id q \<in> rr_run_id ` set (rows (run_ops persist_experiment_run f qs)) \<longrightarrow>
         (\<exists>e. fst (persist_experiment_run (run_ops persist_experiment_run f qs) q) = Inl e)
         \<and> rows (snd (persist_experiment_run (run_ops persist_experiment_run f qs) q))
             = rows (run_ops persist_experiment_run f qs))"
proof -
  let ?g = "run_ops persist_experiment_run f qs"
  have "(\<exists>e. fst (persist_experiment_run ?g q) = Inl e) \<and> rows (snd (persist_experiment_run ?g q)) = rows ?g"
    if "request_id q \<in> rr_run_id ` set (rows ?g)" for q
    by (rule persist_cases [of ?g q]) (use that in \<open>auto simp: request_id_def dest: row_of_request_run_id(1)\<close>)
  with runs.run_extends [OF assms] runs.inv_distinct [OF runs.run_inv [OF assms]] show ?thesis by blast
qed

text \<open>A store with one run, and a second request.\<close>

definition second_request :: persist_request where
  "second_request = sample_request\<lparr>pq_result := (''run_id'', JStr ''RUN-2'') # tl (pq_result sample_request)\<rparr>"

lemma sample_store:
  obtains metadata f r where "persist_experiment_run None sample_request = (Inr metadata, f)" and "store_ok f"
    and "rows f = [r]" and "row_of_request sample_request = Inr r" and "open_read_only_store f = Inr [r]"
    and "map rr_run_id (rows (snd (persist_experiment_run f second_request))) = [''RUN-1'', ''RUN-2'']"
proof -
  obtain metadata f where p: "persist_experiment_run None sample_request = (Inr metadata, f)"
    using sample_request_stored by blast
  have "map rr_run_id (rows (snd (persist_experiment_run (snd (persist_experiment_run None sample_request)) second_request)))
      = [''RUN-1'', ''RUN-2'']" by code_simp
  then have second: "map rr_run_id (rows (snd (persist_experiment_run f second_request))) = [''RUN-1'', ''RUN-2'']" by (simp add: p)
  have "store_ok f" using runs.step_inv [OF empty_store_ok, of sample_request] by (simp add: p)
  with second p that show thesis
    by (cases rule: persist_cases [of None sample_request]) (auto simp: rows_def open_read_only_store_def)
qed


theorem stored_runs_immutable_witness:
  "\<exists>metadata f r new. persist_experiment_run None sample_request = (Inr metadata, f) \<and> rows f = [r]
     \<and> rows (run_ops persist_experiment_run f [second_request]) = [r, new] \<and> rr_run_id r \<noteq> rr_run_id new
     \<and> (\<exists>e. fst (persist_experiment_run (run_ops persist_experiment_run f [second_request]) sample_request) = Inl e)
     \<and> rows (snd (persist_experiment_run (run_ops persist_experiment_run f [second_request]) sample_request)) = [r, new]"
proof -
  obtain metadata f r where s: "persist_experiment_run None sample_request = (Inr metadata, f)" "store_ok f"
    "rows f = [r]" "row_of_request sample_request = Inr r"
    "map rr_run_id (rows (snd (persist_experiment_run f second_request))) = [''RUN-1'', ''RUN-2'']"
    by (rule sample_store)
  let ?g = "run_ops persist_experiment_run f [second_request]"
  note th = stored_runs_immutable [OF s(2), of "[second_request]"]
  from th s(3,5) obtain new where new: "rows ?g = [r, new]" by (auto simp: map_eq_Cons_conv)
  have "request_id sample_request = rr_run_id r" using row_of_request_run_id(1) [OF s(4)] by (simp add: request_id_def)
  then have taken: "request_id sample_request \<in> rr_run_id ` set (rows ?g)" unfolding new by simp
  have "(\<exists>e. fst (persist_experiment_run ?g sample_request) = Inl e)
      \<and> rows (snd (persist_experiment_run ?g sample_request)) = rows ?g" using th taken by blast
  moreover have "distinct (map rr_run_id [r, new])" using th unfolding new by blast
  ultimately show ?thesis using s(1,3) new by auto
qed

text \<open>C14.  Listing answers with at most the requested number of runs (which must lie between 1 and
  1000), newest first by creation time and then by id, the newest ones of the store, and never with
  their result payloads.\<close>

theorem list_runs_newest_first:
  assumes "list_experiment_runs f limit = Inr os"
  shows "1 \<le> limit \<and> limit \<le> 1000 \<and> (\<exists>order. mset order = mset (rows f)
    \<and> sorted_wrt (\<lambda>a b. (rr_created_at_utc b, rr_run_id b) \<le> (rr_created_at_utc a, rr_run_id a)) order
    \<and> os = map row_obj (take (nat limit) order))
    \<and> (\<forall>d \<in> set os. \<not> has_key d ''result'' \<and> \<not> has_key d ''result_json'')"
proof -
  from assms obtain t where t: "open_read_only_store f = Inr t" "1 \<le> limit" "limit \<le> 1000"
    and os: "os = map row_obj (take (nat limit) (newest_first t))"
    by (auto simp: list_experiment_runs_def bindE_eq_Inr)
  have "mset (newest_first t) = mset (rows f)" using open_store_rows [OF t(1)] by (simp add: newest_first_def)
  with newest_first_sorted t(2,3) os show ?thesis by (auto simp: row_obj_hides_result)
qed

theorem list_runs_newest_first_witness:
  "\<exists>metadata f os. persist_experiment_run None sample_request = (Inr metadata, f)
     \<and> list_experiment_runs f 20 = Inr os \<and> length os = 1 \<and> (\<forall>d \<in> set os. \<not> has_key d ''result_json'')"
proof -
  obtain metadata f r where s: "persist_experiment_run None sample_request = (Inr metadata, f)"
    "rows f = [r]" "open_read_only_store f = Inr [r]" by (rule sample_store)
  then have l: "list_experiment_runs f 20 = Inr [row_obj r]"
    by (simp add: list_experiment_runs_def newest_first_def)
  with list_runs_newest_first [OF l] s(1) show ?thesis by auto
qed





end
