(* ===== verification/CupContracts.thy ===== *)
theory CupContracts
  imports JsonText Sha256
begin

text \<open>
  The immutable contracts of the search cup (\<open>search_cup/contracts.py\<close>): candidate card,
  competition specification, requests, leads, submissions, frozen submissions and the
  judge's registry snapshot.  Documents are JSON objects; a frozen dataclass is a record,
  and the checks of its \<open>__post_init__\<close> are a function that returns the record or the
  exception.  Every fingerprint is the SHA-256 of the canonical JSON text.
\<close>

section \<open>Canonical content\<close>

definition canonical_json :: "json \<Rightarrow> string" where
  "canonical_json v = json_dumps v"

definition fingerprint :: "json \<Rightarrow> string" where
  "fingerprint v = sha256_text (canonical_json v)"

section \<open>Field readers\<close>

definition cup_required_text :: "json \<Rightarrow> string \<Rightarrow> string result" where
  "cup_required_text v label = (case v of
      JStr s \<Rightarrow> if blank s then Inl (ValueError (label @ '' must be a non-empty string'')) else Inr (strip s)
    | _ \<Rightarrow> Inl (ValueError (label @ '' must be a non-empty string'')))"

definition cup_required_bool :: "json \<Rightarrow> string \<Rightarrow> bool result" where
  "cup_required_bool v label = (case v of
      JBool b \<Rightarrow> Inr b | _ \<Rightarrow> Inl (ValueError (label @ '' must be boolean'')))"

definition cup_string_tuple :: "json \<Rightarrow> string \<Rightarrow> bool \<Rightarrow> string list result" where
  "cup_string_tuple v label allow_empty = (case v of
      JArr xs \<Rightarrow>
        bindE (mapE (\<lambda>x. cup_required_text x (label @ ''[]'')) xs) (\<lambda>ss.
        if ss = [] \<and> \<not> allow_empty then Inl (ValueError (label @ '' must not be empty'')) else Inr ss)
    | _ \<Rightarrow> Inl (ValueError (label @ '' must be an array'')))"

abbreviation text_field :: "obj \<Rightarrow> string \<Rightarrow> string result" where
  "text_field d k \<equiv> cup_required_text (get d k) k"

lemma cup_required_text_Inr [exc_elims]:
  "cup_required_text v label = Inr t \<longleftrightarrow> (\<exists>s. v = JStr s \<and> \<not> blank s \<and> t = strip s)"
  by (auto simp: cup_required_text_def split: json.splits)

lemma cup_required_bool_Inr [exc_elims]:
  "cup_required_bool v label = Inr b \<longleftrightarrow> v = JBool b"
  by (auto simp: cup_required_bool_def split: json.splits)

lemma cup_string_tuple_Inr [exc_elims]:
  "cup_string_tuple v label e = Inr ss \<longleftrightarrow> (\<exists>xs. v = JArr xs
     \<and> list_all2 (\<lambda>x t. \<exists>s. x = JStr s \<and> \<not> blank s \<and> t = strip s) xs ss \<and> (ss = [] \<longrightarrow> e))"
  by (auto simp: cup_string_tuple_def exc_elims split: json.splits)

lemma cup_required_text_normal [simp]: "normal_text s \<Longrightarrow> cup_required_text (JStr s) l = Inr s"
  by (simp add: cup_required_text_def normal_text_def blank_def)

lemma cup_required_bool_JBool [simp]: "cup_required_bool (JBool b) l = Inr b"
  by (simp add: cup_required_bool_def)

lemma cup_string_tuple_normal [simp]:
  "list_all normal_text ss \<Longrightarrow> ss \<noteq> [] \<or> e \<Longrightarrow> cup_string_tuple (JArr (map JStr ss)) l e = Inr ss"
  by (auto simp: cup_string_tuple_Inr list_all2_map1 list_all2_same list_all_iff normal_text_def blank_def)

lemma cup_string_tuple_result:
  "cup_string_tuple v l e = Inr ss \<Longrightarrow> list_all normal_text ss \<and> (ss \<noteq> [] \<or> e)"
  by (fastforce simp: cup_string_tuple_Inr list_all_iff list_all2_conv_all_nth in_set_conv_nth)

section \<open>Private fields\<close>

definition forbidden_candidate_keys :: "string list" where
  "forbidden_candidate_keys = [''account_data'', ''credentials'', ''family'', ''financial'', ''google_drive'',
     ''health'', ''l0'', ''private_archive'', ''raw'', ''relationship'']"

definition forbidden_key :: "string \<Rightarrow> bool" where
  "forbidden_key k \<longleftrightarrow> lower (strip k) \<in> set forbidden_candidate_keys"

fun scan_forbidden_keys :: "json \<Rightarrow> string \<Rightarrow> unit result"
  and scan_items :: "(string \<times> json) list \<Rightarrow> string \<Rightarrow> unit result"
  and scan_elements :: "json list \<Rightarrow> nat \<Rightarrow> string \<Rightarrow> unit result" where
  "scan_forbidden_keys (JObj d) path = scan_items d path"
| "scan_forbidden_keys (JArr xs) path = scan_elements xs 0 path"
| "scan_forbidden_keys _ path = Inr ()"
| "scan_items [] path = Inr ()"
| "scan_items ((k, v) # d) path =
     (if forbidden_key k then Inl (ValueError (path @ ''.'' @ k @ '': private field is not allowed''))
      else bindE (scan_forbidden_keys v (path @ ''.'' @ k)) (\<lambda>_. scan_items d path))"
| "scan_elements [] i path = Inr ()"
| "scan_elements (v # xs) i path =
     bindE (scan_forbidden_keys v (path @ ''['' @ show_nat i @ '']'')) (\<lambda>_. scan_elements xs (Suc i) path)"

text \<open>The keys that occur anywhere inside a document.\<close>

inductive key_within :: "string \<Rightarrow> json \<Rightarrow> bool" where
  here: "(k, v) \<in> set d \<Longrightarrow> key_within k (JObj d)"
| field: "(j, v) \<in> set d \<Longrightarrow> key_within k v \<Longrightarrow> key_within k (JObj d)"
| element: "v \<in> set xs \<Longrightarrow> key_within k v \<Longrightarrow> key_within k (JArr xs)"

inductive_cases key_within_JObj [elim!]: "key_within k (JObj d)"
inductive_cases key_within_JArr [elim!]: "key_within k (JArr xs)"
inductive_cases key_within_leaf [elim!]:
  "key_within k JNull" "key_within k (JBool b)" "key_within k (JInt i)" "key_within k (JFloat f)" "key_within k (JStr s)"

lemma scan_iff:
  "scan_forbidden_keys v p = Inr () \<longleftrightarrow> (\<forall>k. key_within k v \<longrightarrow> \<not> forbidden_key k)"
  "scan_items d p = Inr () \<longleftrightarrow> (\<forall>k w. (k, w) \<in> set d \<longrightarrow> \<not> forbidden_key k \<and> (\<forall>j. key_within j w \<longrightarrow> \<not> forbidden_key j))"
  "scan_elements xs i p = Inr () \<longleftrightarrow> (\<forall>w \<in> set xs. \<forall>j. key_within j w \<longrightarrow> \<not> forbidden_key j)"
  by (induction v p and d p and xs i p rule: scan_forbidden_keys_scan_items_scan_elements.induct)
    (auto simp: bindE_eq_Inr intro: key_within.intros)

record candidate_card =
  cd_canonical_content :: string
  cd_fingerprint :: string

definition is_obj :: "json \<Rightarrow> bool" where
  "is_obj v = (case v of JObj _ \<Rightarrow> True | _ \<Rightarrow> False)"

definition candidate_from_mapping :: "obj \<Rightarrow> candidate_card result" where
  "candidate_from_mapping d =
     bindE (scan_forbidden_keys (JObj d) ''candidate'') (\<lambda>_.
     bindE (text_field d ''candidate_id'') (\<lambda>_.
     bindE (text_field d ''legal_name'') (\<lambda>_.
     bindE (text_field d ''technical_name'') (\<lambda>_.
     if \<not> list_all (\<lambda>k. is_obj (get d k)) [''base'', ''languages'', ''current_positioning'', ''current_target_roles'']
     then Inl (ValueError ''candidate card is missing a required profile section'')
     else Inr \<lparr>cd_canonical_content = canonical_json (JObj d),
               cd_fingerprint = sha256_text (canonical_json (JObj d))\<rparr>))))"

definition candidate_load :: "string \<Rightarrow> candidate_card result" where
  "candidate_load text = bindE (json_loads text) (\<lambda>doc. case doc of
      JObj d \<Rightarrow> candidate_from_mapping d
    | _ \<Rightarrow> Inl (ValueError ''candidate card must be a JSON object''))"

section \<open>The competition\<close>

record entrant_config =
  en_entrant_id :: string
  en_provider :: string
  en_exact_model_id :: string
  en_endpoint_mode :: string
  en_sampling_json :: string

definition entrant_from_mapping :: "obj \<Rightarrow> entrant_config result" where
  "entrant_from_mapping d = (case get_or d ''sampling'' (JObj []) of
      JObj sampling \<Rightarrow>
        bindE (text_field d ''entrant_id'') (\<lambda>eid.
        bindE (text_field d ''provider'') (\<lambda>provider.
        bindE (text_field d ''exact_model_id'') (\<lambda>model.
        bindE (text_field d ''endpoint_mode'') (\<lambda>mode.
        Inr \<lparr>en_entrant_id = eid, en_provider = provider, en_exact_model_id = model,
             en_endpoint_mode = mode, en_sampling_json = canonical_json (JObj sampling)\<rparr>))))
    | _ \<Rightarrow> Inl (ValueError ''entrant sampling must be an object''))"

definition entrant_as_dict :: "entrant_config \<Rightarrow> obj result" where
  "entrant_as_dict e = bindE (json_loads (en_sampling_json e)) (\<lambda>sampling.
     Inr [(''entrant_id'', JStr (en_entrant_id e)), (''provider'', JStr (en_provider e)),
          (''exact_model_id'', JStr (en_exact_model_id e)), (''endpoint_mode'', JStr (en_endpoint_mode e)),
          (''sampling'', sampling)])"

record competition_spec =
  co_competition_id :: string
  co_task :: string
  co_max_search_calls :: int
  co_search_backend_id :: string
  co_official_match_authorized :: bool
  co_entrants :: "entrant_config list"
  co_canonical_content :: string
  co_fingerprint :: string

definition objs_of :: "json list \<Rightarrow> obj list" where
  "objs_of xs = concat (map (\<lambda>v. case v of JObj d \<Rightarrow> [d] | _ \<Rightarrow> []) xs)"

definition cup_providers :: "string list" where
  "cup_providers = [''openai'', ''gemini'', ''deepseek'', ''glm'']"

definition competition_from_mapping :: "obj \<Rightarrow> competition_spec result" where
  "competition_from_mapping d =
     bindE (text_field d ''competition_id'') (\<lambda>cid.
     bindE (text_field d ''task'') (\<lambda>task.
     bindE (text_field d ''search_backend_id'') (\<lambda>backend.
     if get d ''max_search_calls'' \<noteq> JInt 20
     then Inl (ValueError ''SEARCH-CUP-02 requires max_search_calls == 20'')
     else bindE (case get d ''official_match_authorized'' of
            JBool b \<Rightarrow> Inr b | _ \<Rightarrow> Inl (ValueError ''official_match_authorized must be boolean'')) (\<lambda>authorized.
     bindE (case get d ''entrants'' of JArr xs \<Rightarrow>
              if length xs \<noteq> 4 then Inl (ValueError ''SEARCH-CUP-02 requires exactly four entrants'') else Inr xs
            | _ \<Rightarrow> Inl (ValueError ''SEARCH-CUP-02 requires exactly four entrants'')) (\<lambda>raw.
     bindE (mapE entrant_from_mapping (objs_of raw)) (\<lambda>entrants.
     if length entrants \<noteq> 4 then Inl (ValueError ''every entrant must be an object'')
     else
     let ids = map en_entrant_id entrants; providers = map (\<lambda>e. lower (en_provider e)) entrants in
     if length (remdups ids) \<noteq> 4 \<or> length (remdups providers) \<noteq> 4
     then Inl (ValueError ''entrant IDs and providers must be unique'')
     else if set providers \<noteq> set cup_providers
     then Inl (ValueError ''entrants must be OpenAI, Gemini, DeepSeek, and GLM'')
     else Inr \<lparr>co_competition_id = cid, co_task = task, co_max_search_calls = 20,
               co_search_backend_id = backend, co_official_match_authorized = authorized,
               co_entrants = entrants, co_canonical_content = canonical_json (JObj d),
               co_fingerprint = sha256_text (canonical_json (JObj d))\<rparr>))))))"

definition competition_load :: "string \<Rightarrow> competition_spec result" where
  "competition_load text = bindE (json_loads text) (\<lambda>doc. case doc of
      JObj d \<Rightarrow> competition_from_mapping d
    | _ \<Rightarrow> Inl (ValueError ''competition spec must be a JSON object''))"

section \<open>Requests, results and traces\<close>

record search_request =
  rq_entrant_id :: string
  rq_query :: string
  rq_call_number :: int
  rq_request_id :: string

definition make_search_request :: "string \<Rightarrow> string \<Rightarrow> int \<Rightarrow> string \<Rightarrow> search_request result" where
  "make_search_request eid query n rid =
     bindE (cup_required_text (JStr eid) ''entrant_id'') (\<lambda>_.
     bindE (cup_required_text (JStr query) ''query'') (\<lambda>_.
     if n < 0 then Inl (ValueError ''call_number must not be negative'')
     else bindE (if rid \<noteq> [] then cup_required_text (JStr rid) ''request_id'' else Inr []) (\<lambda>_.
     Inr \<lparr>rq_entrant_id = eid, rq_query = query, rq_call_number = n, rq_request_id = rid\<rparr>)))"

record search_result =
  sr_title :: string
  sr_url :: string
  sr_snippet :: string

definition make_search_result :: "string \<Rightarrow> string \<Rightarrow> string \<Rightarrow> search_result result" where
  "make_search_result title url snippet =
     bindE (cup_required_text (JStr title) ''search result title'') (\<lambda>_.
     bindE (cup_required_text (JStr url) ''search result URL'') (\<lambda>_.
     Inr \<lparr>sr_title = title, sr_url = url, sr_snippet = snippet\<rparr>))"

record search_trace =
  tr_entrant_id :: string
  tr_call_number :: int
  tr_query :: string
  tr_status :: string
  tr_result_count :: nat
  tr_error_type :: "string option"
  tr_error_code :: "string option"
  tr_error_message :: "string option"
  tr_backend_id :: "string option"
  tr_backend_request_id :: "string option"
  tr_backend_response_id :: "string option"
  tr_http_status :: "int option"
  tr_retryable :: "bool option"
  tr_backend_attempts :: nat
  tr_automatic_retries :: nat
  tr_started_at_utc :: "string option"
  tr_duration_ms :: "flt option"

record url_read_result =
  ur_url :: string
  ur_status :: string
  ur_title :: string
  ur_text :: string

definition make_url_read_result :: "string \<Rightarrow> string \<Rightarrow> string \<Rightarrow> string \<Rightarrow> url_read_result result" where
  "make_url_read_result url status title text =
     bindE (cup_required_text (JStr url) ''URL read URL'') (\<lambda>_.
     if status \<notin> {''OK'', ''BLOCKED'', ''JS_REQUIRED'', ''NOT_FOUND''}
     then Inl (ValueError ''unsupported URL read status'')
     else Inr \<lparr>ur_url = url, ur_status = status, ur_title = title, ur_text = text\<rparr>)"

section \<open>Properties\<close>

text \<open>C16.  A candidate card is accepted exactly when no private field name occurs at any depth of the
  document, whatever its case and padding, the three identity texts are present and the four profile
  sections are objects; its fingerprint is then the SHA-256 of its canonical content.\<close>

theorem candidate_card_accepted_iff:
  "candidate_from_mapping d = Inr c \<longleftrightarrow>
     (\<forall>k. key_within k (JObj d) \<longrightarrow> lower (strip k) \<notin> set forbidden_candidate_keys)
     \<and> (\<forall>k \<in> {''candidate_id'', ''legal_name'', ''technical_name''}. \<exists>s. get d k = JStr s \<and> \<not> blank s)
     \<and> (\<forall>k \<in> {''base'', ''languages'', ''current_positioning'', ''current_target_roles''}. is_obj (get d k))
     \<and> cd_canonical_content c = canonical_json (JObj d)
     \<and> cd_fingerprint c = sha256_text (cd_canonical_content c)"
proof -
  have scan: "scan_forbidden_keys (JObj d) ''candidate'' = Inr u
      \<longleftrightarrow> (\<forall>k. key_within k (JObj d) \<longrightarrow> \<not> forbidden_key k)" for u
    using scan_iff(1) [of "JObj d" "''candidate''"] by (simp del: scan_forbidden_keys.simps)
  show ?thesis
    unfolding candidate_from_mapping_def bindE_eq_Inr cup_required_text_Inr scan forbidden_key_def if_Inl_eq_Inr
    by (cases c) auto
qed

definition sample_card :: obj where
  "sample_card = [(''candidate_id'', JStr ''x''), (''legal_name'', JStr ''n''), (''technical_name'', JStr ''t''),
     (''base'', JObj []), (''languages'', JObj []), (''current_positioning'', JObj []),
     (''current_target_roles'', JObj [(''roles'', JArr [JStr ''eval''])])]"

lemma sample_card_keys:
  "key_within k (JObj sample_card) \<Longrightarrow> k \<in> {''candidate_id'', ''legal_name'', ''technical_name'', ''base'',
     ''languages'', ''current_positioning'', ''current_target_roles'', ''roles''}"
  by (auto simp: sample_card_def)

lemma sample_card_clean:
  "list_all (\<lambda>k. lower (strip k) \<notin> set forbidden_candidate_keys) [''candidate_id'', ''legal_name'', ''technical_name'',
     ''base'', ''languages'', ''current_positioning'', ''current_target_roles'', ''roles'']"
  "\<not> blank ''x''" "\<not> blank ''n''" "\<not> blank ''t''"
  by code_simp+

theorem candidate_card_accepted_iff_witness:
  "candidate_from_mapping sample_card = Inr
     \<lparr>cd_canonical_content = canonical_json (JObj sample_card), cd_fingerprint = sha256_text (canonical_json (JObj sample_card))\<rparr>"
proof (rule iffD2 [OF candidate_card_accepted_iff], intro conjI)
  show "\<forall>k. key_within k (JObj sample_card) \<longrightarrow> lower (strip k) \<notin> set forbidden_candidate_keys"
  proof (intro allI impI)
    fix k assume "key_within k (JObj sample_card)"
    from sample_card_keys [OF this] sample_card_clean(1)
    show "lower (strip k) \<notin> set forbidden_candidate_keys" by (auto simp only: list_all_iff list.set insert_iff)
  qed
  show "\<forall>k \<in> {''candidate_id'', ''legal_name'', ''technical_name''}. \<exists>s. get sample_card k = JStr s \<and> \<not> blank s"
    using sample_card_clean(2-) by (simp add: get_def sample_card_def)
  show "\<forall>k \<in> {''base'', ''languages'', ''current_positioning'', ''current_target_roles''}. is_obj (get sample_card k)"
    by (simp add: get_def sample_card_def is_obj_def)
qed simp_all

text \<open>C17.  A competition specification that loads has exactly four entrants with distinct ids, one of
  each of the four providers, a budget of 20 search calls, and the fingerprint of its own content.\<close>

theorem competition_well_formed:
  assumes "competition_from_mapping d = Inr c"
  shows "distinct (map en_entrant_id (co_entrants c)) \<and> length (co_entrants c) = 4
    \<and> distinct (map (\<lambda>e. lower (en_provider e)) (co_entrants c))
    \<and> set (map (\<lambda>e. lower (en_provider e)) (co_entrants c)) = set cup_providers
    \<and> co_max_search_calls c = 20 \<and> get d ''max_search_calls'' = JInt 20
    \<and> co_fingerprint c = sha256_text (co_canonical_content c)
    \<and> list_all (\<lambda>e. normal_text (en_entrant_id e) \<and> normal_text (en_provider e)
         \<and> normal_text (en_exact_model_id e) \<and> normal_text (en_endpoint_mode e)) (co_entrants c)"
proof -
  from assms obtain raw where es: "mapE entrant_from_mapping (objs_of raw) = Inr (co_entrants c)"
    and four: "length (co_entrants c) = 4" "length (remdups (map en_entrant_id (co_entrants c))) = 4"
      "length (remdups (map (\<lambda>e. lower (en_provider e)) (co_entrants c))) = 4"
    and ps: "set (map (\<lambda>e. lower (en_provider e)) (co_entrants c)) = set cup_providers"
    and rest: "co_max_search_calls c = 20" "get d ''max_search_calls'' = JInt 20"
      "co_fingerprint c = sha256_text (co_canonical_content c)"
    unfolding competition_from_mapping_def bindE_eq_Inr if_Inl_eq_Inr Let_def
    by (elim exE conjE) (auto simp del: set_map)
  have dist: "distinct xs" if "length (remdups xs) = 4" "length xs = 4" for xs :: "string list"
    using that by (metis distinct_remdups length_remdups_eq)
  have "list_all (\<lambda>e. normal_text (en_entrant_id e) \<and> normal_text (en_provider e)
         \<and> normal_text (en_exact_model_id e) \<and> normal_text (en_endpoint_mode e)) (co_entrants c)"
  proof (unfold list_all_iff, intro ballI)
    fix e assume "e \<in> set (co_entrants c)"
    with es obtain x where "entrant_from_mapping x = Inr e" by (rule mapE_set)
    then show "normal_text (en_entrant_id e) \<and> normal_text (en_provider e)
         \<and> normal_text (en_exact_model_id e) \<and> normal_text (en_endpoint_mode e)"
      unfolding entrant_from_mapping_def exc_elims by auto
  qed
  with four ps rest dist [of "map en_entrant_id (co_entrants c)"]
    dist [of "map (\<lambda>e. lower (en_provider e)) (co_entrants c)"] show ?thesis by simp
qed

lemma get_Cons: "get ((k, v) # d) j = (if k = j then v else get d j)"
  by (simp add: get_def)

definition sample_entrant :: "string \<Rightarrow> string \<Rightarrow> json" where
  "sample_entrant eid provider = JObj [(''entrant_id'', JStr eid), (''provider'', JStr provider),
     (''exact_model_id'', JStr ''m''), (''endpoint_mode'', JStr ''chat'')]"

definition sample_raw_entrants :: "json list" where
  "sample_raw_entrants = [sample_entrant ''e1'' ''OpenAI'', sample_entrant ''e2'' ''Gemini'',
     sample_entrant ''e3'' ''DeepSeek'', sample_entrant ''e4'' ''GLM'']"

definition sample_competition :: obj where
  "sample_competition = [(''competition_id'', JStr ''C''), (''task'', JStr ''t''), (''search_backend_id'', JStr ''b''),
     (''max_search_calls'', JInt 20), (''official_match_authorized'', JBool False),
     (''entrants'', JArr sample_raw_entrants)]"

definition sample_entrants :: "entrant_config list" where
  "sample_entrants = map (\<lambda>(i, p). \<lparr>en_entrant_id = i, en_provider = p, en_exact_model_id = ''m'',
     en_endpoint_mode = ''chat'', en_sampling_json = ''{}''\<rparr>)
     [(''e1'', ''OpenAI''), (''e2'', ''Gemini''), (''e3'', ''DeepSeek''), (''e4'', ''GLM'')]"

lemma sample_competition_get:
  "get sample_competition ''competition_id'' = JStr ''C''" "get sample_competition ''task'' = JStr ''t''"
  "get sample_competition ''search_backend_id'' = JStr ''b''" "get sample_competition ''max_search_calls'' = JInt 20"
  "get sample_competition ''official_match_authorized'' = JBool False"
  "get sample_competition ''entrants'' = JArr sample_raw_entrants"
  by (simp_all add: get_def sample_competition_def)

lemma sample_entrants_load:
  "mapE entrant_from_mapping (objs_of sample_raw_entrants) = Inr sample_entrants"
  "length sample_raw_entrants = 4" "length sample_entrants = 4"
  "length (remdups (map en_entrant_id sample_entrants)) = 4"
  "length (remdups (map (\<lambda>e. lower (en_provider e)) sample_entrants)) = 4"
  "set (map (\<lambda>e. lower (en_provider e)) sample_entrants) = set cup_providers"
  "\<not> blank ''C''" "\<not> blank ''t''" "\<not> blank ''b''"
  by code_simp+

lemma sample_competition_loads: "isOk (competition_from_mapping sample_competition)"
  by (simp add: competition_from_mapping_def sample_competition_get sample_entrants_load
      cup_required_text_def Let_def del: set_map)

theorem competition_well_formed_witness:
  "\<exists>c. competition_from_mapping sample_competition = Inr c \<and> length (co_entrants c) = 4"
proof -
  obtain c where "competition_from_mapping sample_competition = Inr c"
    using sample_competition_loads by (auto simp: isOk_iff)
  with competition_well_formed [OF this] show ?thesis by auto
qed

end
