(* ===== verification/CupSubmission.thy ===== *)
theory CupSubmission
  imports CupContracts
begin

text \<open>
  Leads, submissions, their frozen form and the judge's registry snapshot (the second half of
  \<open>search_cup/contracts.py\<close>).
\<close>

section \<open>Leads\<close>

record lead =
  ld_company :: string
  ld_role :: string
  ld_source_url :: string
  ld_official_source :: bool
  ld_open_status :: string
  ld_remote_scope :: string
  ld_location_constraint :: string
  ld_employment_type :: string
  ld_required_skills :: "string list"
  ld_candidate_fit :: string
  ld_mismatch_risks :: "string list"
  ld_portfolio_relevance :: string
  ld_confidence :: flt
  ld_next_action :: string
  ld_evidence_urls :: "string list"
  ld_claimed_novel :: bool

fun in_unit :: "flt \<Rightarrow> bool" where
  "in_unit (Fin x) = (0 \<le> x \<and> x \<le> 1)"
| "in_unit _ = False"

text \<open>\<open>__post_init__\<close>: the texts in the order of the loop, then the enumeration and the ranges.\<close>

definition lead_texts :: "lead \<Rightarrow> (string \<times> string) list" where
  "lead_texts l = [(''company'', ld_company l), (''role'', ld_role l), (''source_url'', ld_source_url l),
     (''open_status'', ld_open_status l), (''remote_scope'', ld_remote_scope l),
     (''location_constraint'', ld_location_constraint l), (''employment_type'', ld_employment_type l),
     (''candidate_fit'', ld_candidate_fit l), (''portfolio_relevance'', ld_portfolio_relevance l),
     (''next_action'', ld_next_action l)]"

definition make_lead :: "lead \<Rightarrow> lead result" where
  "make_lead l =
     bindE (mapE (\<lambda>(label, t). cup_required_text (JStr t) label) (lead_texts l)) (\<lambda>_.
     if ld_open_status l \<notin> {''OPEN'', ''CLOSED'', ''UNVERIFIED''}
     then Inl (ValueError ''open_status must be OPEN, CLOSED, or UNVERIFIED'')
     else if \<not> in_unit (ld_confidence l) then Inl (ValueError ''confidence must be between 0 and 1'')
     else if ld_evidence_urls l = [] then Inl (ValueError ''lead must include at least one evidence URL'')
     else Inr l)"

definition url_key :: "string \<Rightarrow> string" where
  "url_key u = lower (rstrip_by (\<lambda>c. c = CHR ''/'') (strip u))"

definition lead_key :: "lead \<Rightarrow> string" where
  "lead_key l = url_key (ld_source_url l)"

definition lead_from_mapping :: "obj \<Rightarrow> lead result" where
  "lead_from_mapping d =
     bindE (case get d ''confidence'' of
        JInt i \<Rightarrow> Inr (JInt i) | JFloat f \<Rightarrow> Inr (JFloat f)
      | _ \<Rightarrow> Inl (ValueError ''confidence must be numeric'')) (\<lambda>confidence.
     bindE (text_field d ''company'') (\<lambda>company.
     bindE (text_field d ''role'') (\<lambda>role.
     bindE (text_field d ''source_url'') (\<lambda>source_url.
     bindE (cup_required_bool (get d ''official_source'') ''official_source'') (\<lambda>official_source.
     bindE (text_field d ''open_status'') (\<lambda>open_status.
     bindE (text_field d ''remote_scope'') (\<lambda>remote_scope.
     bindE (text_field d ''location_constraint'') (\<lambda>location_constraint.
     bindE (text_field d ''employment_type'') (\<lambda>employment_type.
     bindE (cup_string_tuple (get_or d ''required_skills'' (JArr [])) ''required_skills'' True) (\<lambda>required_skills.
     bindE (text_field d ''candidate_fit'') (\<lambda>candidate_fit.
     bindE (cup_string_tuple (get_or d ''mismatch_risks'' (JArr [])) ''mismatch_risks'' True) (\<lambda>mismatch_risks.
     bindE (text_field d ''portfolio_relevance'') (\<lambda>portfolio_relevance.
     bindE (case confidence of JInt i \<Rightarrow> int_to_float i | JFloat f \<Rightarrow> Inr f | _ \<Rightarrow> Inl (TypeError [])) (\<lambda>conf.
     bindE (text_field d ''next_action'') (\<lambda>next_action.
     bindE (cup_string_tuple (get_or d ''evidence_urls'' (JArr [])) ''evidence_urls'' False) (\<lambda>evidence_urls.
     bindE (cup_required_bool (get_or d ''claimed_novel'' (JBool False)) ''claimed_novel'') (\<lambda>claimed_novel.
     make_lead \<lparr>ld_company = company, ld_role = role, ld_source_url = source_url,
       ld_official_source = official_source, ld_open_status = open_status, ld_remote_scope = remote_scope,
       ld_location_constraint = location_constraint, ld_employment_type = employment_type,
       ld_required_skills = required_skills, ld_candidate_fit = candidate_fit, ld_mismatch_risks = mismatch_risks,
       ld_portfolio_relevance = portfolio_relevance, ld_confidence = conf, ld_next_action = next_action,
       ld_evidence_urls = evidence_urls, ld_claimed_novel = claimed_novel\<rparr>)))))))))))))))))"

text \<open>\<open>asdict(lead)\<close>\<close>

definition lead_dict :: "lead \<Rightarrow> obj" where
  "lead_dict l =
    [(''company'', JStr (ld_company l)), (''role'', JStr (ld_role l)), (''source_url'', JStr (ld_source_url l)),
     (''official_source'', JBool (ld_official_source l)), (''open_status'', JStr (ld_open_status l)),
     (''remote_scope'', JStr (ld_remote_scope l)), (''location_constraint'', JStr (ld_location_constraint l)),
     (''employment_type'', JStr (ld_employment_type l)), (''required_skills'', JArr (map JStr (ld_required_skills l))),
     (''candidate_fit'', JStr (ld_candidate_fit l)), (''mismatch_risks'', JArr (map JStr (ld_mismatch_risks l))),
     (''portfolio_relevance'', JStr (ld_portfolio_relevance l)), (''confidence'', JFloat (ld_confidence l)),
     (''next_action'', JStr (ld_next_action l)), (''evidence_urls'', JArr (map JStr (ld_evidence_urls l))),
     (''claimed_novel'', JBool (ld_claimed_novel l))]"

section \<open>Submissions\<close>

record submission =
  sb_entrant :: entrant_config
  sb_candidate_fingerprint :: string
  sb_competition_fingerprint :: string
  sb_leads :: "lead list"
  sb_apply_now_urls :: "string list"
  sb_search_strategy_summary :: string
  sb_rejected_or_downgraded :: "string list"
  sb_uncertainties :: "string list"
  sb_search_calls :: int

definition make_submission :: "submission \<Rightarrow> submission result" where
  "make_submission s =
     (if length (sb_leads s) > 20 then Inl (ValueError ''submission may contain at most 20 leads'')
      else if length (sb_apply_now_urls s) > 5
      then Inl (ValueError ''submission may contain at most five Apply-Now leads'')
      else if \<not> list_all (\<lambda>u. u \<in> set (map ld_source_url (sb_leads s))) (sb_apply_now_urls s)
      then Inl (ValueError ''Apply-Now URLs must refer to submitted leads'')
      else if sb_search_calls s < 0 \<or> 20 < sb_search_calls s
      then Inl (ValueError ''search_calls must be between 0 and 20'')
      else bindE (cup_required_text (JStr (sb_search_strategy_summary s)) ''search_strategy_summary'') (\<lambda>_. Inr s))"

definition submission_as_dict :: "submission \<Rightarrow> obj result" where
  "submission_as_dict s = bindE (entrant_as_dict (sb_entrant s)) (\<lambda>entrant. Inr
    [(''entrant'', JObj entrant), (''candidate_fingerprint'', JStr (sb_candidate_fingerprint s)),
     (''competition_fingerprint'', JStr (sb_competition_fingerprint s)),
     (''leads'', JArr (map (\<lambda>l. JObj (lead_dict l)) (sb_leads s))),
     (''apply_now_urls'', JArr (map JStr (sb_apply_now_urls s))),
     (''search_strategy_summary'', JStr (sb_search_strategy_summary s)),
     (''rejected_or_downgraded'', JArr (map JStr (sb_rejected_or_downgraded s))),
     (''uncertainties'', JArr (map JStr (sb_uncertainties s))),
     (''search_calls'', JInt (sb_search_calls s))])"

definition submission_from_mapping :: "obj \<Rightarrow> submission result" where
  "submission_from_mapping d =
     bindE (case get d ''entrant'' of
        JObj e \<Rightarrow> (case get d ''leads'' of
            JArr ls \<Rightarrow> Inr (e, ls) | _ \<Rightarrow> Inl (ValueError ''submission is missing entrant or leads''))
      | _ \<Rightarrow> Inl (ValueError ''submission is missing entrant or leads'')) (\<lambda>(raw_entrant, raw_leads).
     if \<not> list_all is_obj raw_leads then Inl (ValueError ''every submitted lead must be an object'')
     else bindE (case get d ''search_calls'' of
        JInt i \<Rightarrow> Inr i | _ \<Rightarrow> Inl (ValueError ''submission search_calls must be an integer'')) (\<lambda>search_calls.
     bindE (entrant_from_mapping raw_entrant) (\<lambda>entrant.
     bindE (text_field d ''candidate_fingerprint'') (\<lambda>cand.
     bindE (text_field d ''competition_fingerprint'') (\<lambda>comp.
     bindE (mapE lead_from_mapping (objs_of raw_leads)) (\<lambda>leads.
     bindE (cup_string_tuple (get_or d ''apply_now_urls'' (JArr [])) ''apply_now_urls'' True) (\<lambda>apply_now.
     bindE (text_field d ''search_strategy_summary'') (\<lambda>summary.
     bindE (cup_string_tuple (get_or d ''rejected_or_downgraded'' (JArr [])) ''rejected_or_downgraded'' True) (\<lambda>rejected.
     bindE (cup_string_tuple (get_or d ''uncertainties'' (JArr [])) ''uncertainties'' True) (\<lambda>uncertainties.
     make_submission \<lparr>sb_entrant = entrant, sb_candidate_fingerprint = cand, sb_competition_fingerprint = comp,
       sb_leads = leads, sb_apply_now_urls = apply_now, sb_search_strategy_summary = summary,
       sb_rejected_or_downgraded = rejected, sb_uncertainties = uncertainties,
       sb_search_calls = search_calls\<rparr>))))))))))"

record frozen_submission =
  fz_entrant_id :: string
  fz_canonical_content :: string
  fz_sha256 :: string

definition freeze :: "submission \<Rightarrow> frozen_submission result" where
  "freeze s = bindE (submission_as_dict s) (\<lambda>d. Inr
     \<lparr>fz_entrant_id = en_entrant_id (sb_entrant s), fz_canonical_content = canonical_json (JObj d),
      fz_sha256 = sha256_text (canonical_json (JObj d))\<rparr>)"

definition thaw_verified :: "frozen_submission \<Rightarrow> submission result" where
  "thaw_verified f =
     (if sha256_text (fz_canonical_content f) \<noteq> fz_sha256 f then Inl (ValueError ''frozen submission hash mismatch'')
      else bindE (json_loads (fz_canonical_content f)) (\<lambda>doc. case doc of
        JObj d \<Rightarrow> bindE (submission_from_mapping d) (\<lambda>s.
          if en_entrant_id (sb_entrant s) \<noteq> fz_entrant_id f
          then Inl (ValueError ''frozen submission entrant mismatch'') else Inr s)
      | _ \<Rightarrow> Inl (ValueError ''frozen submission must contain an object'')))"

section \<open>The registry snapshot\<close>

record registry_assessment =
  ra_source_url :: string
  ra_real_open :: bool
  ra_practical_fit :: bool
  ra_geography_eligible :: bool
  ra_actionable :: bool
  ra_primary_source :: bool
  ra_fabricated :: bool
  ra_us_only :: bool
  ra_senior_or_phd_mismatch :: bool

definition assessment_key :: "registry_assessment \<Rightarrow> string" where
  "assessment_key a = url_key (ra_source_url a)"

definition assessment_dict :: "registry_assessment \<Rightarrow> json" where
  "assessment_dict a = JObj
    [(''source_url'', JStr (ra_source_url a)), (''real_open'', JBool (ra_real_open a)),
     (''practical_fit'', JBool (ra_practical_fit a)), (''geography_eligible'', JBool (ra_geography_eligible a)),
     (''actionable'', JBool (ra_actionable a)), (''primary_source'', JBool (ra_primary_source a)),
     (''fabricated'', JBool (ra_fabricated a)), (''us_only'', JBool (ra_us_only a)),
     (''senior_or_phd_mismatch'', JBool (ra_senior_or_phd_mismatch a))]"

record registry_snapshot =
  rs_snapshot_id :: string
  rs_known_well_keys :: "string list"
  rs_assessments :: "registry_assessment list"
  rs_fingerprint :: string

definition snapshot_payload :: "string \<Rightarrow> string list \<Rightarrow> registry_assessment list \<Rightarrow> json" where
  "snapshot_payload sid known assessments = JObj
    [(''snapshot_id'', JStr sid), (''known_well_keys'', JArr (map JStr known)),
     (''assessments'', JArr (map assessment_dict assessments))]"

definition snapshot_create :: "string \<Rightarrow> string list \<Rightarrow> registry_assessment list \<Rightarrow> registry_snapshot result" where
  "snapshot_create snapshot_id known_well_urls assessments =
     (let known = sort (remdups (map url_key known_well_urls));
          tuple = sort_key assessment_key assessments;
          keys = map assessment_key tuple in
      if \<not> distinct keys then Inl (ValueError ''judge registry assessments must have unique URLs'')
      else bindE (cup_required_text (JStr snapshot_id) ''snapshot_id'') (\<lambda>sid.
        Inr \<lparr>rs_snapshot_id = snapshot_id, rs_known_well_keys = known, rs_assessments = tuple,
             rs_fingerprint = fingerprint (snapshot_payload sid known tuple)\<rparr>))"

definition snapshot_verify :: "registry_snapshot \<Rightarrow> unit result" where
  "snapshot_verify s =
     (if fingerprint (snapshot_payload (rs_snapshot_id s) (rs_known_well_keys s) (rs_assessments s)) \<noteq> rs_fingerprint s
      then Inl (ValueError ''judge registry snapshot hash mismatch'') else Inr ())"

section \<open>Normal submissions survive a freeze\<close>

definition lead_normal :: "lead \<Rightarrow> bool" where
  "lead_normal l \<longleftrightarrow> list_all (\<lambda>lt. normal_text (snd lt)) (lead_texts l)
     \<and> ld_open_status l \<in> {''OPEN'', ''CLOSED'', ''UNVERIFIED''} \<and> in_unit (ld_confidence l)
     \<and> list_all normal_text (ld_required_skills l) \<and> list_all normal_text (ld_mismatch_risks l)
     \<and> list_all normal_text (ld_evidence_urls l) \<and> ld_evidence_urls l \<noteq> []"

definition entrant_normal :: "entrant_config \<Rightarrow> bool" where
  "entrant_normal e \<longleftrightarrow> normal_text (en_entrant_id e) \<and> normal_text (en_provider e)
     \<and> normal_text (en_exact_model_id e) \<and> normal_text (en_endpoint_mode e)
     \<and> (\<exists>d. text_ok (JObj d) \<and> en_sampling_json e = canonical_json (JObj d))"

definition submission_limits :: "submission \<Rightarrow> bool" where
  "submission_limits s \<longleftrightarrow> length (sb_leads s) \<le> 20 \<and> length (sb_apply_now_urls s) \<le> 5
     \<and> set (sb_apply_now_urls s) \<subseteq> ld_source_url ` set (sb_leads s)
     \<and> 0 \<le> sb_search_calls s \<and> sb_search_calls s \<le> 20 \<and> \<not> blank (sb_search_strategy_summary s)"

definition submission_normal :: "submission \<Rightarrow> bool" where
  "submission_normal s \<longleftrightarrow> entrant_normal (sb_entrant s) \<and> list_all lead_normal (sb_leads s)
     \<and> normal_text (sb_candidate_fingerprint s) \<and> normal_text (sb_competition_fingerprint s)
     \<and> normal_text (sb_search_strategy_summary s) \<and> list_all normal_text (sb_apply_now_urls s)
     \<and> list_all normal_text (sb_rejected_or_downgraded s) \<and> list_all normal_text (sb_uncertainties s)
     \<and> submission_limits s"

lemma make_submission_Inr: "make_submission s = Inr t \<longleftrightarrow> t = s \<and> submission_limits s"
  by (auto simp: make_submission_def submission_limits_def exc_elims list_all_iff)

text \<open>Reading a canonical dictionary, entry by entry.\<close>

lemma canon_get:
  "distinct (map fst d) \<Longrightarrow> map_of d k = Some v \<Longrightarrow> get (canon_items d) k = canon v"
  "distinct (map fst d) \<Longrightarrow> map_of d k = Some v \<Longrightarrow> get_or (canon_items d) k w = canon v"
  by (simp_all add: get_def get_or_def map_of_canon_items)

lemma canon_get_all:
  assumes "distinct (map fst d)"
  shows "get (canon_items d) k = canon (get d k)"
    and "get_or (canon_items d) k (JArr []) = canon (get_or d k (JArr []))"
    and "get_or (canon_items d) k (JBool b) = canon (get_or d k (JBool b))"
    and "get_or (canon_items d) k (JObj []) = canon (get_or d k (JObj []))"
  using assms by (simp_all add: get_canon_items get_or_def map_of_canon_items split: option.splits)

lemma map_canon_JStr [simp]: "map (canon \<circ> JStr) ss = map JStr ss"
  by simp

lemma lead_dict_get:
  "get (lead_dict l) ''company'' = JStr (ld_company l)"
  "get (lead_dict l) ''role'' = JStr (ld_role l)"
  "get (lead_dict l) ''source_url'' = JStr (ld_source_url l)"
  "get (lead_dict l) ''official_source'' = JBool (ld_official_source l)"
  "get (lead_dict l) ''open_status'' = JStr (ld_open_status l)"
  "get (lead_dict l) ''remote_scope'' = JStr (ld_remote_scope l)"
  "get (lead_dict l) ''location_constraint'' = JStr (ld_location_constraint l)"
  "get (lead_dict l) ''employment_type'' = JStr (ld_employment_type l)"
  "get (lead_dict l) ''candidate_fit'' = JStr (ld_candidate_fit l)"
  "get (lead_dict l) ''portfolio_relevance'' = JStr (ld_portfolio_relevance l)"
  "get (lead_dict l) ''confidence'' = JFloat (ld_confidence l)"
  "get (lead_dict l) ''next_action'' = JStr (ld_next_action l)"
  "get_or (lead_dict l) ''required_skills'' v = JArr (map JStr (ld_required_skills l))"
  "get_or (lead_dict l) ''mismatch_risks'' v = JArr (map JStr (ld_mismatch_risks l))"
  "get_or (lead_dict l) ''evidence_urls'' v = JArr (map JStr (ld_evidence_urls l))"
  "get_or (lead_dict l) ''claimed_novel'' v = JBool (ld_claimed_novel l)"
  by (simp_all add: get_def get_or_def lead_dict_def)

lemma lead_eta: "\<lparr>ld_company = ld_company l, ld_role = ld_role l, ld_source_url = ld_source_url l,
     ld_official_source = ld_official_source l, ld_open_status = ld_open_status l,
     ld_remote_scope = ld_remote_scope l, ld_location_constraint = ld_location_constraint l,
     ld_employment_type = ld_employment_type l, ld_required_skills = ld_required_skills l,
     ld_candidate_fit = ld_candidate_fit l, ld_mismatch_risks = ld_mismatch_risks l,
     ld_portfolio_relevance = ld_portfolio_relevance l, ld_confidence = ld_confidence l,
     ld_next_action = ld_next_action l, ld_evidence_urls = ld_evidence_urls l,
     ld_claimed_novel = ld_claimed_novel l\<rparr> = l"
  by simp

lemma submission_eta: "\<lparr>sb_entrant = sb_entrant s, sb_candidate_fingerprint = sb_candidate_fingerprint s,
     sb_competition_fingerprint = sb_competition_fingerprint s, sb_leads = sb_leads s,
     sb_apply_now_urls = sb_apply_now_urls s, sb_search_strategy_summary = sb_search_strategy_summary s,
     sb_rejected_or_downgraded = sb_rejected_or_downgraded s, sb_uncertainties = sb_uncertainties s,
     sb_search_calls = sb_search_calls s\<rparr> = s"
  by simp

lemma lead_reads_back:
  assumes "lead_normal l"
  shows "lead_from_mapping (canon_items (lead_dict l)) = Inr l"
proof -
  have dist: "distinct (map fst (lead_dict l))" by (simp add: lead_dict_def)
  have "make_lead l = Inr l"
    using assms by (auto simp: make_lead_def lead_normal_def lead_texts_def)
  with assms show ?thesis
    by (simp add: lead_from_mapping_def canon_get_all [OF dist] lead_dict_get lead_normal_def lead_texts_def lead_eta)
qed

lemma entrant_reads_back:
  assumes "entrant_normal e"
  obtains d where "entrant_as_dict e = Inr d" and "distinct (map fst d)"
    and "entrant_from_mapping (canon_items d) = Inr e" and "text_ok (JObj d)"
proof -
  from assms obtain s where s: "text_ok (JObj s)" "en_sampling_json e = canonical_json (JObj s)"
    by (auto simp: entrant_normal_def)
  define d where "d = [(''entrant_id'', JStr (en_entrant_id e)), (''provider'', JStr (en_provider e)),
    (''exact_model_id'', JStr (en_exact_model_id e)), (''endpoint_mode'', JStr (en_endpoint_mode e)),
    (''sampling'', canon (JObj s))]"
  have dist: "distinct (map fst d)" by (simp add: d_def)
  note reads = canon_get(1) [OF dist] canon_get(2) [OF dist]
  have "entrant_as_dict e = Inr d"
    by (simp add: entrant_as_dict_def s(2) canonical_json_def loads_dumps [OF s(1)] d_def)
  moreover have "entrant_from_mapping (canon_items d) = Inr e"
  proof -
    have "get_or (canon_items d) ''sampling'' (JObj []) = canon (canon (JObj s))"
      by (rule reads) (simp add: d_def)
    then have samp: "get_or (canon_items d) ''sampling'' (JObj []) = JObj (canon_items s)"
      by (simp only: canon_idem) (simp only: canon_JObj)
    have "canonical_json (JObj (canon_items s)) = en_sampling_json e"
      by (simp only: canonical_json_def canon_JObj [symmetric] json_dumps_canon s(2))
    moreover have "get d ''entrant_id'' = JStr (en_entrant_id e)" "get d ''provider'' = JStr (en_provider e)"
      "get d ''exact_model_id'' = JStr (en_exact_model_id e)" "get d ''endpoint_mode'' = JStr (en_endpoint_mode e)"
      by (simp_all add: get_def d_def)
    ultimately show ?thesis
      using assms by (simp add: entrant_from_mapping_def samp entrant_normal_def canon_get_all(1) [OF dist])
  qed
  moreover have "text_ok (JObj d)"
    using text_ok_canon [OF s(1)] by (simp add: d_def canon_JObj del: canon.simps)
  ultimately show thesis using that dist by blast
qed

lemma objs_of_map [simp]: "objs_of (map (\<lambda>x. JObj (f x)) xs) = map f xs"
  by (induction xs) (simp_all add: objs_of_def)

lemma mapE_map: "mapE f (map g xs) = mapE (\<lambda>x. f (g x)) xs"
  by (induction xs) simp_all

lemma submission_reads_back:
  assumes "submission_normal s" and "submission_as_dict s = Inr d"
  shows "submission_from_mapping (canon_items d) = Inr s" and "distinct (map fst d)"
proof -
  have en: "entrant_normal (sb_entrant s)" using assms(1) by (simp add: submission_normal_def)
  obtain e where e: "entrant_as_dict (sb_entrant s) = Inr e" "distinct (map fst e)"
    "entrant_from_mapping (canon_items e) = Inr (sb_entrant s)" by (rule entrant_reads_back [OF en])
  from assms(2) e(1) have d: "d =
    [(''entrant'', JObj e), (''candidate_fingerprint'', JStr (sb_candidate_fingerprint s)),
     (''competition_fingerprint'', JStr (sb_competition_fingerprint s)),
     (''leads'', JArr (map (\<lambda>l. JObj (lead_dict l)) (sb_leads s))),
     (''apply_now_urls'', JArr (map JStr (sb_apply_now_urls s))),
     (''search_strategy_summary'', JStr (sb_search_strategy_summary s)),
     (''rejected_or_downgraded'', JArr (map JStr (sb_rejected_or_downgraded s))),
     (''uncertainties'', JArr (map JStr (sb_uncertainties s))),
     (''search_calls'', JInt (sb_search_calls s))]"
    by (simp add: submission_as_dict_def)
  show dist: "distinct (map fst d)" by (simp add: d)
  note reads = canon_get(1) [OF dist] canon_get(2) [OF dist]
  have leads: "canon (JArr (map (\<lambda>l. JObj (lead_dict l)) (sb_leads s)))
      = JArr (map (\<lambda>l. JObj (canon_items (lead_dict l))) (sb_leads s))"
    by (simp add: canon_JObj comp_def del: canon.simps(2))
  have "get (canon_items d) ''entrant'' = canon (JObj e)"
    "get (canon_items d) ''leads'' = canon (JArr (map (\<lambda>l. JObj (lead_dict l)) (sb_leads s)))"
    "get (canon_items d) ''search_calls'' = canon (JInt (sb_search_calls s))"
    "get (canon_items d) ''candidate_fingerprint'' = canon (JStr (sb_candidate_fingerprint s))"
    "get (canon_items d) ''competition_fingerprint'' = canon (JStr (sb_competition_fingerprint s))"
    "get (canon_items d) ''search_strategy_summary'' = canon (JStr (sb_search_strategy_summary s))"
    "get_or (canon_items d) ''apply_now_urls'' (JArr []) = canon (JArr (map JStr (sb_apply_now_urls s)))"
    "get_or (canon_items d) ''rejected_or_downgraded'' (JArr []) = canon (JArr (map JStr (sb_rejected_or_downgraded s)))"
    "get_or (canon_items d) ''uncertainties'' (JArr []) = canon (JArr (map JStr (sb_uncertainties s)))"
    by (rule reads, simp add: d)+
  note gets = this(1,2) [unfolded leads canon_JObj] this(3-9) [unfolded canon.simps map_map map_canon_JStr]
  have lds: "mapE (\<lambda>l. lead_from_mapping (canon_items (lead_dict l))) (sb_leads s) = Inr (sb_leads s)"
    using mapE_pure [of "sb_leads s" "\<lambda>l. lead_from_mapping (canon_items (lead_dict l))" "\<lambda>l. l"]
      assms(1) lead_reads_back by (simp add: submission_normal_def list_all_iff)
  have objs: "list_all is_obj (map (\<lambda>l. JObj (canon_items (lead_dict l))) (sb_leads s))"
    by (simp add: list_all_iff is_obj_def)
  have mk: "make_submission s = Inr s" using assms(1) by (simp add: make_submission_Inr submission_normal_def)
  from assms(1) mk show "submission_from_mapping (canon_items d) = Inr s"
    by (simp add: submission_from_mapping_def gets objs mapE_map lds e(3) submission_normal_def submission_eta)
qed

text \<open>What a reader produces is normal, so a thawed submission can be frozen again.\<close>

lemma make_lead_Inr: "make_lead l = Inr t \<longleftrightarrow> t = l \<and> list_all (\<lambda>lt. \<not> blank (snd lt)) (lead_texts l)
     \<and> ld_open_status l \<in> {''OPEN'', ''CLOSED'', ''UNVERIFIED''} \<and> in_unit (ld_confidence l) \<and> ld_evidence_urls l \<noteq> []"
  by (auto simp: make_lead_def bindE_eq_Inr mapE_eq_Inr lead_texts_def cup_required_text_Inr list_all2_Cons1)

lemma lead_from_mapping_normal: "lead_from_mapping d = Inr l \<Longrightarrow> lead_normal l"
  unfolding lead_from_mapping_def bindE_eq_Inr make_lead_Inr cup_required_text_Inr
  by (elim exE conjE) (simp add: lead_normal_def lead_texts_def cup_string_tuple_result)

lemma freeze_then_thaw:
  assumes "submission_normal s" and "submission_as_dict s = Inr d" and "text_ok (JObj d)"
  shows "\<exists>f. freeze s = Inr f \<and> fz_entrant_id f = en_entrant_id (sb_entrant s) \<and> thaw_verified f = Inr s"
proof -
  note reads = submission_reads_back [OF assms(1,2)]
  have "json_loads (canonical_json (JObj d)) = Inr (JObj (canon_items d))"
    using loads_dumps [OF assms(3)] by (simp add: canonical_json_def canon_JObj del: canon.simps)
  with reads(1) show ?thesis by (simp add: freeze_def assms(2) thaw_verified_def)
qed

lemma submission_from_mapping_limits:
  assumes "submission_from_mapping d = Inr s"
  shows "submission_limits s" and "list_all lead_normal (sb_leads s)"
proof -
  from assms obtain ls leads where ls: "mapE lead_from_mapping (objs_of ls) = Inr leads" and lim: "submission_limits s"
    and leads: "sb_leads s = leads"
    unfolding submission_from_mapping_def bindE_eq_Inr make_submission_Inr
    by (elim exE conjE) (auto split: prod.splits simp: bindE_eq_Inr make_submission_Inr)
  show "submission_limits s" by (rule lim)
  show "list_all lead_normal (sb_leads s)"
    using ls leads by (auto simp: list_all_iff elim!: mapE_set dest: lead_from_mapping_normal)
qed

lemma thaw_verified_Inr:
  assumes "thaw_verified f = Inr s"
  shows "sha256_text (fz_canonical_content f) = fz_sha256 f" and "en_entrant_id (sb_entrant s) = fz_entrant_id f"
    and "submission_limits s" and "list_all lead_normal (sb_leads s)"
  using assms submission_from_mapping_limits by (auto simp: thaw_verified_def exc_elims)

lemma thaw_limits: "thaw_verified f = Inr s \<Longrightarrow> length (sb_leads s) \<le> 20"
  using thaw_verified_Inr(3) by (simp add: submission_limits_def)

definition sample_submission :: submission where
  "sample_submission = \<lparr>sb_entrant = hd sample_entrants, sb_candidate_fingerprint = ''ca'',
     sb_competition_fingerprint = ''co'', sb_leads = [], sb_apply_now_urls = [],
     sb_search_strategy_summary = ''none'', sb_rejected_or_downgraded = [''x''], sb_uncertainties = [], sb_search_calls = 1\<rparr>"

definition sample_submission_dict :: obj where
  "sample_submission_dict = (case submission_as_dict sample_submission of Inr d \<Rightarrow> d | Inl _ \<Rightarrow> [])"

lemma sample_submission_facts:
  "submission_normal sample_submission"
  "submission_as_dict sample_submission = Inr sample_submission_dict"
  "text_ok (JObj sample_submission_dict)"
proof -
  have "entrant_normal (hd sample_entrants)"
    unfolding entrant_normal_def
  proof (intro conjI exI [of _ "[]"])
    show "normal_text (en_entrant_id (hd sample_entrants))" "normal_text (en_provider (hd sample_entrants))"
      "normal_text (en_exact_model_id (hd sample_entrants))" "normal_text (en_endpoint_mode (hd sample_entrants))"
      "text_ok (JObj [])" "en_sampling_json (hd sample_entrants) = canonical_json (JObj [])"
      by code_simp+
  qed
  moreover have "normal_text ''ca''" "normal_text ''co''" "normal_text ''none''" "normal_text ''x''" "\<not> blank ''none''"
    by code_simp+
  ultimately show "submission_normal sample_submission"
    by (simp add: submission_normal_def sample_submission_def submission_limits_def)
  show "submission_as_dict sample_submission = Inr sample_submission_dict" "text_ok (JObj sample_submission_dict)"
    by code_simp+
qed

section \<open>Properties\<close>

text \<open>C18.  Freezing loses nothing: a submission whose texts are in the normal form the reader leaves
  them in is frozen under its entrant's id, and thawing the frozen form gives the same submission back.\<close>

theorem freeze_thaw:
  assumes "submission_normal s" and "submission_as_dict s = Inr d" and "text_ok (JObj d)"
  shows "\<exists>f. freeze s = Inr f \<and> fz_entrant_id f = en_entrant_id (sb_entrant s) \<and> thaw_verified f = Inr s"
  by (rule freeze_then_thaw [OF assms])

theorem freeze_thaw_witness:
  "\<exists>f. freeze sample_submission = Inr f \<and> thaw_verified f = Inr sample_submission"
  using freeze_thaw [OF sample_submission_facts] by blast

text \<open>C19.  What thaws is what was frozen: a frozen submission that thaws carries the hash of its own
  content, names the entrant inside it, and obeys every limit (20 leads, five Apply-Now URLs among
  them, 20 calls, well-formed leads); and replacing its content by another that still thaws exhibits a
  SHA-256 collision.\<close>

theorem thaw_verified_safe:
  assumes "thaw_verified f = Inr s"
  shows "sha256_text (fz_canonical_content f) = fz_sha256 f \<and> en_entrant_id (sb_entrant s) = fz_entrant_id f
    \<and> submission_limits s \<and> list_all lead_normal (sb_leads s)
    \<and> (\<forall>content t. content \<noteq> fz_canonical_content f \<and> thaw_verified (f\<lparr>fz_canonical_content := content\<rparr>) = Inr t
         \<longrightarrow> sha256_text content = sha256_text (fz_canonical_content f))"
  using thaw_verified_Inr [OF assms] by (auto simp: thaw_verified_def)

theorem thaw_verified_safe_witness:
  "\<exists>f. thaw_verified f = Inr sample_submission \<and> submission_limits sample_submission"
  using freeze_then_thaw [OF sample_submission_facts] thaw_verified_safe by blast

text \<open>A registry snapshot just created verifies, unless its id was given with surrounding white
  space: then the fingerprint is of the text with the stripped id while \<open>verify\<close> hashes the
  different text with the padded id that the snapshot keeps, and refuses it unless those two texts
  happen to share their SHA-256.\<close>

theorem snapshot_verify_after_create:
  assumes "snapshot_create sid known as = Inr snap"
  shows "distinct (map assessment_key (rs_assessments snap)) \<and> sorted (map assessment_key (rs_assessments snap))
    \<and> mset (rs_assessments snap) = mset as
    \<and> (strip sid = sid \<longrightarrow> snapshot_verify snap = Inr ())
    \<and> (strip sid \<noteq> sid \<longrightarrow>
         (let text = \<lambda>i. canonical_json (snapshot_payload i (rs_known_well_keys snap) (rs_assessments snap))
          in text (strip sid) \<noteq> text sid
            \<and> (sha256_text (text (strip sid)) \<noteq> sha256_text (text sid) \<longrightarrow>
                 snapshot_verify snap = Inl (ValueError ''judge registry snapshot hash mismatch''))))"
proof -
  from assms have snap: "\<not> blank sid" "snap = \<lparr>rs_snapshot_id = sid,
      rs_known_well_keys = sort (remdups (map url_key known)), rs_assessments = sort_key assessment_key as,
      rs_fingerprint = fingerprint (snapshot_payload (strip sid) (sort (remdups (map url_key known)))
        (sort_key assessment_key as))\<rparr>"
    and dist: "distinct (map assessment_key (sort_key assessment_key as))"
    by (auto simp: snapshot_create_def Let_def bindE_eq_Inr cup_required_text_Inr)
  let ?p = "\<lambda>i. snapshot_payload i (rs_known_well_keys snap) (rs_assessments snap)"
  have ok: "text_ok (?p i)" for i
    by (simp add: snapshot_payload_def assessment_dict_def list_all_iff)
  have ne: "canonical_json (?p (strip sid)) \<noteq> canonical_json (?p sid)" if "strip sid \<noteq> sid"
  proof
    assume "canonical_json (?p (strip sid)) = canonical_json (?p sid)"
    then have "canon (?p (strip sid)) = canon (?p sid)" by (simp add: canonical_json_def json_dumps_inject ok)
    then have "get (canon_items [(''snapshot_id'', JStr (strip sid)), (''known_well_keys'', JArr (map JStr (rs_known_well_keys snap))),
        (''assessments'', JArr (map assessment_dict (rs_assessments snap)))]) ''snapshot_id''
      = get (canon_items [(''snapshot_id'', JStr sid), (''known_well_keys'', JArr (map JStr (rs_known_well_keys snap))),
        (''assessments'', JArr (map assessment_dict (rs_assessments snap)))]) ''snapshot_id''"
      by (simp only: snapshot_payload_def canon_JObj json.inject)
    then have "strip sid = sid" by (simp add: get_canon_items get_Cons)
    with that show False by simp
  qed
  show ?thesis
    using dist snap ne by (auto simp: snapshot_verify_def fingerprint_def Let_def)
qed

theorem snapshot_verify_after_create_witness:
  "\<exists>snap. snapshot_create ''S'' [''https://x/''] [] = Inr snap \<and> snapshot_verify snap = Inr ()"
proof -
  have s: "\<not> blank ''S''" "strip ''S'' = ''S''" by code_simp+
  then obtain snap where "snapshot_create ''S'' [''https://x/''] [] = Inr snap"
    by (simp add: snapshot_create_def cup_required_text_def Let_def)
  with snapshot_verify_after_create [OF this] s show ?thesis by auto
qed

end
