(* ===== verification/CupTools.thy ===== *)
theory CupTools
  imports CupSubmission Journal
begin

text \<open>
  The budgeted tool boundary of the search cup (\<open>search_cup/tools.py\<close>).  The proxy of an
  entrant holds its budget and its traces; every call that reaches the backend leaves one
  trace, whether the backend answers, fails with a typed error or raises anything else.

  The backend is a parameter: a function of the request, whose id is fresh for every call.
  What one call reads from the clock and from \<open>uuid4\<close> is its \<open>tick\<close>.
\<close>

section \<open>What a backend may do\<close>

record backend_error =
  be_type :: string
  be_message :: string
  be_backend_id :: string
  be_error_code :: string
  be_request_id :: "string option"
  be_response_id :: "string option"
  be_http_status :: "int option"
  be_retryable :: bool

text \<open>
  A reply is a \<open>SearchBackendResponse\<close>, a plain sequence, a \<open>SearchBackendError\<close> or any
  other exception.  An item that is not a \<open>SearchResult\<close> is \<open>None\<close>.
\<close>

datatype backend_reply =
    BackendResponse "search_result option list" string string "string option"
  | PlainResults "search_result option list"
  | BackendError backend_error
  | BackendRaises exc

type_synonym search_backend = "search_request \<Rightarrow> backend_reply"

record tick =
  tk_request_id :: string
  tk_started_at :: string
  tk_duration_ms :: flt

section \<open>The proxy\<close>

record search_proxy =
  px_entrant_id :: string
  px_max_calls :: int
  px_traces :: "search_trace list"

definition make_proxy :: "string \<Rightarrow> int \<Rightarrow> search_proxy result" where
  "make_proxy eid max_calls =
     (if max_calls < 1 then Inl (ValueError ''max_calls must be positive'')
      else Inr \<lparr>px_entrant_id = eid, px_max_calls = max_calls, px_traces = []\<rparr>)"

definition calls_used :: "search_proxy \<Rightarrow> int" where
  "calls_used p = int (length (px_traces p))"

text \<open>What one attempt yields before it is recorded: the results with the backend's ids, or a failure.\<close>

definition attempt ::
    "search_backend \<Rightarrow> string \<Rightarrow> search_proxy \<Rightarrow> tick \<Rightarrow> string \<Rightarrow>
      (backend_error + exc) + (search_result list \<times> string \<times> string \<times> string option)" where
  "attempt backend default_id p tk query =
     (case make_search_request (px_entrant_id p) query (calls_used p + 1) (tk_request_id tk) of
        Inl e \<Rightarrow> Inl (Inr e)
      | Inr request \<Rightarrow>
          (let check = (\<lambda>items bid rid resp.
             if list_all (\<lambda>i. i \<noteq> None) items then Inr (map the items, bid, rid, resp)
             else Inl (Inr (TypeError ''search backend returned a non-SearchResult item'')))
           in case backend request of
             BackendResponse items bid rid resp \<Rightarrow> check items bid rid resp
           | PlainResults items \<Rightarrow> check items default_id (tk_request_id tk) None
           | BackendError be \<Rightarrow> Inl (Inl be)
           | BackendRaises e \<Rightarrow> Inl (Inr e)))"

definition base_trace :: "search_proxy \<Rightarrow> tick \<Rightarrow> string \<Rightarrow> search_trace" where
  "base_trace p tk query =
     \<lparr>tr_entrant_id = px_entrant_id p, tr_call_number = calls_used p + 1, tr_query = query,
      tr_status = ''FAILED'', tr_result_count = 0, tr_error_type = None, tr_error_code = None,
      tr_error_message = None, tr_backend_id = None, tr_backend_request_id = None,
      tr_backend_response_id = None, tr_http_status = None, tr_retryable = None,
      tr_backend_attempts = 1, tr_automatic_retries = 0,
      tr_started_at_utc = Some (tk_started_at tk), tr_duration_ms = Some (tk_duration_ms tk)\<rparr>"

definition or_id :: "string option \<Rightarrow> string \<Rightarrow> string" where
  "or_id a b = (case a of None \<Rightarrow> b | Some s \<Rightarrow> if s = [] then b else s)"

definition backend_error_trace :: "search_proxy \<Rightarrow> tick \<Rightarrow> string \<Rightarrow> backend_error \<Rightarrow> search_trace" where
  "backend_error_trace p tk query be = (base_trace p tk query)
     \<lparr>tr_error_type := Some (be_type be), tr_error_code := Some (be_error_code be),
      tr_error_message := Some (be_message be), tr_backend_id := Some (be_backend_id be),
      tr_backend_request_id := Some (or_id (be_request_id be) (tk_request_id tk)),
      tr_backend_response_id := be_response_id be, tr_http_status := be_http_status be,
      tr_retryable := Some (be_retryable be)\<rparr>"

text \<open>
  \<open>backend_id\<close> may already have been overwritten by the response when the item check
  raises; \<open>responded\<close> is the id at that moment.
\<close>

definition responded :: "search_backend \<Rightarrow> string \<Rightarrow> search_proxy \<Rightarrow> tick \<Rightarrow> string \<Rightarrow> string" where
  "responded backend default_id p tk query =
     (case make_search_request (px_entrant_id p) query (calls_used p + 1) (tk_request_id tk) of
        Inl _ \<Rightarrow> default_id
      | Inr request \<Rightarrow> (case backend request of BackendResponse _ bid _ _ \<Rightarrow> bid | _ \<Rightarrow> default_id))"

definition unexpected_error_trace :: "search_proxy \<Rightarrow> tick \<Rightarrow> string \<Rightarrow> string \<Rightarrow> exc \<Rightarrow> search_trace" where
  "unexpected_error_trace p tk query bid e = (base_trace p tk query)
     \<lparr>tr_error_type := Some (exc_type e), tr_error_code := Some ''UNEXPECTED_BACKEND_ERROR'',
      tr_error_message := Some (exc_msg e), tr_backend_id := Some bid,
      tr_backend_request_id := Some (tk_request_id tk), tr_retryable := Some False\<rparr>"

definition success_trace ::
    "search_proxy \<Rightarrow> tick \<Rightarrow> string \<Rightarrow> nat \<Rightarrow> string \<Rightarrow> string \<Rightarrow> string option \<Rightarrow> search_trace" where
  "success_trace p tk query n bid rid resp = (base_trace p tk query)
     \<lparr>tr_status := ''SUCCEEDED'', tr_result_count := n, tr_backend_id := Some bid,
      tr_backend_request_id := Some rid, tr_backend_response_id := resp,
      tr_http_status := Some 200, tr_retryable := Some False\<rparr>"

definition record_trace :: "search_proxy \<Rightarrow> search_trace \<Rightarrow> search_proxy" where
  "record_trace p t = p\<lparr>px_traces := px_traces p @ [t]\<rparr>"

definition search ::
    "search_backend \<Rightarrow> string \<Rightarrow> search_proxy \<Rightarrow> tick \<times> string \<Rightarrow> search_result list result \<times> search_proxy" where
  "search backend default_id p tq = (case tq of (tk, query) \<Rightarrow>
     if px_max_calls p \<le> calls_used p
     then (Inl (Exc ''SearchBudgetExceeded'' (px_entrant_id p @ '': search call '' @ show_int (calls_used p + 1)
             @ '' rejected; budget is '' @ show_int (px_max_calls p))), p)
     else (case attempt backend default_id p tk query of
         Inl (Inl be) \<Rightarrow> (Inl (Exc (be_type be) (be_message be)), record_trace p (backend_error_trace p tk query be))
       | Inl (Inr e) \<Rightarrow>
           (Inl e, record_trace p (unexpected_error_trace p tk query (responded backend default_id p tk query) e))
       | Inr (results, bid, rid, resp) \<Rightarrow>
           (Inr results, record_trace p (success_trace p tk query (length results) bid rid resp))))"

section \<open>The offline backend and reader\<close>

definition fake_backend_id :: string where
  "fake_backend_id = ''fake-search-pro-offline''"

definition fake_search_backend :: "(string \<Rightarrow> search_result list option) \<Rightarrow> search_backend" where
  "fake_search_backend results request =
     PlainResults (map Some (case results (rq_query request) of None \<Rightarrow> [] | Some rs \<Rightarrow> rs))"

text \<open>The default of \<open>dict.get\<close> is built before the lookup, so a blank URL raises in any case.\<close>

definition fake_url_read :: "(string \<Rightarrow> url_read_result option) \<Rightarrow> string \<Rightarrow> url_read_result result" where
  "fake_url_read results url =
     bindE (make_url_read_result url ''NOT_FOUND'' [] []) (\<lambda>missing.
     Inr (case results url of None \<Rightarrow> missing | Some r \<Rightarrow> r))"

section \<open>The proxy as a journal\<close>

definition trace_ok :: "string \<Rightarrow> nat \<Rightarrow> search_trace \<Rightarrow> bool" where
  "trace_ok eid n t \<longleftrightarrow> tr_entrant_id t = eid \<and> tr_call_number t = int n + 1
     \<and> tr_backend_attempts t = 1 \<and> tr_automatic_retries t = 0
     \<and> (tr_status t = ''SUCCEEDED'' \<and> tr_error_type t = None \<and> tr_http_status t = Some 200
        \<or> tr_status t = ''FAILED'' \<and> tr_error_type t \<noteq> None \<and> tr_result_count t = 0)"

definition proxy_ok :: "search_proxy \<Rightarrow> bool" where
  "proxy_ok p \<longleftrightarrow> calls_used p \<le> px_max_calls p
     \<and> (\<forall>n < length (px_traces p). trace_ok (px_entrant_id p) n (px_traces p ! n))"

lemma make_proxy_ok: "make_proxy eid m = Inr p \<Longrightarrow> proxy_ok p"
  by (auto simp: make_proxy_def proxy_ok_def calls_used_def)

lemma search_cases:
  obtains (exhausted) e where "px_max_calls p \<le> calls_used p" and "search b d p tq = (Inl e, p)"
  | (called) t where "calls_used p < px_max_calls p" and "snd (search b d p tq) = record_trace p t"
      and "trace_ok (px_entrant_id p) (length (px_traces p)) t" and "tr_query t = snd tq"
      and "tr_status t = ''SUCCEEDED'' \<longleftrightarrow> isOk (fst (search b d p tq))"
      and "\<And>rs. fst (search b d p tq) = Inr rs \<Longrightarrow> tr_result_count t = length rs"
proof (cases "px_max_calls p \<le> calls_used p")
  case True
  then show thesis by (intro exhausted) (auto simp: search_def split: prod.splits)
next
  case False
  note defs = search_def trace_ok_def base_trace_def backend_error_trace_def unexpected_error_trace_def
    success_trace_def calls_used_def
  obtain tk q where tq: "tq = (tk, q)" by (cases tq)
  show thesis
  proof (cases "attempt b d p tk q")
    case (Inl x)
    then show thesis
    proof (cases x)
      case (Inl be)
      with \<open>attempt b d p tk q = Inl x\<close> False show thesis
        by (intro called [of "backend_error_trace p tk q be"]) (simp_all add: tq defs)
    next
      case (Inr e)
      with \<open>attempt b d p tk q = Inl x\<close> False show thesis
        by (intro called [of "unexpected_error_trace p tk q (responded b d p tk q) e"]) (simp_all add: tq defs)
    qed
  next
    case (Inr y)
    obtain rs bid rid resp where y: "y = (rs, bid, rid, resp)" by (cases y)
    with Inr False show thesis
      by (intro called [of "success_trace p tk q (length rs) bid rid resp"]) (simp_all add: tq defs)
  qed
qed

lemma record_trace_ok:
  assumes "proxy_ok p" and "calls_used p < px_max_calls p"
    and "trace_ok (px_entrant_id p) (length (px_traces p)) t"
  shows "proxy_ok (record_trace p t)"
  using assms by (auto simp: proxy_ok_def record_trace_def calls_used_def nth_append less_Suc_eq)

lemma search_keeps [simp]:
  "px_max_calls (snd (search b d p tq)) = px_max_calls p"
  "px_entrant_id (snd (search b d p tq)) = px_entrant_id p"
  by (rule search_cases [of p b d tq]; simp add: record_trace_def)+

interpretation traces: keyed_journal "search b d" px_traces proxy_ok tr_call_number for b d
proof
  fix s i
  assume ok: "proxy_ok s"
  show "proxy_ok (snd (search b d s i))"
    by (rule search_cases [of s b d i]) (use ok in \<open>auto intro: record_trace_ok\<close>)
  show "\<exists>new. px_traces (snd (search b d s i)) = px_traces s @ new"
    by (rule search_cases [of s b d i]) (auto simp: record_trace_def)
next
  fix s :: search_proxy
  assume "proxy_ok s"
  then show "distinct (map tr_call_number (px_traces s))"
    by (auto simp: proxy_ok_def trace_ok_def distinct_conv_nth)
qed

lemma run_keeps [simp]:
  "px_max_calls (run_ops (search b d) p qs) = px_max_calls p"
  "px_entrant_id (run_ops (search b d) p qs) = px_entrant_id p"
  by (induction qs arbitrary: p) simp_all

lemma run_length:
  assumes "proxy_ok p"
  shows "int (length (px_traces (run_ops (search b d) p qs)))
    = min (px_max_calls p) (int (length (px_traces p)) + int (length qs))"
  using assms
proof (induction qs arbitrary: p)
  case Nil
  then show ?case by (simp add: proxy_ok_def calls_used_def)
next
  case (Cons q qs)
  note ok = traces.step_inv [OF Cons.prems, of b d q]
  show ?case
    by (rule search_cases [of p b d q])
      (use Cons.IH [OF ok] Cons.prems in \<open>auto simp: record_trace_def calls_used_def proxy_ok_def\<close>)
qed

section \<open>Properties\<close>

text \<open>C20.  The budget is exact: whatever an entrant asks and whatever the backend does, the proxy
  records one trace per call up to its budget and none beyond it, the traces are numbered from 1 in
  order, each is either a success with no error or a failure with one, and nothing recorded is ever
  changed.\<close>

theorem search_budget_exact:
  assumes "make_proxy eid max_calls = Inr p"
  shows "calls_used (run_ops (search b d) p qs) = min max_calls (int (length qs))
    \<and> (\<forall>n < length (px_traces (run_ops (search b d) p qs)).
         trace_ok eid n (px_traces (run_ops (search b d) p qs) ! n))
    \<and> (\<forall>rs. \<exists>new. px_traces (run_ops (search b d) p (qs @ rs)) = px_traces (run_ops (search b d) p qs) @ new)"
proof -
  note ok = make_proxy_ok [OF assms]
  have p: "px_max_calls p = max_calls" "px_entrant_id p = eid" "px_traces p = []"
    using assms by (auto simp: make_proxy_def split: if_splits)
  note inv = traces.run_inv [OF ok, of b d qs]
  have "\<exists>new. px_traces (run_ops (search b d) p (qs @ rs)) = px_traces (run_ops (search b d) p qs) @ new" for rs
    using traces.run_extends [OF inv, of b d rs] by (simp add: run_ops_append)
  moreover have "calls_used (run_ops (search b d) p qs) = min max_calls (int (length qs))"
    using run_length [OF ok, of b d qs] by (simp add: calls_used_def p)
  moreover have "\<forall>n < length (px_traces (run_ops (search b d) p qs)).
         trace_ok eid n (px_traces (run_ops (search b d) p qs) ! n)"
    using inv by (simp add: proxy_ok_def p)
  ultimately show ?thesis by blast
qed

theorem search_budget_exact_witness:
  "calls_used (run_ops (search (fake_search_backend (\<lambda>_. None)) ''f'')
     \<lparr>px_entrant_id = ''e'', px_max_calls = 2, px_traces = []\<rparr>
     (replicate 5 (\<lparr>tk_request_id = ''sc-1'', tk_started_at = ''t'', tk_duration_ms = Fin 0\<rparr>, ''q''))) = 2"
  using search_budget_exact [of "''e''" 2 "\<lparr>px_entrant_id = ''e'', px_max_calls = 2, px_traces = []\<rparr>"
      "fake_search_backend (\<lambda>_. None)" "''f''"] by (simp add: make_proxy_def)

text \<open>One call: an exhausted proxy refuses with \<open>SearchBudgetExceeded\<close>, changes nothing and
  answers the same whatever the backend is; any other call adds exactly one trace, which says
  SUCCEEDED exactly when results are returned and then counts them.\<close>

theorem search_one_call:
  "if px_max_calls p \<le> calls_used p
   then (\<exists>m. search b d p (tk, query) = (Inl (Exc ''SearchBudgetExceeded'' m), p))
     \<and> (\<forall>b' d'. search b' d' p (tk, query) = search b d p (tk, query))
   else (\<exists>t. px_traces (snd (search b d p (tk, query))) = px_traces p @ [t]
     \<and> tr_query t = query \<and> tr_call_number t = calls_used p + 1
     \<and> (tr_status t = ''SUCCEEDED'' \<longleftrightarrow> isOk (fst (search b d p (tk, query))))
     \<and> (\<forall>rs. fst (search b d p (tk, query)) = Inr rs \<longrightarrow> tr_result_count t = length rs))"
proof (cases "px_max_calls p \<le> calls_used p")
  case True
  then show ?thesis by (simp add: search_def)
next
  case False
  show ?thesis
    by (rule search_cases [of p b d "(tk, query)"])
      (use False in \<open>auto simp: record_trace_def trace_ok_def calls_used_def\<close>)
qed

definition sample_tick :: tick where
  "sample_tick = \<lparr>tk_request_id = ''sc-1'', tk_started_at = ''t'', tk_duration_ms = Fin 0\<rparr>"

theorem search_one_call_witness:
  "\<exists>m. search (fake_search_backend (\<lambda>_. None)) ''f'' \<lparr>px_entrant_id = ''e'', px_max_calls = 0, px_traces = []\<rparr> (sample_tick, ''q'')
     = (Inl (Exc ''SearchBudgetExceeded'' m), \<lparr>px_entrant_id = ''e'', px_max_calls = 0, px_traces = []\<rparr>)"
  using search_one_call [of "\<lparr>px_entrant_id = ''e'', px_max_calls = 0, px_traces = []\<rparr>"
      "fake_search_backend (\<lambda>_. None)" "''f''" sample_tick "''q''"]
  by (simp add: calls_used_def)

end
