(* ===== verification/CupRunner.thy ===== *)
theory CupRunner
  imports CupTools
begin

text \<open>
  The closed-book match (\<open>search_cup/runner.py\<close>) and its entrant adapters
  (\<open>search_cup/providers.py\<close>).

  A provider is handed the two canonical documents, its configuration and the tools, and
  nothing else: it can search, read a URL, look at its own traces and finally return a
  submission or raise.  So its run is a tree of tool calls (\<open>play\<close>) that branches on what
  each call answered, and \<open>execute\<close> carries it out against one entrant's proxy and reader.
  Any adapter is a function from its inputs to such a tree; the code's own adapters are
  given below.
\<close>

section \<open>A provider's run\<close>

datatype play =
    Finish "submission result"
  | SearchWeb string "search_result list result \<Rightarrow> play"
  | ReadUrl string "url_read_result result \<Rightarrow> play"
  | Inspect "search_trace list \<Rightarrow> play"

record entrant_tools =
  et_backend :: search_backend
  et_backend_id :: string
  et_read :: "string \<Rightarrow> url_read_result result"
  et_tick :: "nat \<Rightarrow> tick"

text \<open>The tick of a call is drawn by its number, so every call has its own request id.\<close>

definition search_web ::
    "entrant_tools \<Rightarrow> search_proxy \<Rightarrow> string \<Rightarrow> search_result list result \<times> search_proxy" where
  "search_web ts p query =
     search (et_backend ts) (et_backend_id ts) p (et_tick ts (length (px_traces p)), query)"

primrec execute :: "entrant_tools \<Rightarrow> play \<Rightarrow> search_proxy \<Rightarrow> submission result \<times> search_proxy" where
  "execute ts (Finish r) p = (r, p)"
| "execute ts (SearchWeb query k) p = execute ts (k (fst (search_web ts p query))) (snd (search_web ts p query))"
| "execute ts (ReadUrl url k) p = execute ts (k (et_read ts url)) p"
| "execute ts (Inspect k) p = execute ts (k (px_traces p)) p"

text \<open>A play reaches the proxy only through its operation.\<close>

lemma execute_is_run:
  "\<exists>qs. snd (execute ts pl p) = run_ops (search (et_backend ts) (et_backend_id ts)) p qs"
proof (induction pl arbitrary: p)
  case (Finish r)
  show ?case by (rule exI [of _ "[]"]) simp
next
  case (SearchWeb q k)
  let ?i = "(et_tick ts (length (px_traces p)), q)"
  from SearchWeb [OF rangeI, of "fst (search_web ts p q)" "snd (search_web ts p q)"]
  obtain qs where "snd (execute ts (k (fst (search_web ts p q))) (snd (search_web ts p q)))
    = run_ops (search (et_backend ts) (et_backend_id ts)) (snd (search_web ts p q)) qs" ..
  then show ?case by (intro exI [of _ "?i # qs"]) (simp add: search_web_def)
next
  case (ReadUrl u k)
  from ReadUrl [OF rangeI, of "et_read ts u" p] show ?case by simp
next
  case (Inspect k)
  from Inspect [OF rangeI, of "px_traces p" p] show ?case by simp
qed

section \<open>Adapters\<close>

record run_input =
  ri_candidate_content :: bytes
  ri_competition_content :: bytes
  ri_candidate_fingerprint :: string
  ri_competition_fingerprint :: string
  ri_entrant :: entrant_config

type_synonym provider = "run_input \<Rightarrow> play"

record fake_provider =
  fp_queries :: "string list"
  fp_leads :: "lead list"
  fp_apply_now_urls :: "string list"
  fp_search_strategy_summary :: string
  fp_rejected_or_downgraded :: "string list"
  fp_uncertainties :: "string list"

fun read_all :: "search_result list \<Rightarrow> play \<Rightarrow> play" where
  "read_all [] k = k"
| "read_all (r # rs) k = ReadUrl (sr_url r) (\<lambda>x. case x of Inl e \<Rightarrow> Finish (Inl e) | Inr _ \<Rightarrow> read_all rs k)"

fun ask_all :: "string list \<Rightarrow> play \<Rightarrow> play" where
  "ask_all [] k = k"
| "ask_all (q # qs) k = SearchWeb q (\<lambda>x. case x of
      Inl e \<Rightarrow> Finish (Inl e) | Inr results \<Rightarrow> read_all results (ask_all qs k))"

definition fake_provider_run :: "fake_provider \<Rightarrow> provider" where
  "fake_provider_run fp ri =
     (if ri_candidate_content ri = [] \<or> ri_competition_content ri = []
      then Finish (Inl (ValueError ''canonical candidate and competition content are required''))
      else ask_all (fp_queries fp) (Inspect (\<lambda>traces. Finish (make_submission
        \<lparr>sb_entrant = ri_entrant ri, sb_candidate_fingerprint = ri_candidate_fingerprint ri,
         sb_competition_fingerprint = ri_competition_fingerprint ri, sb_leads = fp_leads fp,
         sb_apply_now_urls = fp_apply_now_urls fp, sb_search_strategy_summary = fp_search_strategy_summary fp,
         sb_rejected_or_downgraded = fp_rejected_or_downgraded fp, sb_uncertainties = fp_uncertainties fp,
         sb_search_calls = int (length traces)\<rparr>))))"

definition failing_fake_provider_run :: "string \<Rightarrow> provider" where
  "failing_fake_provider_run message ri = Finish (Inl (RuntimeError message))"

definition locked_live_provider_run :: "string \<Rightarrow> provider" where
  "locked_live_provider_run name ri =
     Finish (Inl (Exc ''LiveProviderNotImplemented'' (name @ '': live adapters are outside ENG-SC-01-P0'')))"

section \<open>The match\<close>

record entrant_outcome =
  eo_entrant_id :: string
  eo_status :: string
  eo_frozen_submission :: "frozen_submission option"
  eo_traces :: "search_trace list"
  eo_error_type :: "string option"
  eo_error_message :: "string option"

record match_run =
  mr_competition_id :: string
  mr_candidate_fingerprint :: string
  mr_competition_fingerprint :: string
  mr_expected_entrant_ids :: "string list"
  mr_outcomes :: "entrant_outcome list"
  mr_entrant_execution_closed :: bool

definition frozen_outcomes :: "match_run \<Rightarrow> entrant_outcome list" where
  "frozen_outcomes m = filter (\<lambda>out. eo_status out = ''FROZEN'') (mr_outcomes m)"

definition failed_outcomes :: "match_run \<Rightarrow> entrant_outcome list" where
  "failed_outcomes m = filter (\<lambda>out. eo_status out = ''FAILED'') (mr_outcomes m)"

definition all_frozen :: "match_run \<Rightarrow> bool" where
  "all_frozen m \<longleftrightarrow> mr_entrant_execution_closed m
     \<and> length (mr_outcomes m) = length (mr_expected_entrant_ids m)
     \<and> list_all (\<lambda>out. eo_status out = ''FROZEN'') (mr_outcomes m)"

text \<open>The world around a match: adapters, fixtures and clocks by entrant id.\<close>

record arena =
  ar_providers :: "string \<Rightarrow> provider option"
  ar_search_fixtures :: "string \<Rightarrow> string \<Rightarrow> search_result list option"
  ar_url_fixtures :: "string \<Rightarrow> string \<Rightarrow> url_read_result option"
  ar_tick :: "string \<Rightarrow> nat \<Rightarrow> tick"

definition arena_tools :: "arena \<Rightarrow> string \<Rightarrow> entrant_tools" where
  "arena_tools ar eid = \<lparr>et_backend = fake_search_backend (ar_search_fixtures ar eid),
     et_backend_id = fake_backend_id, et_read = fake_url_read (ar_url_fixtures ar eid), et_tick = ar_tick ar eid\<rparr>"

definition failed_outcome :: "string \<Rightarrow> search_trace list \<Rightarrow> exc \<Rightarrow> entrant_outcome" where
  "failed_outcome eid traces e = \<lparr>eo_entrant_id = eid, eo_status = ''FAILED'', eo_frozen_submission = None,
     eo_traces = traces, eo_error_type = Some (exc_type e), eo_error_message = Some (exc_msg e)\<rparr>"

text \<open>The checks between the provider's return and the freeze.\<close>

definition accept_submission ::
    "candidate_card \<Rightarrow> competition_spec \<Rightarrow> entrant_config \<Rightarrow> int \<Rightarrow> submission \<Rightarrow> frozen_submission result" where
  "accept_submission cand cspec e calls s =
     (if sb_entrant s \<noteq> e then Inl (ValueError ''provider changed entrant identity or configuration'')
      else if sb_candidate_fingerprint s \<noteq> cd_fingerprint cand
      then Inl (ValueError ''provider returned a different Candidate Card fingerprint'')
      else if sb_competition_fingerprint s \<noteq> co_fingerprint cspec
      then Inl (ValueError ''provider returned a different CompetitionSpec fingerprint'')
      else if sb_search_calls s \<noteq> calls
      then Inl (ValueError ''provider search-call count does not match tool trace'')
      else freeze s)"

definition entrant_input :: "candidate_card \<Rightarrow> competition_spec \<Rightarrow> entrant_config \<Rightarrow> run_input" where
  "entrant_input cand cspec e = \<lparr>ri_candidate_content = utf8_encode (cd_canonical_content cand),
     ri_competition_content = utf8_encode (co_canonical_content cspec),
     ri_candidate_fingerprint = cd_fingerprint cand, ri_competition_fingerprint = co_fingerprint cspec,
     ri_entrant = e\<rparr>"

definition run_entrant ::
    "candidate_card \<Rightarrow> competition_spec \<Rightarrow> arena \<Rightarrow> entrant_config \<Rightarrow> entrant_outcome result" where
  "run_entrant cand cspec ar e =
     (let eid = en_entrant_id e in
      bindE (make_proxy eid (co_max_search_calls cspec)) (\<lambda>proxy.
      case ar_providers ar eid of
        None \<Rightarrow> Inr (failed_outcome eid [] (Exc ''MissingProvider'' ''no provider adapter configured''))
      | Some provider \<Rightarrow>
          (case execute (arena_tools ar eid) (provider (entrant_input cand cspec e)) proxy of
             (r, proxy') \<Rightarrow>
               (case bindE r (accept_submission cand cspec e (calls_used proxy')) of
                  Inl err \<Rightarrow> Inr (failed_outcome eid (px_traces proxy') err)
                | Inr frozen \<Rightarrow> Inr
                    \<lparr>eo_entrant_id = eid, eo_status = ''FROZEN'', eo_frozen_submission = Some frozen,
                     eo_traces = px_traces proxy', eo_error_type = None, eo_error_message = None\<rparr>))))"

definition run_match :: "candidate_card \<Rightarrow> competition_spec \<Rightarrow> arena \<Rightarrow> match_run result" where
  "run_match cand cspec ar =
     bindE (mapE (run_entrant cand cspec ar) (co_entrants cspec)) (\<lambda>outcomes. Inr
       \<lparr>mr_competition_id = co_competition_id cspec, mr_candidate_fingerprint = cd_fingerprint cand,
        mr_competition_fingerprint = co_fingerprint cspec,
        mr_expected_entrant_ids = map en_entrant_id (co_entrants cspec),
        mr_outcomes = outcomes, mr_entrant_execution_closed = True\<rparr>)"

section \<open>What an outcome means\<close>

definition outcome_ok :: "candidate_card \<Rightarrow> competition_spec \<Rightarrow> entrant_config \<Rightarrow> entrant_outcome \<Rightarrow> bool" where
  "outcome_ok cand cspec e out \<longleftrightarrow> eo_entrant_id out = en_entrant_id e
     \<and> int (length (eo_traces out)) \<le> co_max_search_calls cspec
     \<and> (\<forall>n < length (eo_traces out). trace_ok (en_entrant_id e) n (eo_traces out ! n))
     \<and> (case eo_frozen_submission out of
          None \<Rightarrow> eo_status out = ''FAILED'' \<and> eo_error_type out \<noteq> None
        | Some f \<Rightarrow> eo_status out = ''FROZEN'' \<and> eo_error_type out = None
            \<and> (\<exists>s. freeze s = Inr f \<and> sb_entrant s = e
                 \<and> sb_candidate_fingerprint s = cd_fingerprint cand
                 \<and> sb_competition_fingerprint s = co_fingerprint cspec
                 \<and> sb_search_calls s = int (length (eo_traces out))))"

lemma accept_submission_Inr:
  "accept_submission cand cspec e calls s = Inr f \<longleftrightarrow> freeze s = Inr f \<and> sb_entrant s = e
     \<and> sb_candidate_fingerprint s = cd_fingerprint cand
     \<and> sb_competition_fingerprint s = co_fingerprint cspec \<and> sb_search_calls s = calls"
  by (auto simp: accept_submission_def)

lemma run_entrant_ok:
  assumes "1 \<le> co_max_search_calls cspec"
  obtains out where "run_entrant cand cspec ar e = Inr out" and "outcome_ok cand cspec e out"
proof -
  define p where "p = \<lparr>px_entrant_id = en_entrant_id e, px_max_calls = co_max_search_calls cspec, px_traces = []\<rparr>"
  have mk: "make_proxy (en_entrant_id e) (co_max_search_calls cspec) = Inr p"
    using assms by (simp add: make_proxy_def p_def)
  show thesis
  proof (cases "ar_providers ar (en_entrant_id e)")
    case None
    with mk assms show thesis
      by (intro that [of "failed_outcome (en_entrant_id e) [] (Exc ''MissingProvider'' ''no provider adapter configured'')"])
        (simp_all add: run_entrant_def Let_def outcome_ok_def failed_outcome_def)
  next
    case (Some provider)
    let ?ts = "arena_tools ar (en_entrant_id e)"
    obtain r p' where run: "execute ?ts (provider (entrant_input cand cspec e)) p = (r, p')" by fastforce
    from execute_is_run [of ?ts "provider (entrant_input cand cspec e)" p] run
    obtain qs where qs: "p' = run_ops (search (et_backend ?ts) (et_backend_id ?ts)) p qs" by auto
    from traces.run_inv [OF make_proxy_ok [OF mk]] have "proxy_ok p'" by (simp add: qs)
    then have traces: "int (length (px_traces p')) \<le> co_max_search_calls cspec"
      "\<forall>n < length (px_traces p'). trace_ok (en_entrant_id e) n (px_traces p' ! n)"
      by (simp_all add: proxy_ok_def calls_used_def qs p_def)
    show thesis
    proof (cases "bindE r (accept_submission cand cspec e (calls_used p'))")
      case (Inl err)
      with mk Some run traces show thesis
        by (intro that [of "failed_outcome (en_entrant_id e) (px_traces p') err"])
          (simp_all add: run_entrant_def Let_def outcome_ok_def failed_outcome_def)
    next
      case (Inr f)
      then obtain s where "accept_submission cand cspec e (calls_used p') s = Inr f"
        by (auto simp: bindE_eq_Inr)
      with Inr mk Some run traces show thesis
        by (intro that [of "\<lparr>eo_entrant_id = en_entrant_id e, eo_status = ''FROZEN'', eo_frozen_submission = Some f,
             eo_traces = px_traces p', eo_error_type = None, eo_error_message = None\<rparr>"])
          (auto simp: run_entrant_def Let_def outcome_ok_def accept_submission_Inr calls_used_def)
    qed
  qed
qed

text \<open>An entrant's outcome is a function of what belongs to it.\<close>

lemma run_entrant_local:
  assumes "ar_providers ar (en_entrant_id e) = ar_providers ar' (en_entrant_id e)"
    and "ar_search_fixtures ar (en_entrant_id e) = ar_search_fixtures ar' (en_entrant_id e)"
    and "ar_url_fixtures ar (en_entrant_id e) = ar_url_fixtures ar' (en_entrant_id e)"
    and "ar_tick ar (en_entrant_id e) = ar_tick ar' (en_entrant_id e)"
  shows "run_entrant cand cspec ar e = run_entrant cand cspec ar' e"
proof -
  have "arena_tools ar (en_entrant_id e) = arena_tools ar' (en_entrant_id e)"
    using assms(2-) by (simp add: arena_tools_def)
  with assms(1) show ?thesis by (simp only: run_entrant_def Let_def)
qed

section \<open>Properties\<close>

text \<open>C21.  A match always ends with exactly one outcome per entrant, in the order of the competition,
  whatever the adapters do: a FROZEN outcome holds the frozen form of a submission of that entrant
  with the right fingerprints and as many calls as it has traces, a FAILED one has no submission and
  names its error, and both keep their traces, numbered and within the budget.\<close>

theorem match_outcomes:
  assumes "1 \<le> co_max_search_calls cspec"
  shows "\<exists>m. run_match cand cspec ar = Inr m
    \<and> list_all2 (outcome_ok cand cspec) (co_entrants cspec) (mr_outcomes m)
    \<and> map eo_entrant_id (mr_outcomes m) = mr_expected_entrant_ids m
    \<and> length (frozen_outcomes m) + length (failed_outcomes m) = length (co_entrants cspec)
    \<and> (all_frozen m \<longleftrightarrow> failed_outcomes m = [])"
proof -
  have "\<exists>outs. mapE (run_entrant cand cspec ar) es = Inr outs \<and> list_all2 (outcome_ok cand cspec) es outs" for es
  proof (induction es)
    case (Cons e es)
    obtain out where "run_entrant cand cspec ar e = Inr out" "outcome_ok cand cspec e out"
      by (rule run_entrant_ok [OF assms])
    with Cons show ?case by auto
  qed simp
  then obtain outs where outs: "mapE (run_entrant cand cspec ar) (co_entrants cspec) = Inr outs"
    and ok: "list_all2 (outcome_ok cand cspec) (co_entrants cspec) outs" by blast
  have len: "length outs = length (co_entrants cspec)" using ok by (auto dest: list_all2_lengthD)
  have ids: "map eo_entrant_id outs = map en_entrant_id (co_entrants cspec)"
    using ok by (induction rule: list_all2_induct) (auto simp: outcome_ok_def)
  have status: "\<forall>out \<in> set outs. (eo_status out = ''FAILED'') = (eo_status out \<noteq> ''FROZEN'')"
    using ok by (induction rule: list_all2_induct) (auto simp: outcome_ok_def split: option.splits)
  then have failed: "filter (\<lambda>out. eo_status out = ''FAILED'') outs = filter (\<lambda>out. eo_status out \<noteq> ''FROZEN'') outs"
    by (intro filter_cong) auto
  have "length (filter (\<lambda>out. eo_status out = ''FROZEN'') outs) + length (filter (\<lambda>out. eo_status out \<noteq> ''FROZEN'') outs)
      = length outs" by (rule filter_length_split)
  moreover have "list_all (\<lambda>out. eo_status out = ''FROZEN'') outs \<longleftrightarrow> filter (\<lambda>out. eo_status out \<noteq> ''FROZEN'') outs = []"
    by (auto simp: list_all_iff filter_empty_conv)
  ultimately show ?thesis
    using outs ok len ids
    by (auto simp: run_match_def frozen_outcomes_def failed_outcomes_def all_frozen_def failed)
qed

definition sample_comp :: competition_spec where
  "sample_comp = \<lparr>co_competition_id = ''C'', co_task = ''t'', co_max_search_calls = 20, co_search_backend_id = ''b'',
     co_official_match_authorized = False, co_entrants = sample_entrants, co_canonical_content = ''{}'',
     co_fingerprint = ''f''\<rparr>"

definition sample_arena :: "(string \<Rightarrow> provider option) \<Rightarrow> arena" where
  "sample_arena ps = \<lparr>ar_providers = ps, ar_search_fixtures = (\<lambda>_ _. None), ar_url_fixtures = (\<lambda>_ _. None),
     ar_tick = (\<lambda>_ n. \<lparr>tk_request_id = ''sc-'' @ show_nat n, tk_started_at = ''t'', tk_duration_ms = Fin 0\<rparr>)\<rparr>"

theorem match_outcomes_witness:
  "\<exists>m. run_match \<lparr>cd_canonical_content = ''{}'', cd_fingerprint = ''c''\<rparr> sample_comp (sample_arena (\<lambda>_. None)) = Inr m
     \<and> map eo_entrant_id (mr_outcomes m) = mr_expected_entrant_ids m"
proof -
  have "1 \<le> co_max_search_calls sample_comp" by (simp add: sample_comp_def)
  from match_outcomes [OF this] show ?thesis by blast
qed

text \<open>C22.  Isolation: an entrant's outcome depends only on its own adapter, fixtures and clock; two
  matches that agree on those for an entrant give it the same outcome, whatever happens to the
  others.\<close>

theorem match_isolation:
  assumes "run_match cand cspec ar = Inr m" and "run_match cand cspec ar' = Inr m'"
    and "n < length (co_entrants cspec)" and "eid = en_entrant_id (co_entrants cspec ! n)"
    and "ar_providers ar eid = ar_providers ar' eid"
    and "ar_search_fixtures ar eid = ar_search_fixtures ar' eid"
    and "ar_url_fixtures ar eid = ar_url_fixtures ar' eid" and "ar_tick ar eid = ar_tick ar' eid"
  shows "mr_outcomes m ! n = mr_outcomes m' ! n"
proof -
  from assms(1,2) have "list_all2 (\<lambda>e out. run_entrant cand cspec ar e = Inr out) (co_entrants cspec) (mr_outcomes m)"
    "list_all2 (\<lambda>e out. run_entrant cand cspec ar' e = Inr out) (co_entrants cspec) (mr_outcomes m')"
    by (auto simp: run_match_def bindE_eq_Inr mapE_eq_Inr)
  with assms(3) have "run_entrant cand cspec ar (co_entrants cspec ! n) = Inr (mr_outcomes m ! n)"
    "run_entrant cand cspec ar' (co_entrants cspec ! n) = Inr (mr_outcomes m' ! n)"
    by (auto simp: list_all2_conv_all_nth)
  moreover have "run_entrant cand cspec ar (co_entrants cspec ! n) = run_entrant cand cspec ar' (co_entrants cspec ! n)"
    using assms(5-8) by (intro run_entrant_local) (simp_all add: assms(4))
  ultimately show ?thesis by simp
qed

lemma sample_match_runs: "\<exists>m. run_match cand sample_comp ar = Inr m"
proof -
  have "\<exists>outs. mapE (run_entrant cand sample_comp ar) es = Inr outs" for es
  proof (induction es)
    case (Cons e es)
    have "1 \<le> co_max_search_calls sample_comp" by (simp add: sample_comp_def)
    then obtain out where "run_entrant cand sample_comp ar e = Inr out" by (rule run_entrant_ok)
    with Cons show ?case by auto
  qed simp
  then obtain outs where "mapE (run_entrant cand sample_comp ar) (co_entrants sample_comp) = Inr outs" by blast
  then show ?thesis by (simp add: run_match_def)
qed

theorem match_isolation_witness:
  "\<exists>m m'. run_match \<lparr>cd_canonical_content = ''{}'', cd_fingerprint = ''c''\<rparr> sample_comp (sample_arena (\<lambda>_. None)) = Inr m
     \<and> run_match \<lparr>cd_canonical_content = ''{}'', cd_fingerprint = ''c''\<rparr> sample_comp
         (sample_arena ((\<lambda>_. None)(''e2'' \<mapsto> locked_live_provider_run ''Gemini''))) = Inr m'
     \<and> mr_outcomes m ! 0 = mr_outcomes m' ! 0"
proof -
  let ?c = "\<lparr>cd_canonical_content = ''{}'', cd_fingerprint = ''c''\<rparr>"
  obtain m where m: "run_match ?c sample_comp (sample_arena (\<lambda>_. None)) = Inr m"
    using sample_match_runs by blast
  obtain m' where m': "run_match ?c sample_comp
      (sample_arena ((\<lambda>_. None)(''e2'' \<mapsto> locked_live_provider_run ''Gemini''))) = Inr m'"
    using sample_match_runs by blast
  have "mr_outcomes m ! 0 = mr_outcomes m' ! 0"
    by (rule match_isolation [OF m m', of 0 "''e1''"])
      (simp_all add: sample_comp_def sample_entrants_def sample_arena_def)
  with m m' show ?thesis by blast
qed

end
