(* ===== verification/CupJudge.thy ===== *)
theory CupJudge
  imports CupRunner "HOL-Library.Product_Lexorder"
begin

text \<open>
  The hidden registry gate and the deterministic judge (\<open>search_cup/judge.py\<close>).  Points are
  binary64 numbers; every sum and quotient is rounded where Python rounds it.
\<close>

section \<open>The gate\<close>

abbreviation RegistryAccessDenied :: "string \<Rightarrow> exc" where
  "RegistryAccessDenied m \<equiv> Exc ''RegistryAccessDenied'' m"

definition gate_open :: "match_run \<Rightarrow> registry_snapshot \<Rightarrow> registry_snapshot result" where
  "gate_open m snap =
     (if \<not> mr_entrant_execution_closed m
      then Inl (RegistryAccessDenied ''entrant execution is still open'')
      else if \<not> all_frozen m
      then Inl (RegistryAccessDenied ''all configured entrant submissions must be frozen before judging'')
      else bindE (snapshot_verify snap) (\<lambda>_. Inr snap))"

section \<open>Judging a lead\<close>

record lead_judgment =
  lj_source_url :: string
  lj_real_open_points :: rat
  lj_practical_fit_points :: rat
  lj_novelty_points :: rat
  lj_geography_points :: rat
  lj_actionability_points :: rat
  lj_penalty :: rat
  lj_apply_now :: bool
  lj_reasons :: "string list"

record behavior_profile =
  bp_entrant_id :: string
  bp_lead_count :: nat
  bp_search_calls :: int
  bp_precision :: rat
  bp_novelty_yield :: rat
  bp_false_well_rate :: rat
  bp_geography_error_rate :: rat

record competition_score =
  sc_entrant_id :: string
  sc_provider :: string
  sc_exact_model_id :: string
  sc_real_open :: rat
  sc_practical_fit :: rat
  sc_novelty :: rat
  sc_geography :: rat
  sc_actionability :: rat
  sc_search_efficiency :: rat
  sc_penalties :: rat
  sc_total :: rat
  sc_submission_sha256 :: string
  sc_judgments :: "lead_judgment list"
  sc_behavior :: behavior_profile

record competition_report =
  cr_competition_id :: string
  cr_candidate_fingerprint :: string
  cr_competition_fingerprint :: string
  cr_registry_fingerprint :: string
  cr_scores :: "competition_score list"
  cr_report_fingerprint :: string

text \<open>\<open>{item.key: item for item in snapshot.assessments}\<close>: a later entry replaces an earlier one.\<close>

definition assessment_map :: "registry_snapshot \<Rightarrow> string \<Rightarrow> registry_assessment option" where
  "assessment_map snap = map_of (rev (map (\<lambda>a. (assessment_key a, a)) (rs_assessments snap)))"

definition unknown_assessment :: "string \<Rightarrow> registry_assessment" where
  "unknown_assessment url = \<lparr>ra_source_url = url, ra_real_open = False, ra_practical_fit = False,
     ra_geography_eligible = False, ra_actionable = False, ra_primary_source = False,
     ra_fabricated = False, ra_us_only = False, ra_senior_or_phd_mismatch = False\<rparr>"

text \<open>The penalty rules in the order of the code: condition, points and reason.\<close>

definition penalty_rules :: "lead \<Rightarrow> registry_assessment \<Rightarrow> string list \<Rightarrow> (bool \<times> rat \<times> string) list" where
  "penalty_rules l a known =
     [(\<not> ra_real_open a \<and> ld_open_status l = ''OPEN'', 5, ''closed/stale role reported as open''),
      (ra_us_only a \<and> list_ex (\<lambda>t. contains t (lower (ld_remote_scope l))) [''world'', ''europe'', ''emea''],
         8, ''US-only role overstated as geographically applicable''),
      (ra_senior_or_phd_mismatch a, 5, ''senior/PhD mismatch sold as fit''),
      (lead_key l \<in> set known \<and> ld_claimed_novel l, 3, ''known well presented as novel''),
      (\<not> ra_primary_source a \<or> \<not> ld_official_source l, 3, ''credible primary source missing'')]"

definition fsum :: "rat list \<Rightarrow> rat" where
  "fsum xs = foldl (\<lambda>a x. rnd (a + x)) 0 xs"

definition lead_judgment :: "lead \<Rightarrow> registry_assessment \<Rightarrow> string list \<Rightarrow> string list \<Rightarrow> lead_judgment" where
  "lead_judgment l a known apply_now =
     (let is_apply_now = (ld_source_url l \<in> set apply_now);
          multiplier = (if is_apply_now then 2 else 1 :: rat);
          fired = filter fst (penalty_rules l a known) in
      if ra_fabricated a
      then \<lparr>lj_source_url = ld_source_url l, lj_real_open_points = 0, lj_practical_fit_points = 0,
            lj_novelty_points = 0, lj_geography_points = 0, lj_actionability_points = 0, lj_penalty = 0,
            lj_apply_now = is_apply_now, lj_reasons = [''fabricated lead: score forced to zero'']\<rparr>
      else \<lparr>lj_source_url = ld_source_url l,
            lj_real_open_points = (if ra_real_open a then 25 else 0),
            lj_practical_fit_points = (if ra_practical_fit a then 25 else 0),
            lj_novelty_points = (if lead_key l \<notin> set known then 20 else 0),
            lj_geography_points = (if ra_geography_eligible a then 15 else 0),
            lj_actionability_points = (if ra_actionable a then 10 else 0),
            lj_penalty = fsum (map (\<lambda>(_, p, _). rnd (p * multiplier)) fired),
            lj_apply_now = is_apply_now, lj_reasons = map (\<lambda>(_, _, r). r) fired\<rparr>)"

section \<open>Scoring a submission\<close>

definition mean_points :: "(lead_judgment \<Rightarrow> rat) \<Rightarrow> lead_judgment list \<Rightarrow> rat" where
  "mean_points points js = rnd (fsum (map points js) / of_nat (max 1 (length js)))"

definition count_where :: "(lead_judgment \<Rightarrow> bool) \<Rightarrow> lead_judgment list \<Rightarrow> nat" where
  "count_where P js = length (filter P js)"

definition per_call :: "nat \<Rightarrow> int \<Rightarrow> rat" where
  "per_call n calls = rnd (of_nat n / of_int (max 1 calls))"

definition efficiency :: "lead_judgment list \<Rightarrow> int \<Rightarrow> rat" where
  "efficiency js calls =
     rnd (5 * min 1 (per_call (count_where (\<lambda>j. lj_real_open_points j > 0 \<and> lj_actionability_points j > 0) js) calls))"

text \<open>\<open>real + fit + novelty + geography + action + efficiency - penalties\<close>, clamped to 0..100.\<close>

definition total_points :: "rat list \<Rightarrow> rat \<Rightarrow> rat" where
  "total_points gains penalties =
     max 0 (min 100 (rnd (foldl (\<lambda>a x. rnd (a + x)) (hd gains) (tl gains) - penalties)))"

definition judge_leads :: "registry_snapshot \<Rightarrow> submission \<Rightarrow> lead_judgment list" where
  "judge_leads snap s = map (\<lambda>l.
     let a = (case assessment_map snap (lead_key l) of
                None \<Rightarrow> unknown_assessment (ld_source_url l) | Some a \<Rightarrow> a)
     in lead_judgment l a (rs_known_well_keys snap) (sb_apply_now_urls s)) (sb_leads s)"

definition score_submission ::
    "registry_snapshot \<Rightarrow> string \<Rightarrow> frozen_submission \<Rightarrow> submission \<Rightarrow> competition_score" where
  "score_submission snap eid f s =
     (let js = judge_leads snap s; count = length js; divisor = of_nat (max 1 count) :: rat;
          real = mean_points lj_real_open_points js; fit = mean_points lj_practical_fit_points js;
          novelty = mean_points lj_novelty_points js; geography = mean_points lj_geography_points js;
          action = mean_points lj_actionability_points js; penalties = mean_points lj_penalty js;
          eff = efficiency js (sb_search_calls s);
          false_wells = count_where (\<lambda>j. lj_real_open_points j = 0) js;
          geo_errors = count_where (\<lambda>j. lj_geography_points j = 0) js;
          novel = count_where (\<lambda>j. lj_novelty_points j > 0) js
      in \<lparr>sc_entrant_id = eid, sc_provider = en_provider (sb_entrant s),
          sc_exact_model_id = en_exact_model_id (sb_entrant s), sc_real_open = real, sc_practical_fit = fit,
          sc_novelty = novelty, sc_geography = geography, sc_actionability = action,
          sc_search_efficiency = eff, sc_penalties = penalties,
          sc_total = total_points [real, fit, novelty, geography, action, eff] penalties,
          sc_submission_sha256 = fz_sha256 f, sc_judgments = js,
          sc_behavior = \<lparr>bp_entrant_id = eid, bp_lead_count = count, bp_search_calls = sb_search_calls s,
             bp_precision = rnd (of_nat (count - false_wells) / divisor),
             bp_novelty_yield = per_call novel (sb_search_calls s),
             bp_false_well_rate = rnd (of_nat false_wells / divisor),
             bp_geography_error_rate = rnd (of_nat geo_errors / divisor)\<rparr>\<rparr>)"

definition score_outcome :: "registry_snapshot \<Rightarrow> entrant_outcome \<Rightarrow> competition_score result" where
  "score_outcome snap out = (case eo_frozen_submission out of
      None \<Rightarrow> Inl (ValueError ''frozen outcome is missing evidence'')
    | Some f \<Rightarrow> bindE (thaw_verified f) (\<lambda>s. Inr (score_submission snap (eo_entrant_id out) f s)))"

section \<open>The report\<close>

definition num :: "rat \<Rightarrow> json" where
  "num x = JFloat (Fin x)"

definition judgment_dict :: "lead_judgment \<Rightarrow> json" where
  "judgment_dict j = JObj
    [(''source_url'', JStr (lj_source_url j)), (''real_open_points'', num (lj_real_open_points j)),
     (''practical_fit_points'', num (lj_practical_fit_points j)), (''novelty_points'', num (lj_novelty_points j)),
     (''geography_points'', num (lj_geography_points j)), (''actionability_points'', num (lj_actionability_points j)),
     (''penalty'', num (lj_penalty j)), (''apply_now'', JBool (lj_apply_now j)),
     (''reasons'', JArr (map JStr (lj_reasons j)))]"

definition score_dict :: "competition_score \<Rightarrow> json" where
  "score_dict s = JObj
    [(''entrant_id'', JStr (sc_entrant_id s)), (''provider'', JStr (sc_provider s)),
     (''exact_model_id'', JStr (sc_exact_model_id s)), (''real_open'', num (sc_real_open s)),
     (''practical_fit'', num (sc_practical_fit s)), (''novelty'', num (sc_novelty s)),
     (''geography'', num (sc_geography s)), (''actionability'', num (sc_actionability s)),
     (''search_efficiency'', num (sc_search_efficiency s)), (''penalties'', num (sc_penalties s)),
     (''total'', num (sc_total s)), (''submission_sha256'', JStr (sc_submission_sha256 s)),
     (''judgments'', JArr (map judgment_dict (sc_judgments s))),
     (''behavior'', JObj
       [(''entrant_id'', JStr (bp_entrant_id (sc_behavior s))),
        (''lead_count'', JInt (int (bp_lead_count (sc_behavior s)))),
        (''search_calls'', JInt (bp_search_calls (sc_behavior s))),
        (''precision'', num (bp_precision (sc_behavior s))),
        (''novelty_yield'', num (bp_novelty_yield (sc_behavior s))),
        (''false_well_rate'', num (bp_false_well_rate (sc_behavior s))),
        (''geography_error_rate'', num (bp_geography_error_rate (sc_behavior s)))])]"

definition order_scores :: "competition_score list \<Rightarrow> competition_score list" where
  "order_scores ss = sort_key (\<lambda>s. (- sc_total s, sc_entrant_id s)) ss"

definition report_payload :: "match_run \<Rightarrow> registry_snapshot \<Rightarrow> competition_score list \<Rightarrow> obj" where
  "report_payload m snap ordered =
    [(''competition_id'', JStr (mr_competition_id m)),
     (''candidate_fingerprint'', JStr (mr_candidate_fingerprint m)),
     (''competition_fingerprint'', JStr (mr_competition_fingerprint m)),
     (''registry_fingerprint'', JStr (rs_fingerprint snap)),
     (''scores'', JArr (map score_dict ordered))]"

definition judge_match :: "match_run \<Rightarrow> registry_snapshot \<Rightarrow> competition_report result" where
  "judge_match m snap =
     bindE (gate_open m snap) (\<lambda>opened.
     bindE (mapE (score_outcome opened) (frozen_outcomes m)) (\<lambda>scores.
     let ordered = order_scores scores in
     Inr \<lparr>cr_competition_id = mr_competition_id m, cr_candidate_fingerprint = mr_candidate_fingerprint m,
          cr_competition_fingerprint = mr_competition_fingerprint m,
          cr_registry_fingerprint = rs_fingerprint opened, cr_scores = ordered,
          cr_report_fingerprint = fingerprint (JObj (report_payload m opened ordered))\<rparr>))"

definition report_as_dict :: "competition_report \<Rightarrow> obj" where
  "report_as_dict r =
    [(''competition_id'', JStr (cr_competition_id r)),
     (''candidate_fingerprint'', JStr (cr_candidate_fingerprint r)),
     (''competition_fingerprint'', JStr (cr_competition_fingerprint r)),
     (''registry_fingerprint'', JStr (cr_registry_fingerprint r)),
     (''scores'', JArr (map score_dict (cr_scores r))),
     (''report_fingerprint'', JStr (cr_report_fingerprint r))]"

section \<open>Bounds of the points\<close>

lemma rnd_le_int:
  assumes "0 \<le> x" and "x \<le> of_int m" and "m < 2 ^ 53"
  shows "rnd x \<le> of_int m"
proof (cases "x = 0")
  case True
  with assms show ?thesis by simp
next
  case False
  with assms(1) have pos: "0 < x" by simp
  have "x < 2 powi 53"
  proof -
    have "(of_int m :: rat) < of_int (2 ^ 53)" using assms(3) by (simp only: of_int_less_iff)
    with assms(2) show ?thesis by simp
  qed
  from ilog2_less [OF pos this] have q: "qexp x \<le> 0" using pos by (simp add: qexp_def)
  have "(2::rat) powi 0 = of_int (2 ^ nat (0 - qexp x)) * 2 powi (qexp x)" by (rule powi_split [OF q])
  then have one: "1 = of_int (2 ^ nat (- qexp x)) * quantum x" by (simp add: quantum_qexp)
  have "of_int (m * 2 ^ nat (- qexp x)) * quantum x = of_int m * (of_int (2 ^ nat (- qexp x)) * quantum x)"
    by (simp only: of_int_mult mult.assoc)
  also have "\<dots> = of_int m" by (simp only: one [symmetric] mult_1_right)
  finally have eq: "of_int (m * 2 ^ nat (- qexp x)) * quantum x = of_int m" .
  from rnd_le_multiple [OF False, of "m * 2 ^ nat (- qexp x)"] assms(2) show ?thesis by (simp only: eq)
qed

lemma fsum_nats:
  assumes "a + sum_list ns < 2 ^ 53"
  shows "foldl (\<lambda>a x. rnd (a + x)) (of_nat a) (map of_nat ns) = (of_nat (a + sum_list ns) :: rat)"
  using assms
proof (induction ns arbitrary: a)
  case (Cons n ns)
  have "\<bar>int (a + n)\<bar> < 2 ^ 53" using Cons.prems by simp
  from rnd_of_int [OF this] have "rnd (of_nat a + of_nat n) = (of_nat (a + n) :: rat)" by simp
  with Cons.IH [of "a + n"] Cons.prems show ?case by (simp add: ac_simps)
qed simp

text \<open>A mean of whole points between 0 and \<open>c\<close> is between 0 and \<open>c\<close>.\<close>

lemma mean_bounds:
  assumes "\<forall>j \<in> set js. \<exists>n \<le> c. points j = of_nat n" and "length js \<le> 20" and "c \<le> 100"
  shows "0 \<le> mean_points points js \<and> mean_points points js \<le> of_nat c"
proof -
  from assms(1) have "\<exists>ns. map points js = map of_nat ns \<and> length ns = length js \<and> list_all (\<lambda>n. n \<le> c) ns"
  proof (induction js)
    case (Cons j js)
    then obtain n ns where "n \<le> c" "points j = of_nat n" "map points js = map of_nat ns"
      "length ns = length js" "list_all (\<lambda>n. n \<le> c) ns" by auto
    then show ?case by (intro exI [of _ "n # ns"]) simp
  qed simp
  then obtain ns where ns: "map points js = map of_nat ns" "length ns = length js" "list_all (\<lambda>n. n \<le> c) ns" by blast
  have le: "sum_list ns \<le> c * length js"
    using ns(3) unfolding ns(2) [symmetric] by (induction ns) auto
  also have "\<dots> \<le> 100 * 20" by (rule mult_le_mono [OF assms(3,2)])
  finally have "fsum (map points js) = of_nat (sum_list ns)"
    using fsum_nats [of 0 ns] by (simp add: fsum_def ns(1))
  moreover have "(of_nat (sum_list ns) :: rat) / of_nat (max 1 (length js)) \<le> of_int (int c)"
  proof -
    have "sum_list ns \<le> c * max 1 (length js)" using le by (rule order_trans) simp
    then have "(of_nat (sum_list ns) :: rat) \<le> of_nat (c * max 1 (length js))" by (simp only: of_nat_le_iff)
    then show ?thesis by (simp add: divide_le_eq)
  qed
  moreover have "(0::rat) \<le> of_nat (sum_list ns) / of_nat (max 1 (length js))" by simp
  ultimately show ?thesis
    using rnd_le_int [of "of_nat (sum_list ns) / of_nat (max 1 (length js))" "int c"] assms(3)
    by (auto simp: mean_points_def intro: rnd_nonneg)
qed

lemma rnd_numeral: "numeral k < (2 ^ 53 :: int) \<Longrightarrow> rnd (numeral k) = numeral k"
  using rnd_of_int [of "numeral k"] by simp

lemma fired_points:
  "fsum (map (\<lambda>(_, p, _). rnd (p * (if m then 2 else 1)))
      (filter fst [(b1, 5, r1), (b2, 8, r2), (b3, 5, r3), (b4, 3, r4), (b5, 3, r5)]))
   = of_nat ((if m then 2 else 1) * ((if b1 then 5 else 0) + (if b2 then 8 else 0) + (if b3 then 5 else 0)
       + (if b4 then 3 else 0) + (if b5 then 3 else 0)))"
  by (cases m; cases b1; cases b2; cases b3; cases b4; cases b5; simp add: fsum_def rnd_numeral)

lemma penalty_points: "\<exists>n \<le> 48. lj_penalty (lead_judgment l a known apply_now) = of_nat n"
proof (cases "ra_fabricated a")
  case True
  then show ?thesis by (simp add: lead_judgment_def Let_def)
next
  case False
  define m where "m = (ld_source_url l \<in> set apply_now)"
  have "lj_penalty (lead_judgment l a known apply_now)
      = fsum (map (\<lambda>(_, p, _). rnd (p * (if m then 2 else 1))) (filter fst (penalty_rules l a known)))"
    using False by (simp only: lead_judgment_def Let_def m_def if_False lead_judgment.simps)
  then have "\<exists>b1 b2 b3 b4 b5. lj_penalty (lead_judgment l a known apply_now)
      = of_nat ((if m then 2 else 1) * ((if b1 then 5 else 0) + (if b2 then 8 else 0) + (if b3 then 5 else 0)
       + (if b4 then 3 else 0) + (if b5 then 3 else 0)))"
    unfolding penalty_rules_def fired_points by blast
  then obtain b1 b2 b3 b4 b5 where "lj_penalty (lead_judgment l a known apply_now)
      = of_nat ((if m then 2 else 1) * ((if b1 then 5 else 0) + (if b2 then 8 else 0) + (if b3 then 5 else 0)
       + (if b4 then 3 else 0) + (if b5 then 3 else 0)))" by blast
  moreover have "(if m then 2 else 1) * ((if b1 then 5 else 0) + (if b2 then 8 else 0) + (if b3 then 5 else 0)
       + (if b4 then 3 else 0) + (if b5 then 3 else 0)) \<le> (48 :: nat)" by simp
  ultimately show ?thesis by blast
qed

text \<open>The points of one judgment are whole numbers within their maxima.\<close>

lemma judgment_points:
  fixes l a known apply_now
  defines "j \<equiv> lead_judgment l a known apply_now"
  shows "\<exists>n \<le> 25. lj_real_open_points j = of_nat n" and "\<exists>n \<le> 25. lj_practical_fit_points j = of_nat n"
    and "\<exists>n \<le> 20. lj_novelty_points j = of_nat n" and "\<exists>n \<le> 15. lj_geography_points j = of_nat n"
    and "\<exists>n \<le> 10. lj_actionability_points j = of_nat n"
proof -
  have pick: "\<exists>n \<le> c. (if b then of_nat c else 0 :: rat) = of_nat n" for b c by (cases b) auto
  show "\<exists>n \<le> 25. lj_real_open_points j = of_nat n" "\<exists>n \<le> 25. lj_practical_fit_points j = of_nat n"
    "\<exists>n \<le> 20. lj_novelty_points j = of_nat n" "\<exists>n \<le> 15. lj_geography_points j = of_nat n"
    "\<exists>n \<le> 10. lj_actionability_points j = of_nat n"
    using pick [of 25 "ra_real_open a"] pick [of 25 "ra_practical_fit a"] pick [of 20 "lead_key l \<notin> set known"]
      pick [of 15 "ra_geography_eligible a"] pick [of 10 "ra_actionable a"]
    unfolding j_def lead_judgment_def Let_def by (cases "ra_fabricated a"; simp)+
qed

definition score_bounded :: "competition_score \<Rightarrow> bool" where
  "score_bounded s \<longleftrightarrow> 0 \<le> sc_real_open s \<and> sc_real_open s \<le> 25 \<and> 0 \<le> sc_practical_fit s \<and> sc_practical_fit s \<le> 25
     \<and> 0 \<le> sc_novelty s \<and> sc_novelty s \<le> 20 \<and> 0 \<le> sc_geography s \<and> sc_geography s \<le> 15
     \<and> 0 \<le> sc_actionability s \<and> sc_actionability s \<le> 10
     \<and> 0 \<le> sc_search_efficiency s \<and> sc_search_efficiency s \<le> 5
     \<and> 0 \<le> sc_penalties s \<and> sc_penalties s \<le> 48 \<and> 0 \<le> sc_total s \<and> sc_total s \<le> 100"

lemma efficiency_bounds: "0 \<le> efficiency js calls \<and> efficiency js calls \<le> 5"
proof -
  have "0 \<le> per_call n calls" for n by (auto simp: per_call_def intro!: rnd_nonneg divide_nonneg_pos)
  then have "0 \<le> 5 * min 1 (per_call n calls)" and "5 * min 1 (per_call n calls) \<le> of_int 5" for n by (auto simp: min_def)
  then show ?thesis unfolding efficiency_def using rnd_nonneg rnd_le_int [of _ 5] by auto
qed

lemma judge_leads_elem:
  "j \<in> set (judge_leads snap s) \<Longrightarrow> \<exists>l a. j = lead_judgment l a (rs_known_well_keys snap) (sb_apply_now_urls s)"
  by (auto simp: judge_leads_def Let_def)

lemma score_submission_bounded:
  assumes "length (sb_leads s) \<le> 20"
  shows "score_bounded (score_submission snap eid f s)"
proof -
  let ?js = "judge_leads snap s"
  have len: "length ?js \<le> 20" using assms by (simp add: judge_leads_def)
  have b: "0 \<le> mean_points pts ?js \<and> mean_points pts ?js \<le> of_nat c"
    if pts: "\<And>l a known ap. \<exists>n \<le> c. pts (lead_judgment l a known ap) = of_nat n" and c: "c \<le> 100" for pts c
  proof (rule mean_bounds [OF _ len c], intro ballI)
    fix j assume "j \<in> set ?js"
    then obtain l a where "j = lead_judgment l a (rs_known_well_keys snap) (sb_apply_now_urls s)"
      using judge_leads_elem by blast
    with pts show "\<exists>n \<le> c. pts j = of_nat n" by blast
  qed
  have bs: "0 \<le> mean_points lj_real_open_points ?js \<and> mean_points lj_real_open_points ?js \<le> of_nat 25"
    "0 \<le> mean_points lj_practical_fit_points ?js \<and> mean_points lj_practical_fit_points ?js \<le> of_nat 25"
    "0 \<le> mean_points lj_novelty_points ?js \<and> mean_points lj_novelty_points ?js \<le> of_nat 20"
    "0 \<le> mean_points lj_geography_points ?js \<and> mean_points lj_geography_points ?js \<le> of_nat 15"
    "0 \<le> mean_points lj_actionability_points ?js \<and> mean_points lj_actionability_points ?js \<le> of_nat 10"
    "0 \<le> mean_points lj_penalty ?js \<and> mean_points lj_penalty ?js \<le> of_nat 48"
    by (rule b, rule judgment_points penalty_points, simp)+
  have tot: "0 \<le> total_points gs p" "total_points gs p \<le> 100" for gs p
    by (simp_all add: total_points_def)
  show ?thesis
    unfolding score_bounded_def score_submission_def Let_def competition_score.simps
    using bs efficiency_bounds [of ?js "sb_search_calls s"] tot by simp
qed

section \<open>A match that can be judged\<close>

definition normally_frozen :: "frozen_submission \<Rightarrow> bool" where
  "normally_frozen f \<longleftrightarrow> (\<exists>s d. submission_normal s \<and> submission_as_dict s = Inr d \<and> text_ok (JObj d) \<and> freeze s = Inr f)"

lemma normally_frozen_thaws: "normally_frozen f \<Longrightarrow> \<exists>s. thaw_verified f = Inr s"
  using freeze_then_thaw by (fastforce simp: normally_frozen_def)

lemma snapshot_create_verifies:
  "snapshot_create sid known as = Inr snap \<Longrightarrow> strip sid = sid \<Longrightarrow> snapshot_verify snap = Inr ()"
  by (auto simp: snapshot_create_def Let_def bindE_eq_Inr cup_required_text_Inr snapshot_verify_def)

lemma judge_returns:
  assumes "all_frozen m" and "snapshot_verify snap = Inr ()"
    and "\<forall>out \<in> set (mr_outcomes m). \<exists>f. eo_frozen_submission out = Some f \<and> normally_frozen f"
  shows "\<exists>rep. judge_match m snap = Inr rep"
proof -
  have gate: "gate_open m snap = Inr snap" using assms(1,2) by (simp add: gate_open_def all_frozen_def)
  have "\<exists>s. score_outcome snap out = Inr s" if "out \<in> set (frozen_outcomes m)" for out
    using that assms(3) normally_frozen_thaws by (fastforce simp: score_outcome_def frozen_outcomes_def)
  then have "\<exists>ss. mapE (score_outcome snap) (frozen_outcomes m) = Inr ss"
    by (rule mapE_total)
  then show ?thesis by (auto simp: judge_match_def gate Let_def)
qed

text \<open>An adapter that makes no call and hands in an empty submission.\<close>

definition quiet_provider :: provider where
  "quiet_provider = fake_provider_run \<lparr>fp_queries = [], fp_leads = [], fp_apply_now_urls = [],
     fp_search_strategy_summary = ''none'', fp_rejected_or_downgraded = [], fp_uncertainties = []\<rparr>"

definition sample_candidate :: candidate_card where
  "sample_candidate = \<lparr>cd_canonical_content = ''{}'', cd_fingerprint = ''c''\<rparr>"

definition quiet_submission :: "entrant_config \<Rightarrow> submission" where
  "quiet_submission e = \<lparr>sb_entrant = e, sb_candidate_fingerprint = ''c'', sb_competition_fingerprint = ''f'',
     sb_leads = [], sb_apply_now_urls = [], sb_search_strategy_summary = ''none'', sb_rejected_or_downgraded = [],
     sb_uncertainties = [], sb_search_calls = 0\<rparr>"

lemma quiet_texts: "normal_text ''c''" "normal_text ''f''" "normal_text ''none''" "\<not> blank ''none''" "utf8_encode ''{}'' \<noteq> []"
  by code_simp+

lemma quiet_normal: "entrant_normal e \<Longrightarrow> submission_normal (quiet_submission e)"
  using quiet_texts by (simp add: submission_normal_def quiet_submission_def submission_limits_def)

lemma quiet_run:
  assumes "entrant_normal e"
  shows "\<exists>f. normally_frozen f \<and> run_entrant sample_candidate sample_comp (sample_arena (\<lambda>_. Some quiet_provider)) e
    = Inr \<lparr>eo_entrant_id = en_entrant_id e, eo_status = ''FROZEN'', eo_frozen_submission = Some f, eo_traces = [],
           eo_error_type = None, eo_error_message = None\<rparr>"
proof -
  obtain ed where ed: "entrant_as_dict e = Inr ed" "text_ok (JObj ed)" by (rule entrant_reads_back [OF assms])
  then obtain d where d: "submission_as_dict (quiet_submission e) = Inr d" "text_ok (JObj d)"
    by (simp add: submission_as_dict_def quiet_submission_def)
  then obtain f where f: "freeze (quiet_submission e) = Inr f" by (simp add: freeze_def)
  with d quiet_normal [OF assms] have nf: "normally_frozen f" unfolding normally_frozen_def by blast
  have "make_submission (quiet_submission e) = Inr (quiet_submission e)"
    using quiet_normal [OF assms] by (simp add: make_submission_Inr submission_normal_def)
  then have run: "execute ts (quiet_provider (entrant_input sample_candidate sample_comp e)) p = (Inr (quiet_submission e), p)"
    if "px_traces p = []" for ts p
    using that quiet_texts(5)
    by (simp add: quiet_provider_def fake_provider_run_def entrant_input_def sample_candidate_def sample_comp_def quiet_submission_def)
  have "accept_submission sample_candidate sample_comp e 0 (quiet_submission e) = Inr f"
    by (simp add: accept_submission_Inr f) (simp add: quiet_submission_def sample_candidate_def sample_comp_def)
  with nf run show ?thesis
    by (intro exI [of _ f])
      (simp add: run_entrant_def Let_def make_proxy_def sample_comp_def [THEN arg_cong [where f = co_max_search_calls]]
        sample_arena_def [THEN arg_cong [where f = "\<lambda>a. ar_providers (a :: arena)"]] calls_used_def)
qed

lemma judged_scores:
  assumes "judge_match m snap = Inr rep"
  shows "list_all score_bounded (cr_scores rep)
    \<and> mset (map sc_entrant_id (cr_scores rep)) = mset (map eo_entrant_id (frozen_outcomes m))
    \<and> sorted_wrt (\<lambda>a b. sc_total b < sc_total a \<or> sc_total a = sc_total b \<and> sc_entrant_id a \<le> sc_entrant_id b)
        (cr_scores rep)
    \<and> list_all (\<lambda>s. length (sc_judgments s) \<le> 20) (cr_scores rep)"
proof -
  from assms obtain scores where sc: "list_all2 (\<lambda>o1 s. score_outcome snap o1 = Inr s) (frozen_outcomes m) scores"
    and rep: "cr_scores rep = order_scores scores"
    by (auto simp: judge_match_def bindE_eq_Inr gate_open_def mapE_eq_Inr Let_def)
  have each: "score_bounded s \<and> sc_entrant_id s = eo_entrant_id out \<and> length (sc_judgments s) \<le> 20"
    if out: "score_outcome snap out = Inr s" for out s
  proof -
    from out obtain f t where t: "thaw_verified f = Inr t" and s: "s = score_submission snap (eo_entrant_id out) f t"
      by (auto simp: score_outcome_def bindE_eq_Inr split: option.splits)
    have "length (sb_leads t) \<le> 20" by (rule thaw_limits [OF t])
    with score_submission_bounded [OF this] show ?thesis
      by (simp add: s) (simp add: score_submission_def Let_def judge_leads_def)
  qed
  from sc have all: "list_all (\<lambda>s. score_bounded s \<and> length (sc_judgments s) \<le> 20) scores"
    and ids: "map sc_entrant_id scores = map eo_entrant_id (frozen_outcomes m)"
    by (induction rule: list_all2_induct) (auto dest: each)
  have perm: "mset (cr_scores rep) = mset scores" by (simp add: rep order_scores_def)
  have "sorted_wrt (\<lambda>a b. (- sc_total a, sc_entrant_id a) \<le> (- sc_total b, sc_entrant_id b)) (cr_scores rep)"
    using sorted_sort_key [of "\<lambda>s. (- sc_total s, sc_entrant_id s)" scores]
    by (simp only: rep order_scores_def sorted_map)
  then have "sorted_wrt (\<lambda>a b. sc_total b < sc_total a \<or> sc_total a = sc_total b \<and> sc_entrant_id a \<le> sc_entrant_id b)
        (cr_scores rep)"
    by (rule sorted_wrt_mono_rel [rotated]) (auto simp: less_eq_prod_def)
  moreover from perm have "mset (map sc_entrant_id (cr_scores rep)) = mset (map sc_entrant_id scores)"
    by (metis mset_map)
  moreover from perm have "set (cr_scores rep) = set scores" by (rule mset_eq_setD)
  ultimately show ?thesis using all ids by (auto simp: list_all_iff)
qed

lemmas judged_ids = judged_scores [THEN conjunct2, THEN conjunct1]

text \<open>The sample competition played by the quiet adapter: every entrant ends frozen.\<close>

lemma sample_entrants_normal: "list_all entrant_normal sample_entrants"
proof -
  have n: "normal_text ''e1''" "normal_text ''e2''" "normal_text ''e3''" "normal_text ''e4''" "normal_text ''OpenAI''"
    "normal_text ''Gemini''" "normal_text ''DeepSeek''" "normal_text ''GLM''" "normal_text ''m''" "normal_text ''chat''"
    by code_simp+
  have "text_ok (JObj [])" "''{}'' = canonical_json (JObj [])" by code_simp+
  then have "\<exists>d. text_ok (JObj d) \<and> ''{}'' = canonical_json (JObj d)" by blast
  with n show ?thesis by (simp add: sample_entrants_def entrant_normal_def)
qed

lemma sample_match:
  obtains m where "run_match sample_candidate sample_comp (sample_arena (\<lambda>_. Some quiet_provider)) = Inr m"
    and "all_frozen m" and "\<forall>out \<in> set (mr_outcomes m). \<exists>f. eo_frozen_submission out = Some f \<and> normally_frozen f"
proof -
  let ?run = "run_entrant sample_candidate sample_comp (sample_arena (\<lambda>_. Some quiet_provider))"
  have "\<exists>outs. mapE ?run es = Inr outs \<and> length outs = length es
      \<and> (\<forall>out \<in> set outs. eo_status out = ''FROZEN'' \<and> (\<exists>f. eo_frozen_submission out = Some f \<and> normally_frozen f))"
    if "list_all entrant_normal es" for es
    using that
  proof (induction es)
    case (Cons e es)
    then obtain f where "normally_frozen f" "?run e = Inr \<lparr>eo_entrant_id = en_entrant_id e, eo_status = ''FROZEN'',
        eo_frozen_submission = Some f, eo_traces = [], eo_error_type = None, eo_error_message = None\<rparr>"
      using quiet_run [of e] by auto
    with Cons show ?case by auto
  qed simp
  from this [OF sample_entrants_normal] obtain outs where outs: "mapE ?run sample_entrants = Inr outs"
    "length outs = length sample_entrants"
    "\<forall>out \<in> set outs. eo_status out = ''FROZEN'' \<and> (\<exists>f. eo_frozen_submission out = Some f \<and> normally_frozen f)" by blast
  have "co_entrants sample_comp = sample_entrants" by (simp add: sample_comp_def)
  with outs show thesis by (intro that) (auto simp: run_match_def all_frozen_def list_all_iff)
qed

lemma sample_snapshot: obtains snap where "snapshot_create ''S'' [] [] = Inr snap"
proof -
  have "\<not> blank ''S''" by code_simp
  then show thesis using that by (simp add: snapshot_create_def cup_required_text_def Let_def)
qed

lemma sample_strip: "strip ''S'' = ''S''"
  by code_simp

section \<open>Properties\<close>

text \<open>C23.  The registry key opens exactly for a closed match all of whose entrants are frozen and a snapshot
  that verifies, and it opens that snapshot.  Any other match is answered with \<open>RegistryAccessDenied\<close>, by the
  gate and by the judge, whatever the snapshot; a snapshot that does not verify stops both with its own
  error.  A report is issued exactly when the key opens and every frozen submission can be scored, and it
  names the registry it was judged against.\<close>

theorem registry_gate:
  "(gate_open m snap = Inr key \<longleftrightarrow>
      key = snap \<and> mr_entrant_execution_closed m \<and> all_frozen m \<and> snapshot_verify snap = Inr ())
   \<and> (\<not> (mr_entrant_execution_closed m \<and> all_frozen m) \<longrightarrow>
        (\<exists>msg. \<forall>snap'. gate_open m snap' = Inl (RegistryAccessDenied msg) \<and> judge_match m snap' = Inl (RegistryAccessDenied msg)))
   \<and> (mr_entrant_execution_closed m \<and> all_frozen m \<and> snapshot_verify snap = Inl e \<longrightarrow>
        gate_open m snap = Inl e \<and> judge_match m snap = Inl e)
   \<and> (isOk (judge_match m snap) \<longleftrightarrow>
        gate_open m snap = Inr snap \<and> (\<forall>out \<in> set (frozen_outcomes m). isOk (score_outcome snap out)))
   \<and> (\<forall>rep. judge_match m snap = Inr rep \<longrightarrow> cr_registry_fingerprint rep = rs_fingerprint snap)"
proof -
  have gate: "gate_open m snap = Inr k \<longleftrightarrow>
      k = snap \<and> mr_entrant_execution_closed m \<and> all_frozen m \<and> snapshot_verify snap = Inr ()" for k
    by (cases "snapshot_verify snap") (auto simp: gate_open_def)
  have "\<exists>msg. \<forall>snap'. gate_open m snap' = Inl (RegistryAccessDenied msg) \<and> judge_match m snap' = Inl (RegistryAccessDenied msg)"
    if "\<not> (mr_entrant_execution_closed m \<and> all_frozen m)"
    using that by (cases "mr_entrant_execution_closed m") (simp_all add: gate_open_def judge_match_def)
  moreover have "gate_open m snap = Inl e \<and> judge_match m snap = Inl e"
    if "mr_entrant_execution_closed m \<and> all_frozen m \<and> snapshot_verify snap = Inl e"
    using that by (simp add: gate_open_def judge_match_def)
  moreover have "isOk (judge_match m snap) \<longleftrightarrow>
        gate_open m snap = Inr snap \<and> (\<forall>out \<in> set (frozen_outcomes m). isOk (score_outcome snap out))"
  proof (cases "gate_open m snap")
    case (Inl x)
    then show ?thesis by (simp add: judge_match_def)
  next
    case (Inr k)
    then have "k = snap" using gate by blast
    have "isOk (mapE (score_outcome snap) xs) \<longleftrightarrow> (\<forall>x \<in> set xs. isOk (score_outcome snap x))" for xs
      by (induction xs) (auto simp: isOk_iff bindE_eq_Inr)
    from this [of "frozen_outcomes m"] show ?thesis
      by (cases "mapE (score_outcome snap) (frozen_outcomes m)") (simp_all add: Inr \<open>k = snap\<close> judge_match_def Let_def flip: isOk_iff)
  qed
  moreover have "cr_registry_fingerprint rep = rs_fingerprint snap" if "judge_match m snap = Inr rep" for rep
    using that gate by (auto simp: judge_match_def bindE_eq_Inr Let_def)
  ultimately show ?thesis using gate by (intro conjI allI impI) (assumption | blast)+
qed

theorem registry_gate_witness:
  "\<exists>m snap. gate_open m snap = Inr snap \<and> isOk (judge_match m snap)
    \<and> (\<exists>msg. judge_match (m\<lparr>mr_entrant_execution_closed := False\<rparr>) snap = Inl (RegistryAccessDenied msg))"
proof -
  obtain m where m: "all_frozen m" "\<forall>out \<in> set (mr_outcomes m). \<exists>f. eo_frozen_submission out = Some f \<and> normally_frozen f"
    using sample_match by metis
  obtain snap where snap: "snapshot_create ''S'' [] [] = Inr snap" by (rule sample_snapshot)
  note v = snapshot_create_verifies [OF snap sample_strip]
  obtain rep where "judge_match m snap = Inr rep" using judge_returns [OF m(1) v m(2)] ..
  then have "isOk (judge_match m snap)" by simp
  with registry_gate [of m snap] have "gate_open m snap = Inr snap" by blast
  moreover have "\<exists>msg. judge_match (m\<lparr>mr_entrant_execution_closed := False\<rparr>) snap = Inl (RegistryAccessDenied msg)"
    using registry_gate [of "m\<lparr>mr_entrant_execution_closed := False\<rparr>"] by (simp (no_asm_use)) blast
  ultimately show ?thesis using \<open>isOk (judge_match m snap)\<close> by blast
qed

text \<open>C24.  Every report scores each frozen outcome once, orders the scores by falling total and then by
  entrant id, and keeps every category within its maximum (25, 25, 20, 15, 10 and 5 points, penalties
  of at most 48, a total between 0 and 100), rounding included.\<close>

theorem judge_scores_bounded:
  assumes "judge_match m snap = Inr rep"
  shows "list_all score_bounded (cr_scores rep)
    \<and> mset (map sc_entrant_id (cr_scores rep)) = mset (map eo_entrant_id (frozen_outcomes m))
    \<and> sorted_wrt (\<lambda>a b. sc_total b < sc_total a \<or> sc_total a = sc_total b \<and> sc_entrant_id a \<le> sc_entrant_id b)
        (cr_scores rep)
    \<and> list_all (\<lambda>s. length (sc_judgments s) \<le> 20) (cr_scores rep)"
  by (rule judged_scores [OF assms])

theorem judge_scores_bounded_witness:
  "\<exists>m snap rep. judge_match m snap = Inr rep \<and> list_all score_bounded (cr_scores rep)"
proof -
  obtain m where m: "all_frozen m" "\<forall>out \<in> set (mr_outcomes m). \<exists>f. eo_frozen_submission out = Some f \<and> normally_frozen f"
    using sample_match by metis
  obtain snap where snap: "snapshot_create ''S'' [] [] = Inr snap" by (rule sample_snapshot)
  obtain rep where "judge_match m snap = Inr rep"
    using judge_returns [OF m(1) snapshot_create_verifies [OF snap sample_strip] m(2)] ..
  with judge_scores_bounded [OF this] show ?thesis by blast
qed

lemma all_frozen_ids: "all_frozen m \<Longrightarrow> frozen_outcomes m = mr_outcomes m"
  by (auto simp: all_frozen_def frozen_outcomes_def list_all_iff)

text \<open>C25.  From match to scoreboard: when every entrant of a match was frozen from a normal submission and
  the registry snapshot was created under an id without padding, the judge does return a report, and
  it has one score for each entrant of the competition.\<close>

theorem match_can_be_judged:
  assumes "run_match cand cspec ar = Inr m" and "all_frozen m"
    and "\<forall>out \<in> set (mr_outcomes m). \<exists>f. eo_frozen_submission out = Some f \<and> normally_frozen f"
    and "snapshot_create sid known as = Inr snap" and "strip sid = sid" and "1 \<le> co_max_search_calls cspec"
  shows "\<exists>rep. judge_match m snap = Inr rep
    \<and> mset (map sc_entrant_id (cr_scores rep)) = mset (map en_entrant_id (co_entrants cspec))
    \<and> cr_competition_fingerprint rep = co_fingerprint cspec \<and> cr_candidate_fingerprint rep = cd_fingerprint cand"
proof -
  from judge_returns [OF assms(2) snapshot_create_verifies [OF assms(4,5)] assms(3)]
  obtain rep where rep: "judge_match m snap = Inr rep" ..
  from assms(1) have m: "mapE (run_entrant cand cspec ar) (co_entrants cspec) = Inr (mr_outcomes m)"
    "mr_competition_fingerprint m = co_fingerprint cspec" "mr_candidate_fingerprint m = cd_fingerprint cand"
    by (auto simp: run_match_def bindE_eq_Inr)
  have "list_all2 (\<lambda>e out. run_entrant cand cspec ar e = Inr out) (co_entrants cspec) (mr_outcomes m)"
    using m(1) by (simp add: mapE_eq_Inr)
  then have "map eo_entrant_id (mr_outcomes m) = map en_entrant_id (co_entrants cspec)"
  proof (induction rule: list_all2_induct)
    case (Cons e es out outs)
    obtain x where "run_entrant cand cspec ar e = Inr x" "outcome_ok cand cspec e x" by (rule run_entrant_ok [OF assms(6)])
    with Cons show ?case by (auto simp: outcome_ok_def)
  qed simp
  moreover from rep have "mset (map sc_entrant_id (cr_scores rep)) = mset (map eo_entrant_id (frozen_outcomes m))"
    using judged_ids by blast
  moreover have "cr_competition_fingerprint rep = mr_competition_fingerprint m"
    "cr_candidate_fingerprint rep = mr_candidate_fingerprint m"
    using rep by (auto simp: judge_match_def bindE_eq_Inr Let_def)
  ultimately show ?thesis using rep m(2,3) by (simp add: all_frozen_ids [OF assms(2)])
qed

theorem match_can_be_judged_witness:
  "\<exists>m snap rep. run_match sample_candidate sample_comp (sample_arena (\<lambda>_. Some quiet_provider)) = Inr m
     \<and> judge_match m snap = Inr rep
     \<and> mset (map sc_entrant_id (cr_scores rep)) = mset (map en_entrant_id (co_entrants sample_comp))"
proof -
  obtain m where m: "run_match sample_candidate sample_comp (sample_arena (\<lambda>_. Some quiet_provider)) = Inr m"
    "all_frozen m" "\<forall>out \<in> set (mr_outcomes m). \<exists>f. eo_frozen_submission out = Some f \<and> normally_frozen f"
    by (rule sample_match)
  obtain snap where snap: "snapshot_create ''S'' [] [] = Inr snap" by (rule sample_snapshot)
  have "1 \<le> co_max_search_calls sample_comp" by (simp add: sample_comp_def)
  from match_can_be_judged [OF m snap sample_strip this] m(1) show ?thesis by blast
qed

end
