(* ===== verification/CupSearchPro.thy ===== *)
theory CupSearchPro
  imports CupRunner
begin

text \<open>
  The adapter of the real \<open>search_pro\<close> service and its live smoke test
  (\<open>search_cup/search_pro.py\<close>).  The HTTP transport is a parameter: what it sends is the
  network's, what it returns is a status and a body, given here as its UTF-8 decoding
  (\<open>None\<close> when the bytes are not UTF-8), a typed network failure, or any other exception,
  which the adapter lets through.
\<close>

section \<open>Transport and errors\<close>

definition search_pro_backend_id :: string where
  "search_pro_backend_id = ''zhipu-web-search/search_pro''"

record transport_response =
  tp_status_code :: int
  tp_body :: "string option"

record http_request =
  hr_endpoint :: string
  hr_headers :: "(string \<times> string) list"
  hr_payload :: json
  hr_timeout :: flt

type_synonym transport = "http_request \<Rightarrow> (backend_error + exc) + transport_response"

definition search_pro_error ::
    "string \<Rightarrow> string \<Rightarrow> string option \<Rightarrow> string option \<Rightarrow> int option \<Rightarrow> bool \<Rightarrow> backend_error" where
  "search_pro_error message ecode rid resp status retryable =
     \<lparr>be_type = ''SearchBackendError'', be_message = message, be_backend_id = search_pro_backend_id,
      be_error_code = ecode, be_request_id = rid, be_response_id = resp, be_http_status = status,
      be_retryable = retryable\<rparr>"

text \<open>The transport's own failure, for a network error named \<open>kind\<close>.\<close>

definition network_error :: "string \<Rightarrow> backend_error" where
  "network_error kind = search_pro_error (''search_pro network request failed: '' @ kind) ''NETWORK_ERROR'' None None None True"

definition text_of :: "json \<Rightarrow> string" where
  "text_of v = (case v of JStr s \<Rightarrow> strip s | _ \<Rightarrow> [])"

definition or_else :: "string \<Rightarrow> string \<Rightarrow> string" where
  "or_else a b = (if a = [] then b else a)"

definition some_text :: "string \<Rightarrow> string option" where
  "some_text s = (if s = [] then None else Some s)"

definition decode_json :: "string option \<Rightarrow> string \<Rightarrow> backend_error + obj" where
  "decode_json body rid =
     (let invalid = Inl (search_pro_error ''search_pro returned invalid JSON'' ''INVALID_JSON'' (Some rid) None None False)
      in case body of
        None \<Rightarrow> invalid
      | Some text \<Rightarrow> (case json_loads text of
            Inl _ \<Rightarrow> invalid
          | Inr v \<Rightarrow> (case v of
                JObj d \<Rightarrow> Inr d
              | _ \<Rightarrow> Inl (search_pro_error ''search_pro returned a non-object response'' ''INVALID_RESPONSE''
                        (Some rid) None None False))))"

definition error_details :: "obj \<Rightarrow> string \<times> string" where
  "error_details d = (case get d ''error'' of
      JObj e \<Rightarrow> (or_else (text_of (get e ''code'')) ''API_ERROR'',
                 take 500 (or_else (text_of (get e ''message'')) ''search_pro request failed''))
    | _ \<Rightarrow> (''HTTP_ERROR'', ''search_pro request failed''))"

section \<open>The backend\<close>

record search_pro_config =
  sp_api_key :: string
  sp_count :: int
  sp_timeout_seconds :: flt
  sp_endpoint :: string

fun positive :: "flt \<Rightarrow> bool" where
  "positive (Fin x) = (0 < x)"
| "positive NInf = False"
| "positive _ = True"

definition make_search_pro :: "string \<Rightarrow> int \<Rightarrow> flt \<Rightarrow> string \<Rightarrow> search_pro_config result" where
  "make_search_pro api_key n timeout endpoint =
     (if blank api_key then Inl (ValueError ''search_pro API key must not be empty'')
      else if n < 1 \<or> 50 < n then Inl (ValueError ''search_pro count must be between 1 and 50'')
      else if \<not> positive timeout then Inl (ValueError ''timeout_seconds must be positive'')
      else Inr \<lparr>sp_api_key = strip api_key, sp_count = n, sp_timeout_seconds = timeout, sp_endpoint = endpoint\<rparr>)"

text \<open>\<open>env\<close> is the process environment.\<close>

definition from_env :: "(string \<Rightarrow> string option) \<Rightarrow> string \<Rightarrow> int \<Rightarrow> flt \<Rightarrow> string \<Rightarrow> search_pro_config result" where
  "from_env env env_name n timeout endpoint =
     (let api_key = (case env env_name of None \<Rightarrow> [] | Some k \<Rightarrow> k) in
      if blank api_key
      then Inl (RuntimeError (''required API key environment variable is not set: '' @ env_name))
      else make_search_pro api_key n timeout endpoint)"

definition retryable_statuses :: "int list" where
  "retryable_statuses = [408, 429, 500, 502, 503, 504]"

definition http_request_of :: "search_pro_config \<Rightarrow> string \<Rightarrow> string \<Rightarrow> http_request" where
  "http_request_of cfg rid query =
     \<lparr>hr_endpoint = sp_endpoint cfg,
      hr_headers = [(''Authorization'', ''Bearer '' @ sp_api_key cfg), (''Content-Type'', ''application/json'')],
      hr_payload = JObj
        [(''search_query'', JStr query), (''search_engine'', JStr ''search_pro''), (''search_intent'', JBool False),
         (''count'', JInt (sp_count cfg)), (''search_recency_filter'', JStr ''noLimit''),
         (''content_size'', JStr ''medium''), (''request_id'', JStr rid)],
      hr_timeout = sp_timeout_seconds cfg\<rparr>"

definition normalize_result :: "string \<Rightarrow> string option \<Rightarrow> int \<Rightarrow> nat \<times> json \<Rightarrow> backend_error + search_result" where
  "normalize_result rid resp status ix = (case ix of (i, v) \<Rightarrow> (case v of
      JObj d \<Rightarrow>
        (let title = text_of (get d ''title''); url = text_of (get d ''link'') in
         if title = [] \<or> url = []
         then Inl (search_pro_error (''search_pro result '' @ show_nat i @ '' is missing title or link'')
                ''INVALID_RESULT'' (Some rid) resp (Some status) False)
         else Inr \<lparr>sr_title = title, sr_url = url, sr_snippet = text_of (get d ''content'')\<rparr>)
    | _ \<Rightarrow> Inl (search_pro_error (''search_pro result '' @ show_nat i @ '' is not an object'')
                ''INVALID_RESULT'' (Some rid) resp (Some status) False)))"

definition failed_response :: "string \<Rightarrow> transport_response \<Rightarrow> backend_error" where
  "failed_response rid r =
     (let status = tp_status_code r; again = (status \<in> set retryable_statuses) in
      case decode_json (tp_body r) rid of
        Inl _ \<Rightarrow> search_pro_error (''search_pro HTTP '' @ show_int status @ '' returned no valid error object'')
                   (''HTTP_'' @ show_int status) (Some rid) None (Some status) again
      | Inr d \<Rightarrow> (case error_details d of (ecode, message) \<Rightarrow>
          search_pro_error (''search_pro request failed: '' @ ecode @ '': '' @ message) ecode
            (Some (or_else (text_of (get d ''request_id'')) rid)) (some_text (text_of (get d ''id'')))
            (Some status) again))"

definition read_response :: "string \<Rightarrow> transport_response \<Rightarrow> backend_error + (search_result list \<times> string \<times> string option)" where
  "read_response rid r =
     (let status = tp_status_code r in
      if \<not> (200 \<le> status \<and> status < 300) then Inl (failed_response rid r)
      else bindE (decode_json (tp_body r) rid) (\<lambda>d.
        let rrid = or_else (text_of (get d ''request_id'')) rid; resp = some_text (text_of (get d ''id'')) in
        if has_key d ''error''
        then (case error_details d of (ecode, message) \<Rightarrow>
          Inl (search_pro_error (''search_pro request failed: '' @ ecode @ '': '' @ message) ecode (Some rrid) resp
                 (Some status) False))
        else (case get d ''search_result'' of
          JArr items \<Rightarrow> bindE (mapE (normalize_result rrid resp status) (enumerate 0 items)) (\<lambda>rs. Inr (rs, rrid, resp))
        | _ \<Rightarrow> Inl (search_pro_error ''search_pro response is missing search_result[]'' ''INVALID_RESPONSE''
                 (Some rrid) resp (Some status) False))))"

text \<open>
  \<open>SearchProBackend.__call__\<close>, with the requests it sent beside its reply.  \<open>fresh\<close> is the
  id that \<open>uuid4\<close> would give a request without one.
\<close>

definition search_pro_call ::
    "transport \<Rightarrow> search_pro_config \<Rightarrow> string \<Rightarrow> search_request \<Rightarrow> backend_reply \<times> http_request list" where
  "search_pro_call send cfg fresh rq =
     (let rid = or_else (rq_request_id rq) fresh in
      if 70 < length (rq_query rq)
      then (BackendError (search_pro_error ''search_pro query exceeds the 70-character API limit'' ''INVALID_QUERY''
              (Some rid) None None False), [])
      else let hr = http_request_of cfg rid (rq_query rq) in
        (case send hr of
           Inl (Inl be) \<Rightarrow> BackendError be
         | Inl (Inr e) \<Rightarrow> BackendRaises e
         | Inr r \<Rightarrow> (case read_response rid r of
               Inl be \<Rightarrow> BackendError be
             | Inr (rs, rrid, resp) \<Rightarrow> BackendResponse (map Some rs) search_pro_backend_id rrid resp), [hr]))"

definition search_pro_backend :: "transport \<Rightarrow> search_pro_config \<Rightarrow> search_backend" where
  "search_pro_backend send cfg rq = fst (search_pro_call send cfg [] rq)"

section \<open>The live smoke test\<close>

definition result_dict :: "search_result \<Rightarrow> json" where
  "result_dict r = JObj [(''title'', JStr (sr_title r)), (''url'', JStr (sr_url r)), (''snippet'', JStr (sr_snippet r))]"

definition opt :: "('a \<Rightarrow> json) \<Rightarrow> 'a option \<Rightarrow> json" where
  "opt f v = (case v of None \<Rightarrow> JNull | Some x \<Rightarrow> f x)"

definition trace_dict :: "search_trace \<Rightarrow> json" where
  "trace_dict t = JObj
    [(''entrant_id'', JStr (tr_entrant_id t)), (''call_number'', JInt (tr_call_number t)),
     (''query'', JStr (tr_query t)), (''status'', JStr (tr_status t)),
     (''result_count'', JInt (int (tr_result_count t))), (''error_type'', opt JStr (tr_error_type t)),
     (''error_code'', opt JStr (tr_error_code t)), (''error_message'', opt JStr (tr_error_message t)),
     (''backend_id'', opt JStr (tr_backend_id t)), (''backend_request_id'', opt JStr (tr_backend_request_id t)),
     (''backend_response_id'', opt JStr (tr_backend_response_id t)), (''http_status'', opt JInt (tr_http_status t)),
     (''retryable'', opt JBool (tr_retryable t)), (''backend_attempts'', JInt (int (tr_backend_attempts t))),
     (''automatic_retries'', JInt (int (tr_automatic_retries t))),
     (''started_at_utc'', opt JStr (tr_started_at_utc t)), (''duration_ms'', opt JFloat (tr_duration_ms t))]"

text \<open>
  The loop over the queries: the calls recorded, the gate and the proxy.  It stops at the
  first empty answer or backend error; any other exception leaves the function.
\<close>

fun smoke_loop ::
    "entrant_tools \<Rightarrow> json list \<Rightarrow> search_proxy \<Rightarrow> string list \<Rightarrow> (json list \<times> bool \<times> search_proxy) result" where
  "smoke_loop ts calls p [] = Inr (calls, True, p)"
| "smoke_loop ts calls p (q # qs) =
     (let p' = snd (search_web ts p q) in
      case fst (search_web ts p q) of
        Inr results \<Rightarrow>
          (let calls' = calls @ [JObj [(''query'', JStr q), (''status'', JStr ''SUCCEEDED''),
                                       (''results'', JArr (map result_dict results))]]
           in if results = [] then Inr (calls', False, p') else smoke_loop ts calls' p' qs)
      | Inl e \<Rightarrow>
          (case attempt (et_backend ts) (et_backend_id ts) p (et_tick ts (length (px_traces p))) q of
             Inl (Inl be) \<Rightarrow> Inr (calls @ [JObj [(''query'', JStr q), (''status'', JStr ''FAILED''),
                 (''error_type'', JStr (be_type be)), (''error_code'', JStr (be_error_code be)),
                 (''error_message'', JStr (be_message be))]], False, p')
           | _ \<Rightarrow> Inl e))"

definition smoke_artifact :: "nat \<Rightarrow> json list \<Rightarrow> bool \<Rightarrow> search_proxy \<Rightarrow> obj" where
  "smoke_artifact requested calls green p =
    [(''phase'', JStr ''ENG-SC-01-P1''), (''gate'', JStr (if green then ''GREEN'' else ''RED'')),
     (''entrant_type'', JStr ''Fake Entrant''), (''backend_id'', JStr search_pro_backend_id),
     (''search_budget'', JInt 20), (''calls_requested'', JInt (int requested)),
     (''calls_used'', JInt (calls_used p)), (''automatic_retries'', JInt 0),
     (''official_match_authorized'', JBool False), (''provider_adapters_invoked'', JInt 0),
     (''hidden_registry_loaded'', JBool False), (''credentials_logged'', JBool False),
     (''calls'', JArr calls), (''traces'', JArr (map trace_dict (px_traces p)))]"

definition run_live_smoke ::
    "transport \<Rightarrow> (string \<Rightarrow> string option) \<Rightarrow> (nat \<Rightarrow> tick) \<Rightarrow> string list \<Rightarrow> string \<Rightarrow> int \<Rightarrow> flt \<Rightarrow> string
      \<Rightarrow> (obj \<times> bool) result" where
  "run_live_smoke send env ticks queries env_name n timeout endpoint =
     (let normalized = map strip (filter (\<lambda>q. \<not> blank q) queries) in
      if length normalized < 1 \<or> 3 < length normalized
      then Inl (ValueError ''P1 live smoke requires between one and three non-empty queries'')
      else bindE (from_env env env_name n timeout endpoint) (\<lambda>cfg.
      bindE (make_proxy ''fake-search-pro-smoke'' 20) (\<lambda>proxy.
      let ts = \<lparr>et_backend = search_pro_backend send cfg, et_backend_id = search_pro_backend_id,
                et_read = fake_url_read (\<lambda>_. None), et_tick = ticks\<rparr> in
      bindE (smoke_loop ts [] proxy normalized) (\<lambda>(calls, green, p).
      Inr (smoke_artifact (length normalized) calls green p, green)))))"

section \<open>What the adapter guarantees\<close>

lemma strip_text_of: "text_of v \<noteq> [] \<Longrightarrow> normal_text (text_of v)"
  by (auto simp: text_of_def normal_text_def split: json.splits)

definition result_ok :: "search_result \<Rightarrow> bool" where
  "result_ok r \<longleftrightarrow> normal_text (sr_title r) \<and> normal_text (sr_url r)"

text \<open>The item of the answer that a result was read from.\<close>

definition read_from :: "json \<Rightarrow> search_result \<Rightarrow> bool" where
  "read_from v r \<longleftrightarrow> (case v of
      JObj e \<Rightarrow> sr_title r = text_of (get e ''title'') \<and> sr_url r = text_of (get e ''link'') \<and> sr_snippet r = text_of (get e ''content'')
    | _ \<Rightarrow> False)"

lemma normalize_result_ok: "normalize_result rid resp st ix = Inr r \<Longrightarrow> result_ok r \<and> read_from (snd ix) r"
  by (auto simp: normalize_result_def Let_def result_ok_def read_from_def intro: strip_text_of
      split: prod.splits json.splits if_splits)

text \<open>The JSON object in the body of an answer, and the ids of the request and of the answer: the ones
  it carries, and the id that was sent where it carries none.\<close>

definition answer_object :: "string option \<Rightarrow> obj option" where
  "answer_object body = (case body of
      Some text \<Rightarrow> (case json_loads text of Inr (JObj d) \<Rightarrow> Some d | _ \<Rightarrow> None)
    | None \<Rightarrow> None)"

definition answer_ids :: "string \<Rightarrow> string option \<Rightarrow> string \<times> string option" where
  "answer_ids rid body = (case answer_object body of
      Some d \<Rightarrow> (or_else (text_of (get d ''request_id'')) rid, some_text (text_of (get d ''id'')))
    | None \<Rightarrow> (rid, None))"

definition ok_status :: "transport_response \<Rightarrow> bool" where
  "ok_status r \<longleftrightarrow> 200 \<le> tp_status_code r \<and> tp_status_code r < 300"

lemma decode_json_Inr: "decode_json b rid = Inr d \<longleftrightarrow> answer_object b = Some d"
  by (auto simp: decode_json_def answer_object_def Let_def split: option.splits sum.splits json.splits)

lemma decode_json_Inl:
  "decode_json b rid = Inl be \<Longrightarrow> answer_object b = None \<and> be_type be = ''SearchBackendError''
     \<and> be_backend_id be = search_pro_backend_id \<and> be_request_id be = Some rid \<and> be_response_id be = None
     \<and> be_http_status be = None \<and> \<not> be_retryable be"
  by (auto simp: decode_json_def answer_object_def Let_def search_pro_error_def split: option.splits sum.splits json.splits)

text \<open>An error that reports an answer: its ids, its status, and whether it may be retried.\<close>

definition reports :: "string \<Rightarrow> transport_response \<Rightarrow> backend_error \<Rightarrow> bool" where
  "reports rid r be \<longleftrightarrow> be_type be = ''SearchBackendError'' \<and> be_backend_id be = search_pro_backend_id
     \<and> be_request_id be = Some (fst (answer_ids rid (tp_body r))) \<and> be_response_id be = snd (answer_ids rid (tp_body r))
     \<and> be_http_status be = (if ok_status r \<and> answer_object (tp_body r) = None then None else Some (tp_status_code r))
     \<and> (be_retryable be \<longleftrightarrow> \<not> ok_status r \<and> tp_status_code r \<in> set retryable_statuses)"

lemma failed_response_reports:
  assumes "\<not> ok_status r"
  shows "reports rid r (failed_response rid r)"
proof (cases "decode_json (tp_body r) rid")
  case (Inl e)
  with decode_json_Inl [OF Inl] assms show ?thesis
    by (simp add: failed_response_def Let_def reports_def search_pro_error_def answer_ids_def)
next
  case (Inr d)
  then have "answer_object (tp_body r) = Some d" by (simp add: decode_json_Inr)
  with Inr assms show ?thesis
    by (simp add: failed_response_def Let_def reports_def search_pro_error_def answer_ids_def split: prod.splits)
qed

lemma normalize_result_Inl:
  "normalize_result rrid resp st ix = Inl be \<Longrightarrow> be_type be = ''SearchBackendError'' \<and> be_backend_id be = search_pro_backend_id
     \<and> be_request_id be = Some rrid \<and> be_response_id be = resp \<and> be_http_status be = Some st \<and> \<not> be_retryable be"
  by (auto simp: normalize_result_def Let_def search_pro_error_def split: prod.splits json.splits if_splits)

lemma mapE_Inl: "mapE f xs = Inl e \<Longrightarrow> \<exists>x \<in> set xs. f x = Inl e"
  by (induction xs) (auto simp: bindE_eq_Inl)

lemma read_response_Inl:
  assumes "read_response rid r = Inl be"
  shows "reports rid r be"
proof (cases "ok_status r")
  case False
  then have "be = failed_response rid r" using assms by (auto simp: read_response_def Let_def ok_status_def)
  with False show ?thesis by (simp add: failed_response_reports)
next
  case True
  show ?thesis
  proof (cases "decode_json (tp_body r) rid")
    case (Inl e)
    then have "be = e" using assms True by (simp add: read_response_def Let_def ok_status_def)
    with decode_json_Inl [OF Inl] True show ?thesis by (simp add: reports_def answer_ids_def)
  next
    case (Inr d)
    then have d: "answer_object (tp_body r) = Some d" by (simp add: decode_json_Inr)
    let ?ids = "answer_ids rid (tp_body r)"
    from assms True Inr d have "be_type be = ''SearchBackendError'' \<and> be_backend_id be = search_pro_backend_id
     \<and> be_request_id be = Some (fst ?ids) \<and> be_response_id be = snd ?ids \<and> be_http_status be = Some (tp_status_code r) \<and> \<not> be_retryable be"
      by (auto simp: read_response_def Let_def ok_status_def bindE_eq_Inl search_pro_error_def answer_ids_def
          dest!: mapE_Inl normalize_result_Inl split: if_splits json.splits prod.splits)
    with True d show ?thesis by (simp add: reports_def)
  qed
qed

lemma read_response_Inr:
  assumes "read_response rid r = Inr (rs, rrid, resp)"
  shows "ok_status r \<and> list_all result_ok rs \<and> (rrid, resp) = answer_ids rid (tp_body r)
    \<and> (\<exists>d items. answer_object (tp_body r) = Some d \<and> \<not> has_key d ''error''
         \<and> get d ''search_result'' = JArr items \<and> list_all2 read_from items rs)"
proof -
  from assms obtain d items where st: "ok_status r"
    and d: "decode_json (tp_body r) rid = Inr d" and err: "\<not> has_key d ''error''"
    and items: "get d ''search_result'' = JArr items"
    and rs: "mapE (normalize_result rrid resp (tp_status_code r)) (enumerate 0 items) = Inr rs"
    and ids: "rrid = or_else (text_of (get d ''request_id'')) rid" "resp = some_text (text_of (get d ''id''))"
    unfolding read_response_def Let_def bindE_eq_Inr if_Inl_eq_Inr ok_status_def
    by (auto simp: exc_elims split: prod.splits if_splits)
  have "list_all2 (\<lambda>x r. result_ok r \<and> read_from (snd x) r) (enumerate 0 items) rs"
    by (rule list.rel_mono_strong [OF rs [unfolded mapE_eq_Inr]]) (rule normalize_result_ok)
  then have "list_all2 (\<lambda>v r. result_ok r \<and> read_from v r) (map snd (enumerate 0 items)) rs"
    by (simp only: list.rel_map)
  then have "list_all2 (\<lambda>v r. result_ok r \<and> read_from v r) items rs" by simp
  then have "list_all2 read_from items rs" "list_all result_ok rs"
    by (induction rule: list_all2_induct) auto
  with st d err items ids show ?thesis by (simp add: answer_ids_def decode_json_Inr)
qed

lemma from_env_Inr: "from_env env k n t e = Inr cfg \<Longrightarrow> \<exists>s. env k = Some s \<and> \<not> blank s \<and> 1 \<le> n \<and> n \<le> 50"
  by (auto simp: from_env_def make_search_pro_def Let_def split: option.splits if_splits)

text \<open>The loop spends one call per query it asks, stops at the first that is not answered, and the proxy stays well formed.\<close>

definition answered :: "search_trace \<Rightarrow> bool" where
  "answered t \<longleftrightarrow> tr_status t = ''SUCCEEDED'' \<and> 0 < tr_result_count t"

definition recorded_as :: "json \<Rightarrow> search_trace \<Rightarrow> bool" where
  "recorded_as c t \<longleftrightarrow> (case c of
      JObj d \<Rightarrow> get d ''query'' = JStr (tr_query t)
        \<and> get d ''status'' = JStr (if tr_status t = ''SUCCEEDED'' then ''SUCCEEDED'' else ''FAILED'')
    | _ \<Rightarrow> False)"

lemma smoke_loop_calls:
  assumes "smoke_loop ts calls p qs = Inr (calls', green, p')" and "proxy_ok p"
    and "calls_used p + int (length qs) \<le> px_max_calls p"
  shows "proxy_ok p' \<and> (\<exists>nt nc. px_traces p' = px_traces p @ nt \<and> calls' = calls @ nc \<and> list_all2 recorded_as nc nt
    \<and> length nt \<le> length qs \<and> map tr_query nt = take (length nt) qs \<and> (\<forall>t \<in> set (butlast nt). answered t)
    \<and> (length nt < length qs \<longrightarrow> nt \<noteq> [] \<and> \<not> answered (last nt))
    \<and> (green \<longleftrightarrow> length nt = length qs \<and> (\<forall>t \<in> set nt. answered t)))"
  using assms
proof (induction qs arbitrary: calls p)
  case Nil
  then show ?case by simp
next
  case (Cons q qs)
  let ?i = "(et_tick ts (length (px_traces p)), q)"
  let ?s = "search (et_backend ts) (et_backend_id ts) p ?i"
  have sw: "search_web ts p q = ?s" by (simp add: search_web_def)
  have ok: "proxy_ok (snd ?s)" by (rule traces.step_inv [OF Cons.prems(2)])
  show ?case
  proof (rule search_cases [of p "et_backend ts" "et_backend_id ts" ?i])
    assume "px_max_calls p \<le> calls_used p"
    with Cons.prems(3) show ?thesis by simp
  next
    fix t
    assume new: "snd ?s = record_trace p t" and tq: "tr_query t = snd ?i"
      and st: "tr_status t = ''SUCCEEDED'' \<longleftrightarrow> isOk (fst ?s)"
      and cnt: "\<And>rs. fst ?s = Inr rs \<Longrightarrow> tr_result_count t = length rs"
    have tr: "px_traces (record_trace p t) = px_traces p @ [t]" "px_max_calls (record_trace p t) = px_max_calls p"
      by (simp_all add: record_trace_def)
    have stop: ?thesis if "calls' = calls @ [c]" "\<not> green" "p' = record_trace p t" "recorded_as c t" "\<not> answered t" for c
      using that ok new tr tq by (intro conjI exI [of _ "[t]"] exI [of _ "[c]"]) simp_all
    show ?thesis
    proof (cases "fst ?s")
      case (Inl e)
      with st have "tr_status t \<noteq> ''SUCCEEDED''" by simp
      moreover from Inl Cons.prems(1) obtain d where "calls' = calls @ [JObj d]" "\<not> green" "p' = record_trace p t"
        "get d ''query'' = JStr q" "get d ''status'' = JStr ''FAILED''"
        by (auto simp: sw Let_def new get_def split: sum.splits)
      ultimately show ?thesis using tq by (intro stop [of "JObj d"]) (simp_all add: recorded_as_def answered_def)
    next
      case (Inr rs)
      with st have succ: "tr_status t = ''SUCCEEDED''" by simp
      have n: "tr_result_count t = length rs" by (rule cnt [OF Inr])
      let ?c = "JObj [(''query'', JStr q), (''status'', JStr ''SUCCEEDED''), (''results'', JArr (map result_dict rs))]"
      have rec: "recorded_as ?c t" using tq succ by (simp add: recorded_as_def get_def)
      show ?thesis
      proof (cases "rs = []")
        case True
        then have "calls' = calls @ [?c]" "\<not> green" "p' = record_trace p t"
          using Inr Cons.prems(1) by (simp_all add: sw Let_def new)
        with True n rec show ?thesis by (intro stop) (simp_all add: answered_def)
      next
        case False
        with succ n have t: "answered t" by (simp add: answered_def)
        from False Inr Cons.prems(1) have
          run: "smoke_loop ts (calls @ [?c]) (record_trace p t) qs = Inr (calls', green, p')"
          by (simp add: sw Let_def new)
        have budget: "calls_used (record_trace p t) + int (length qs) \<le> px_max_calls (record_trace p t)"
          using Cons.prems(3) by (simp add: calls_used_def tr)
        obtain nt nc where ih: "proxy_ok p'" "px_traces p' = (px_traces p @ [t]) @ nt"
          "calls' = (calls @ [?c]) @ nc" "list_all2 recorded_as nc nt" "length nt \<le> length qs"
          "map tr_query nt = take (length nt) qs" "\<forall>t \<in> set (butlast nt). answered t"
          "length nt < length qs \<longrightarrow> nt \<noteq> [] \<and> \<not> answered (last nt)"
          "green \<longleftrightarrow> length nt = length qs \<and> (\<forall>t \<in> set nt. answered t)"
          using Cons.IH [OF run ok [unfolded new] budget] unfolding tr by blast
        with t tq rec show ?thesis by (intro conjI exI [of _ "t # nt"] exI [of _ "?c # nc"]) auto
      qed
    qed
  qed
qed

section \<open>Properties\<close>

text \<open>C26.  One search request is exactly one HTTP request, carrying the id of the search request or a fresh
  one, and none when the query exceeds 70 characters, which is an error with that id.  Results are returned
  only from a 2xx answer that is a JSON object without \<open>error\<close> and with a result list, one result per item
  with its title, link and content, the first two not empty; failures are typed errors of this
  backend, unless the transport raised something else, which passes through.  Results and errors carry the request id and the answer id of that answer, or the id
  that was sent when it names none; an error is marked retryable exactly for the listed non-2xx statuses.\<close>

theorem search_pro_call_sound:
  fixes send :: transport and cfg :: search_pro_config and fresh :: string and rq :: search_request
  assumes "\<forall>hr be. send hr = Inl (Inl be) \<longrightarrow> be_type be = ''SearchBackendError''"
  defines "sent_id \<equiv> or_else (rq_request_id rq) fresh"
  defines "hr \<equiv> http_request_of cfg sent_id (rq_query rq)"
  shows "case search_pro_call send cfg fresh rq of (reply, sent) \<Rightarrow>
    if 70 < length (rq_query rq)
    then sent = [] \<and> (\<exists>be. reply = BackendError be \<and> be_type be = ''SearchBackendError'' \<and> be_error_code be = ''INVALID_QUERY''
           \<and> be_request_id be = Some sent_id \<and> be_response_id be = None \<and> be_http_status be = None \<and> \<not> be_retryable be)
    else sent = [hr] \<and> (case reply of
        BackendResponse items bid rid resp \<Rightarrow> bid = search_pro_backend_id
          \<and> (\<exists>rs r d raw. items = map Some rs \<and> list_all result_ok rs \<and> send hr = Inr r
              \<and> 200 \<le> tp_status_code r \<and> tp_status_code r < 300 \<and> (rid, resp) = answer_ids sent_id (tp_body r)
              \<and> answer_object (tp_body r) = Some d \<and> \<not> has_key d ''error''
              \<and> get d ''search_result'' = JArr raw \<and> list_all2 read_from raw rs)
      | BackendError be \<Rightarrow> be_type be = ''SearchBackendError''
          \<and> (send hr = Inl (Inl be) \<or> (\<exists>r. send hr = Inr r \<and> be_backend_id be = search_pro_backend_id
              \<and> (\<exists>rid. be_request_id be = Some rid \<and> (rid, be_response_id be) = answer_ids sent_id (tp_body r))
              \<and> (be_retryable be \<longleftrightarrow> \<not> (200 \<le> tp_status_code r \<and> tp_status_code r < 300) \<and> tp_status_code r \<in> set retryable_statuses)))
      | BackendRaises e \<Rightarrow> send hr = Inl (Inr e)
      | PlainResults _ \<Rightarrow> False)"
proof (cases "70 < length (rq_query rq)")
  case True
  then show ?thesis by (simp add: search_pro_call_def Let_def search_pro_error_def sent_id_def)
next
  case False
  then have call: "search_pro_call send cfg fresh rq = (case send hr of
           Inl (Inl be) \<Rightarrow> BackendError be | Inl (Inr e) \<Rightarrow> BackendRaises e
         | Inr r \<Rightarrow> (case read_response sent_id r of Inl be \<Rightarrow> BackendError be
             | Inr (rs, rrid, resp) \<Rightarrow> BackendResponse (map Some rs) search_pro_backend_id rrid resp), [hr])"
    unfolding hr_def sent_id_def by (simp add: search_pro_call_def Let_def)
  show ?thesis
  proof (cases "send hr")
    case (Inl x)
    with False assms(1) show ?thesis by (cases x) (simp_all add: call)
  next
    case (Inr r)
    show ?thesis
    proof (cases "read_response sent_id r")
      case inl: (Inl be)
      with False Inr read_response_Inl [OF inl] show ?thesis
        by (auto simp: call reports_def ok_status_def prod_eq_iff)
    next
      case inr: (Inr x)
      obtain rs rrid resp where x: "x = (rs, rrid, resp)" by (cases x)
      from read_response_Inr [OF inr [unfolded x]] obtain d items where
        "ok_status r" "list_all result_ok rs" "answer_ids sent_id (tp_body r) = (rrid, resp)" "answer_object (tp_body r) = Some d"
        "\<not> has_key d ''error''" "get d ''search_result'' = JArr items" "list_all2 read_from items rs"
        by metis
      with False Inr inr show ?thesis by (simp add: call x ok_status_def)
    qed
  qed
qed

text \<open>A configuration, a request, and a service that answers with one result.\<close>

definition sample_config :: search_pro_config where
  "sample_config = \<lparr>sp_api_key = ''k'', sp_count = 5, sp_timeout_seconds = Fin 30, sp_endpoint = ''e''\<rparr>"

definition sample_search :: search_request where
  "sample_search = \<lparr>rq_entrant_id = ''e'', rq_query = ''q'', rq_call_number = 1, rq_request_id = ''sc-1''\<rparr>"

definition sample_answer :: obj where
  "sample_answer = [(''id'', JStr ''A-1''), (''request_id'', JStr ''R-1''),
     (''search_result'', JArr [JObj [(''content'', JStr ''c''), (''link'', JStr ''u''), (''title'', JStr ''t'')]])]"

definition sample_service :: transport where
  "sample_service = (\<lambda>_. Inr \<lparr>tp_status_code = 200, tp_body = Some (canonical_json (JObj sample_answer))\<rparr>)"

lemma sample_answer_object: "answer_object (Some (canonical_json (JObj sample_answer))) = Some sample_answer"
proof -
  have "text_ok (JObj sample_answer)" "canon (JObj sample_answer) = JObj sample_answer" by code_simp+
  then show ?thesis using loads_dumps [of "JObj sample_answer"] by (simp only: answer_object_def canonical_json_def option.case sum.case json.case)
qed

lemma sample_answer_read:
  "\<exists>rs. search_pro_call sample_service sample_config [] sample_search
     = (BackendResponse (map Some rs) search_pro_backend_id ''R-1'' (Some ''A-1''), [http_request_of sample_config ''sc-1'' ''q''])"
proof -
  let ?r = "\<lparr>tp_status_code = 200, tp_body = Some (canonical_json (JObj sample_answer))\<rparr>"
  have d: "decode_json (tp_body ?r) ''sc-1'' = Inr sample_answer" by (simp add: decode_json_Inr sample_answer_object)
  have t: "text_of (get sample_answer ''request_id'') = ''R-1''" "text_of (get sample_answer ''id'') = ''A-1''"
    "\<not> has_key sample_answer ''error''"
    "case get sample_answer ''search_result'' of JArr items \<Rightarrow> isOk (mapE (normalize_result ''R-1'' (Some ''A-1'') 200) (enumerate 0 items))
       | _ \<Rightarrow> False" by code_simp+
  then show ?thesis
    using d by (auto simp: search_pro_call_def sample_service_def sample_search_def or_else_def Let_def read_response_def some_text_def
        isOk_iff [of "mapE _ _"] split: json.splits)
qed

theorem search_pro_call_sound_witness:
  "\<exists>rs r. search_pro_call sample_service sample_config [] sample_search
       = (BackendResponse (map Some rs) search_pro_backend_id ''R-1'' (Some ''A-1''), [http_request_of sample_config ''sc-1'' ''q''])
     \<and> list_all result_ok rs \<and> sample_service (http_request_of sample_config ''sc-1'' ''q'') = Inr r
     \<and> answer_ids ''sc-1'' (tp_body r) = (''R-1'', Some ''A-1'')"
proof -
  obtain rs where call: "search_pro_call sample_service sample_config [] sample_search
     = (BackendResponse (map Some rs) search_pro_backend_id ''R-1'' (Some ''A-1''), [http_request_of sample_config ''sc-1'' ''q''])"
    using sample_answer_read by blast
  have "\<forall>hr be. sample_service hr = Inl (Inl be) \<longrightarrow> be_type be = ''SearchBackendError''" by (simp add: sample_service_def)
  from search_pro_call_sound [OF this, where cfg = sample_config and fresh = "[]" and rq = sample_search] call
  obtain qs r where "map Some rs = map Some qs" "list_all result_ok qs"
    "sample_service (http_request_of sample_config ''sc-1'' ''q'') = Inr r" "answer_ids ''sc-1'' (tp_body r) = (''R-1'', Some ''A-1'')"
    by (auto simp: sample_search_def or_else_def)
  moreover have "rs = qs" using \<open>map Some rs = map Some qs\<close> by (rule map_injective) (simp add: inj_def)
  ultimately show ?thesis using call by auto
qed

text \<open>C27.  The live smoke test asks one to three queries in order and stops at the first that fails or
  brings nothing: each trace is that of the query at its place, every trace but the last was answered with at least one
  result, and when queries are left over the last was not.  It keeps one record per trace, with its query and
  its status, and is GREEN exactly when every query was answered.\<close>

theorem live_smoke_gate:
  assumes "run_live_smoke send env ticks queries k n timeout e = Inr (artifact, green)"
  defines "asked \<equiv> map strip (filter (\<lambda>q. \<not> blank q) queries)"
  shows "1 \<le> length asked \<and> length asked \<le> 3 \<and> get artifact ''calls_requested'' = JInt (int (length asked))
    \<and> (\<exists>key. env k = Some key \<and> \<not> blank key)
    \<and> (\<exists>calls traces. get artifact ''calls'' = JArr calls \<and> get artifact ''traces'' = JArr (map trace_dict traces)
        \<and> get artifact ''calls_used'' = JInt (int (length traces)) \<and> list_all2 recorded_as calls traces
        \<and> length traces \<le> length asked \<and> map tr_query traces = take (length traces) asked
        \<and> (\<forall>t \<in> set (butlast traces). answered t)
        \<and> (length traces < length asked \<longrightarrow> traces \<noteq> [] \<and> \<not> answered (last traces))
        \<and> (green \<longleftrightarrow> length traces = length asked \<and> (\<forall>t \<in> set traces. answered t))
        \<and> get artifact ''gate'' = JStr (if green then ''GREEN'' else ''RED''))"
proof -
  from assms obtain cfg proxy calls p where
    bounds: "filter (\<lambda>q. \<not> blank q) queries \<noteq> []" "\<not> 3 < length (filter (\<lambda>q. \<not> blank q) queries)" and cfg: "from_env env k n timeout e = Inr cfg"
    and mk: "make_proxy ''fake-search-pro-smoke'' 20 = Inr proxy"
    and run: "smoke_loop \<lparr>et_backend = search_pro_backend send cfg, et_backend_id = search_pro_backend_id,
                et_read = fake_url_read (\<lambda>_. None), et_tick = ticks\<rparr> [] proxy asked = Inr (calls, green, p)"
    and art: "artifact = smoke_artifact (length asked) calls green p"
    unfolding run_live_smoke_def Let_def by (auto simp: bindE_eq_Inr)
  have proxy: "px_max_calls proxy = 20" "px_traces proxy = []" using mk by (auto simp: make_proxy_def)
  have len: "1 \<le> length asked" "length asked \<le> 3" using bounds by (simp_all add: asked_def Suc_le_eq)
  then have "calls_used proxy + int (length asked) \<le> px_max_calls proxy" by (simp add: proxy calls_used_def)
  note loop = smoke_loop_calls [OF run make_proxy_ok [OF mk] this, unfolded proxy append_Nil]
  have fields: "get artifact ''calls'' = JArr calls" "get artifact ''traces'' = JArr (map trace_dict (px_traces p))"
    "get artifact ''calls_used'' = JInt (int (length (px_traces p)))" "get artifact ''calls_requested'' = JInt (int (length asked))"
    "get artifact ''gate'' = JStr (if green then ''GREEN'' else ''RED'')"
    by (simp_all add: art smoke_artifact_def get_def calls_used_def)
  show ?thesis
    using loop len from_env_Inr [OF cfg] unfolding fields by (intro conjI exI [of _ calls] exI [of _ "px_traces p"]) auto
qed

definition sample_env :: "string \<Rightarrow> string option" where
  "sample_env k = (if k = ''GLM_API_KEY'' then Some ''key'' else None)"

text \<open>Two queries, and a service that fails: the second is never asked.\<close>

theorem live_smoke_gate_witness:
  "\<exists>artifact t. run_live_smoke (\<lambda>_. Inl (Inl (network_error ''URLError''))) sample_env (\<lambda>_. sample_tick) [''jobs'', ''more'']
       ''GLM_API_KEY'' 5 (Fin 30) ''e'' = Inr (artifact, False)
     \<and> get artifact ''gate'' = JStr ''RED'' \<and> get artifact ''traces'' = JArr [trace_dict t] \<and> \<not> answered t"
proof -
  have b: "\<not> blank ''jobs''" "strip ''jobs'' = ''jobs''" "\<not> blank ''more''" "strip ''more'' = ''more''" "\<not> blank ''key''" "strip ''key'' = ''key''"
    "\<not> blank ''fake-search-pro-smoke''" "\<not> blank ''sc-1''"
    by code_simp+
  obtain artifact where run: "run_live_smoke (\<lambda>_. Inl (Inl (network_error ''URLError''))) sample_env (\<lambda>_. sample_tick) [''jobs'', ''more'']
      ''GLM_API_KEY'' 5 (Fin 30) ''e'' = Inr (artifact, False)" and used: "get artifact ''calls_used'' = JInt 1"
    using b by (simp add: run_live_smoke_def from_env_def sample_env_def make_search_pro_def make_proxy_def search_web_def
        search_def calls_used_def attempt_def make_search_request_def cup_required_text_def sample_tick_def record_trace_def
        search_pro_backend_def search_pro_call_def or_else_def Let_def smoke_artifact_def get_def)
  from live_smoke_gate [OF run] used b obtain traces where "get artifact ''gate'' = JStr ''RED''"
    "get artifact ''traces'' = JArr (map trace_dict traces)" "length traces = 1" "length traces < 2 \<longrightarrow> \<not> answered (last traces)"
    by auto
  then show ?thesis using run by (auto simp: length_Suc_conv)
qed

end
