(* ===== verification/Ascii.thy ===== *)
theory Ascii
  imports PyText
begin

text \<open>
  Code points, lower case and white space of the printable ASCII characters, as facts for
  the simplifier: with them a claim about the characters of a concrete string is
  decided by rewriting.
\<close>

named_theorems ascii "facts on printable ASCII characters"

lemma code_ascii [ascii]:
  "code (CHR '' '') = 32"
  "code (CHR ''!'') = 33"
  "code (CHR ''#'') = 35"
  "code (CHR ''$'') = 36"
  "code (CHR ''%'') = 37"
  "code (CHR ''&'') = 38"
  "code (CHR ''('') = 40"
  "code (CHR '')'') = 41"
  "code (CHR ''*'') = 42"
  "code (CHR ''+'') = 43"
  "code (CHR '','') = 44"
  "code (CHR ''-'') = 45"
  "code (CHR ''.'') = 46"
  "code (CHR ''/'') = 47"
  "code (CHR ''0'') = 48"
  "code (CHR ''1'') = 49"
  "code (CHR ''2'') = 50"
  "code (CHR ''3'') = 51"
  "code (CHR ''4'') = 52"
  "code (CHR ''5'') = 53"
  "code (CHR ''6'') = 54"
  "code (CHR ''7'') = 55"
  "code (CHR ''8'') = 56"
  "code (CHR ''9'') = 57"
  "code (CHR '':'') = 58"
  "code (CHR '';'') = 59"
  "code (CHR ''<'') = 60"
  "code (CHR ''='') = 61"
  "code (CHR ''>'') = 62"
  "code (CHR ''?'') = 63"
  "code (CHR ''@'') = 64"
  "code (CHR ''A'') = 65"
  "code (CHR ''B'') = 66"
  "code (CHR ''C'') = 67"
  "code (CHR ''D'') = 68"
  "code (CHR ''E'') = 69"
  "code (CHR ''F'') = 70"
  "code (CHR ''G'') = 71"
  "code (CHR ''H'') = 72"
  "code (CHR ''I'') = 73"
  "code (CHR ''J'') = 74"
  "code (CHR ''K'') = 75"
  "code (CHR ''L'') = 76"
  "code (CHR ''M'') = 77"
  "code (CHR ''N'') = 78"
  "code (CHR ''O'') = 79"
  "code (CHR ''P'') = 80"
  "code (CHR ''Q'') = 81"
  "code (CHR ''R'') = 82"
  "code (CHR ''S'') = 83"
  "code (CHR ''T'') = 84"
  "code (CHR ''U'') = 85"
  "code (CHR ''V'') = 86"
  "code (CHR ''W'') = 87"
  "code (CHR ''X'') = 88"
  "code (CHR ''Y'') = 89"
  "code (CHR ''Z'') = 90"
  "code (CHR ''['') = 91"
  "code (CHR '']'') = 93"
  "code (CHR ''^'') = 94"
  "code (CHR ''_'') = 95"
  "code (CHR ''a'') = 97"
  "code (CHR ''b'') = 98"
  "code (CHR ''c'') = 99"
  "code (CHR ''d'') = 100"
  "code (CHR ''e'') = 101"
  "code (CHR ''f'') = 102"
  "code (CHR ''g'') = 103"
  "code (CHR ''h'') = 104"
  "code (CHR ''i'') = 105"
  "code (CHR ''j'') = 106"
  "code (CHR ''k'') = 107"
  "code (CHR ''l'') = 108"
  "code (CHR ''m'') = 109"
  "code (CHR ''n'') = 110"
  "code (CHR ''o'') = 111"
  "code (CHR ''p'') = 112"
  "code (CHR ''q'') = 113"
  "code (CHR ''r'') = 114"
  "code (CHR ''s'') = 115"
  "code (CHR ''t'') = 116"
  "code (CHR ''u'') = 117"
  "code (CHR ''v'') = 118"
  "code (CHR ''w'') = 119"
  "code (CHR ''x'') = 120"
  "code (CHR ''y'') = 121"
  "code (CHR ''z'') = 122"
  "code (CHR ''{'') = 123"
  "code (CHR ''|'') = 124"
  "code (CHR ''}'') = 125"
  "code (CHR ''~'') = 126"
  by (simp_all add: code_def)

lemma lower_ascii [ascii]:
  "lower_char (CHR '' '') = CHR '' ''"
  "lower_char (CHR ''!'') = CHR ''!''"
  "lower_char (CHR ''#'') = CHR ''#''"
  "lower_char (CHR ''$'') = CHR ''$''"
  "lower_char (CHR ''%'') = CHR ''%''"
  "lower_char (CHR ''&'') = CHR ''&''"
  "lower_char (CHR ''('') = CHR ''(''"
  "lower_char (CHR '')'') = CHR '')''"
  "lower_char (CHR ''*'') = CHR ''*''"
  "lower_char (CHR ''+'') = CHR ''+''"
  "lower_char (CHR '','') = CHR '',''"
  "lower_char (CHR ''-'') = CHR ''-''"
  "lower_char (CHR ''.'') = CHR ''.''"
  "lower_char (CHR ''/'') = CHR ''/''"
  "lower_char (CHR ''0'') = CHR ''0''"
  "lower_char (CHR ''1'') = CHR ''1''"
  "lower_char (CHR ''2'') = CHR ''2''"
  "lower_char (CHR ''3'') = CHR ''3''"
  "lower_char (CHR ''4'') = CHR ''4''"
  "lower_char (CHR ''5'') = CHR ''5''"
  "lower_char (CHR ''6'') = CHR ''6''"
  "lower_char (CHR ''7'') = CHR ''7''"
  "lower_char (CHR ''8'') = CHR ''8''"
  "lower_char (CHR ''9'') = CHR ''9''"
  "lower_char (CHR '':'') = CHR '':''"
  "lower_char (CHR '';'') = CHR '';''"
  "lower_char (CHR ''<'') = CHR ''<''"
  "lower_char (CHR ''='') = CHR ''=''"
  "lower_char (CHR ''>'') = CHR ''>''"
  "lower_char (CHR ''?'') = CHR ''?''"
  "lower_char (CHR ''@'') = CHR ''@''"
  "lower_char (CHR ''A'') = CHR ''a''"
  "lower_char (CHR ''B'') = CHR ''b''"
  "lower_char (CHR ''C'') = CHR ''c''"
  "lower_char (CHR ''D'') = CHR ''d''"
  "lower_char (CHR ''E'') = CHR ''e''"
  "lower_char (CHR ''F'') = CHR ''f''"
  "lower_char (CHR ''G'') = CHR ''g''"
  "lower_char (CHR ''H'') = CHR ''h''"
  "lower_char (CHR ''I'') = CHR ''i''"
  "lower_char (CHR ''J'') = CHR ''j''"
  "lower_char (CHR ''K'') = CHR ''k''"
  "lower_char (CHR ''L'') = CHR ''l''"
  "lower_char (CHR ''M'') = CHR ''m''"
  "lower_char (CHR ''N'') = CHR ''n''"
  "lower_char (CHR ''O'') = CHR ''o''"
  "lower_char (CHR ''P'') = CHR ''p''"
  "lower_char (CHR ''Q'') = CHR ''q''"
  "lower_char (CHR ''R'') = CHR ''r''"
  "lower_char (CHR ''S'') = CHR ''s''"
  "lower_char (CHR ''T'') = CHR ''t''"
  "lower_char (CHR ''U'') = CHR ''u''"
  "lower_char (CHR ''V'') = CHR ''v''"
  "lower_char (CHR ''W'') = CHR ''w''"
  "lower_char (CHR ''X'') = CHR ''x''"
  "lower_char (CHR ''Y'') = CHR ''y''"
  "lower_char (CHR ''Z'') = CHR ''z''"
  "lower_char (CHR ''['') = CHR ''[''"
  "lower_char (CHR '']'') = CHR '']''"
  "lower_char (CHR ''^'') = CHR ''^''"
  "lower_char (CHR ''_'') = CHR ''_''"
  "lower_char (CHR ''a'') = CHR ''a''"
  "lower_char (CHR ''b'') = CHR ''b''"
  "lower_char (CHR ''c'') = CHR ''c''"
  "lower_char (CHR ''d'') = CHR ''d''"
  "lower_char (CHR ''e'') = CHR ''e''"
  "lower_char (CHR ''f'') = CHR ''f''"
  "lower_char (CHR ''g'') = CHR ''g''"
  "lower_char (CHR ''h'') = CHR ''h''"
  "lower_char (CHR ''i'') = CHR ''i''"
  "lower_char (CHR ''j'') = CHR ''j''"
  "lower_char (CHR ''k'') = CHR ''k''"
  "lower_char (CHR ''l'') = CHR ''l''"
  "lower_char (CHR ''m'') = CHR ''m''"
  "lower_char (CHR ''n'') = CHR ''n''"
  "lower_char (CHR ''o'') = CHR ''o''"
  "lower_char (CHR ''p'') = CHR ''p''"
  "lower_char (CHR ''q'') = CHR ''q''"
  "lower_char (CHR ''r'') = CHR ''r''"
  "lower_char (CHR ''s'') = CHR ''s''"
  "lower_char (CHR ''t'') = CHR ''t''"
  "lower_char (CHR ''u'') = CHR ''u''"
  "lower_char (CHR ''v'') = CHR ''v''"
  "lower_char (CHR ''w'') = CHR ''w''"
  "lower_char (CHR ''x'') = CHR ''x''"
  "lower_char (CHR ''y'') = CHR ''y''"
  "lower_char (CHR ''z'') = CHR ''z''"
  "lower_char (CHR ''{'') = CHR ''{''"
  "lower_char (CHR ''|'') = CHR ''|''"
  "lower_char (CHR ''}'') = CHR ''}''"
  "lower_char (CHR ''~'') = CHR ''~''"
  by (simp_all add: lower_char_def code_ascii char_of_def bit_iff_odd)

lemma space_ascii [ascii]:
  "py_isspace (CHR '' '')"
  "\<not> py_isspace (CHR ''!'')"
  "\<not> py_isspace (CHR ''#'')"
  "\<not> py_isspace (CHR ''$'')"
  "\<not> py_isspace (CHR ''%'')"
  "\<not> py_isspace (CHR ''&'')"
  "\<not> py_isspace (CHR ''('')"
  "\<not> py_isspace (CHR '')'')"
  "\<not> py_isspace (CHR ''*'')"
  "\<not> py_isspace (CHR ''+'')"
  "\<not> py_isspace (CHR '','')"
  "\<not> py_isspace (CHR ''-'')"
  "\<not> py_isspace (CHR ''.'')"
  "\<not> py_isspace (CHR ''/'')"
  "\<not> py_isspace (CHR ''0'')"
  "\<not> py_isspace (CHR ''1'')"
  "\<not> py_isspace (CHR ''2'')"
  "\<not> py_isspace (CHR ''3'')"
  "\<not> py_isspace (CHR ''4'')"
  "\<not> py_isspace (CHR ''5'')"
  "\<not> py_isspace (CHR ''6'')"
  "\<not> py_isspace (CHR ''7'')"
  "\<not> py_isspace (CHR ''8'')"
  "\<not> py_isspace (CHR ''9'')"
  "\<not> py_isspace (CHR '':'')"
  "\<not> py_isspace (CHR '';'')"
  "\<not> py_isspace (CHR ''<'')"
  "\<not> py_isspace (CHR ''='')"
  "\<not> py_isspace (CHR ''>'')"
  "\<not> py_isspace (CHR ''?'')"
  "\<not> py_isspace (CHR ''@'')"
  "\<not> py_isspace (CHR ''A'')"
  "\<not> py_isspace (CHR ''B'')"
  "\<not> py_isspace (CHR ''C'')"
  "\<not> py_isspace (CHR ''D'')"
  "\<not> py_isspace (CHR ''E'')"
  "\<not> py_isspace (CHR ''F'')"
  "\<not> py_isspace (CHR ''G'')"
  "\<not> py_isspace (CHR ''H'')"
  "\<not> py_isspace (CHR ''I'')"
  "\<not> py_isspace (CHR ''J'')"
  "\<not> py_isspace (CHR ''K'')"
  "\<not> py_isspace (CHR ''L'')"
  "\<not> py_isspace (CHR ''M'')"
  "\<not> py_isspace (CHR ''N'')"
  "\<not> py_isspace (CHR ''O'')"
  "\<not> py_isspace (CHR ''P'')"
  "\<not> py_isspace (CHR ''Q'')"
  "\<not> py_isspace (CHR ''R'')"
  "\<not> py_isspace (CHR ''S'')"
  "\<not> py_isspace (CHR ''T'')"
  "\<not> py_isspace (CHR ''U'')"
  "\<not> py_isspace (CHR ''V'')"
  "\<not> py_isspace (CHR ''W'')"
  "\<not> py_isspace (CHR ''X'')"
  "\<not> py_isspace (CHR ''Y'')"
  "\<not> py_isspace (CHR ''Z'')"
  "\<not> py_isspace (CHR ''['')"
  "\<not> py_isspace (CHR '']'')"
  "\<not> py_isspace (CHR ''^'')"
  "\<not> py_isspace (CHR ''_'')"
  "\<not> py_isspace (CHR ''a'')"
  "\<not> py_isspace (CHR ''b'')"
  "\<not> py_isspace (CHR ''c'')"
  "\<not> py_isspace (CHR ''d'')"
  "\<not> py_isspace (CHR ''e'')"
  "\<not> py_isspace (CHR ''f'')"
  "\<not> py_isspace (CHR ''g'')"
  "\<not> py_isspace (CHR ''h'')"
  "\<not> py_isspace (CHR ''i'')"
  "\<not> py_isspace (CHR ''j'')"
  "\<not> py_isspace (CHR ''k'')"
  "\<not> py_isspace (CHR ''l'')"
  "\<not> py_isspace (CHR ''m'')"
  "\<not> py_isspace (CHR ''n'')"
  "\<not> py_isspace (CHR ''o'')"
  "\<not> py_isspace (CHR ''p'')"
  "\<not> py_isspace (CHR ''q'')"
  "\<not> py_isspace (CHR ''r'')"
  "\<not> py_isspace (CHR ''s'')"
  "\<not> py_isspace (CHR ''t'')"
  "\<not> py_isspace (CHR ''u'')"
  "\<not> py_isspace (CHR ''v'')"
  "\<not> py_isspace (CHR ''w'')"
  "\<not> py_isspace (CHR ''x'')"
  "\<not> py_isspace (CHR ''y'')"
  "\<not> py_isspace (CHR ''z'')"
  "\<not> py_isspace (CHR ''{'')"
  "\<not> py_isspace (CHR ''|'')"
  "\<not> py_isspace (CHR ''}'')"
  "\<not> py_isspace (CHR ''~'')"
  by (simp_all add: py_isspace_def code_ascii)

text \<open>Letters, digits and the underscore.\<close>

definition plain_char :: "char \<Rightarrow> bool" where
  "plain_char c \<longleftrightarrow> (48 \<le> code c \<and> code c \<le> 57) \<or> (65 \<le> code c \<and> code c \<le> 90) \<or> (97 \<le> code c \<and> code c \<le> 122) \<or> c = CHR ''_''"

lemma plain_ascii [ascii]:
  "\<not> plain_char (CHR '' '')"
  "\<not> plain_char (CHR ''!'')"
  "\<not> plain_char (CHR ''#'')"
  "\<not> plain_char (CHR ''$'')"
  "\<not> plain_char (CHR ''%'')"
  "\<not> plain_char (CHR ''&'')"
  "\<not> plain_char (CHR ''('')"
  "\<not> plain_char (CHR '')'')"
  "\<not> plain_char (CHR ''*'')"
  "\<not> plain_char (CHR ''+'')"
  "\<not> plain_char (CHR '','')"
  "\<not> plain_char (CHR ''-'')"
  "\<not> plain_char (CHR ''.'')"
  "\<not> plain_char (CHR ''/'')"
  "plain_char (CHR ''0'')"
  "plain_char (CHR ''1'')"
  "plain_char (CHR ''2'')"
  "plain_char (CHR ''3'')"
  "plain_char (CHR ''4'')"
  "plain_char (CHR ''5'')"
  "plain_char (CHR ''6'')"
  "plain_char (CHR ''7'')"
  "plain_char (CHR ''8'')"
  "plain_char (CHR ''9'')"
  "\<not> plain_char (CHR '':'')"
  "\<not> plain_char (CHR '';'')"
  "\<not> plain_char (CHR ''<'')"
  "\<not> plain_char (CHR ''='')"
  "\<not> plain_char (CHR ''>'')"
  "\<not> plain_char (CHR ''?'')"
  "\<not> plain_char (CHR ''@'')"
  "plain_char (CHR ''A'')"
  "plain_char (CHR ''B'')"
  "plain_char (CHR ''C'')"
  "plain_char (CHR ''D'')"
  "plain_char (CHR ''E'')"
  "plain_char (CHR ''F'')"
  "plain_char (CHR ''G'')"
  "plain_char (CHR ''H'')"
  "plain_char (CHR ''I'')"
  "plain_char (CHR ''J'')"
  "plain_char (CHR ''K'')"
  "plain_char (CHR ''L'')"
  "plain_char (CHR ''M'')"
  "plain_char (CHR ''N'')"
  "plain_char (CHR ''O'')"
  "plain_char (CHR ''P'')"
  "plain_char (CHR ''Q'')"
  "plain_char (CHR ''R'')"
  "plain_char (CHR ''S'')"
  "plain_char (CHR ''T'')"
  "plain_char (CHR ''U'')"
  "plain_char (CHR ''V'')"
  "plain_char (CHR ''W'')"
  "plain_char (CHR ''X'')"
  "plain_char (CHR ''Y'')"
  "plain_char (CHR ''Z'')"
  "\<not> plain_char (CHR ''['')"
  "\<not> plain_char (CHR '']'')"
  "\<not> plain_char (CHR ''^'')"
  "plain_char (CHR ''_'')"
  "plain_char (CHR ''a'')"
  "plain_char (CHR ''b'')"
  "plain_char (CHR ''c'')"
  "plain_char (CHR ''d'')"
  "plain_char (CHR ''e'')"
  "plain_char (CHR ''f'')"
  "plain_char (CHR ''g'')"
  "plain_char (CHR ''h'')"
  "plain_char (CHR ''i'')"
  "plain_char (CHR ''j'')"
  "plain_char (CHR ''k'')"
  "plain_char (CHR ''l'')"
  "plain_char (CHR ''m'')"
  "plain_char (CHR ''n'')"
  "plain_char (CHR ''o'')"
  "plain_char (CHR ''p'')"
  "plain_char (CHR ''q'')"
  "plain_char (CHR ''r'')"
  "plain_char (CHR ''s'')"
  "plain_char (CHR ''t'')"
  "plain_char (CHR ''u'')"
  "plain_char (CHR ''v'')"
  "plain_char (CHR ''w'')"
  "plain_char (CHR ''x'')"
  "plain_char (CHR ''y'')"
  "plain_char (CHR ''z'')"
  "\<not> plain_char (CHR ''{'')"
  "\<not> plain_char (CHR ''|'')"
  "\<not> plain_char (CHR ''}'')"
  "\<not> plain_char (CHR ''~'')"
  by (simp_all add: plain_char_def code_ascii)

end
