(* ===== verification/B2Seeds.thy ===== *)
theory B2Seeds
  imports JsonText Sha256 Ascii
begin

text \<open>
  The contracts of \<open>src/b2/qa0.py\<close>: canonical text and digests, the field readers, the
  public-safety scan over every string of a document, and the validators of seeds, error
  mechanisms, bug cases and metric registries.  A validated seed is a record that the code
  holds as the dictionary \<open>seed_dict\<close>.
\<close>

section \<open>Canonical text and digests\<close>

definition b2_canonical_json :: "json \<Rightarrow> string" where
  "b2_canonical_json v = json_dumps v"

definition sha256_json :: "json \<Rightarrow> string" where
  "sha256_json v = ''sha256:'' @ sha256_text (b2_canonical_json v)"

definition abstract_seed_digest :: "string \<Rightarrow> string" where
  "abstract_seed_digest family_id = ''sha256:'' @ sha256_text (''b2-public-safe|'' @ family_id @ ''|v1'')"

section \<open>Reading fields\<close>

definition TERMINAL_STATUSES :: "string list" where
  "TERMINAL_STATUSES = [''PASS'', ''FAIL'', ''NOT_EVALUABLE'', ''BLOCKED'', ''ERROR'', ''UNKNOWN'']"

definition qa_obj :: "json \<Rightarrow> string \<Rightarrow> obj result" where
  "qa_obj v label = (case v of JObj d \<Rightarrow> Inr d | _ \<Rightarrow> Inl (ValueError (label @ '' must be an object'')))"

definition qa_text :: "obj \<Rightarrow> string \<Rightarrow> string \<Rightarrow> string result" where
  "qa_text d k label = (case get d k of
      JStr s \<Rightarrow> if blank s then Inl (ValueError (label @ ''.'' @ k @ '' must be a non-empty string'')) else Inr (strip s)
    | _ \<Rightarrow> Inl (ValueError (label @ ''.'' @ k @ '' must be a non-empty string'')))"

definition qa_string_item :: "string \<Rightarrow> nat \<times> json \<Rightarrow> string result" where
  "qa_string_item label iv = (case snd iv of
      JStr s \<Rightarrow> if blank s then Inl (ValueError (label @ ''['' @ show_nat (fst iv) @ ''] must be a non-empty string'')) else Inr (strip s)
    | _ \<Rightarrow> Inl (ValueError (label @ ''['' @ show_nat (fst iv) @ ''] must be a non-empty string'')))"

definition qa_string_list :: "obj \<Rightarrow> string \<Rightarrow> string \<Rightarrow> bool \<Rightarrow> string list result" where
  "qa_string_list d k label allow_empty = (case get d k of
      JArr xs \<Rightarrow>
        if xs = [] \<and> \<not> allow_empty then Inl (ValueError (label @ ''.'' @ k @ '' must be a non-empty array''))
        else mapE (qa_string_item (label @ ''.'' @ k)) (enumerate 0 xs)
    | _ \<Rightarrow> Inl (ValueError (label @ ''.'' @ k @ '' must be '' @ (if allow_empty then ''an array'' else ''a non-empty array''))))"

lemma qa_obj_Inr [exc_elims]: "qa_obj v l = Inr d \<longleftrightarrow> v = JObj d"
  by (cases v) (auto simp: qa_obj_def)

lemma qa_text_Inr [exc_elims]:
  "qa_text d k l = Inr t \<longleftrightarrow> (\<exists>s. get d k = JStr s \<and> \<not> blank s \<and> t = strip s)"
  by (auto simp: qa_text_def exc_elims)

section \<open>Public safety\<close>

fun scan_strings :: "json \<Rightarrow> string list"
  and scan_strings_items :: "(string \<times> json) list \<Rightarrow> string list"
  and scan_strings_list :: "json list \<Rightarrow> string list" where
  "scan_strings (JStr s) = [s]"
| "scan_strings (JObj d) = scan_strings_items d"
| "scan_strings (JArr xs) = scan_strings_list xs"
| "scan_strings _ = []"
| "scan_strings_items [] = []"
| "scan_strings_items ((k, v) # d) = k # scan_strings v @ scan_strings_items d"
| "scan_strings_list [] = []"
| "scan_strings_list (x # xs) = scan_strings x @ scan_strings_list xs"

definition forbidden_fragments :: "string list" where
  "forbidden_fragments =
     [''docs.google.com/'', ''drive.google.com/'', ''mail.google.com/'', ''session_raw'', ''raw_file_id'',
      ''oauth'', ''api_key'', ''authorization: bearer'']"

definition looks_like_private_locator :: "string \<Rightarrow> bool" where
  "looks_like_private_locator s = list_ex (\<lambda>f. contains f (lower s)) forbidden_fragments"

text \<open>The word characters of \<open>re\<close> below code point 256.\<close>

definition word_char :: "char \<Rightarrow> bool" where
  "word_char c \<longleftrightarrow> (let n = code c in
     (48 \<le> n \<and> n \<le> 57) \<or> (65 \<le> n \<and> n \<le> 90) \<or> n = 95 \<or> (97 \<le> n \<and> n \<le> 122)
     \<or> n \<in> {170, 178, 179, 181, 185, 186, 188, 189, 190} \<or> (192 \<le> n \<and> n \<noteq> 215 \<and> n \<noteq> 247))"

text \<open>
  \<open>re.search(r"\bERR-\d{4,}\b", text)\<close>: a match starts where the previous character is
  not a word character; the digits are taken greedily and no boundary lies between two
  of them, so the match must end where they do.
\<close>

definition error_id_here :: "string \<Rightarrow> bool" where
  "error_id_here s \<longleftrightarrow> starts_with ''ERR-'' s
     \<and> (let r = drop 4 s; n = length (takeWhile is_digit r)
         in 4 \<le> n \<and> (case drop n r of [] \<Rightarrow> True | c # _ \<Rightarrow> \<not> word_char c))"

fun error_id_from :: "bool \<Rightarrow> string \<Rightarrow> bool" where
  "error_id_from boundary [] \<longleftrightarrow> False"
| "error_id_from boundary (c # s) \<longleftrightarrow> (boundary \<and> error_id_here (c # s)) \<or> error_id_from (\<not> word_char c) s"

definition exposes_error_id :: "string \<Rightarrow> bool" where
  "exposes_error_id s = error_id_from True s"

definition check_public_text :: "string \<Rightarrow> unit result" where
  "check_public_text s =
     (if looks_like_private_locator s
      then Inl (ValueError (''public-safe contract contains forbidden locator/secret marker: '' @ py_repr s))
      else if exposes_error_id s
      then Inl (ValueError ''public-safe artifact must not expose exact private Error_ID'')
      else Inr ())"

definition assert_public_safe :: "json \<Rightarrow> unit result" where
  "assert_public_safe v = bindE (mapE check_public_text (scan_strings v)) (\<lambda>_. Inr ())"

definition public_text :: "string \<Rightarrow> bool" where
  "public_text s \<longleftrightarrow> \<not> looks_like_private_locator s \<and> \<not> exposes_error_id s"

lemma check_public_text_Inr [exc_elims]: "check_public_text s = Inr u \<longleftrightarrow> public_text s"
  by (simp add: check_public_text_def public_text_def)

lemma assert_public_safe_iff: "assert_public_safe v = Inr u \<longleftrightarrow> (\<forall>s \<in> set (scan_strings v). public_text s)"
proof -
  have "(\<exists>us. mapE check_public_text xs = Inr us) \<longleftrightarrow> (\<forall>s \<in> set xs. public_text s)" for xs
    by (induction xs) (auto simp: bindE_eq_Inr check_public_text_Inr)
  then show ?thesis by (auto simp: assert_public_safe_def bindE_eq_Inr)
qed

text \<open>A quick test: no fragment and no \<open>ERR-\<close>.\<close>

lemma error_id_contains: "error_id_from b s \<Longrightarrow> contains ''ERR-'' s"
  by (induction b s rule: error_id_from.induct) (auto simp: error_id_here_def simp del: starts_with_simps)

lemma public_fast:
  "\<not> contains ''ERR-'' s \<Longrightarrow> list_all (\<lambda>f. \<not> contains f (lower s)) forbidden_fragments \<Longrightarrow> public_text s"
  using error_id_contains
  by (auto simp: public_text_def looks_like_private_locator_def exposes_error_id_def list_all_iff list_ex_iff)

lemmas public_eval = public_fast forbidden_fragments_def lower_def ascii

section \<open>Public seeds\<close>

record public_seed =
  ps_family_id :: string
  ps_case_id :: string
  ps_variant :: string
  ps_capability_profile :: string
  ps_provenance :: obj
  ps_input :: obj
  ps_expected :: obj
  ps_limitations :: "json list"

definition seed_dict :: "'a public_seed_scheme \<Rightarrow> obj" where
  "seed_dict s =
     [(''schema_version'', JStr ''b2-public-seed/v1''), (''family_id'', JStr (ps_family_id s)),
      (''case_id'', JStr (ps_case_id s)), (''variant'', JStr (ps_variant s)),
      (''capability_profile'', JStr (ps_capability_profile s)), (''privacy'', JStr ''PUBLIC_SAFE''),
      (''provenance'', JObj (ps_provenance s)), (''input'', JObj (ps_input s)),
      (''expected'', JObj (ps_expected s)), (''limitations'', JArr (ps_limitations s))]"

definition is_bool :: "json \<Rightarrow> bool" where
  "is_bool v = (case v of JBool _ \<Rightarrow> True | _ \<Rightarrow> False)"

definition guard :: "bool \<Rightarrow> string \<Rightarrow> unit result" where
  "guard c msg = (if c then Inr () else Inl (ValueError msg))"

lemma guard_Inr [exc_elims]: "guard c m = Inr u \<longleftrightarrow> c"
  by (simp add: guard_def)

lemma guard_True [simp]: "guard True m = Inr ()"
  by (simp add: guard_def)

definition check_provenance :: "obj \<Rightarrow> string \<Rightarrow> unit result" where
  "check_provenance provenance label =
     (let l = label @ ''.provenance'' in
      bindE (qa_text provenance ''kind'' l) (\<lambda>kind.
      bindE (guard (kind = ''ABSTRACT_PUBLIC_SEED_DIGEST'') (label @ ''.provenance.kind must be ABSTRACT_PUBLIC_SEED_DIGEST'')) (\<lambda>_.
      bindE (qa_text provenance ''seed_digest'' l) (\<lambda>digest.
      bindE (guard (starts_with ''sha256:'' digest \<and> length digest = 71) (label @ ''.provenance.seed_digest must be sha256:<64hex>'')) (\<lambda>_.
      bindE (qa_text provenance ''transformation'' l) (\<lambda>transformation.
      guard (transformation = ''mechanism-preserving synthetic reconstruction'') (label @ '': unsupported transformation'')))))))"

definition check_expected :: "obj \<Rightarrow> string \<Rightarrow> unit result" where
  "check_expected expected label =
     (let l = label @ ''.expected'' in
      bindE (qa_text expected ''terminal_status'' l) (\<lambda>terminal_status.
      bindE (guard (terminal_status \<in> set TERMINAL_STATUSES) (label @ '': unsupported expected terminal status'')) (\<lambda>_.
      bindE (guard (is_bool (get expected ''hard_invariant_pass'')) (label @ ''.expected.hard_invariant_pass must be boolean'')) (\<lambda>_.
      bindE (guard (is_bool (get expected ''detected'')) (label @ ''.expected.detected must be boolean'')) (\<lambda>_.
      bindE (qa_string_list expected ''failed_invariants'' l True) (\<lambda>_. Inr ()))))))"

definition validate_public_seed :: "json \<Rightarrow> public_seed result" where
  "validate_public_seed document =
     (let label = ''<public-seed>'' in
      bindE (qa_obj document label) (\<lambda>doc.
      bindE (qa_text doc ''schema_version'' label) (\<lambda>version.
      bindE (guard (version = ''b2-public-seed/v1'') (label @ '': unsupported schema_version'')) (\<lambda>_.
      bindE (qa_text doc ''family_id'' label) (\<lambda>family_id.
      bindE (qa_text doc ''case_id'' label) (\<lambda>case_id.
      bindE (qa_text doc ''variant'' label) (\<lambda>variant.
      bindE (guard (variant \<in> {''KNOWN_BAD'', ''CONTROL''}) (label @ ''.variant must be KNOWN_BAD or CONTROL'')) (\<lambda>_.
      bindE (qa_text doc ''capability_profile'' label) (\<lambda>capability_profile.
      bindE (qa_text doc ''privacy'' label) (\<lambda>privacy.
      bindE (guard (privacy = ''PUBLIC_SAFE'') (label @ ''.privacy must be PUBLIC_SAFE'')) (\<lambda>_.
      bindE (qa_obj (get doc ''provenance'') (label @ ''.provenance'')) (\<lambda>provenance.
      bindE (check_provenance provenance label) (\<lambda>_.
      bindE (qa_obj (get doc ''input'') (label @ ''.input'')) (\<lambda>input_value.
      bindE (qa_obj (get doc ''expected'') (label @ ''.expected'')) (\<lambda>expected.
      bindE (check_expected expected label) (\<lambda>_.
      case get_or doc ''limitations'' (JArr []) of
        JArr limitations \<Rightarrow>
          bindE (assert_public_safe (JObj doc)) (\<lambda>_.
          Inr \<lparr>ps_family_id = family_id, ps_case_id = case_id, ps_variant = variant,
               ps_capability_profile = capability_profile, ps_provenance = provenance, ps_input = input_value,
               ps_expected = expected, ps_limitations = limitations\<rparr>)
      | _ \<Rightarrow> Inl (ValueError (label @ ''.limitations must be an array''))))))))))))))))))"

section \<open>Error mechanisms, bug cases and metric registries\<close>

definition check_texts :: "obj \<Rightarrow> string list \<Rightarrow> string \<Rightarrow> unit result" where
  "check_texts d ks label = bindE (mapE (\<lambda>k. qa_text d k label) ks) (\<lambda>_. Inr ())"

definition check_lists :: "obj \<Rightarrow> string list \<Rightarrow> string \<Rightarrow> unit result" where
  "check_lists d ks label = bindE (mapE (\<lambda>k. qa_string_list d k label True) ks) (\<lambda>_. Inr ())"

definition validate_error_mechanism :: "json \<Rightarrow> obj result" where
  "validate_error_mechanism document =
     (let label = ''<error-mechanism>'' in
      bindE (qa_obj document label) (\<lambda>doc.
      bindE (qa_text doc ''schema_version'' label) (\<lambda>version.
      bindE (guard (version = ''error-mechanism/v1'') (label @ '': unsupported schema_version'')) (\<lambda>_.
      bindE (check_texts doc
        [''mechanism_id'', ''seed_status'', ''private_seed_digest'', ''error_class'', ''observed_phenomenon'',
         ''mechanism_hypothesis'', ''mechanism_status'', ''falsifier'', ''capability_profile'', ''severity'',
         ''public_safe_transform'', ''privacy_class''] label) (\<lambda>_.
      bindE (check_lists doc
        [''alternative_causes'', ''expected_invariants'', ''forbidden_outcomes'', ''mutation_axes''] label) (\<lambda>_.
      bindE (guard (get doc ''mechanism_status'' \<in> JStr ` {''OBSERVED_ONLY'', ''HYPOTHESIS'', ''UNKNOWN''})
        (label @ ''.mechanism_status unsupported'')) (\<lambda>_.
      bindE (assert_public_safe (JObj doc)) (\<lambda>_. Inr doc))))))))"

definition validate_bug_case :: "json \<Rightarrow> obj result" where
  "validate_bug_case document =
     (let label = ''<bug-case>'' in
      bindE (qa_obj document label) (\<lambda>doc.
      bindE (qa_text doc ''schema_version'' label) (\<lambda>version.
      bindE (guard (version = ''bug-case/v1'') (label @ '': unsupported schema_version'')) (\<lambda>_.
      bindE (check_texts doc
        [''bug_id'', ''run_id'', ''family_id'', ''case_id'', ''capability_profile'', ''phenomenon'',
         ''mechanism_hypothesis'', ''mechanism_status'', ''severity'', ''impact'', ''reproduction'',
         ''regression_ref'', ''terminal_status'', ''privacy''] label) (\<lambda>_.
      bindE (guard (get doc ''terminal_status'' \<in> JStr ` set TERMINAL_STATUSES) (label @ '': unsupported terminal_status'')) (\<lambda>_.
      bindE (qa_obj (get doc ''environment'') (label @ ''.environment'')) (\<lambda>_.
      bindE (qa_obj (get doc ''expected'') (label @ ''.expected'')) (\<lambda>_.
      bindE (qa_obj (get doc ''actual'') (label @ ''.actual'')) (\<lambda>_.
      bindE (check_lists doc
        [''failed_invariants'', ''alternative_causes'', ''evidence_refs'', ''limitations''] label) (\<lambda>_.
      bindE (qa_text doc ''falsifier'' label) (\<lambda>_.
      bindE (assert_public_safe (JObj doc)) (\<lambda>_. Inr doc))))))))))))"

definition metric_texts :: "string list" where
  "metric_texts = [''definition'', ''task_scope'', ''scorer'', ''directionality'', ''threshold'', ''kind'',
     ''missing_data_semantics'', ''aggregation'', ''version'', ''provenance'']"

definition metric_step :: "string \<Rightarrow> string list \<Rightarrow> nat \<times> json \<Rightarrow> string list result" where
  "metric_step label seen iv =
     bindE (qa_obj (snd iv) (label @ ''.metrics['' @ show_nat (fst iv) @ '']'')) (\<lambda>metric.
     bindE (qa_text metric ''metric_id'' label) (\<lambda>metric_id.
     bindE (guard (metric_id \<notin> set seen) (label @ '': duplicate metric_id '' @ metric_id)) (\<lambda>_.
     bindE (check_texts metric metric_texts label) (\<lambda>_.
     bindE (guard (get metric ''kind'' \<in> JStr ` {''HARD'', ''SOFT'', ''PLACEHOLDER''}) (label @ '': unsupported metric kind'')) (\<lambda>_.
     Inr (seen @ [metric_id]))))))"

definition validate_metric_registry :: "json \<Rightarrow> obj result" where
  "validate_metric_registry document =
     (let label = ''<metric-registry>'' in
      bindE (qa_obj document label) (\<lambda>doc.
      bindE (qa_text doc ''schema_version'' label) (\<lambda>version.
      bindE (guard (version = ''metric-registry/v1'') (label @ '': unsupported schema_version'')) (\<lambda>_.
      case get doc ''metrics'' of
        JArr metrics \<Rightarrow>
          if metrics = [] then Inl (ValueError (label @ ''.metrics must be a non-empty array''))
          else bindE (foldE (metric_step label) [] (enumerate 0 metrics)) (\<lambda>_.
               bindE (assert_public_safe (JObj doc)) (\<lambda>_. Inr doc))
      | _ \<Rightarrow> Inl (ValueError (label @ ''.metrics must be a non-empty array''))))))"

section \<open>What the scan finds\<close>

lemma contains_iff: "contains p s \<longleftrightarrow> (\<exists>a b. s = a @ p @ b)"
proof (induction s)
  case (Cons c s)
  show ?case
  proof
    assume "contains p (c # s)"
    then consider "starts_with p (c # s)" | "contains p s" by auto
    then show "\<exists>a b. c # s = a @ p @ b"
    proof cases
      case 1
      then show ?thesis by (metis append_Nil starts_with_append)
    next
      case 2
      then show ?thesis using Cons.IH by (metis append_Cons)
    qed
  next
    assume "\<exists>a b. c # s = a @ p @ b"
    then obtain a b where ab: "c # s = a @ p @ b" by blast
    show "contains p (c # s)"
    proof (cases a)
      case Nil
      with ab have "starts_with p (c # s)" by (simp add: starts_with_append)
      then show ?thesis by simp
    next
      case (Cons x xs)
      with ab \<open>contains p s = (\<exists>a b. s = a @ p @ b)\<close> show ?thesis by auto
    qed
  qed
qed auto

definition boundary_after :: "bool \<Rightarrow> string \<Rightarrow> bool" where
  "boundary_after b a \<longleftrightarrow> (if a = [] then b else \<not> word_char (last a))"

text \<open>The scanner is the regular expression: some suffix that starts at a boundary matches.\<close>

lemma error_id_from_iff:
  "error_id_from b s \<longleftrightarrow> (\<exists>a r. s = a @ r \<and> boundary_after b a \<and> error_id_here r)"
proof (induction s arbitrary: b)
  case Nil
  then show ?case by (simp add: error_id_here_def)
next
  case (Cons c s)
  have "(\<exists>a r. c # s = a @ r \<and> boundary_after b a \<and> error_id_here r) \<longleftrightarrow>
      (b \<and> error_id_here (c # s)) \<or> (\<exists>a r. s = a @ r \<and> boundary_after (\<not> word_char c) a \<and> error_id_here r)"
    (is "?l \<longleftrightarrow> ?r1 \<or> ?r2")
  proof
    assume ?l
    then obtain a r where a: "c # s = a @ r" "boundary_after b a" "error_id_here r" by blast
    show "?r1 \<or> ?r2"
    proof (cases a)
      case Nil
      with a show ?thesis by (simp add: boundary_after_def)
    next
      case (Cons x a')
      with a show ?thesis by (auto simp: boundary_after_def split: if_splits)
    qed
  next
    assume "?r1 \<or> ?r2"
    then show ?l
    proof
      assume ?r1
      then show ?l by (intro exI [of _ "[]"] exI [of _ "c # s"]) (simp add: boundary_after_def)
    next
      assume ?r2
      then obtain a r where "s = a @ r" "boundary_after (\<not> word_char c) a" "error_id_here r" by blast
      then show ?l by (intro exI [of _ "c # a"] exI [of _ r]) (simp add: boundary_after_def)
    qed
  qed
  with Cons.IH show ?case by simp
qed

lemma space_facts: "py_isspace c \<Longrightarrow> \<not> word_char c \<and> \<not> is_digit c"
  by (auto simp: py_isspace_def word_char_def is_digit_def Let_def)

lemma strip_split: "\<exists>w1 w2. s = w1 @ strip s @ w2 \<and> list_all py_isspace w1 \<and> list_all py_isspace w2"
proof -
  have "s = takeWhile py_isspace s @ lstrip_by py_isspace s" by (simp add: lstrip_by_def)
  moreover obtain t where "lstrip_by py_isspace s = strip s @ t" "list_all py_isspace t"
    unfolding strip_def using rstrip_by_prefix by blast
  ultimately show ?thesis
    by (intro exI [of _ "takeWhile py_isspace s"] exI [of _ t]) (auto simp: list_all_iff dest: set_takeWhileD)
qed

lemma digit_is_word: "is_digit c \<Longrightarrow> word_char c"
  by (simp add: is_digit_def word_char_def Let_def)

lemma error_id_here_iff:
  "error_id_here s \<longleftrightarrow> (\<exists>ds r. s = ''ERR-'' @ ds @ r \<and> list_all is_digit ds \<and> 4 \<le> length ds
     \<and> (r = [] \<or> \<not> word_char (hd r)))" (is "_ \<longleftrightarrow> ?r")
proof
  assume h: "error_id_here s"
  then obtain q where s: "s = ''ERR-'' @ q" by (auto simp: error_id_here_def starts_with_append)
  have "q = takeWhile is_digit q @ dropWhile is_digit q" by simp
  moreover have "list_all is_digit (takeWhile is_digit q)" by (auto simp: list_all_iff dest: set_takeWhileD)
  ultimately show ?r using h
    by (intro exI [of _ "takeWhile is_digit q"] exI [of _ "dropWhile is_digit q"])
       (auto simp: s error_id_here_def Let_def dropWhile_eq_drop split: list.splits)
next
  assume ?r
  then obtain ds r where r: "s = ''ERR-'' @ ds @ r" "list_all is_digit ds" "4 \<le> length ds"
    "r = [] \<or> \<not> word_char (hd r)" by blast
  have "takeWhile is_digit (ds @ r) = ds @ takeWhile is_digit r"
    using r(2) by (intro takeWhile_append2) (auto simp: list_all_iff)
  moreover have "takeWhile is_digit r = []" using r(4) digit_is_word by (cases r) auto
  ultimately have tw: "takeWhile is_digit (ds @ r) = ds" by simp
  have "error_id_here (''ERR-'' @ q) \<longleftrightarrow> (let n = length (takeWhile is_digit q)
      in 4 \<le> n \<and> (case drop n q of [] \<Rightarrow> True | c # _ \<Rightarrow> \<not> word_char c))" for q
    by (simp add: error_id_here_def)
  from this [of "ds @ r"] have "error_id_here (''ERR-'' @ ds @ r)" using r(3,4)
    unfolding tw Let_def by (cases r) simp_all
  then show "error_id_here s" by (simp only: r(1))
qed

lemma error_id_here_append:
  assumes "error_id_here r" and "list_all py_isspace w"
  shows "error_id_here (r @ w)"
proof -
  from assms(1) obtain ds q where r: "r = ''ERR-'' @ ds @ q" "list_all is_digit ds" "4 \<le> length ds"
    "q = [] \<or> \<not> word_char (hd q)" by (auto simp: error_id_here_iff)
  have "q @ w = [] \<or> \<not> word_char (hd (q @ w))"
    using r(4) assms(2) space_facts by (cases q; cases w) auto
  then show ?thesis
    unfolding error_id_here_iff by (intro exI [of _ ds] exI [of _ "q @ w"]) (simp add: r)
qed

lemma public_text_strip:
  assumes "public_text s"
  shows "public_text (strip s)"
proof -
  obtain w1 w2 where s: "s = w1 @ strip s @ w2" and w: "list_all py_isspace w1" "list_all py_isspace w2"
    using strip_split by blast
  have "contains f (lower s)" if "contains f (lower (strip s))" for f
  proof -
    from that obtain a b where "lower (strip s) = a @ f @ b" by (auto simp: contains_iff)
    then have "lower s = (lower w1 @ a) @ f @ (b @ lower w2)"
      by (subst s) (simp add: lower_def)
    then show ?thesis unfolding contains_iff by blast
  qed
  moreover have "exposes_error_id s" if "exposes_error_id (strip s)"
  proof -
    from that obtain a r where ar: "strip s = a @ r" "boundary_after True a" "error_id_here r"
      by (auto simp: exposes_error_id_def error_id_from_iff)
    from ar(2) w(1) have "boundary_after True (w1 @ a)"
      by (cases w1 rule: rev_cases) (auto simp: boundary_after_def dest: space_facts)
    moreover have "s = (w1 @ a) @ r @ w2" by (subst s) (simp add: ar(1))
    ultimately show ?thesis
      unfolding exposes_error_id_def error_id_from_iff using error_id_here_append [OF ar(3) w(2)] by blast
  qed
  ultimately show ?thesis
    using assms by (auto simp: public_text_def looks_like_private_locator_def list_ex_iff)
qed

lemma scan_strings_member: "map_of d k = Some v \<Longrightarrow> set (scan_strings v) \<subseteq> set (scan_strings_items d)"
  by (induction d) (auto split: if_splits)

lemma scan_strings_get: "get d k = v \<Longrightarrow> v \<noteq> JNull \<Longrightarrow> set (scan_strings v) \<subseteq> set (scan_strings_items d)"
  using scan_strings_member [of d k v] by (auto simp: get_def split: option.splits)

section \<open>Validated seeds\<close>

text \<open>What a validated seed satisfies, and that it is its own normal form.\<close>

definition seed_ok :: "'a public_seed_scheme \<Rightarrow> bool" where
  "seed_ok s \<longleftrightarrow>
     normal_text (ps_family_id s) \<and> normal_text (ps_case_id s) \<and> normal_text (ps_capability_profile s)
     \<and> ps_variant s \<in> {''KNOWN_BAD'', ''CONTROL''}
     \<and> check_provenance (ps_provenance s) ''<public-seed>'' = Inr ()
     \<and> check_expected (ps_expected s) ''<public-seed>'' = Inr ()
     \<and> (\<forall>t \<in> set (scan_strings (JObj (seed_dict s))). public_text t)"

lemma seed_literals_public:
  "\<forall>t \<in> {''schema_version'', ''b2-public-seed/v1'', ''family_id'', ''case_id'', ''variant'', ''capability_profile'',
     ''privacy'', ''PUBLIC_SAFE'', ''provenance'', ''input'', ''expected'', ''limitations''}. public_text t"
  by (simp add: public_eval)

lemma validated_seed_ok:
  assumes "validate_public_seed document = Inr s"
  shows "seed_ok s"
proof -
  from assms obtain doc fam cid var cap where doc: "document = JObj doc"
    and fam: "get doc ''family_id'' = JStr fam" "\<not> blank fam" "ps_family_id s = strip fam"
    and cid: "get doc ''case_id'' = JStr cid" "\<not> blank cid" "ps_case_id s = strip cid"
    and var: "get doc ''variant'' = JStr var" "ps_variant s = strip var" "strip var \<in> {''KNOWN_BAD'', ''CONTROL''}"
    and cap: "get doc ''capability_profile'' = JStr cap" "\<not> blank cap" "ps_capability_profile s = strip cap"
    and objs: "get doc ''provenance'' = JObj (ps_provenance s)" "get doc ''input'' = JObj (ps_input s)"
      "get doc ''expected'' = JObj (ps_expected s)"
    and checks: "check_provenance (ps_provenance s) ''<public-seed>'' = Inr ()"
      "check_expected (ps_expected s) ''<public-seed>'' = Inr ()"
    and lims: "get_or doc ''limitations'' (JArr []) = JArr (ps_limitations s)"
    and safe: "\<forall>t \<in> set (scan_strings (JObj doc)). public_text t"
    by (auto simp: validate_public_seed_def Let_def exc_elims assert_public_safe_iff)
  have texts: "public_text (strip t)" if "get doc k = JStr t" for k t
    using scan_strings_get [OF that] safe public_text_strip by auto
  have below: "\<forall>t \<in> set (scan_strings v). public_text t" if "get doc k = v" "v \<noteq> JNull" for k v
    using scan_strings_get [OF that] safe by auto
  have "\<forall>t \<in> set (scan_strings (JArr (ps_limitations s))). public_text t"
  proof (cases "map_of doc ''limitations''")
    case None
    with lims have "ps_limitations s = []" by (simp add: get_or_def)
    then show ?thesis by simp
  next
    case (Some v)
    with lims have "get doc ''limitations'' = JArr (ps_limitations s)" by (simp add: get_or_def get_def)
    from below [OF this] show ?thesis by simp
  qed
  then have "\<forall>t \<in> set (scan_strings (JObj (seed_dict s))). public_text t"
    using below [OF objs(1)] below [OF objs(2)] below [OF objs(3)] seed_literals_public
      texts [OF fam(1)] texts [OF cid(1)] texts [OF var(1)] texts [OF cap(1)]
    by (auto simp: seed_dict_def fam cid var(2) cap)
  with checks var show ?thesis
    by (simp add: seed_ok_def normal_strip fam cid cap)
qed

lemma seed_dict_get:
  "get (seed_dict s) ''schema_version'' = JStr ''b2-public-seed/v1''"
  "get (seed_dict s) ''family_id'' = JStr (ps_family_id s)"
  "get (seed_dict s) ''case_id'' = JStr (ps_case_id s)"
  "get (seed_dict s) ''variant'' = JStr (ps_variant s)"
  "get (seed_dict s) ''capability_profile'' = JStr (ps_capability_profile s)"
  "get (seed_dict s) ''privacy'' = JStr ''PUBLIC_SAFE''"
  "get (seed_dict s) ''provenance'' = JObj (ps_provenance s)"
  "get (seed_dict s) ''input'' = JObj (ps_input s)"
  "get (seed_dict s) ''expected'' = JObj (ps_expected s)"
  "get_or (seed_dict s) ''limitations'' v = JArr (ps_limitations s)"
  by (simp_all add: seed_dict_def get_def get_or_def)

lemma qa_text_normal: "get d k = JStr s \<Longrightarrow> normal_text s \<Longrightarrow> qa_text d k l = Inr s"
  by (simp add: qa_text_def normal_text_def blank_def)

lemma seed_words_normal:
  "normal_text ''b2-public-seed/v1'' \<and> normal_text ''PUBLIC_SAFE'' \<and> normal_text ''KNOWN_BAD'' \<and> normal_text ''CONTROL''"
  by code_simp

text \<open>Further fields do not matter as long as their strings are public.\<close>

lemma validate_seed_dict_more:
  assumes "seed_ok s" and "fst ` set (seed_dict s) \<inter> fst ` set added = {}"
    and "\<forall>t \<in> set (scan_strings (JObj added)). public_text t"
  shows "validate_public_seed (JObj (seed_dict s @ added)) = Inr (public_seed.truncate s)"
proof -
  note n = seed_words_normal assms(1) [unfolded seed_ok_def]
  let ?d = "seed_dict s @ added"
  have keys: "fst ` set (seed_dict s) = {''schema_version'', ''family_id'', ''case_id'', ''variant'', ''capability_profile'',
      ''privacy'', ''provenance'', ''input'', ''expected'', ''limitations''}"
    by (simp add: seed_dict_def)
  then have same: "k \<in> fst ` set (seed_dict s) \<Longrightarrow> get ?d k = get (seed_dict s) k" for k
    by (simp add: get_append)
  have texts:
    "qa_text ?d ''schema_version'' l = Inr ''b2-public-seed/v1''"
    "qa_text ?d ''family_id'' l = Inr (ps_family_id s)"
    "qa_text ?d ''case_id'' l = Inr (ps_case_id s)"
    "qa_text ?d ''variant'' l = Inr (ps_variant s)"
    "qa_text ?d ''capability_profile'' l = Inr (ps_capability_profile s)"
    "qa_text ?d ''privacy'' l = Inr ''PUBLIC_SAFE''" for l
    by (rule qa_text_normal, simp add: same keys seed_dict_get, use n in auto)+
  have objs: "get ?d ''provenance'' = JObj (ps_provenance s)" "get ?d ''input'' = JObj (ps_input s)"
    "get ?d ''expected'' = JObj (ps_expected s)" "get_or ?d ''limitations'' (JArr []) = JArr (ps_limitations s)"
    using assms(2) by (simp_all add: same keys seed_dict_get) (simp add: get_or_def seed_dict_def)
  have "scan_strings_items (a @ b) = scan_strings_items a @ scan_strings_items b" for a b
    by (induction a) auto
  then have "assert_public_safe (JObj ?d) = Inr ()"
    using n assms(3) by (auto simp: assert_public_safe_iff)
  with n show ?thesis
    by (simp add: validate_public_seed_def Let_def qa_obj_def texts objs guard_def public_seed.truncate_def)
qed

lemma validate_seed_dict:
  assumes "seed_ok s"
  shows "validate_public_seed (JObj (seed_dict s)) = Inr (public_seed.truncate s)"
  using validate_seed_dict_more [OF assms, of "[]"] by simp

end
