(* ===== verification/B2Quick.thy ===== *)
theory B2Quick
  imports B2Seeds
begin

text \<open>
  A quick test that a text is public, in one pass over its characters: every forbidden
  fragment holds a rare character or an \<open>o\<close> before an \<open>a\<close>, and an error id holds
  \<open>R-\<close>.  A text without them is public; the others are left to \<open>public_fast\<close>.
\<close>

definition char_class :: "char \<Rightarrow> nat" where
  "char_class c = (let n = code c in
     if n \<in> {47, 58, 75, 87, 107, 119} then 1 else if n \<in> {79, 111} then 2 else if n \<in> {65, 97} then 3
     else if n = 82 then 4 else if n = 45 then 5 else 0)"

lemma char_class_ascii [ascii]:
  "char_class (CHR '' '') = 0"
  "char_class (CHR ''!'') = 0"
  "char_class (CHR ''#'') = 0"
  "char_class (CHR ''$'') = 0"
  "char_class (CHR ''%'') = 0"
  "char_class (CHR ''&'') = 0"
  "char_class (CHR ''('') = 0"
  "char_class (CHR '')'') = 0"
  "char_class (CHR ''*'') = 0"
  "char_class (CHR ''+'') = 0"
  "char_class (CHR '','') = 0"
  "char_class (CHR ''-'') = 5"
  "char_class (CHR ''.'') = 0"
  "char_class (CHR ''/'') = 1"
  "char_class (CHR ''0'') = 0"
  "char_class (CHR ''1'') = 0"
  "char_class (CHR ''2'') = 0"
  "char_class (CHR ''3'') = 0"
  "char_class (CHR ''4'') = 0"
  "char_class (CHR ''5'') = 0"
  "char_class (CHR ''6'') = 0"
  "char_class (CHR ''7'') = 0"
  "char_class (CHR ''8'') = 0"
  "char_class (CHR ''9'') = 0"
  "char_class (CHR '':'') = 1"
  "char_class (CHR '';'') = 0"
  "char_class (CHR ''<'') = 0"
  "char_class (CHR ''='') = 0"
  "char_class (CHR ''>'') = 0"
  "char_class (CHR ''?'') = 0"
  "char_class (CHR ''@'') = 0"
  "char_class (CHR ''A'') = 3"
  "char_class (CHR ''B'') = 0"
  "char_class (CHR ''C'') = 0"
  "char_class (CHR ''D'') = 0"
  "char_class (CHR ''E'') = 0"
  "char_class (CHR ''F'') = 0"
  "char_class (CHR ''G'') = 0"
  "char_class (CHR ''H'') = 0"
  "char_class (CHR ''I'') = 0"
  "char_class (CHR ''J'') = 0"
  "char_class (CHR ''K'') = 1"
  "char_class (CHR ''L'') = 0"
  "char_class (CHR ''M'') = 0"
  "char_class (CHR ''N'') = 0"
  "char_class (CHR ''O'') = 2"
  "char_class (CHR ''P'') = 0"
  "char_class (CHR ''Q'') = 0"
  "char_class (CHR ''R'') = 4"
  "char_class (CHR ''S'') = 0"
  "char_class (CHR ''T'') = 0"
  "char_class (CHR ''U'') = 0"
  "char_class (CHR ''V'') = 0"
  "char_class (CHR ''W'') = 1"
  "char_class (CHR ''X'') = 0"
  "char_class (CHR ''Y'') = 0"
  "char_class (CHR ''Z'') = 0"
  "char_class (CHR ''['') = 0"
  "char_class (CHR '']'') = 0"
  "char_class (CHR ''^'') = 0"
  "char_class (CHR ''_'') = 0"
  "char_class (CHR ''a'') = 3"
  "char_class (CHR ''b'') = 0"
  "char_class (CHR ''c'') = 0"
  "char_class (CHR ''d'') = 0"
  "char_class (CHR ''e'') = 0"
  "char_class (CHR ''f'') = 0"
  "char_class (CHR ''g'') = 0"
  "char_class (CHR ''h'') = 0"
  "char_class (CHR ''i'') = 0"
  "char_class (CHR ''j'') = 0"
  "char_class (CHR ''k'') = 1"
  "char_class (CHR ''l'') = 0"
  "char_class (CHR ''m'') = 0"
  "char_class (CHR ''n'') = 0"
  "char_class (CHR ''o'') = 2"
  "char_class (CHR ''p'') = 0"
  "char_class (CHR ''q'') = 0"
  "char_class (CHR ''r'') = 0"
  "char_class (CHR ''s'') = 0"
  "char_class (CHR ''t'') = 0"
  "char_class (CHR ''u'') = 0"
  "char_class (CHR ''v'') = 0"
  "char_class (CHR ''w'') = 1"
  "char_class (CHR ''x'') = 0"
  "char_class (CHR ''y'') = 0"
  "char_class (CHR ''z'') = 0"
  "char_class (CHR ''{'') = 0"
  "char_class (CHR ''|'') = 0"
  "char_class (CHR ''}'') = 0"
  "char_class (CHR ''~'') = 0"
  by (simp_all add: char_class_def Let_def code_ascii)

fun quick :: "nat \<Rightarrow> string \<Rightarrow> bool" where
  "quick p [] = True"
| "quick p (c # s) = (let k = char_class c in k \<noteq> 1 \<and> \<not> (p = 2 \<and> k = 3) \<and> \<not> (p = 4 \<and> k = 5) \<and> quick k s)"

lemma quick_suffix: "quick p (a @ b) \<Longrightarrow> \<exists>q. quick q b"
  by (induction a arbitrary: p) (auto simp: Let_def)

lemma quick_rare: "quick p s \<Longrightarrow> c \<in> set s \<Longrightarrow> char_class c \<noteq> 1"
  by (induction s arbitrary: p) (auto simp: Let_def)

lemma quick_pair:
  assumes "quick p (a @ x # y # b)"
  shows "\<not> (char_class x = 2 \<and> char_class y = 3)" and "\<not> (char_class x = 4 \<and> char_class y = 5)"
  using quick_suffix [OF assms] by (auto simp: Let_def)

lemma char_of_code_eq: "code c = n \<Longrightarrow> c = char_of n"
  by (auto simp: code_def)

lemma lower_code:
  assumes "code (lower_char c) = n" and "n < 128"
  shows "code c = n \<or> (code c + 32 = n \<and> 65 \<le> code c)"
proof -
  have "code (lower_char c) = (if (65 \<le> code c \<and> code c \<le> 90) \<or> (192 \<le> code c \<and> code c \<le> 222 \<and> code c \<noteq> 215)
      then code c + 32 else code c)"
    by (auto simp: lower_char_def Let_def code_char_of)
  with assms show ?thesis by (auto split: if_splits)
qed

lemma class_of_code: "code c = n \<Longrightarrow> n \<in> {47, 58, 75, 87, 107, 119} \<Longrightarrow> char_class c = 1"
  "code c = n \<Longrightarrow> n \<in> {79, 111} \<Longrightarrow> char_class c = 2" "code c = n \<Longrightarrow> n \<in> {65, 97} \<Longrightarrow> char_class c = 3"
  by (auto simp: char_class_def)

lemma lower_rare: "lower_char c \<in> {CHR ''/'', CHR '':'', CHR ''w'', CHR ''k''} \<Longrightarrow> char_class c = 1"
  "lower_char c = CHR ''o'' \<Longrightarrow> char_class c = 2" "lower_char c = CHR ''a'' \<Longrightarrow> char_class c = 3"
proof -
  assume "lower_char c \<in> {CHR ''/'', CHR '':'', CHR ''w'', CHR ''k''}"
  then have "code (lower_char c) \<in> {47, 58, 119, 107}" by (auto simp: code_ascii)
  then have "code c \<in> {47, 58, 119, 107, 87, 75}" using lower_code [of c] by force
  then show "char_class c = 1" using class_of_code(1) by blast
next
  assume "lower_char c = CHR ''o''"
  then have "code c \<in> {79, 111}" using lower_code [of c 111] by (auto simp: code_ascii)
  then show "char_class c = 2" using class_of_code(2) by blast
next
  assume "lower_char c = CHR ''a''"
  then have "code c \<in> {65, 97}" using lower_code [of c 97] by (auto simp: code_ascii)
  then show "char_class c = 3" using class_of_code(3) by blast
qed

lemma quick_lower_rare: "quick p s \<Longrightarrow> c \<in> {CHR ''/'', CHR '':'', CHR ''w'', CHR ''k''} \<Longrightarrow> c \<notin> set (lower s)"
  using lower_rare(1) quick_rare by (fastforce simp: lower_def)

lemma quick_lower_oa: "quick p s \<Longrightarrow> \<not> contains ''oa'' (lower s)"
proof
  assume q: "quick p s" and "contains ''oa'' (lower s)"
  then obtain a b where "map lower_char s = a @ CHR ''o'' # CHR ''a'' # b" by (auto simp: contains_iff lower_def)
  then obtain a' x y b' where "s = a' @ x # y # b'" "lower_char x = CHR ''o''" "lower_char y = CHR ''a''"
    by (auto simp: map_eq_append_conv map_eq_Cons_conv)
  with q quick_pair(1) lower_rare(2,3) show False by blast
qed

lemma contains_part: "contains (u @ v @ w) s \<Longrightarrow> contains v s"
  unfolding contains_iff by (metis append.assoc)

lemma char_of_found: "contains f s \<Longrightarrow> c \<in> set f \<Longrightarrow> c \<in> set s"
  by (auto simp: contains_iff)

lemma quick_public: "quick 0 s \<Longrightarrow> public_text s"
proof (rule public_fast)
  assume q: "quick 0 s"
  show "\<not> contains ''ERR-'' s"
  proof
    assume "contains ''ERR-'' s"
    then obtain a b where "s = (a @ ''ER'') @ CHR ''R'' # CHR ''-'' # b" by (auto simp: contains_iff)
    with q quick_pair(2) char_class_ascii show False by metis
  qed
  have rare: "\<not> contains f (lower s)" if "c \<in> set f" "c \<in> {CHR ''/'', CHR '':'', CHR ''w'', CHR ''k''}" for f c
    using char_of_found [OF _ that(1)] quick_lower_rare [OF q that(2)] by (rule contrapos_nn [rotated])
  have f0: "\<not> contains ''docs.google.com/'' (lower s)" by (rule rare [of "CHR ''/''"]) simp_all
  have f1: "\<not> contains ''drive.google.com/'' (lower s)" by (rule rare [of "CHR ''/''"]) simp_all
  have f2: "\<not> contains ''mail.google.com/'' (lower s)" by (rule rare [of "CHR ''/''"]) simp_all
  have f3: "\<not> contains ''session_raw'' (lower s)" by (rule rare [of "CHR ''w''"]) simp_all
  have f4: "\<not> contains ''raw_file_id'' (lower s)" by (rule rare [of "CHR ''w''"]) simp_all
  have f5: "\<not> contains ''api_key'' (lower s)" by (rule rare [of "CHR ''k''"]) simp_all
  have f6: "\<not> contains ''authorization: bearer'' (lower s)" by (rule rare [of "CHR '':''"]) simp_all
  have "\<not> contains ''oauth'' (lower s)"
    using quick_lower_oa [OF q] contains_part [of "[]" "''oa''" "''uth''"] by auto
  with f0 f1 f2 f3 f4 f5 f6 show "list_all (\<lambda>f. \<not> contains f (lower s)) forbidden_fragments"
    by (simp only: forbidden_fragments_def list.pred_inject simp_thms)
qed

lemmas quick_eval = quick_public char_class_ascii

end
