(* ===== verification/B2Qa0.thy ===== *)
theory B2Qa0
  imports B2Quick
begin

text \<open>
  Scoring in \<open>src/b2/qa0.py\<close>: four family scorers turn the input of a seed into a verdict
  (terminal status, hard pass, failed invariants), a frozen oracle per family says when
  a known-bad seed counts as detected, and the receipt summarises the results; its gate
  compares the summary with the frozen criteria.

  The locale \<open>case_scorer\<close> is the contract between a family scorer with its oracle and
  the case results made from them; it is interpreted here for the QA0 scorers and in
  \<open>B2Qa1\<close>, \<open>B2Qa2\<close> for theirs.
\<close>

section \<open>Verdicts\<close>

text \<open>\<open>(terminal_status, hard_pass, failed_invariants)\<close>\<close>

type_synonym verdict = "string \<times> bool \<times> string list"

text \<open>\<open>tuple(sorted(set(failed)))\<close>\<close>

definition uniq :: "string list \<Rightarrow> string list" where
  "uniq failed = sort (remdups failed)"

definition incomplete :: verdict where
  "incomplete = (''UNKNOWN'', False, [''evidence_complete''])"

text \<open>\<open>("FAIL", False, unique) if unique else ("PASS", True, ())\<close>\<close>

definition settle :: "string list \<Rightarrow> verdict" where
  "settle failed =
     (let unique = uniq failed in if unique \<noteq> [] then (''FAIL'', False, unique) else (''PASS'', True, []))"

definition settle_complete :: "string list \<Rightarrow> verdict" where
  "settle_complete failed =
     (if ''evidence_complete'' \<in> set (uniq failed) then (''UNKNOWN'', False, uniq failed) else settle failed)"

text \<open>What every verdict of the code satisfies.\<close>

definition verdict_ok :: "verdict \<Rightarrow> bool" where
  "verdict_ok v = (case v of (status, hard_pass, failed) \<Rightarrow>
     status \<in> set TERMINAL_STATUSES \<and> (hard_pass \<longleftrightarrow> status = ''PASS'') \<and> (hard_pass \<longleftrightarrow> failed = [])
     \<and> sorted failed \<and> distinct failed \<and> (''evidence_complete'' \<in> set failed \<longrightarrow> status = ''UNKNOWN''))"

lemma uniq_simps [simp]:
  "set (uniq xs) = set xs" "sorted (uniq xs)" "distinct (uniq xs)" "uniq [] = []" "uniq xs = [] \<longleftrightarrow> xs = []"
proof -
  show "uniq xs = [] \<longleftrightarrow> xs = []" unfolding uniq_def by (metis set_empty set_remdups set_sort)
qed (simp_all add: uniq_def)

lemma statuses [simp]:
  "''PASS'' \<in> set TERMINAL_STATUSES" "''FAIL'' \<in> set TERMINAL_STATUSES" "''ERROR'' \<in> set TERMINAL_STATUSES"
  "''UNKNOWN'' \<in> set TERMINAL_STATUSES" "''NOT_EVALUABLE'' \<in> set TERMINAL_STATUSES"
  by (simp_all add: TERMINAL_STATUSES_def)

lemma incomplete_ok [simp]: "verdict_ok incomplete"
  by (simp add: incomplete_def verdict_ok_def)

lemma settle_complete_ok [simp]: "verdict_ok (settle_complete failed)"
  by (auto simp: settle_complete_def settle_def verdict_ok_def Let_def)

lemma settle_ok: "''evidence_complete'' \<notin> set failed \<Longrightarrow> verdict_ok (settle failed)"
  by (auto simp: settle_def verdict_ok_def Let_def)

section \<open>The family scorers\<close>

definition claim_failures :: "json \<Rightarrow> string list" where
  "claim_failures c = (case c of
      JObj claim \<Rightarrow> (case get claim ''evidence'' of
          JObj evidence \<Rightarrow>
            if list_ex (\<lambda>k. \<not> py_eq (get claim k) (get evidence k)) [''entity_id'', ''scope_id'', ''attribute'']
            then [''entity_attribute_evidence_binding''] else []
        | _ \<Rightarrow> [''evidence_complete''])
    | _ \<Rightarrow> [''evidence_complete''])"

definition entity_attribute_binding :: "obj \<Rightarrow> verdict result" where
  "entity_attribute_binding d = Inr (case get d ''claims'' of
      JArr claims \<Rightarrow> if claims = [] then incomplete else settle_complete (concat (map claim_failures claims))
    | _ \<Rightarrow> incomplete)"

definition connector_failures :: "string list \<Rightarrow> obj \<Rightarrow> obj \<Rightarrow> obj \<Rightarrow> bool \<Rightarrow> string list" where
  "connector_failures unknown outcome readback retry allowed_effects =
     (if unknown \<noteq> [] then [''request_schema_valid''] else [])
     @ (case int_value (get outcome ''http_status'') of
          None \<Rightarrow> [''evidence_complete'']
        | Some status \<Rightarrow>
            if 400 \<le> status \<and> (get outcome ''committed'' \<noteq> JBool False \<or> get readback ''state_unchanged'' \<noteq> JBool True)
            then [''provider_rejection_requires_no_mutation''] else [])
     @ (if get retry ''performed'' = JBool True \<and> get readback ''performed'' \<noteq> JBool True
        then [''retry_requires_target_readback''] else [])
     @ (if \<not> allowed_effects then [''no_duplicate_side_effects''] else [])"

text \<open>\<open>set(request) - set(allowed)\<close>; building the second set hashes every element of \<open>allowed\<close>.\<close>

definition unknown_keys :: "obj \<Rightarrow> json list \<Rightarrow> string list result" where
  "unknown_keys request allowed =
     bindE (mapE (\<lambda>v. in_set v []) allowed) (\<lambda>_.
     Inr (filter (\<lambda>k. JStr k \<notin> set allowed) (map fst request)))"

definition connector_verdict :: "string list \<Rightarrow> int option \<Rightarrow> string list \<Rightarrow> verdict" where
  "connector_verdict unknown status failed =
     (let unique = uniq failed in
      if ''evidence_complete'' \<in> set unique then (''UNKNOWN'', False, unique)
      else if unknown \<noteq> [] \<or> (case status of Some s \<Rightarrow> 400 \<le> s | None \<Rightarrow> False)
      then (''ERROR'', False, if unique \<noteq> [] then unique else [''provider_or_schema_error''])
      else settle failed)"

definition connector_schema :: "obj \<Rightarrow> verdict result" where
  "connector_schema d =
     (case (get d ''allowed_request_keys'', get d ''request'', get d ''provider_outcome'', get d ''target_readback'', get d ''retry'') of
        (JArr allowed, JObj request, JObj outcome, JObj readback, JObj retry) \<Rightarrow>
          bindE (unknown_keys request allowed) (\<lambda>unknown.
          bindE (in_set (get retry ''side_effect_count'') [JInt 0, JInt 1]) (\<lambda>allowed_effects.
          Inr (connector_verdict unknown (int_value (get outcome ''http_status''))
                 (connector_failures unknown outcome readback retry allowed_effects))))
      | _ \<Rightarrow> Inr incomplete)"

text \<open>An event that can be checked: its identity, its ordinal and the event itself.\<close>

definition readable_event :: "json \<Rightarrow> (string \<times> int \<times> obj) option" where
  "readable_event e = (case e of
      JObj event \<Rightarrow> (case (get event ''event_id'', int_value (get event ''ordinal'')) of
          (JStr i, Some n) \<Rightarrow> if i = [] then None else Some (i, n, event)
        | _ \<Rightarrow> None)
    | _ \<Rightarrow> None)"

definition event_failures :: "json \<Rightarrow> string list" where
  "event_failures e = (case readable_event e of
      None \<Rightarrow> [''evidence_complete'']
    | Some (_, _, event) \<Rightarrow>
        if get event ''terminal_fields_complete'' \<noteq> JBool True then [''terminal_envelope_complete''] else [])"

definition integrity_completeness :: "obj \<Rightarrow> verdict result" where
  "integrity_completeness d = Inr (
     if get d ''audit_scope'' \<noteq> JStr ''GLOBAL'' then incomplete
     else case get d ''events'' of
       JArr events \<Rightarrow>
         if events = [] then incomplete
         else let readable = List.map_filter readable_event events;
                  ids = map fst readable; ordinals = map (fst \<circ> snd) readable
              in settle_complete
                   ((if get d ''checked_scope'' \<noteq> JStr ''FULL'' then [''global_pass_requires_full_set_scan''] else [])
                    @ concat (map event_failures events)
                    @ (if \<not> distinct ids then [''unique_event_ids''] else [])
                    @ (if ordinals \<noteq> sort ordinals \<or> \<not> distinct ordinals then [''event_order_monotonic''] else []))
     | _ \<Rightarrow> incomplete)"

definition allowed_surfaces :: "json list" where
  "allowed_surfaces = map JStr [''INVENTORY_LIST'', ''FILTERED_INVENTORY'', ''ACCOUNT_DASHBOARD'']"

text \<open>The first source with the claimed id, as \<open>next(...)\<close> finds it.\<close>

fun find_source :: "json \<Rightarrow> json list \<Rightarrow> obj option" where
  "find_source source_id [] = None"
| "find_source source_id (x # xs) = (case x of
      JObj s \<Rightarrow> if py_eq (get s ''source_id'') source_id then Some s else find_source source_id xs
    | _ \<Rightarrow> find_source source_id xs)"

fun scoped_counts :: "json list \<Rightarrow> int list result" where
  "scoped_counts [] = Inr []"
| "scoped_counts (x # xs) = (case x of
      JObj s \<Rightarrow>
        bindE (in_set (get s ''surface_type'') allowed_surfaces) (\<lambda>scoped.
        bindE (scoped_counts xs) (\<lambda>counts.
        Inr (case (scoped, int_value (get s ''current_count'')) of
               (True, Some n) \<Rightarrow> n # counts
             | _ \<Rightarrow> counts)))
    | _ \<Rightarrow> scoped_counts xs)"

definition scope_failures :: "obj \<Rightarrow> obj \<Rightarrow> int \<Rightarrow> bool \<Rightarrow> int list \<Rightarrow> string list" where
  "scope_failures claim source n in_scope counts =
     (if \<not> in_scope then [''current_inventory_evidence_scope''] else [])
     @ (if \<not> py_eq (get source ''current_count'') (get claim ''value'') then [''claim_source_value_consistency''] else [])
     @ (if list_ex (\<lambda>c. c \<noteq> n) counts then [''current_inventory_cross_surface_consistency''] else [])"

definition evidence_scope :: "obj \<Rightarrow> verdict result" where
  "evidence_scope d =
     (case (get d ''claim'', get d ''sources'') of
        (JObj claim, JArr sources) \<Rightarrow>
          (case (sources \<noteq> [] \<and> get claim ''attribute'' = JStr ''current_count'', int_value (get claim ''value'')) of
             (True, Some n) \<Rightarrow>
               (case find_source (get claim ''source_id'') sources of
                  None \<Rightarrow> Inr incomplete
                | Some source \<Rightarrow>
                    bindE (in_set (get source ''surface_type'') allowed_surfaces) (\<lambda>in_scope.
                    bindE (scoped_counts sources) (\<lambda>counts.
                    Inr (settle (scope_failures claim source n in_scope counts)))))
           | _ \<Rightarrow> Inr incomplete)
      | _ \<Rightarrow> Inr incomplete)"

section \<open>Detection\<close>

definition KNOWN_BAD_DETECTION_ORACLES :: "string \<Rightarrow> (string \<times> string list) option" where
  "KNOWN_BAD_DETECTION_ORACLES = map_of
     [(''entity-attribute-binding'', ''FAIL'', [''entity_attribute_evidence_binding'']),
      (''connector-schema'', ''ERROR'', [''request_schema_valid'', ''provider_or_schema_error'']),
      (''integrity-completeness'', ''FAIL'',
        [''event_order_monotonic'', ''global_pass_requires_full_set_scan'', ''terminal_envelope_complete'', ''unique_event_ids'']),
      (''evidence-scope'', ''FAIL'',
        [''claim_source_value_consistency'', ''current_inventory_cross_surface_consistency'', ''current_inventory_evidence_scope''])]"

definition meets :: "string list \<Rightarrow> string list \<Rightarrow> bool" where
  "meets failed targets \<longleftrightarrow> list_ex (\<lambda>f. f \<in> set targets) failed"

definition detection_oracle :: "string \<Rightarrow> string \<Rightarrow> string \<Rightarrow> string list \<Rightarrow> bool \<Rightarrow> bool" where
  "detection_oracle family_id variant terminal_status failed_invariants evidence_complete \<longleftrightarrow>
     (if variant = ''CONTROL'' then terminal_status = ''PASS''
      else if variant \<noteq> ''KNOWN_BAD'' \<or> \<not> evidence_complete then False
      else case KNOWN_BAD_DETECTION_ORACLES family_id of
             None \<Rightarrow> False
           | Some (status, targets) \<Rightarrow>
               if terminal_status \<noteq> status then False else meets failed_invariants targets)"

definition scorers :: "string \<Rightarrow> (obj \<Rightarrow> verdict result) option" where
  "scorers = map_of
     [(''entity-attribute-binding'', entity_attribute_binding), (''connector-schema'', connector_schema),
      (''integrity-completeness'', integrity_completeness), (''evidence-scope'', evidence_scope)]"

record case_result =
  cr_case_id :: string
  cr_family_id :: string
  cr_variant :: string
  cr_terminal_status :: string
  cr_hard_invariant_pass :: bool
  cr_detected :: bool
  cr_failed_invariants :: "string list"
  cr_evidence_complete :: bool
  cr_provenance_traceable :: bool
  cr_fixture_fingerprint :: string

definition score_input :: "string \<Rightarrow> obj \<Rightarrow> verdict result" where
  "score_input family_id d = (case scorers family_id of
      None \<Rightarrow> Inr (''NOT_EVALUABLE'', False, [''unsupported_family''])
    | Some scorer \<Rightarrow> scorer d)"

definition score_case :: "json \<Rightarrow> case_result result" where
  "score_case document =
     bindE (validate_public_seed document) (\<lambda>c.
     bindE (score_input (ps_family_id c) (ps_input c)) (\<lambda>(terminal_status, hard_pass, failed).
     let evidence_complete = (''evidence_complete'' \<notin> set failed)
     in Inr \<lparr>cr_case_id = ps_case_id c, cr_family_id = ps_family_id c, cr_variant = ps_variant c,
             cr_terminal_status = terminal_status, cr_hard_invariant_pass = hard_pass,
             cr_detected = detection_oracle (ps_family_id c) (ps_variant c) terminal_status failed evidence_complete,
             cr_failed_invariants = failed, cr_evidence_complete = evidence_complete,
             cr_provenance_traceable = (truthy (get (ps_provenance c) ''seed_digest'')
               \<and> get (ps_provenance c) ''kind'' = JStr ''ABSTRACT_PUBLIC_SEED_DIGEST''),
             cr_fixture_fingerprint = sha256_json (JObj (seed_dict c))\<rparr>))"

section \<open>The receipt\<close>

text \<open>\<open>k / n if n else None\<close>\<close>

definition rate :: "nat \<Rightarrow> nat \<Rightarrow> json" where
  "rate k n = (if n = 0 then JNull else JFloat (to_float (of_nat k / of_nat n)))"

definition QA0_HARD_GATE_CRITERIA :: obj where
  "QA0_HARD_GATE_CRITERIA =
     [(''case_count'', JInt 8), (''known_bad_count'', JInt 4), (''control_count'', JInt 4),
      (''known_bad_detection_rate'', JFloat (Fin 1)), (''control_false_reject_rate'', JFloat (Fin 0)),
      (''provenance_trace_rate'', JFloat (Fin 1)), (''evidence_completeness_rate'', JFloat (Fin 1))]"

definition variant_rows :: "string \<Rightarrow> 'a case_result_scheme list \<Rightarrow> 'a case_result_scheme list" where
  "variant_rows v rows = filter (\<lambda>r. cr_variant r = v) rows"

definition known_bad_rate :: "'a case_result_scheme list \<Rightarrow> json" where
  "known_bad_rate rows = (let kb = variant_rows ''KNOWN_BAD'' rows in rate (length (filter cr_detected kb)) (length kb))"

definition control_reject_rate :: "'a case_result_scheme list \<Rightarrow> json" where
  "control_reject_rate rows =
     (let cs = variant_rows ''CONTROL'' rows in rate (length (filter (\<lambda>r. cr_terminal_status r \<noteq> ''PASS'') cs)) (length cs))"

definition jint :: "nat \<Rightarrow> json" where
  "jint n = JInt (int n)"

definition jstrs :: "string list \<Rightarrow> json" where
  "jstrs ss = JArr (map JStr ss)"

definition fingerprints_of :: "'a case_result_scheme list \<Rightarrow> json" where
  "fingerprints_of rows = JObj (from_pairs (map (\<lambda>r. (cr_case_id r, JStr (cr_fixture_fingerprint r))) rows))"

definition gate_status :: "obj \<Rightarrow> obj \<Rightarrow> string" where
  "gate_status receipt criteria =
     (if list_all (\<lambda>(k, expected). py_eq (get receipt k) expected) criteria then ''PASS'' else ''FAIL'')"

text \<open>\<open>receipt["gate_criteria"] = ...; receipt["gate"] = ...; receipt["receipt_fingerprint"] = ...\<close>\<close>

definition finish_receipt :: "obj \<Rightarrow> obj \<Rightarrow> obj" where
  "finish_receipt receipt criteria =
     (let r1 = put receipt ''gate_criteria'' (JObj criteria);
          r2 = put r1 ''gate'' (JStr (gate_status r1 criteria))
      in put r2 ''receipt_fingerprint'' (JStr (sha256_json (JObj r2))))"

definition qa0_receipt_body :: "case_result list \<Rightarrow> obj" where
  "qa0_receipt_body rows =
     [(''schema_version'', JStr ''b2-qa0-receipt/v1''), (''run_id'', JStr ''B2-QA0-DETERMINISTIC-001''),
      (''runner'', JStr ''python-unittest-compatible/deterministic''),
      (''scope'', JStr ''FROZEN_DETERMINISTIC_QA0_FIXTURE_SET''),
      (''case_count'', jint (length rows)), (''cases'', jstrs (map cr_case_id rows)),
      (''known_bad_count'', jint (length (variant_rows ''KNOWN_BAD'' rows))),
      (''control_count'', jint (length (variant_rows ''CONTROL'' rows))),
      (''known_bad_detection_rate'', known_bad_rate rows),
      (''control_false_reject_rate'', control_reject_rate rows),
      (''provenance_trace_rate'', rate (length (filter cr_provenance_traceable rows)) (length rows)),
      (''evidence_completeness_rate'', rate (length (filter cr_evidence_complete rows)) (length rows)),
      (''terminal_statuses'', jstrs (uniq (map cr_terminal_status rows))),
      (''fixture_fingerprints'', fingerprints_of rows),
      (''limitations'', jstrs [''Metrics apply only to the frozen deterministic QA0 fixture set.'',
         ''No live model/provider performance is measured.'', ''Mechanism hypotheses are not causal circuit findings.''])]"

definition build_qa0_receipt :: "case_result list \<Rightarrow> obj" where
  "build_qa0_receipt results =
     finish_receipt (qa0_receipt_body (sort_key cr_case_id results)) QA0_HARD_GATE_CRITERIA"

section \<open>The contract of a family scorer\<close>

text \<open>
  A case result is sound when its status, its hard pass and its failed invariants agree,
  missing evidence shows as \<open>UNKNOWN\<close>, a control is detected exactly when it passes, and a
  known-bad case is detected only on a hard failure with complete evidence.
\<close>

definition result_sound :: "'a case_result_scheme \<Rightarrow> bool" where
  "result_sound r \<longleftrightarrow>
     verdict_ok (cr_terminal_status r, cr_hard_invariant_pass r, cr_failed_invariants r)
     \<and> cr_variant r \<in> {''KNOWN_BAD'', ''CONTROL''}
     \<and> (cr_evidence_complete r \<longleftrightarrow> ''evidence_complete'' \<notin> set (cr_failed_invariants r))
     \<and> (cr_variant r = ''CONTROL'' \<longrightarrow> (cr_detected r \<longleftrightarrow> cr_hard_invariant_pass r))
     \<and> (cr_variant r = ''KNOWN_BAD'' \<longrightarrow> cr_detected r \<longrightarrow>
          \<not> cr_hard_invariant_pass r \<and> cr_evidence_complete r \<and> cr_terminal_status r \<in> {''FAIL'', ''ERROR''})"

locale case_scorer =
  fixes score :: "obj \<Rightarrow> verdict result"
    and detects :: "string \<Rightarrow> string \<Rightarrow> string list \<Rightarrow> bool \<Rightarrow> bool"
  assumes verdict: "score d = Inr v \<Longrightarrow> verdict_ok v"
    and control: "detects ''CONTROL'' status failed c \<longleftrightarrow> status = ''PASS''"
    and known_bad: "detects ''KNOWN_BAD'' status failed c \<Longrightarrow> c \<and> status \<in> {''FAIL'', ''ERROR''}"
begin

lemma result_is_sound:
  assumes "score d = Inr (cr_terminal_status r, cr_hard_invariant_pass r, cr_failed_invariants r)"
    and "cr_variant r \<in> {''KNOWN_BAD'', ''CONTROL''}"
    and "cr_evidence_complete r \<longleftrightarrow> ''evidence_complete'' \<notin> set (cr_failed_invariants r)"
    and "cr_detected r = detects (cr_variant r) (cr_terminal_status r) (cr_failed_invariants r) (cr_evidence_complete r)"
  shows "result_sound r"
proof -
  have ok: "verdict_ok (cr_terminal_status r, cr_hard_invariant_pass r, cr_failed_invariants r)"
    by (rule verdict [OF assms(1)])
  then have pass: "cr_hard_invariant_pass r \<longleftrightarrow> cr_terminal_status r = ''PASS''" by (simp add: verdict_ok_def)
  from assms(2) show ?thesis
  proof
    assume v: "cr_variant r = ''KNOWN_BAD''"
    show ?thesis
      using ok pass known_bad [of "cr_terminal_status r" "cr_failed_invariants r" "cr_evidence_complete r"] assms(3,4)
      by (auto simp: result_sound_def v)
  next
    assume "cr_variant r \<in> {''CONTROL''}"
    then have v: "cr_variant r = ''CONTROL''" by simp
    show ?thesis using ok pass control assms(3,4) by (simp add: result_sound_def v)
  qed
qed

lemma detection_discriminates: "\<not> (detects ''CONTROL'' status failed c \<and> detects ''KNOWN_BAD'' status failed c')"
  using control known_bad by fastforce

end

lemma connector_verdict_ok [simp]: "verdict_ok (connector_verdict unknown status failed)"
proof (cases "''evidence_complete'' \<in> set failed")
  case True
  then show ?thesis by (auto simp: connector_verdict_def Let_def verdict_ok_def)
next
  case False
  then show ?thesis
    using settle_ok [OF False] by (simp add: connector_verdict_def Let_def) (simp add: verdict_ok_def)
qed

lemma evidence_scope_ok: "evidence_scope d = Inr v \<Longrightarrow> verdict_ok v"
  unfolding evidence_scope_def
  by (auto simp: bindE_eq_Inr scope_failures_def intro!: settle_ok split: json.splits option.splits prod.splits bool.splits if_splits)

lemma scorer_verdict: "score_input f d = Inr v \<Longrightarrow> verdict_ok v"
proof -
  have u: "verdict_ok (''NOT_EVALUABLE'', False, [''unsupported_family''])" by (simp add: verdict_ok_def)
  have "entity_attribute_binding d = Inr v \<Longrightarrow> verdict_ok v"
    by (auto simp: entity_attribute_binding_def split: json.splits if_splits)
  moreover have "connector_schema d = Inr v \<Longrightarrow> verdict_ok v"
    by (auto simp: connector_schema_def bindE_eq_Inr split: json.splits)
  moreover have "integrity_completeness d = Inr v \<Longrightarrow> verdict_ok v"
    by (auto simp: integrity_completeness_def Let_def split: json.splits if_splits)
  ultimately show "score_input f d = Inr v \<Longrightarrow> verdict_ok v"
    using u by (auto simp: score_input_def scorers_def evidence_scope_ok split: if_splits)
qed

lemma oracle_statuses: "KNOWN_BAD_DETECTION_ORACLES f = Some (status, targets) \<Longrightarrow> status \<in> {''FAIL'', ''ERROR''}"
  by (auto simp: KNOWN_BAD_DETECTION_ORACLES_def split: if_splits)

interpretation qa0: case_scorer "score_input f" "detection_oracle f" for f
proof
  show "score_input f d = Inr v \<Longrightarrow> verdict_ok v" for d v by (rule scorer_verdict)
  show "detection_oracle f ''CONTROL'' st fs c \<longleftrightarrow> st = ''PASS''" for st fs c
    by (simp add: detection_oracle_def)
  show "detection_oracle f ''KNOWN_BAD'' st fs c \<Longrightarrow> c \<and> st \<in> {''FAIL'', ''ERROR''}" for st fs c
    using oracle_statuses [of f]
    by (auto simp: detection_oracle_def split: if_splits option.splits)
qed

section \<open>Rates and gates\<close>

lemma to_float_unit: "0 \<le> x \<Longrightarrow> x \<le> 1 \<Longrightarrow> to_float x = Fin (rnd x)"
  using rnd_unit [of x] by (auto simp: to_float_def Let_def)

lemma rate_Fin:
  assumes "k \<le> n" and "n \<noteq> 0"
  shows "rate k n = JFloat (Fin (rnd (of_nat k / of_nat n)))"
  using assms by (simp add: rate_def to_float_unit divide_le_eq)

lemma rate_is_1:
  assumes "k \<le> n" and "n \<le> 2 ^ 53"
  shows "py_eq (rate k n) (JFloat (Fin 1)) \<longleftrightarrow> n \<noteq> 0 \<and> k = n"
proof (cases "n = 0")
  case False
  then show ?thesis
    using rnd_fraction_less_1 [of k n] assms
    by (cases "k = n") (auto simp: rate_Fin num_eq_def)
qed (simp add: rate_def)

lemma rate_is_0:
  assumes "k \<le> n" and "n \<le> 2 ^ 53"
  shows "py_eq (rate k n) (JFloat (Fin 0)) \<longleftrightarrow> n \<noteq> 0 \<and> k = 0"
proof (cases "n = 0 \<or> k = 0")
  case True
  with assms show ?thesis by (auto simp: rate_Fin rate_def num_eq_def)
next
  case False
  then have "0 < rnd (of_nat k / of_nat n)" using assms(2) by (intro rnd_pos_fraction) auto
  with False assms show ?thesis by (simp add: rate_Fin num_eq_def)
qed

lemma jint_eq [simp]: "py_eq (jint n) (JInt m) \<longleftrightarrow> int n = m"
proof -
  have "(of_int (int n) :: rat) = of_int m \<longleftrightarrow> int n = m" by (simp only: of_int_eq_iff)
  then show ?thesis by (simp add: jint_def num_eq_def)
qed

lemma filter_length_all: "length (filter P xs) = length xs \<longleftrightarrow> (\<forall>x \<in> set xs. P x)"
  by (simp add: list_all_filter_length list_all_iff)

lemma rate_all:
  assumes "length xs \<le> 2 ^ 53"
  shows "py_eq (rate (length (filter P xs)) (length xs)) (JFloat (Fin 1)) \<longleftrightarrow> xs \<noteq> [] \<and> (\<forall>x \<in> set xs. P x)"
    and "py_eq (rate (length (filter P xs)) (length xs)) (JFloat (Fin 0)) \<longleftrightarrow> xs \<noteq> [] \<and> (\<forall>x \<in> set xs. \<not> P x)"
  using assms by (simp_all add: rate_is_1 rate_is_0 filter_length_all filter_empty_conv del: py_eq.simps)

lemma known_bad_rate_1:
  assumes "length rows \<le> 2 ^ 53"
  shows "py_eq (known_bad_rate rows) (JFloat (Fin 1)) \<longleftrightarrow>
     variant_rows ''KNOWN_BAD'' rows \<noteq> [] \<and> (\<forall>r \<in> set rows. cr_variant r = ''KNOWN_BAD'' \<longrightarrow> cr_detected r)"
  using le_trans [OF length_filter_le assms]
  by (subst known_bad_rate_def, simp only: Let_def, subst rate_all) (auto simp: variant_rows_def)

lemma control_reject_rate_0:
  assumes "length rows \<le> 2 ^ 53"
  shows "py_eq (control_reject_rate rows) (JFloat (Fin 0)) \<longleftrightarrow>
     variant_rows ''CONTROL'' rows \<noteq> [] \<and> (\<forall>r \<in> set rows. cr_variant r = ''CONTROL'' \<longrightarrow> cr_terminal_status r = ''PASS'')"
  using le_trans [OF length_filter_le assms]
  by (subst control_reject_rate_def, simp only: Let_def, subst rate_all) (auto simp: variant_rows_def)

lemma finish_receipt_get:
  "k \<notin> {''gate_criteria'', ''gate'', ''receipt_fingerprint''} \<Longrightarrow> get (finish_receipt b c) k = get b k"
  "get (finish_receipt b c) ''gate'' = JStr (gate_status (put b ''gate_criteria'' (JObj c)) c)"
  by (simp_all add: finish_receipt_def Let_def)

lemma variant_rows_sort [simp]: "length (variant_rows v (sort_key f rows)) = length (variant_rows v rows)"
  by (simp add: variant_rows_def filter_sort)

lemma variants_cover:
  "length (variant_rows ''KNOWN_BAD'' rows) + length (variant_rows ''CONTROL'' rows) = length rows
   \<longleftrightarrow> (\<forall>r \<in> set rows. cr_variant r \<in> {''KNOWN_BAD'', ''CONTROL''})"
proof -
  have "length (variant_rows ''KNOWN_BAD'' rows) + length (variant_rows ''CONTROL'' rows)
      = length (filter (\<lambda>r. cr_variant r \<in> {''KNOWN_BAD'', ''CONTROL''}) rows)"
    unfolding variant_rows_def by (induction rows) auto
  then show ?thesis by (simp add: filter_length_all)
qed

text \<open>The gate reads the body of the receipt: a criterion on a summary field is a condition on the rows.\<close>

lemma gate_status_PASS:
  assumes "\<forall>kv \<in> set criteria. fst kv \<noteq> ''gate_criteria''"
  shows "gate_status (put b ''gate_criteria'' x) criteria = ''PASS'' \<longleftrightarrow>
     (\<forall>(k, v) \<in> set criteria. py_eq (get b k) v)"
proof -
  have "gate_status (put b ''gate_criteria'' x) criteria = ''PASS'' \<longleftrightarrow>
     (\<forall>kv \<in> set criteria. py_eq (get (put b ''gate_criteria'' x) (fst kv)) (snd kv))"
    by (simp add: gate_status_def list_all_iff split_beta)
  also have "\<dots> \<longleftrightarrow> (\<forall>kv \<in> set criteria. py_eq (get b (fst kv)) (snd kv))"
    using assms by (intro ball_cong refl) simp
  finally show ?thesis by (simp add: split_beta)
qed

section \<open>The passing inputs\<close>

text \<open>The passing inputs of each family, stated without the scorers.\<close>

definition bound_claim :: "json \<Rightarrow> bool" where
  "bound_claim c \<longleftrightarrow> (\<exists>claim evidence. c = JObj claim \<and> get claim ''evidence'' = JObj evidence
     \<and> (\<forall>k \<in> {''entity_id'', ''scope_id'', ''attribute''}. py_eq (get claim k) (get evidence k)))"

definition complete_trail :: "json list \<Rightarrow> bool" where
  "complete_trail events \<longleftrightarrow> events \<noteq> [] \<and> (\<exists>es. map readable_event events = map Some es
     \<and> distinct (map fst es) \<and> sorted_wrt (<) (map (fst \<circ> snd) es)
     \<and> (\<forall>e \<in> set es. get (snd (snd e)) ''terminal_fields_complete'' = JBool True))"

definition clean_exchange :: "json list \<Rightarrow> obj \<Rightarrow> obj \<Rightarrow> obj \<Rightarrow> obj \<Rightarrow> bool" where
  "clean_exchange allowed request outcome readback retry \<longleftrightarrow>
     (\<forall>v \<in> set allowed. unhashable v = None) \<and> (\<forall>k \<in> fst ` set request. JStr k \<in> set allowed)
     \<and> (\<exists>status. int_value (get outcome ''http_status'') = Some status \<and> status < 400)
     \<and> (get retry ''performed'' = JBool True \<longrightarrow> get readback ''performed'' = JBool True)
     \<and> in_set (get retry ''side_effect_count'') [JInt 0, JInt 1] = Inr True"

definition passed :: verdict where
  "passed = (''PASS'', True, [])"

lemma settle_passed: "settle failed = passed \<longleftrightarrow> failed = []"
  by (auto simp: settle_def passed_def Let_def)

lemma settle_complete_passed: "settle_complete failed = passed \<longleftrightarrow> failed = []"
  by (auto simp: settle_complete_def settle_passed) (auto simp: passed_def settle_def)

lemma incomplete_not_passed [simp]: "incomplete \<noteq> passed"
  by (simp add: incomplete_def passed_def)

lemma claim_failures_Nil: "claim_failures c = [] \<longleftrightarrow> bound_claim c"
  by (auto simp: claim_failures_def bound_claim_def split: json.splits if_splits)

lemma entity_pass: "entity_attribute_binding d = Inr passed \<longleftrightarrow>
   (\<exists>claims. get d ''claims'' = JArr claims \<and> claims \<noteq> [] \<and> (\<forall>c \<in> set claims. bound_claim c))"
  by (cases "get d ''claims''")
     (auto simp: entity_attribute_binding_def settle_complete_passed claim_failures_Nil)

lemma map_filter_Some: "map f xs = map Some ys \<Longrightarrow> List.map_filter f xs = ys"
  by (induction xs arbitrary: ys) (auto simp: map_filter_simps)

lemma readable_event_failures: "readable_event e = Some t \<Longrightarrow>
   event_failures e = [] \<longleftrightarrow> get (snd (snd t)) ''terminal_fields_complete'' = JBool True"
  by (auto simp: event_failures_def split: prod.splits)

lemma readable_if_no_failure: "event_failures e = [] \<Longrightarrow> readable_event e \<noteq> None"
  by (cases "readable_event e") (simp_all add: event_failures_def)

lemma integrity_pass: "integrity_completeness d = Inr passed \<longleftrightarrow>
   get d ''audit_scope'' = JStr ''GLOBAL'' \<and> get d ''checked_scope'' = JStr ''FULL''
   \<and> (\<exists>events. get d ''events'' = JArr events \<and> complete_trail events)"
proof (cases "get d ''audit_scope'' = JStr ''GLOBAL'' \<and> (\<exists>events. get d ''events'' = JArr events)")
  case True
  then obtain events where e: "get d ''events'' = JArr events" and g: "get d ''audit_scope'' = JStr ''GLOBAL''" by blast
  let ?r = "List.map_filter readable_event events"
  have sorted: "ns = sort ns \<and> distinct ns \<longleftrightarrow> sorted_wrt (<) ns" for ns :: "int list"
    by (metis sorted_sort sorted_sort_id strict_sorted_iff)
  have "complete_trail events \<longleftrightarrow> events \<noteq> [] \<and> (\<forall>e \<in> set events. event_failures e = [])
      \<and> distinct (map fst ?r) \<and> sorted_wrt (<) (map (fst \<circ> snd) ?r)"
  proof -
    have some: "\<exists>es. map readable_event events = map Some es" if "\<forall>e \<in> set events. readable_event e \<noteq> None"
      using that by (intro exI [of _ "map (the \<circ> readable_event) events"]) auto
    have fl: "(\<forall>e \<in> set es. get (snd (snd e)) ''terminal_fields_complete'' = JBool True)
        \<longleftrightarrow> (\<forall>e \<in> set events. event_failures e = [])" if "map readable_event events = map Some es" for es
      using that by (induction events arbitrary: es) (fastforce simp: readable_event_failures)+
    show ?thesis
    proof (cases "\<forall>e \<in> set events. event_failures e = []")
      case True
      then have "\<forall>e \<in> set events. readable_event e \<noteq> None" using readable_if_no_failure by blast
      then obtain es where es: "map readable_event events = map Some es" using some by blast
      moreover have "?r = es" by (rule map_filter_Some [OF es])
      moreover have "es' = es" if "map readable_event events = map Some es'" for es'
        using that es by (metis list.inj_map_strong option.inject)
      ultimately show ?thesis using fl [OF es] True unfolding complete_trail_def by blast
    next
      case False
      then show ?thesis using fl unfolding complete_trail_def by blast
    qed
  qed
  with sorted [of "map (fst \<circ> snd) ?r"] show ?thesis
    by (auto simp: integrity_completeness_def e g settle_complete_passed Let_def)
next
  case False
  then show ?thesis by (auto simp: integrity_completeness_def split: json.splits)
qed

lemma hash_all: "isOk (mapE (\<lambda>v. in_set v []) vs) \<longleftrightarrow> (\<forall>v \<in> set vs. unhashable v = None)"
  by (induction vs) (auto simp: isOk_iff bindE_eq_Inr in_set_def split: option.splits)

lemma unknown_keys_none: "unknown_keys request allowed = Inr [] \<longleftrightarrow>
   (\<forall>v \<in> set allowed. unhashable v = None) \<and> (\<forall>k \<in> fst ` set request. JStr k \<in> set allowed)"
  using hash_all [of allowed] by (auto simp: unknown_keys_def bindE_eq_Inr isOk_iff filter_empty_conv)

lemma connector_verdict_passed:
  "connector_verdict unknown status failed = passed \<longleftrightarrow>
     unknown = [] \<and> failed = [] \<and> (case status of Some s \<Rightarrow> s < 400 | None \<Rightarrow> True)"
proof (cases "''evidence_complete'' \<in> set failed")
  case False
  then show ?thesis
    by (auto simp: connector_verdict_def Let_def settle_passed split: option.splits) (auto simp: passed_def)
qed (auto simp: connector_verdict_def passed_def)

lemma connector_pass: "connector_schema d = Inr passed \<longleftrightarrow>
   (\<exists>allowed request outcome readback retry. get d ''allowed_request_keys'' = JArr allowed
      \<and> get d ''request'' = JObj request \<and> get d ''provider_outcome'' = JObj outcome
      \<and> get d ''target_readback'' = JObj readback \<and> get d ''retry'' = JObj retry
      \<and> clean_exchange allowed request outcome readback retry)"
proof -
  have "(\<exists>unknown effects. unknown_keys request allowed = Inr unknown
        \<and> in_set (get retry ''side_effect_count'') [JInt 0, JInt 1] = Inr effects
        \<and> connector_verdict unknown (int_value (get outcome ''http_status''))
             (connector_failures unknown outcome readback retry effects) = passed)
      \<longleftrightarrow> clean_exchange allowed request outcome readback retry" for allowed request outcome readback retry
    using unknown_keys_none [of request allowed]
    by (auto simp: connector_verdict_passed connector_failures_def clean_exchange_def split: option.splits if_splits)
  then show ?thesis
    by (auto simp: connector_schema_def bindE_eq_Inr split: json.splits)
qed

lemma scoped_counts_Inr: "scoped_counts xs = Inr counts \<Longrightarrow>
   set counts = {n. \<exists>s. JObj s \<in> set xs \<and> in_set (get s ''surface_type'') allowed_surfaces = Inr True
                     \<and> int_value (get s ''current_count'') = Some n}"
proof (induction xs arbitrary: counts)
  case (Cons x xs)
  show ?case
  proof (cases x)
    case (JObj s)
    with Cons.prems obtain b cs where b: "in_set (get s ''surface_type'') allowed_surfaces = Inr b"
      and cs: "scoped_counts xs = Inr cs"
      and c: "counts = (case (b, int_value (get s ''current_count'')) of (True, Some n) \<Rightarrow> n # cs | _ \<Rightarrow> cs)"
      by (auto simp: bindE_eq_Inr)
    from c have "set counts = set cs \<union> {n. b \<and> int_value (get s ''current_count'') = Some n}"
      by (auto split: bool.splits option.splits)
    with Cons.IH [OF cs] b show ?thesis by (auto simp: JObj)
  qed (use Cons in auto)
qed simp

lemma scoped_counts_ok: "isOk (scoped_counts xs) \<longleftrightarrow> (\<forall>s. JObj s \<in> set xs \<longrightarrow> unhashable (get s ''surface_type'') = None)"
  by (induction xs) (auto simp: isOk_iff bindE_eq_Inr in_set_def split: json.splits option.splits)

text \<open>The claimed count is that of its source, an inventory, and of every other inventory that counts.\<close>

definition supported_count :: "obj \<Rightarrow> json list \<Rightarrow> int \<Rightarrow> obj \<Rightarrow> bool" where
  "supported_count claim sources n source \<longleftrightarrow>
     (\<forall>s. JObj s \<in> set sources \<longrightarrow> unhashable (get s ''surface_type'') = None)
     \<and> in_set (get source ''surface_type'') allowed_surfaces = Inr True
     \<and> py_eq (get source ''current_count'') (get claim ''value'')
     \<and> (\<forall>s m. JObj s \<in> set sources \<longrightarrow> in_set (get s ''surface_type'') allowed_surfaces = Inr True
          \<longrightarrow> int_value (get s ''current_count'') = Some m \<longrightarrow> m = n)"

lemma scope_failures_Nil: "scope_failures claim source n in_scope counts = [] \<longleftrightarrow>
   in_scope \<and> py_eq (get source ''current_count'') (get claim ''value'') \<and> (\<forall>c \<in> set counts. c = n)"
  by (auto simp: scope_failures_def list_ex_iff)

lemma evidence_scope_body: "(\<exists>in_scope. in_set (get source ''surface_type'') allowed_surfaces = Inr in_scope
      \<and> (\<exists>counts. scoped_counts sources = Inr counts \<and> settle (scope_failures claim source n in_scope counts) = passed))
   \<longleftrightarrow> supported_count claim sources n source" (is "?l \<longleftrightarrow> ?r")
proof
  assume ?l
  then obtain counts where a: "in_set (get source ''surface_type'') allowed_surfaces = Inr True"
      "scoped_counts sources = Inr counts" "\<forall>c \<in> set counts. c = n"
      "py_eq (get source ''current_count'') (get claim ''value'')"
    by (auto simp: settle_passed scope_failures_Nil)
  from a(2) scoped_counts_ok [of sources] have "\<forall>s. JObj s \<in> set sources \<longrightarrow> unhashable (get s ''surface_type'') = None"
    by (simp add: isOk_iff)
  with a scoped_counts_Inr [OF a(2)] show ?r unfolding supported_count_def by blast
next
  assume r: ?r
  then obtain counts where c: "scoped_counts sources = Inr counts"
    using scoped_counts_ok [of sources] by (auto simp: supported_count_def isOk_iff)
  have "\<forall>c \<in> set counts. c = n" using r scoped_counts_Inr [OF c] unfolding supported_count_def by blast
  with r c show ?l by (auto simp: supported_count_def settle_passed scope_failures_Nil)
qed

lemma evidence_scope_pass: "evidence_scope d = Inr passed \<longleftrightarrow>
   (\<exists>claim sources n source. get d ''claim'' = JObj claim \<and> get d ''sources'' = JArr sources
      \<and> get claim ''attribute'' = JStr ''current_count'' \<and> int_value (get claim ''value'') = Some n
      \<and> find_source (get claim ''source_id'') sources = Some source
      \<and> supported_count claim sources n source)"
proof (cases "\<exists>claim sources n. get d ''claim'' = JObj claim \<and> get d ''sources'' = JArr sources \<and> sources \<noteq> []
      \<and> get claim ''attribute'' = JStr ''current_count'' \<and> int_value (get claim ''value'') = Some n")
    case True
    then obtain claim sources n where "get d ''claim'' = JObj claim" "get d ''sources'' = JArr sources" "sources \<noteq> []"
      "get claim ''attribute'' = JStr ''current_count''" "int_value (get claim ''value'') = Some n" by blast
    then show ?thesis
      by (cases "find_source (get claim ''source_id'') sources")
         (simp_all add: evidence_scope_def bindE_eq_Inr evidence_scope_body)
  next
    case False
    then show ?thesis
      by (auto simp: evidence_scope_def split: json.splits option.splits bool.splits)
  qed

section \<open>Properties\<close>

text \<open>C28.  Every case result is sound: status, hard pass and failed invariants agree, missing evidence is
  reported as \<open>UNKNOWN\<close>, a control counts as detected exactly when it passes, and a known-bad case only on
  a hard failure with complete evidence that shows the status and one of the target invariants of its
  family's frozen oracle.\<close>

theorem qa0_result_sound:
  assumes "score_case document = Inr r"
  shows "result_sound r \<and> (cr_variant r = ''KNOWN_BAD'' \<and> cr_detected r \<longrightarrow>
     (\<exists>targets. KNOWN_BAD_DETECTION_ORACLES (cr_family_id r) = Some (cr_terminal_status r, targets)
        \<and> set (cr_failed_invariants r) \<inter> set targets \<noteq> {}))"
proof -
  from assms obtain c where c: "validate_public_seed document = Inr c"
    and score: "score_input (ps_family_id c) (ps_input c)
      = Inr (cr_terminal_status r, cr_hard_invariant_pass r, cr_failed_invariants r)"
    and fields: "cr_variant r = ps_variant c" "cr_family_id r = ps_family_id c"
      "cr_evidence_complete r \<longleftrightarrow> ''evidence_complete'' \<notin> set (cr_failed_invariants r)"
      "cr_detected r = detection_oracle (ps_family_id c) (cr_variant r) (cr_terminal_status r) (cr_failed_invariants r)
         (cr_evidence_complete r)"
    by (auto simp: score_case_def bindE_eq_Inr Let_def)
  have "cr_variant r \<in> {''KNOWN_BAD'', ''CONTROL''}"
    using validated_seed_ok [OF c] by (simp add: fields seed_ok_def)
  with fields(4) show ?thesis
    using qa0.result_is_sound [OF score _ fields(3)]
    by (auto simp: fields(2) detection_oracle_def meets_def list_ex_iff split: if_splits option.splits)
qed

definition sample_seed :: public_seed where
  "sample_seed = \<lparr>ps_family_id = ''entity-attribute-binding'', ps_case_id = ''case-1'', ps_variant = ''KNOWN_BAD'',
     ps_capability_profile = ''grounding'',
     ps_provenance = [(''kind'', JStr ''ABSTRACT_PUBLIC_SEED_DIGEST''),
       (''seed_digest'', JStr (''sha256:'' @ replicate 64 CHR ''0'')),
       (''transformation'', JStr ''mechanism-preserving synthetic reconstruction'')],
     ps_input = [(''claims'', JArr [JObj [(''entity_id'', JStr ''a''), (''evidence'', JObj [(''entity_id'', JStr ''b'')])]])],
     ps_expected = [(''terminal_status'', JStr ''FAIL''), (''hard_invariant_pass'', JBool False), (''detected'', JBool True),
       (''failed_invariants'', JArr [JStr ''entity_attribute_evidence_binding''])],
     ps_limitations = []\<rparr>"

lemma sample_digest_public: "public_text (''sha256:'' @ replicate 64 CHR ''0'')"
  by (simp add: quick_eval public_eval eval_nat_numeral)

lemma sample_digest_checked: "check_provenance (ps_provenance sample_seed) ''<public-seed>'' = Inr ()"
  by code_simp

lemma sample_expected_checked: "check_expected (ps_expected sample_seed) ''<public-seed>'' = Inr ()"
  by code_simp

lemma sample_texts_normal:
  "normal_text (ps_family_id sample_seed) \<and> normal_text (ps_case_id sample_seed)
   \<and> normal_text (ps_capability_profile sample_seed)"
  by (simp add: sample_seed_def normal_text_def strip_def lstrip_by_def rstrip_by_def ascii)

lemma sample_texts_public: "\<forall>t \<in> set (scan_strings (JObj (seed_dict sample_seed))). public_text t"
  using sample_digest_public by (simp add: seed_dict_def sample_seed_def quick_eval public_eval del: append.simps)

lemma sample_seed_valid: "seed_ok sample_seed"
  using sample_digest_checked sample_expected_checked sample_texts_normal sample_texts_public
  unfolding seed_ok_def by (simp add: sample_seed_def)

text \<open>Samples of the other profiles differ from this one in their family, variant and input.\<close>

lemma seed_ok_update:
  assumes "seed_ok s" and "normal_text fam" "public_text fam" "v \<in> {''KNOWN_BAD'', ''CONTROL''}" "public_text v"
    and "\<forall>t \<in> set (scan_strings (JObj input_value)). public_text t"
  shows "seed_ok (s\<lparr>ps_family_id := fam, ps_variant := v, ps_input := input_value\<rparr>)"
  using assms by (auto simp: seed_ok_def seed_dict_def)

lemma sample_words: "public_text ''KNOWN_BAD'' \<and> public_text ''CONTROL''"
  by (simp add: quick_eval public_eval)

lemma sample_seed_verdict:
  "score_input (ps_family_id sample_seed) (ps_input sample_seed)
   = Inr (''FAIL'', False, [''entity_attribute_evidence_binding''])"
  by code_simp

theorem qa0_result_sound_witness:
  "\<exists>r. score_case (JObj (seed_dict sample_seed)) = Inr r \<and> cr_detected r \<and> result_sound r"
proof -
  have valid: "validate_public_seed (JObj (seed_dict sample_seed)) = Inr sample_seed"
    using validate_seed_dict [OF sample_seed_valid] by (simp add: public_seed.defs)
  then obtain r where r: "score_case (JObj (seed_dict sample_seed)) = Inr r"
    by (simp add: score_case_def sample_seed_verdict Let_def)
  have "cr_detected r"
    using r valid by (simp add: score_case_def sample_seed_verdict Let_def)
      (auto simp: sample_seed_def detection_oracle_def KNOWN_BAD_DETECTION_ORACLES_def meets_def)
  with r qa0_result_sound [OF r] show ?thesis by blast
qed

text \<open>A validated seed is its own normal form: validating the dictionary that the code keeps of it
  gives the same seed, so scoring it again gives the same result and the same fixture fingerprint; and
  no string of it, at any depth, names a private locator or an exact error id.\<close>

theorem qa0_normal_form:
  assumes "score_case document = Inr r"
  shows "\<exists>c. validate_public_seed document = Inr c \<and> validate_public_seed (JObj (seed_dict c)) = Inr c
     \<and> score_case (JObj (seed_dict c)) = Inr r \<and> cr_fixture_fingerprint r = sha256_json (JObj (seed_dict c))
     \<and> (\<forall>t \<in> set (scan_strings (JObj (seed_dict c))). \<not> looks_like_private_locator t \<and> \<not> exposes_error_id t)"
proof -
  from assms obtain c where c: "validate_public_seed document = Inr c"
    and fp: "cr_fixture_fingerprint r = sha256_json (JObj (seed_dict c))"
    by (auto simp: score_case_def bindE_eq_Inr Let_def)
  from validated_seed_ok [OF c] have ok: "seed_ok c" .
  then have again: "validate_public_seed (JObj (seed_dict c)) = Inr c"
    by (simp add: validate_seed_dict public_seed.defs)
  then have "score_case (JObj (seed_dict c)) = score_case document" by (simp only: score_case_def c)
  with ok again c fp assms show ?thesis by (auto simp: seed_ok_def public_text_def)
qed

theorem qa0_normal_form_witness:
  "\<exists>r. score_case (JObj (seed_dict sample_seed)) = Inr r \<and>
     cr_fixture_fingerprint r = sha256_json (JObj (seed_dict sample_seed))"
proof -
  have valid: "validate_public_seed (JObj (seed_dict sample_seed)) = Inr sample_seed"
    using validate_seed_dict [OF sample_seed_valid] by (simp add: public_seed.defs)
  then obtain r where r: "score_case (JObj (seed_dict sample_seed)) = Inr r"
    by (simp add: score_case_def sample_seed_verdict Let_def)
  from qa0_normal_form [OF r] r valid show ?thesis by auto
qed

text \<open>C29.  The four scorers pass exactly the inputs they should: every claim bound to its evidence; an
  exchange with only allowed keys, no rejection, at most one side effect and a readback before a retry; a
  full audit trail with readable, complete events, distinct ids and strictly increasing ordinals; a
  count that its source and every other inventory confirm.\<close>

theorem qa0_pass_iff:
  "(entity_attribute_binding d = Inr (''PASS'', True, []) \<longleftrightarrow>
      (\<exists>claims. get d ''claims'' = JArr claims \<and> claims \<noteq> [] \<and> list_all bound_claim claims))
   \<and> (connector_schema d = Inr (''PASS'', True, []) \<longleftrightarrow>
      (\<exists>allowed request outcome readback retry. get d ''allowed_request_keys'' = JArr allowed
        \<and> get d ''request'' = JObj request \<and> get d ''provider_outcome'' = JObj outcome
        \<and> get d ''target_readback'' = JObj readback \<and> get d ''retry'' = JObj retry
        \<and> clean_exchange allowed request outcome readback retry))
   \<and> (integrity_completeness d = Inr (''PASS'', True, []) \<longleftrightarrow>
      get d ''audit_scope'' = JStr ''GLOBAL'' \<and> get d ''checked_scope'' = JStr ''FULL''
      \<and> (\<exists>events. get d ''events'' = JArr events \<and> complete_trail events))
   \<and> (evidence_scope d = Inr (''PASS'', True, []) \<longleftrightarrow>
      (\<exists>claim sources n source. get d ''claim'' = JObj claim \<and> get d ''sources'' = JArr sources
        \<and> get claim ''attribute'' = JStr ''current_count'' \<and> int_value (get claim ''value'') = Some n
        \<and> find_source (get claim ''source_id'') sources = Some source \<and> supported_count claim sources n source))"
  unfolding passed_def [symmetric] list_all_iff
  by (intro conjI) (rule entity_pass connector_pass integrity_pass evidence_scope_pass)+

text \<open>The QA0 gate says \<open>PASS\<close> exactly for eight results, four known-bad cases all detected and four
  controls all passing, each with a traceable provenance and complete evidence.\<close>

theorem qa0_gate_iff:
  "get (build_qa0_receipt rows) ''gate'' = JStr ''PASS'' \<longleftrightarrow>
     length (variant_rows ''KNOWN_BAD'' rows) = 4 \<and> length (variant_rows ''CONTROL'' rows) = 4 \<and> length rows = 8
     \<and> list_all (\<lambda>r. (if cr_variant r = ''KNOWN_BAD'' then cr_detected r else cr_terminal_status r = ''PASS'')
          \<and> cr_provenance_traceable r \<and> cr_evidence_complete r) rows"
proof (cases "length rows = 8")
  case True
  let ?rows = "sort_key cr_case_id rows"
  have len: "length ?rows \<le> 2 ^ 53" using True by simp
  have "get (build_qa0_receipt rows) ''gate'' = JStr ''PASS'' \<longleftrightarrow>
      (\<forall>(k, v) \<in> set QA0_HARD_GATE_CRITERIA. py_eq (get (qa0_receipt_body ?rows) k) v)"
    unfolding build_qa0_receipt_def finish_receipt_get json.inject
    by (rule gate_status_PASS) (auto simp: QA0_HARD_GATE_CRITERIA_def)
  also have "\<dots> \<longleftrightarrow> length (variant_rows ''KNOWN_BAD'' rows) = 4 \<and> length (variant_rows ''CONTROL'' rows) = 4
      \<and> py_eq (known_bad_rate ?rows) (JFloat (Fin 1)) \<and> py_eq (control_reject_rate ?rows) (JFloat (Fin 0))
      \<and> py_eq (rate (length (filter cr_provenance_traceable ?rows)) (length ?rows)) (JFloat (Fin 1))
      \<and> py_eq (rate (length (filter cr_evidence_complete ?rows)) (length ?rows)) (JFloat (Fin 1))"
    using True by (simp add: QA0_HARD_GATE_CRITERIA_def qa0_receipt_body_def get_def del: py_eq.simps)
  also have "\<dots> \<longleftrightarrow> length (variant_rows ''KNOWN_BAD'' rows) = 4 \<and> length (variant_rows ''CONTROL'' rows) = 4
      \<and> (\<forall>r \<in> set rows. cr_variant r = ''KNOWN_BAD'' \<longrightarrow> cr_detected r)
      \<and> (\<forall>r \<in> set rows. cr_variant r = ''CONTROL'' \<longrightarrow> cr_terminal_status r = ''PASS'')
      \<and> (\<forall>r \<in> set rows. cr_provenance_traceable r) \<and> (\<forall>r \<in> set rows. cr_evidence_complete r)"
    unfolding known_bad_rate_1 [OF len] control_reject_rate_0 [OF len] rate_all [OF len]
    using True by (auto simp: variant_rows_def filter_sort)
  also have "\<dots> \<longleftrightarrow> length (variant_rows ''KNOWN_BAD'' rows) = 4 \<and> length (variant_rows ''CONTROL'' rows) = 4
      \<and> list_all (\<lambda>r. (if cr_variant r = ''KNOWN_BAD'' then cr_detected r else cr_terminal_status r = ''PASS'')
           \<and> cr_provenance_traceable r \<and> cr_evidence_complete r) rows"
    (is "?kb \<and> ?c \<and> ?rest \<longleftrightarrow> ?kb \<and> ?c \<and> ?rest'")
  proof -
    have "?rest \<longleftrightarrow> ?rest'" if "?kb \<and> ?c"
    proof -
      from that True variants_cover [of rows]
      have "\<forall>r \<in> set rows. cr_variant r = ''KNOWN_BAD'' \<or> cr_variant r = ''CONTROL''" by simp
      then have "(\<forall>r \<in> set rows. (cr_variant r = ''KNOWN_BAD'' \<longrightarrow> cr_detected r)
            \<and> (cr_variant r = ''CONTROL'' \<longrightarrow> cr_terminal_status r = ''PASS'')
            \<and> cr_provenance_traceable r \<and> cr_evidence_complete r) \<longleftrightarrow> ?rest'"
        unfolding list_all_iff by (intro ball_cong refl) auto
      then show ?thesis by blast
    qed
    then show ?thesis by blast
  qed
  finally show ?thesis using True by simp
next
  case False
  have "py_eq (get (qa0_receipt_body (sort_key cr_case_id rows)) ''case_count'') (JInt 8) \<longleftrightarrow> length rows = 8"
    by (simp add: qa0_receipt_body_def get_def del: py_eq.simps)
  with False show ?thesis
    unfolding build_qa0_receipt_def finish_receipt_get json.inject
    by (subst gate_status_PASS) (auto simp: QA0_HARD_GATE_CRITERIA_def simp del: py_eq.simps)
qed


end
