(* ===== verification/B2Pairing.thy ===== *)
theory B2Pairing
  imports B2Qa0 "HOL-Library.Multiset"
begin

text \<open>
  What the receipts of the QA1 and QA2 profiles share: rows grouped by family, and the
  fixture sets that are exactly one known-bad case and one control per family.
\<close>

section \<open>Composition of the rows\<close>

text \<open>\<open>case["provenance"].get("seed_digest", "")\<close>, a string in every validated case.\<close>

definition seed_digest_of :: "'a public_seed_scheme \<Rightarrow> string" where
  "seed_digest_of c = (case get (ps_provenance c) ''seed_digest'' of JStr s \<Rightarrow> s | _ \<Rightarrow> [])"

definition family_rows :: "string \<Rightarrow> 'a case_result_scheme list \<Rightarrow> 'a case_result_scheme list" where
  "family_rows f rows = filter (\<lambda>r. cr_family_id r = f) rows"

definition families_of :: "'a case_result_scheme list \<Rightarrow> string list" where
  "families_of rows = uniq (map cr_family_id rows)"

definition family_variants :: "string \<Rightarrow> 'a case_result_scheme list \<Rightarrow> string list" where
  "family_variants f rows = sort (map cr_variant (family_rows f rows))"

text \<open>\<open>case_count == 2 and variants == ["CONTROL", "KNOWN_BAD"]\<close>\<close>

definition family_paired :: "'a case_result_scheme list \<Rightarrow> string \<Rightarrow> bool" where
  "family_paired rows f \<longleftrightarrow> length (family_rows f rows) = 2 \<and> family_variants f rows = [''CONTROL'', ''KNOWN_BAD'']"

definition exact_family_pairing :: "string list \<Rightarrow> 'a case_result_scheme list \<Rightarrow> bool" where
  "exact_family_pairing expected_families rows \<longleftrightarrow>
     families_of rows = expected_families \<and> list_all (family_paired rows) (families_of rows)"

section \<open>Paired fixture sets\<close>

definition paired :: "string list \<Rightarrow> 'a case_result_scheme list \<Rightarrow> bool" where
  "paired fs rows \<longleftrightarrow> cr_family_id ` set rows = set fs
     \<and> (\<forall>f \<in> set fs. mset (map cr_variant (family_rows f rows)) = {#''CONTROL'', ''KNOWN_BAD''#})"

lemma family_paired_iff:
  "family_paired rows f \<longleftrightarrow> mset (map cr_variant (family_rows f rows)) = {#''CONTROL'', ''KNOWN_BAD''#}"
proof -
  have "sort vs = [''CONTROL'', ''KNOWN_BAD''] \<longleftrightarrow> mset vs = {#''CONTROL'', ''KNOWN_BAD''#}" for vs :: "string list"
  proof
    assume "sort vs = [''CONTROL'', ''KNOWN_BAD'']"
    then have "mset (sort vs) = {#''CONTROL'', ''KNOWN_BAD''#}" by simp
    then show "mset vs = {#''CONTROL'', ''KNOWN_BAD''#}" by simp
  next
    assume "mset vs = {#''CONTROL'', ''KNOWN_BAD''#}"
    then have "mset [''CONTROL'', ''KNOWN_BAD''] = mset vs" by simp
    moreover have "sorted [''CONTROL'', ''KNOWN_BAD'']" by code_simp
    ultimately show "sort vs = [''CONTROL'', ''KNOWN_BAD'']" by (rule properties_for_sort)
  qed
  moreover have "length (family_rows f rows) = 2" if "mset (map cr_variant (family_rows f rows)) = {#''CONTROL'', ''KNOWN_BAD''#}"
    using arg_cong [OF that, of size] by simp
  ultimately show ?thesis unfolding family_paired_def family_variants_def by blast
qed

lemma paired_families:
  assumes "distinct fs"
  shows "(families_of rows = sort fs \<and> (\<forall>f \<in> set (families_of rows). family_paired rows f)) \<longleftrightarrow> paired fs rows"
proof -
  have "families_of rows = sort fs \<longleftrightarrow> cr_family_id ` set rows = set fs"
  proof
    assume "families_of rows = sort fs"
    then have "set (families_of rows) = set fs" by simp
    then show "cr_family_id ` set rows = set fs" by (simp add: families_of_def)
  next
    assume "cr_family_id ` set rows = set fs"
    then have "set (families_of rows) = set (sort fs)" by (simp add: families_of_def)
    then show "families_of rows = sort fs"
      by (rule sorted_distinct_set_unique [rotated 4]) (simp_all add: families_of_def assms)
  qed
  moreover have "set (families_of rows) = cr_family_id ` set rows" by (simp add: families_of_def)
  ultimately show ?thesis unfolding paired_def family_paired_iff by metis
qed

lemma length_by_family:
  "distinct fs \<Longrightarrow> cr_family_id ` set rows \<subseteq> set fs \<Longrightarrow>
   length (filter P rows) = sum_list (map (\<lambda>f. length (filter P (family_rows f rows))) fs)"
proof (induction rows)
  case (Cons r rows)
  then have mem: "cr_family_id r \<in> set fs" and ih: "length (filter P rows) = sum_list (map (\<lambda>f. length (filter P (family_rows f rows))) fs)"
    by auto
  have "sum_list (map (\<lambda>f. length (filter P (family_rows f (r # rows)))) fs)
      = sum_list (map (\<lambda>f. (if f = cr_family_id r \<and> P r then 1 else 0) + length (filter P (family_rows f rows))) fs)"
    by (intro arg_cong [where f = sum_list] map_cong) (auto simp: family_rows_def)
  also have "\<dots> = sum_list (map (\<lambda>f. if f = cr_family_id r \<and> P r then 1 else 0) fs)
      + sum_list (map (\<lambda>f. length (filter P (family_rows f rows))) fs)"
    by (rule sum_list_addf)
  also have "sum_list (map (\<lambda>f. if f = cr_family_id r \<and> P r then 1 else 0) fs) = (if P r then 1 else (0::nat))"
    using mem Cons.prems(1) by (simp add: sum_list_distinct_conv_sum_set)
  finally show ?case using ih by simp
qed (simp add: family_rows_def)

lemma paired_counts:
  assumes "distinct fs" and "paired fs rows"
  shows "length rows = 2 * length fs" "length (variant_rows ''KNOWN_BAD'' rows) = length fs"
    "length (variant_rows ''CONTROL'' rows) = length fs"
proof -
  have sub: "cr_family_id ` set rows \<subseteq> set fs" using assms(2) by (simp add: paired_def)
  have each: "length (filter (\<lambda>r. cr_variant r = v) (family_rows f rows)) = count {#''CONTROL'', ''KNOWN_BAD''#} v" if "f \<in> set fs" for f v
  proof -
    have "mset (map cr_variant (family_rows f rows)) = {#''CONTROL'', ''KNOWN_BAD''#}" using that assms(2) by (simp add: paired_def)
    then have "count (mset (map cr_variant (family_rows f rows))) v = count {#''CONTROL'', ''KNOWN_BAD''#} v" by (simp only:)
    moreover have "count (mset (map cr_variant xs)) v = length (filter (\<lambda>r. cr_variant r = v) xs)" for xs :: "'a case_result_scheme list"
      by (induction xs) auto
    ultimately show ?thesis by simp
  qed
  have all: "length (family_rows f rows) = 2" if "f \<in> set fs" for f
  proof -
    have "size (mset (map cr_variant (family_rows f rows))) = 2" using that assms(2) by (simp add: paired_def)
    then show ?thesis by simp
  qed
  have "length rows = length (filter (\<lambda>_. True) rows)" by simp
  also have "\<dots> = sum_list (map (\<lambda>f. length (filter (\<lambda>_. True) (family_rows f rows))) fs)"
    by (rule length_by_family [OF assms(1) sub])
  also have "\<dots> = sum_list (map (\<lambda>_. 2) fs)"
    using all by (intro arg_cong [where f = sum_list] map_cong) simp_all
  finally show "length rows = 2 * length fs" by (simp add: sum_list_triv)
  have "length (variant_rows v rows) = length fs * count {#''CONTROL'', ''KNOWN_BAD''#} v" for v
  proof -
    have "length (variant_rows v rows) = sum_list (map (\<lambda>f. length (filter (\<lambda>r. cr_variant r = v) (family_rows f rows))) fs)"
      unfolding variant_rows_def by (rule length_by_family [OF assms(1) sub])
    also have "\<dots> = sum_list (map (\<lambda>_. count {#''CONTROL'', ''KNOWN_BAD''#} v) fs)"
      using each by (intro arg_cong [where f = sum_list] map_cong) simp_all
    finally show ?thesis by (simp only: sum_list_triv of_nat_id)
  qed
  then show "length (variant_rows ''KNOWN_BAD'' rows) = length fs" "length (variant_rows ''CONTROL'' rows) = length fs"
    by simp_all
qed

lemma paired_sort [simp]: "paired fs (sort_key k rows) \<longleftrightarrow> paired fs rows"
proof -
  have "mset (map cr_variant (family_rows f (sort_key k rows))) = mset (map cr_variant (family_rows f rows))" for f
    by (simp add: family_rows_def filter_sort)
  then show ?thesis by (simp add: paired_def)
qed

section \<open>Comparing summary fields\<close>

lemma jstrs_eq [simp]: "py_eq (jstrs xs) (jstrs ys) \<longleftrightarrow> xs = ys"
proof -
  have "py_eq_list (map JStr xs) (map JStr ys) \<longleftrightarrow> xs = ys"
    by (induction xs arbitrary: ys) (auto split: list.splits)
  then show ?thesis by (simp add: jstrs_def)
qed

lemma JBool_eq [simp]: "py_eq (JBool a) (JBool b) \<longleftrightarrow> a = b"
  by (simp add: num_eq_def)

lemma distinct_uniq: "length (uniq xs) = length xs \<longleftrightarrow> distinct xs"
  by (simp add: uniq_def length_remdups_card_conv card_distinct distinct_card) (metis card_distinct distinct_card)

lemma distinct_map_sort_key [simp]: "distinct (map g (sort_key k xs)) \<longleftrightarrow> distinct (map g xs)"
proof -
  have "mset (map g (sort_key k xs)) = mset (map g xs)" by simp
  then show ?thesis by (rule mset_eq_imp_distinct_iff)
qed

section \<open>Rows that pass a gate\<close>

text \<open>The share of the rows whose recorded digest is the abstract seed digest of their family.\<close>

definition digest_match_rate :: "('r case_result_scheme \<Rightarrow> string) \<Rightarrow> 'r case_result_scheme list \<Rightarrow> json" where
  "digest_match_rate digest rows =
     rate (length (filter (\<lambda>r. digest r = abstract_seed_digest (cr_family_id r)) rows)) (length rows)"

definition rows_fine :: "('r case_result_scheme \<Rightarrow> string) \<Rightarrow> 'r case_result_scheme list \<Rightarrow> bool" where
  "rows_fine digest rows \<longleftrightarrow> list_all (\<lambda>r.
     (if cr_variant r = ''KNOWN_BAD'' then cr_detected r else cr_terminal_status r = ''PASS'')
     \<and> cr_provenance_traceable r \<and> digest r = abstract_seed_digest (cr_family_id r)
     \<and> cr_evidence_complete r) rows"

text \<open>On rows of the two variants, the five rates of a receipt are right exactly when every row is fine.\<close>

lemma rows_fine_rates:
  assumes "length rows \<le> 2 ^ 53" and "length (variant_rows ''KNOWN_BAD'' rows) = n" "length (variant_rows ''CONTROL'' rows) = n"
    and "length rows = 2 * n" and "n \<noteq> 0"
  shows "py_eq (known_bad_rate rows) (JFloat (Fin 1)) \<and> py_eq (control_reject_rate rows) (JFloat (Fin 0))
      \<and> py_eq (rate (length (filter cr_provenance_traceable rows)) (length rows)) (JFloat (Fin 1))
      \<and> py_eq (digest_match_rate digest rows) (JFloat (Fin 1))
      \<and> py_eq (rate (length (filter cr_evidence_complete rows)) (length rows)) (JFloat (Fin 1))
    \<longleftrightarrow> rows_fine digest rows"
proof -
  have cover: "\<forall>r \<in> set rows. cr_variant r = ''KNOWN_BAD'' \<or> cr_variant r = ''CONTROL''"
    using variants_cover [of rows] assms by simp
  have ne: "variant_rows ''KNOWN_BAD'' rows \<noteq> []" "variant_rows ''CONTROL'' rows \<noteq> []" "rows \<noteq> []"
    using assms by auto
  have fine: "rows_fine digest rows \<longleftrightarrow> (\<forall>r \<in> set rows. (cr_variant r = ''KNOWN_BAD'' \<longrightarrow> cr_detected r)
      \<and> (cr_variant r = ''CONTROL'' \<longrightarrow> cr_terminal_status r = ''PASS'') \<and> cr_provenance_traceable r
      \<and> digest r = abstract_seed_digest (cr_family_id r) \<and> cr_evidence_complete r)"
    unfolding rows_fine_def list_all_iff using cover by (intro ball_cong refl) auto
  show ?thesis
    unfolding known_bad_rate_1 [OF assms(1)] control_reject_rate_0 [OF assms(1)] digest_match_rate_def rate_all [OF assms(1)] fine
    using ne by blast
qed

text \<open>
  The row criteria of a profile's gate, all read off the sorted rows, hold exactly for
  the paired fixture set of its three families with distinct case ids and fine rows.
\<close>

lemma paired_criteria:
  fixes rows :: "'a case_result_scheme list"
  defines "sorted_rows \<equiv> sort_key cr_case_id rows"
  assumes fs: "distinct fs" "length fs = 3"
  shows "length rows = 6 \<and> length (variant_rows ''KNOWN_BAD'' rows) = 3 \<and> length (variant_rows ''CONTROL'' rows) = 3
      \<and> families_of sorted_rows = sort fs \<and> length (families_of sorted_rows) = 3
      \<and> length (uniq (map cr_case_id sorted_rows)) = 6 \<and> exact_family_pairing (sort fs) sorted_rows
      \<and> py_eq (known_bad_rate sorted_rows) (JFloat (Fin 1)) \<and> py_eq (control_reject_rate sorted_rows) (JFloat (Fin 0))
      \<and> py_eq (rate (length (filter cr_provenance_traceable sorted_rows)) (length sorted_rows)) (JFloat (Fin 1))
      \<and> py_eq (digest_match_rate digest sorted_rows) (JFloat (Fin 1))
      \<and> py_eq (rate (length (filter cr_evidence_complete sorted_rows)) (length sorted_rows)) (JFloat (Fin 1))
    \<longleftrightarrow> paired fs rows \<and> distinct (map cr_case_id rows) \<and> rows_fine digest rows" (is "?l \<longleftrightarrow> ?r")
proof -
  note [simp] = sorted_rows_def
  have "?l \<longleftrightarrow> length rows = 6 \<and> paired fs rows \<and> distinct (map cr_case_id rows)
      \<and> length (variant_rows ''KNOWN_BAD'' rows) = 3 \<and> length (variant_rows ''CONTROL'' rows) = 3 \<and> rows_fine digest rows"
  proof (cases "length rows = 6 \<and> length (variant_rows ''KNOWN_BAD'' rows) = 3 \<and> length (variant_rows ''CONTROL'' rows) = 3")
    case True
    then have len: "length sorted_rows \<le> 2 ^ 53" by simp
    have pair: "families_of sorted_rows = sort fs \<and> exact_family_pairing (sort fs) sorted_rows \<longleftrightarrow> paired fs rows"
      using paired_families [of fs sorted_rows] fs by (auto simp: exact_family_pairing_def list_all_iff)
    have ids: "length (uniq (map cr_case_id sorted_rows)) = 6 \<longleftrightarrow> distinct (map cr_case_id rows)"
      using distinct_uniq [of "map cr_case_id sorted_rows"] True by simp
    have three: "length (families_of sorted_rows) = 3" if "families_of sorted_rows = sort fs" using that fs by simp
    have "rows_fine digest sorted_rows \<longleftrightarrow> rows_fine digest rows"
      by (simp add: rows_fine_def list_all_iff)
    with rows_fine_rates [OF len, of 3 digest] True pair ids three show ?thesis by auto
  qed auto
  also have "\<dots> \<longleftrightarrow> ?r"
    using paired_counts [of fs rows] fs by auto
  finally show ?thesis .
qed

end
