(* ===== verification/B2Qa1.thy ===== *)
theory B2Qa1
  imports B2Pairing
begin

text \<open>
  \<open>src/b2/qa1.py\<close>: the grounding and tool/agent profiles.  Each profile has three families;
  an input is scored only when its required paths are present, each family has an oracle
  of one status and one target invariant, and the gate of a profile asks for exactly one
  known-bad case and one control per family with the family's own seed digest.
\<close>

section \<open>Profiles\<close>

definition PROFILE_FAMILIES :: "(string \<times> string list) list" where
  "PROFILE_FAMILIES =
     [(''GROUNDING'', [''entity-attribute-binding'', ''inventory-evidence-scope'', ''source-modality'']),
      (''TOOL_AGENT'', [''connector-schema-retry'', ''capability-routing'', ''destructive-write-recovery''])]"

definition QA1_DETECTION_ORACLES :: "(string \<times> string \<times> string) list" where
  "QA1_DETECTION_ORACLES =
     [(''entity-attribute-binding'', ''FAIL'', ''entity_attribute_evidence_binding''),
      (''inventory-evidence-scope'', ''FAIL'', ''current_inventory_evidence_scope''),
      (''source-modality'', ''FAIL'', ''provenance_level_not_upgraded''),
      (''connector-schema-retry'', ''ERROR'', ''request_schema_valid''),
      (''capability-routing'', ''FAIL'', ''discovery_before_unavailability_claim''),
      (''destructive-write-recovery'', ''FAIL'', ''destructive_write_guard'')]"

definition write_guards :: "string list" where
  "write_guards = [''live_target_bound'', ''revision_guard'', ''pilot_write'', ''neighbor_readback'', ''recovery_evidence'']"

definition REQUIRED_INPUT_PATHS :: "(string \<times> string list list) list" where
  "REQUIRED_INPUT_PATHS =
     [(''entity-attribute-binding'',
        [[''claim'', ''entity_id''], [''claim'', ''scope_id''], [''claim'', ''attribute''], [''claim'', ''value''],
         [''evidence'', ''entity_id''], [''evidence'', ''scope_id''], [''evidence'', ''attribute''], [''evidence'', ''value'']]),
      (''inventory-evidence-scope'', [[''claim'', ''attribute''], [''claim'', ''value''], [''source'', ''surface_type'']]),
      (''source-modality'',
        [[''claim'', ''value''], [''claim'', ''provenance_level''], [''source'', ''value''], [''source'', ''provenance_level'']]),
      (''connector-schema-retry'',
        [[''allowed_keys''], [''request''], [''outcome'', ''status''], [''outcome'', ''committed''],
         [''readback'', ''performed''], [''readback'', ''state_unchanged''], [''retry'', ''performed''], [''retry'', ''side_effect_count'']]),
      (''capability-routing'',
        [[''registry_checked''], [''matching_action_attempted''], [''claim''], [''permission_state''], [''capability_state'']]),
      (''destructive-write-recovery'', map (\<lambda>k. [k]) (write_guards @ [''side_effect_count'']))]"

record qa1_result = case_result +
  cr_provenance_digest :: string

section \<open>Evidence\<close>

fun has_path :: "json \<Rightarrow> string list \<Rightarrow> bool" where
  "has_path current [] \<longleftrightarrow> True"
| "has_path current (k # ks) \<longleftrightarrow> (case current of
      JObj d \<Rightarrow> get d k \<noteq> JNull \<and> has_path (get d k) ks
    | _ \<Rightarrow> False)"

definition sub_obj :: "obj \<Rightarrow> string \<Rightarrow> obj" where
  "sub_obj d k = (case get d k of JObj e \<Rightarrow> e | _ \<Rightarrow> [])"

definition qa1_evidence_complete :: "obj \<Rightarrow> string \<Rightarrow> bool result" where
  "qa1_evidence_complete d family = (case map_of REQUIRED_INPUT_PATHS family of
      None \<Rightarrow> Inl (KeyError (py_repr family))
    | Some paths \<Rightarrow>
        if \<not> list_all (has_path (JObj d)) paths then Inr False
        else if family = ''inventory-evidence-scope''
        then bindE (in_set (get (sub_obj d ''source'') ''surface_type'') allowed_surfaces) (\<lambda>inventory.
             Inr (inventory \<longrightarrow> has_path (JObj d) [''source'', ''current_count'']))
        else if family = ''connector-schema-retry'' \<and> get (sub_obj d ''retry'') ''performed'' = JBool True
        then Inr (has_path (JObj d) [''retry'', ''after_readback''])
        else Inr True)"

definition validate_profile_case :: "json \<Rightarrow> string \<Rightarrow> public_seed result" where
  "validate_profile_case document profile =
     bindE (validate_public_seed document) (\<lambda>c.
     case map_of PROFILE_FAMILIES profile of
       None \<Rightarrow> Inl (ValueError (''unsupported QA1 profile: '' @ profile))
     | Some families \<Rightarrow>
         if ps_family_id c \<in> set families then Inr c
         else Inl (ValueError (''family '' @ ps_family_id c @ '' is not in profile '' @ profile)))"

section \<open>Grounding\<close>

definition provenance_levels :: "(string \<times> int) list" where
  "provenance_levels = [(''USER_REPORTED'', 1), (''FIRST_PARTY'', 2), (''EXECUTION_SURFACE'', 3)]"

definition level_of :: "json \<Rightarrow> int option result" where
  "level_of v = bindE (in_set v (map (JStr \<circ> fst) provenance_levels)) (\<lambda>known.
     Inr (case v of JStr s \<Rightarrow> if known then map_of provenance_levels s else None | _ \<Rightarrow> None))"

definition binding_failures :: "obj \<Rightarrow> obj \<Rightarrow> string list" where
  "binding_failures claim evidence =
     (if list_ex (\<lambda>k. \<not> py_eq (get claim k) (get evidence k)) [''entity_id'', ''scope_id'', ''attribute'', ''value'']
      then [''entity_attribute_evidence_binding''] else [])"

definition inventory_failures :: "obj \<Rightarrow> obj \<Rightarrow> string list result" where
  "inventory_failures claim source =
     bindE (in_set (get source ''surface_type'') allowed_surfaces) (\<lambda>in_scope.
     Inr ((if \<not> in_scope then [''current_inventory_evidence_scope''] else [])
          @ (if \<not> py_eq (get source ''current_count'') (get claim ''value'') then [''claim_source_value_consistency''] else [])))"

text \<open>\<open>None\<close> when a level is unknown: the case is then not evaluable.\<close>

definition modality_failures :: "obj \<Rightarrow> obj \<Rightarrow> string list option result" where
  "modality_failures claim source =
     bindE (level_of (get claim ''provenance_level'')) (\<lambda>claimed.
     case claimed of
       None \<Rightarrow> Inr None
     | Some c \<Rightarrow>
         bindE (level_of (get source ''provenance_level'')) (\<lambda>sourced.
         Inr (case sourced of
            None \<Rightarrow> None
          | Some s \<Rightarrow> Some
              ((if s < c then [''provenance_level_not_upgraded''] else [])
               @ (if \<not> py_eq (get claim ''value'') (get source ''value'') then [''claim_source_value_consistency''] else [])))))"

definition grounding :: "obj \<Rightarrow> string \<Rightarrow> verdict result" where
  "grounding d family =
     bindE (qa1_evidence_complete d family) (\<lambda>complete.
     if \<not> complete then Inr incomplete
     else if family = ''entity-attribute-binding'' then
       (case (get d ''claim'', get d ''evidence'') of
          (JObj claim, JObj evidence) \<Rightarrow> Inr (settle (binding_failures claim evidence))
        | _ \<Rightarrow> Inr incomplete)
     else if family = ''inventory-evidence-scope'' then
       (case (get d ''claim'', get d ''source'') of
          (JObj claim, JObj source) \<Rightarrow> bindE (inventory_failures claim source) (\<lambda>failed. Inr (settle failed))
        | _ \<Rightarrow> Inr incomplete)
     else
       (case (get d ''claim'', get d ''source'') of
          (JObj claim, JObj source) \<Rightarrow>
            bindE (modality_failures claim source) (\<lambda>failed.
            Inr (case failed of None \<Rightarrow> incomplete | Some fs \<Rightarrow> settle fs))
        | _ \<Rightarrow> Inr incomplete))"

section \<open>Tools and agents\<close>

definition retry_failures :: "string list \<Rightarrow> obj \<Rightarrow> obj \<Rightarrow> obj \<Rightarrow> bool \<Rightarrow> string list" where
  "retry_failures bad_keys outcome readback retry allowed_effects =
     (if bad_keys \<noteq> [] then [''request_schema_valid''] else [])
     @ (if get outcome ''committed'' = JBool False \<and> get readback ''state_unchanged'' \<noteq> JBool True
        then [''rejected_mutation_state_unchanged''] else [])
     @ (if truthy (get retry ''performed'') \<and> (get readback ''performed'' \<noteq> JBool True \<or> get retry ''after_readback'' \<noteq> JBool True)
        then [''retry_requires_readback''] else [])
     @ (if \<not> allowed_effects then [''no_duplicate_side_effects''] else [])"

definition retry_verdict :: "string list \<Rightarrow> obj \<Rightarrow> string list \<Rightarrow> verdict" where
  "retry_verdict bad_keys outcome failed =
     (if bad_keys \<noteq> [] \<or> get outcome ''status'' = JStr ''REJECTED''
      then (''ERROR'', False, if uniq failed \<noteq> [] then uniq failed else [''provider_or_schema_error''])
      else settle failed)"

definition routing_failures :: "obj \<Rightarrow> string list" where
  "routing_failures d =
     (if get d ''claim'' = JStr ''UNAVAILABLE'' \<and> \<not> (truthy (get d ''registry_checked'') \<and> truthy (get d ''matching_action_attempted''))
      then [''discovery_before_unavailability_claim''] else [])
     @ (if \<not> py_eq (get d ''claim'') (get d ''capability_state'') then [''permission_capability_separation''] else [])"

definition write_failures :: "obj \<Rightarrow> string list" where
  "write_failures d =
     (if \<not> list_all (\<lambda>k. get d k = JBool True) write_guards then [''destructive_write_guard''] else [])
     @ (if \<not> py_eq (get d ''side_effect_count'') (JInt 1) then [''no_duplicate_side_effects''] else [])"

definition tool_agent :: "obj \<Rightarrow> string \<Rightarrow> verdict result" where
  "tool_agent d family =
     bindE (qa1_evidence_complete d family) (\<lambda>complete.
     if \<not> complete then Inr incomplete
     else if family = ''connector-schema-retry'' then
       (case (get d ''allowed_keys'', get d ''request'', get d ''outcome'', get d ''readback'', get d ''retry'') of
          (JArr allowed, JObj request, JObj outcome, JObj readback, JObj retry) \<Rightarrow>
            bindE (unknown_keys request allowed) (\<lambda>bad_keys.
            bindE (in_set (get retry ''side_effect_count'') [JInt 0, JInt 1]) (\<lambda>allowed_effects.
            Inr (retry_verdict bad_keys outcome (retry_failures bad_keys outcome readback retry allowed_effects))))
        | _ \<Rightarrow> Inr incomplete)
     else if family = ''capability-routing'' then Inr (settle (routing_failures d))
     else Inr (settle (write_failures d)))"

section \<open>Detection and case results\<close>

text \<open>Families come from a validated profile, so the oracle's key is always present.\<close>

definition qa1_detected :: "string \<Rightarrow> string \<Rightarrow> string \<Rightarrow> string list \<Rightarrow> bool \<Rightarrow> bool" where
  "qa1_detected family variant status failed evidence_complete \<longleftrightarrow>
     (if variant = ''CONTROL'' then status = ''PASS''
      else if variant \<noteq> ''KNOWN_BAD'' \<or> \<not> evidence_complete \<or> status \<in> {''UNKNOWN'', ''NOT_EVALUABLE'', ''BLOCKED''} then False
      else case map_of QA1_DETECTION_ORACLES family of
             None \<Rightarrow> False
           | Some (expected_status, target) \<Rightarrow> status = expected_status \<and> meets failed [target])"

definition profile_score :: "string \<Rightarrow> string \<Rightarrow> obj \<Rightarrow> verdict result" where
  "profile_score profile family d = (if profile = ''GROUNDING'' then grounding d family else tool_agent d family)"

definition score_profile_case :: "json \<Rightarrow> string \<Rightarrow> qa1_result result" where
  "score_profile_case document profile =
     bindE (validate_profile_case document profile) (\<lambda>c.
     bindE (profile_score profile (ps_family_id c) (ps_input c)) (\<lambda>(status, hard_pass, failed).
     if status \<notin> set TERMINAL_STATUSES
     then Inl (Exc ''AssertionError'' ''scorer emitted an unsupported terminal status'')
     else let complete = (''evidence_complete'' \<notin> set failed); digest = seed_digest_of c
     in Inr \<lparr>cr_case_id = ps_case_id c, cr_family_id = ps_family_id c, cr_variant = ps_variant c,
             cr_terminal_status = status, cr_hard_invariant_pass = hard_pass,
             cr_detected = qa1_detected (ps_family_id c) (ps_variant c) status failed complete,
             cr_failed_invariants = failed, cr_evidence_complete = complete,
             cr_provenance_traceable = (digest = abstract_seed_digest (ps_family_id c)),
             cr_fixture_fingerprint = sha256_json (JObj (seed_dict c)), cr_provenance_digest = digest\<rparr>))"

section \<open>The receipt\<close>

definition qa1_composition :: "qa1_result list \<Rightarrow> json" where
  "qa1_composition rows = JObj (map (\<lambda>f. (f, JObj
     [(''case_count'', jint (length (family_rows f rows))),
      (''variants'', jstrs (family_variants f rows)),
      (''expected_seed_digest'', JStr (abstract_seed_digest f)),
      (''provenance_digests'', jstrs (uniq (map cr_provenance_digest (family_rows f rows))))])) (families_of rows))"

definition qa1_criteria :: "string list \<Rightarrow> obj" where
  "qa1_criteria expected_families =
     [(''case_count'', JInt 6), (''known_bad_count'', JInt 3), (''control_count'', JInt 3),
      (''family_count'', JInt 3), (''observed_families'', jstrs expected_families),
      (''unique_case_id_count'', JInt 6), (''exact_family_pairing'', JBool True),
      (''known_bad_detection_rate'', JFloat (Fin 1)), (''control_false_reject_rate'', JFloat (Fin 0)),
      (''provenance_trace_rate'', JFloat (Fin 1)), (''provenance_digest_match_rate'', JFloat (Fin 1)),
      (''evidence_completeness_rate'', JFloat (Fin 1))]"

definition qa1_receipt_body :: "string \<Rightarrow> string list \<Rightarrow> qa1_result list \<Rightarrow> obj" where
  "qa1_receipt_body profile expected_families rows =
     [(''schema_version'', JStr ''b2-qa1-receipt/v1''), (''profile'', JStr profile),
      (''run_id'', JStr (''B2-QA1-'' @ profile @ ''-DETERMINISTIC-001'')),
      (''runner'', JStr ''python-unittest-compatible/deterministic''),
      (''scope'', JStr ''FROZEN_DETERMINISTIC_SYNTHETIC_FIXTURE_SET''),
      (''case_count'', jint (length rows)),
      (''known_bad_count'', jint (length (variant_rows ''KNOWN_BAD'' rows))),
      (''control_count'', jint (length (variant_rows ''CONTROL'' rows))),
      (''family_count'', jint (length (families_of rows))),
      (''expected_families'', jstrs expected_families),
      (''observed_families'', jstrs (families_of rows)),
      (''family_composition'', qa1_composition rows),
      (''unique_case_id_count'', jint (length (uniq (map cr_case_id rows)))),
      (''exact_family_pairing'', JBool (exact_family_pairing expected_families rows)),
      (''known_bad_detection_rate'', known_bad_rate rows),
      (''control_false_reject_rate'', control_reject_rate rows),
      (''provenance_trace_rate'', rate (length (filter cr_provenance_traceable rows)) (length rows)),
      (''provenance_digest_match_rate'', digest_match_rate cr_provenance_digest rows),
      (''evidence_completeness_rate'', rate (length (filter cr_evidence_complete rows)) (length rows)),
      (''terminal_statuses'', jstrs (uniq (map cr_terminal_status rows))),
      (''fixture_fingerprints'', fingerprints_of rows),
      (''limitations'', jstrs [''Frozen synthetic deterministic cases only.'',
         ''No live model or provider performance is measured.''])]"

definition build_profile_receipt :: "string \<Rightarrow> qa1_result list \<Rightarrow> obj result" where
  "build_profile_receipt profile results = (case map_of PROFILE_FAMILIES profile of
      None \<Rightarrow> Inl (ValueError (''unsupported QA1 profile: '' @ profile))
    | Some families \<Rightarrow>
        let expected_families = sort families; rows = sort_key cr_case_id results
        in Inr (finish_receipt (qa1_receipt_body profile expected_families rows) (qa1_criteria expected_families)))"

section \<open>The profiles keep the contract\<close>

lemma grounding_ok: "grounding d f = Inr v \<Longrightarrow> verdict_ok v"
proof -
  have b: "verdict_ok (settle (binding_failures c e))" for c e
    by (rule settle_ok) (simp add: binding_failures_def)
  have i: "inventory_failures c s = Inr fs \<Longrightarrow> verdict_ok (settle fs)" for c s fs
    by (rule settle_ok) (auto simp: inventory_failures_def bindE_eq_Inr)
  have m: "modality_failures c s = Inr (Some fs) \<Longrightarrow> verdict_ok (settle fs)" for c s fs
    by (rule settle_ok) (auto simp: modality_failures_def bindE_eq_Inr split: option.splits)
  show "grounding d f = Inr v \<Longrightarrow> verdict_ok v"
    by (auto simp: grounding_def bindE_eq_Inr b intro: i m split: if_splits json.splits option.splits)
qed

lemma retry_verdict_ok:
  assumes "''evidence_complete'' \<notin> set fs"
  shows "verdict_ok (retry_verdict bad outcome fs)"
  using settle_ok [OF assms] assms by (simp add: retry_verdict_def) (simp add: verdict_ok_def)

lemma retry_failures_complete: "''evidence_complete'' \<notin> set (retry_failures bad outcome readback retry effects)"
  by (simp add: retry_failures_def)

lemma tool_agent_ok: "tool_agent d f = Inr v \<Longrightarrow> verdict_ok v"
proof -
  have r: "verdict_ok (settle (routing_failures d))" by (rule settle_ok) (auto simp: routing_failures_def)
  have w: "verdict_ok (settle (write_failures d))" by (rule settle_ok) (auto simp: write_failures_def)
  show "tool_agent d f = Inr v \<Longrightarrow> verdict_ok v"
    by (auto simp: tool_agent_def bindE_eq_Inr r w retry_verdict_ok retry_failures_complete split: if_splits json.splits)
qed

lemma profile_score_ok: "profile_score p f d = Inr v \<Longrightarrow> verdict_ok v"
  by (auto simp: profile_score_def grounding_ok tool_agent_ok split: if_splits)

lemma qa1_oracle_statuses: "map_of QA1_DETECTION_ORACLES f = Some (status, t) \<Longrightarrow> status \<in> {''FAIL'', ''ERROR''}"
  by (auto simp: QA1_DETECTION_ORACLES_def split: if_splits)

interpretation qa1: case_scorer "profile_score p f" "qa1_detected f" for p f
proof
  show "profile_score p f d = Inr v \<Longrightarrow> verdict_ok v" for d v by (rule profile_score_ok)
  show "qa1_detected f ''CONTROL'' st fs c \<longleftrightarrow> st = ''PASS''" for st fs c
    by (simp add: qa1_detected_def)
  show "qa1_detected f ''KNOWN_BAD'' st fs c \<Longrightarrow> c \<and> st \<in> {''FAIL'', ''ERROR''}" for st fs c
    using qa1_oracle_statuses [of f] by (auto simp: qa1_detected_def split: if_splits option.splits)
qed

lemma profile_families:
  "map_of PROFILE_FAMILIES p = Some fs \<Longrightarrow> distinct fs \<and> length fs = 3"
  by (auto simp: PROFILE_FAMILIES_def split: if_splits)

section \<open>Properties\<close>

text \<open>Every case result of a profile is sound, its family belongs to the profile, a detected known-bad case
  shows the status and the one target invariant of its family's oracle, and its provenance is traceable
  exactly when the seed digest is the family's own.\<close>

theorem profile_result_sound:
  assumes "score_profile_case document p = Inr r"
  shows "result_sound r
     \<and> (\<exists>families. map_of PROFILE_FAMILIES p = Some families \<and> cr_family_id r \<in> set families)
     \<and> (cr_variant r = ''KNOWN_BAD'' \<and> cr_detected r \<longrightarrow>
          (\<exists>target. map_of QA1_DETECTION_ORACLES (cr_family_id r) = Some (cr_terminal_status r, target)
             \<and> target \<in> set (cr_failed_invariants r)))
     \<and> (cr_provenance_traceable r \<longleftrightarrow> cr_provenance_digest r = abstract_seed_digest (cr_family_id r))"
proof -
  from assms obtain c fs where c: "validate_public_seed document = Inr c"
    and fs: "map_of PROFILE_FAMILIES p = Some fs" "ps_family_id c \<in> set fs"
    and score: "profile_score p (ps_family_id c) (ps_input c)
      = Inr (cr_terminal_status r, cr_hard_invariant_pass r, cr_failed_invariants r)"
    and fields: "cr_variant r = ps_variant c" "cr_family_id r = ps_family_id c"
      "cr_evidence_complete r \<longleftrightarrow> ''evidence_complete'' \<notin> set (cr_failed_invariants r)"
      "cr_detected r = qa1_detected (ps_family_id c) (cr_variant r) (cr_terminal_status r) (cr_failed_invariants r)
         (cr_evidence_complete r)"
      "cr_provenance_traceable r \<longleftrightarrow> cr_provenance_digest r = abstract_seed_digest (ps_family_id c)"
    by (auto simp: score_profile_case_def validate_profile_case_def bindE_eq_Inr Let_def split: if_splits option.splits)
  have "cr_variant r \<in> {''KNOWN_BAD'', ''CONTROL''}"
    using validated_seed_ok [OF c] by (simp add: fields seed_ok_def)
  with fields(4,5) fs show ?thesis
    using qa1.result_is_sound [OF score _ fields(3)]
    by (auto simp: fields(2) qa1_detected_def meets_def list_ex_iff split: if_splits option.splits)
qed

definition sample_routing_seed :: public_seed where
  "sample_routing_seed = sample_seed\<lparr>ps_family_id := ''capability-routing'', ps_variant := ''KNOWN_BAD'',
     ps_input := [(''claim'', JStr ''UNAVAILABLE''), (''registry_checked'', JBool False), (''matching_action_attempted'', JBool False),
       (''permission_state'', JStr ''GRANTED''), (''capability_state'', JStr ''UNAVAILABLE'')]\<rparr>"

lemma sample_routing_texts:
  "normal_text ''capability-routing'' \<and> public_text ''capability-routing'' \<and>
   list_all public_text (scan_strings (JObj (ps_input sample_routing_seed)))"
  by (simp add: sample_routing_seed_def normal_text_def strip_def lstrip_by_def rstrip_by_def quick_eval public_eval)

lemma sample_routing_ok: "seed_ok sample_routing_seed"
  unfolding sample_routing_seed_def
  by (rule seed_ok_update [OF sample_seed_valid])
     (use sample_words sample_routing_texts in \<open>simp_all add: sample_routing_seed_def list_all_iff\<close>)

lemma sample_routing_verdict:
  "profile_score ''TOOL_AGENT'' ''capability-routing'' (ps_input sample_routing_seed)
   = Inr (''FAIL'', False, [''discovery_before_unavailability_claim''])"
  by (simp add: profile_score_def tool_agent_def qa1_evidence_complete_def REQUIRED_INPUT_PATHS_def
    sample_routing_seed_def get_def routing_failures_def settle_def uniq_def)

lemma sample_routing_family:
  "map_of PROFILE_FAMILIES ''TOOL_AGENT'' = Some [''connector-schema-retry'', ''capability-routing'', ''destructive-write-recovery'']"
  "ps_family_id sample_routing_seed = ''capability-routing''" "ps_variant sample_routing_seed = ''KNOWN_BAD''"
  by (simp_all add: PROFILE_FAMILIES_def sample_routing_seed_def sample_seed_def)

theorem profile_result_sound_witness:
  "\<exists>r. score_profile_case (JObj (seed_dict sample_routing_seed)) ''TOOL_AGENT'' = Inr r \<and> cr_detected r \<and> result_sound r"
proof -
  note f = sample_routing_ok sample_routing_verdict sample_routing_family
  have "validate_public_seed (JObj (seed_dict sample_routing_seed)) = Inr sample_routing_seed"
    using validate_seed_dict [OF f(1)] by (simp add: public_seed.defs)
  then obtain r where r: "score_profile_case (JObj (seed_dict sample_routing_seed)) ''TOOL_AGENT'' = Inr r" and "cr_detected r"
    by (simp add: score_profile_case_def validate_profile_case_def f Let_def qa1_detected_def QA1_DETECTION_ORACLES_def meets_def)
  with profile_result_sound [OF r] show ?thesis by blast
qed

text \<open>C30.  The gate of a profile says \<open>PASS\<close> exactly for the paired fixture set: one known-bad case and one
  control for each of the profile's three families and nothing else, distinct case ids, every known-bad
  case detected, every control passed, every digest the family's own, and all evidence complete.\<close>

theorem profile_gate_iff:
  "(\<exists>receipt. build_profile_receipt p rows = Inr receipt \<and> get receipt ''gate'' = JStr ''PASS'')
   \<longleftrightarrow> (\<exists>families. map_of PROFILE_FAMILIES p = Some families \<and> paired families rows
     \<and> distinct (map cr_case_id rows)
     \<and> list_all (\<lambda>r. (if cr_variant r = ''KNOWN_BAD'' then cr_detected r else cr_terminal_status r = ''PASS'')
          \<and> cr_provenance_traceable r \<and> cr_provenance_digest r = abstract_seed_digest (cr_family_id r)
          \<and> cr_evidence_complete r) rows)"
proof (cases "map_of PROFILE_FAMILIES p")
  case None
  then show ?thesis by (simp add: build_profile_receipt_def)
next
  case (Some fs)
  let ?rows = "sort_key cr_case_id rows"
  note fs = profile_families [OF Some]
  have "(\<exists>receipt. build_profile_receipt p rows = Inr receipt \<and> get receipt ''gate'' = JStr ''PASS'')
      \<longleftrightarrow> (\<forall>(k, v) \<in> set (qa1_criteria (sort fs)). py_eq (get (qa1_receipt_body p (sort fs) ?rows) k) v)"
    by (simp add: build_profile_receipt_def Some Let_def finish_receipt_get)
       (rule gate_status_PASS, simp add: qa1_criteria_def)
  also have "\<dots> \<longleftrightarrow> length rows = 6 \<and> length (variant_rows ''KNOWN_BAD'' rows) = 3 \<and> length (variant_rows ''CONTROL'' rows) = 3
      \<and> families_of ?rows = sort fs \<and> length (families_of ?rows) = 3
      \<and> length (uniq (map cr_case_id ?rows)) = 6 \<and> exact_family_pairing (sort fs) ?rows
      \<and> py_eq (known_bad_rate ?rows) (JFloat (Fin 1)) \<and> py_eq (control_reject_rate ?rows) (JFloat (Fin 0))
      \<and> py_eq (rate (length (filter cr_provenance_traceable ?rows)) (length ?rows)) (JFloat (Fin 1))
      \<and> py_eq (digest_match_rate cr_provenance_digest ?rows) (JFloat (Fin 1))
      \<and> py_eq (rate (length (filter cr_evidence_complete ?rows)) (length ?rows)) (JFloat (Fin 1))"
    by (auto simp add: qa1_criteria_def qa1_receipt_body_def get_def simp del: py_eq.simps)
  also have "\<dots> \<longleftrightarrow> paired fs rows \<and> distinct (map cr_case_id rows) \<and> rows_fine cr_provenance_digest rows"
    by (rule paired_criteria) (simp_all add: fs)
  finally show ?thesis by (simp add: Some rows_fine_def)
qed

end
