(* ===== verification/V23Schema.thy ===== *)
theory V23Schema
  imports B2Qa0
begin

text \<open>
  \<open>src/search_cup/v23_schema.py\<close>: the closed schema vocabulary of the search cup v2.3 and its
  validator.  A schema is a Python dictionary that uses a fixed set of keywords; here it
  is a value with one field per keyword, and an absent keyword is an empty field.  The
  schemas of the file are values of that type.  \<open>conforms\<close> says what a schema means, and
  the validator accepts exactly the values that conform.
\<close>

section \<open>Schemas\<close>

datatype pattern = NonBlank | Hex64

datatype kind = KObject | KArray | KString | KInteger | KNumber | KBoolean | KNull

datatype types = AnyType | OneType kind | OneOf "kind list"

datatype schema = Schema
  (s_any: "schema list") (s_const: "json option") (s_enum: "string list option") (s_type: types)
  (s_props: "(string \<times> schema) list") (s_required: "string list") (s_items: "schema option")
  (s_min_items: nat) (s_unique: bool) (s_min_length: nat) (s_pattern: "pattern option")
  (s_minimum: "int option") (s_ex_minimum: "int option")

definition typed :: "types \<Rightarrow> schema" where
  "typed t = Schema [] None None t [] [] None 0 False 0 None None None"

definition obj_schema_opt :: "(string \<times> schema) list \<Rightarrow> string list \<Rightarrow> schema" where
  "obj_schema_opt properties optional =
     Schema [] None None (OneType KObject) properties (filter (\<lambda>k. k \<notin> set optional) (map fst properties)) None
       0 False 0 None None None"

abbreviation obj_schema :: "(string \<times> schema) list \<Rightarrow> schema" where
  "obj_schema properties \<equiv> obj_schema_opt properties []"

definition arr_schema :: "schema \<Rightarrow> nat \<Rightarrow> schema" where
  "arr_schema elements n = Schema [] None None (OneType KArray) [] [] (Some elements) n True 0 None None None"

definition enum_schema :: "string list \<Rightarrow> schema" where
  "enum_schema values = Schema [] None (Some values) (OneType KString) [] [] None 0 False 0 None None None"

definition const_schema :: "json \<Rightarrow> schema" where
  "const_schema v = Schema [] (Some v) None AnyType [] [] None 0 False 0 None None None"

definition text_schema :: "nat \<Rightarrow> pattern \<Rightarrow> schema" where
  "text_schema n p = Schema [] None None (OneType KString) [] [] None 0 False n (Some p) None None"

definition number_schema :: "types \<Rightarrow> int option \<Rightarrow> int option \<Rightarrow> schema" where
  "number_schema t least strict = Schema [] None None t [] [] None 0 False 0 None least strict"

definition any_of :: "schema list \<Rightarrow> schema" where
  "any_of ss = Schema ss None None AnyType [] [] None 0 False 0 None None None"

definition nullable :: "schema \<Rightarrow> schema" where
  "nullable s = any_of [s, typed (OneType KNull)]"

section \<open>The validator\<close>

definition py_type :: "json \<Rightarrow> string" where
  "py_type v = (case v of JNull \<Rightarrow> ''NoneType'' | JBool _ \<Rightarrow> ''bool'' | JInt _ \<Rightarrow> ''int'' | JFloat _ \<Rightarrow> ''float''
     | JStr _ \<Rightarrow> ''str'' | JArr _ \<Rightarrow> ''list'' | JObj _ \<Rightarrow> ''dict'')"

definition is_kind :: "kind \<Rightarrow> json \<Rightarrow> bool" where
  "is_kind k v = (case k of
      KObject \<Rightarrow> py_type v = ''dict'' | KArray \<Rightarrow> py_type v = ''list'' | KString \<Rightarrow> py_type v = ''str''
    | KInteger \<Rightarrow> py_type v = ''int'' | KNumber \<Rightarrow> py_type v \<in> {''int'', ''float''}
    | KBoolean \<Rightarrow> py_type v = ''bool'' | KNull \<Rightarrow> v = JNull)"

text \<open>\<open>^[0-9a-f]{64}$\<close> under \<open>re.search\<close>: \<open>$\<close> also matches before a final newline.\<close>

definition matches_pattern :: "pattern \<Rightarrow> string \<Rightarrow> bool" where
  "matches_pattern p s = (case p of
      NonBlank \<Rightarrow> list_ex (\<lambda>c. \<not> py_isspace c) s
    | Hex64 \<Rightarrow> is_sha256_hex s \<or> (ends_with [CHR 0x0A] s \<and> is_sha256_hex (butlast s)))"

definition text_fits :: "schema \<Rightarrow> string \<Rightarrow> bool" where
  "text_fits s t \<longleftrightarrow> s_min_length s \<le> length t
     \<and> (case s_pattern s of None \<Rightarrow> True | Some p \<Rightarrow> matches_pattern p t)"

definition number_fits :: "schema \<Rightarrow> json \<Rightarrow> bool" where
  "number_fits s v = (case num_of v of
      Some (Fin x) \<Rightarrow>
        (case s_minimum s of None \<Rightarrow> True | Some m \<Rightarrow> of_int m \<le> x)
        \<and> (case s_ex_minimum s of None \<Rightarrow> True | Some m \<Rightarrow> of_int m < x)
    | _ \<Rightarrow> False)"

text \<open>\<open>any(item in value[:i] for i, item in enumerate(value))\<close>\<close>

fun has_duplicates :: "json list \<Rightarrow> json list \<Rightarrow> bool" where
  "has_duplicates seen [] \<longleftrightarrow> False"
| "has_duplicates seen (x # xs) \<longleftrightarrow> py_in x seen \<or> has_duplicates (seen @ [x]) xs"

definition const_fits :: "schema \<Rightarrow> json \<Rightarrow> bool" where
  "const_fits s v = (case s_const s of None \<Rightarrow> True | Some c \<Rightarrow> py_type v = py_type c \<and> py_eq v c)"

definition enum_fits :: "schema \<Rightarrow> json \<Rightarrow> bool" where
  "enum_fits s v = (case s_enum s of None \<Rightarrow> True | Some ws \<Rightarrow> py_in v (map JStr ws))"

definition items_of :: "json \<Rightarrow> obj" where
  "items_of v = (case v of JObj d \<Rightarrow> d | _ \<Rightarrow> [])"

definition elements_of :: "json \<Rightarrow> json list" where
  "elements_of v = (case v of JArr xs \<Rightarrow> xs | _ \<Rightarrow> [])"

definition text_in :: "json \<Rightarrow> string" where
  "text_in v = (case v of JStr s \<Rightarrow> s | _ \<Rightarrow> [])"

lemma schema_size_any: "a \<in> set (s_any s) \<Longrightarrow> size a < size s"
  by (cases s) (auto dest!: size_list_estimation' [where f = size, OF _ order_refl])

lemma schema_size_props: "map_of (s_props s) k = Some a \<Longrightarrow> size a < size s"
proof (cases s)
  case (Schema any c e t props r i n u l p m x)
  assume "map_of (s_props s) k = Some a"
  then have "(k, a) \<in> set props" by (simp add: Schema map_of_SomeD)
  then have "size a \<le> size_list (\<lambda>p. size_prod (\<lambda>_. 0) size p) props"
    by (induction props) auto
  then show "size a < size s" by (simp add: Schema)
qed

lemma schema_size_items: "s_items s = Some a \<Longrightarrow> size a < size s"
  by (cases s) auto

function (sequential) validate_shape :: "json \<Rightarrow> schema \<Rightarrow> string \<Rightarrow> unit result"
  and validate_kind :: "json \<Rightarrow> schema \<Rightarrow> string \<Rightarrow> kind \<Rightarrow> unit result" where
  "validate_shape v s path =
     (if s_any s \<noteq> []
      then guard (list_ex (\<lambda>a. isOk (validate_shape v a path)) (s_any s)) (path @ '': no allowed shape'')
      else
        bindE (guard (const_fits s v) (path @ '': invalid constant'')) (\<lambda>_.
        bindE (guard (enum_fits s v) (path @ '': invalid enum'')) (\<lambda>_.
        case s_type s of
          AnyType \<Rightarrow> Inr ()
        | OneType k \<Rightarrow> validate_kind v s path k
        | OneOf ks \<Rightarrow> guard (list_ex (\<lambda>k. isOk (validate_kind v s path k)) ks) (path @ '': no allowed shape''))))"
| "validate_kind v s path k =
     bindE (guard (is_kind k v) (path @ '': invalid type'')) (\<lambda>_.
     case k of
       KObject \<Rightarrow>
         bindE (guard (list_all (has_key (items_of v)) (s_required s)) (path @ '': missing required fields'')) (\<lambda>_.
         bindE (guard (list_all (\<lambda>(k, _). map_of (s_props s) k \<noteq> None) (items_of v)) (path @ '': unexpected fields'')) (\<lambda>_.
         bindE (mapE (\<lambda>(k, w). case map_of (s_props s) k of
                   None \<Rightarrow> Inr ()
                 | Some a \<Rightarrow> validate_shape w a (path @ ''.'' @ k)) (items_of v)) (\<lambda>_. Inr ())))
     | KArray \<Rightarrow>
         bindE (guard (s_min_items s \<le> length (elements_of v)) (path @ '': too few items'')) (\<lambda>_.
         bindE (guard (\<not> (s_unique s \<and> has_duplicates [] (elements_of v))) (path @ '': duplicate items'')) (\<lambda>_.
         bindE (mapE (\<lambda>w. case s_items s of
                   None \<Rightarrow> Inr ()
                 | Some a \<Rightarrow> validate_shape w a (path @ ''[]'')) (elements_of v)) (\<lambda>_. Inr ())))
     | KString \<Rightarrow> guard (text_fits s (text_in v)) (path @ '': invalid text'')
     | KInteger \<Rightarrow> guard (number_fits s v) (path @ '': invalid number'')
     | KNumber \<Rightarrow> guard (number_fits s v) (path @ '': invalid number'')
     | _ \<Rightarrow> Inr ())"
  by pat_completeness auto

termination
  by (relation "measure (\<lambda>x. case x of Inl (v, s, p) \<Rightarrow> 2 * size s + 1 | Inr (v, s, p, k) \<Rightarrow> 2 * size s)")
     (auto dest: schema_size_any schema_size_props schema_size_items)

declare validate_shape.simps [simp del] validate_kind.simps [simp del]

section \<open>What a schema means\<close>

inductive conforms :: "schema \<Rightarrow> json \<Rightarrow> bool"
  and conforms_kind :: "schema \<Rightarrow> kind \<Rightarrow> json \<Rightarrow> bool" where
  alternative: "a \<in> set (s_any s) \<Longrightarrow> conforms a v \<Longrightarrow> conforms s v"
| untyped: "s_any s = [] \<Longrightarrow> const_fits s v \<Longrightarrow> enum_fits s v \<Longrightarrow> s_type s = AnyType \<Longrightarrow> conforms s v"
| one_type: "s_any s = [] \<Longrightarrow> const_fits s v \<Longrightarrow> enum_fits s v \<Longrightarrow> s_type s = OneType k \<Longrightarrow> conforms_kind s k v \<Longrightarrow>
     conforms s v"
| some_type: "s_any s = [] \<Longrightarrow> const_fits s v \<Longrightarrow> enum_fits s v \<Longrightarrow> s_type s = OneOf ks \<Longrightarrow> k \<in> set ks \<Longrightarrow>
     conforms_kind s k v \<Longrightarrow> conforms s v"
| object: "\<forall>k \<in> set (s_required s). has_key d k \<Longrightarrow>
     \<forall>kw \<in> set d. \<exists>a. map_of (s_props s) (fst kw) = Some a \<and> conforms a (snd kw) \<Longrightarrow> conforms_kind s KObject (JObj d)"
| array: "s_min_items s \<le> length xs \<Longrightarrow> (s_unique s \<Longrightarrow> \<not> has_duplicates [] xs) \<Longrightarrow>
     \<forall>x \<in> set xs. \<forall>a. s_items s = Some a \<longrightarrow> conforms a x \<Longrightarrow> conforms_kind s KArray (JArr xs)"
| string: "text_fits s t \<Longrightarrow> conforms_kind s KString (JStr t)"
| integer: "number_fits s (JInt i) \<Longrightarrow> conforms_kind s KInteger (JInt i)"
| number_int: "number_fits s (JInt i) \<Longrightarrow> conforms_kind s KNumber (JInt i)"
| number_float: "number_fits s (JFloat f) \<Longrightarrow> conforms_kind s KNumber (JFloat f)"
| boolean: "conforms_kind s KBoolean (JBool b)"
| null: "conforms_kind s KNull JNull"

inductive_simps conforms_iff: "conforms s v"
inductive_simps conforms_kind_iff:
  "conforms_kind s KObject v" "conforms_kind s KArray v" "conforms_kind s KString v" "conforms_kind s KInteger v"
  "conforms_kind s KNumber v" "conforms_kind s KBoolean v" "conforms_kind s KNull v"

lemma isOk_guard [simp]: "isOk (guard c m) \<longleftrightarrow> c"
  by (simp add: guard_def)

lemma isOk_bind: "isOk (bindE m f) \<longleftrightarrow> (\<exists>x. m = Inr x \<and> isOk (f x))"
  by (cases m) auto

lemma isOk_mapE: "isOk (mapE f xs) \<longleftrightarrow> (\<forall>x \<in> set xs. isOk (f x))"
  by (induction xs) (auto simp: isOk_bind isOk_iff bindE_eq_Inr)

lemma Ex_mapE: "(\<exists>ys. mapE f xs = Inr ys) \<longleftrightarrow> (\<forall>x \<in> set xs. isOk (f x))"
  using isOk_mapE [of f xs] by (simp add: isOk_iff)

lemma all_found:
  "(\<forall>x \<in> S. g x \<noteq> None) \<and> (\<forall>x \<in> S. isOk (case g x of None \<Rightarrow> Inr () | Some a \<Rightarrow> f x a))
     \<longleftrightarrow> (\<forall>x \<in> S. \<exists>a. g x = Some a \<and> isOk (f x a))"
  unfolding ball_conj_distrib [symmetric] by (rule ball_cong) (auto split: option.split)

lemma isOk_ignore: "isOk (bindE m (\<lambda>_. Inr x)) \<longleftrightarrow> isOk m"
  by (cases m) auto

lemma is_kind_cases:
  "is_kind KObject v \<longleftrightarrow> (\<exists>d. v = JObj d)" "is_kind KArray v \<longleftrightarrow> (\<exists>xs. v = JArr xs)"
  "is_kind KString v \<longleftrightarrow> (\<exists>t. v = JStr t)" "is_kind KInteger v \<longleftrightarrow> (\<exists>i. v = JInt i)"
  "is_kind KNumber v \<longleftrightarrow> (\<exists>i. v = JInt i) \<or> (\<exists>f. v = JFloat f)" "is_kind KBoolean v \<longleftrightarrow> (\<exists>b. v = JBool b)"
  "is_kind KNull v \<longleftrightarrow> v = JNull"
  by (cases v; simp add: is_kind_def py_type_def)+

lemma validate_conforms:
  "isOk (validate_shape v s p) \<longleftrightarrow> conforms s v"
  "isOk (validate_kind v s p k) \<longleftrightarrow> conforms_kind s k v"
proof (induction v s p and v s p k rule: validate_shape_validate_kind.induct)
  case (1 v s p)
  show ?case
  proof (cases "s_any s = []")
    case False
    with 1 show ?thesis
      by (subst validate_shape.simps, subst conforms_iff) (auto simp: list_ex_iff)
  next
    case True
    with 1 show ?thesis
      by (subst validate_shape.simps, subst conforms_iff)
         (auto simp: isOk_bind exc_elims list_ex_iff split: types.splits)
  qed
next
  case (2 v s p k)
  show ?case
  proof (cases k)
    case KObject
    show ?thesis
    proof (cases "\<exists>d. v = JObj d")
      case True
      then obtain d where d: "v = JObj d" by blast
      have "isOk (validate_kind v s p k) \<longleftrightarrow> (\<forall>x \<in> set (s_required s). has_key d x)
          \<and> (\<forall>kw \<in> set d. map_of (s_props s) (fst kw) \<noteq> None)
          \<and> (\<forall>kw \<in> set d. isOk (case map_of (s_props s) (fst kw) of None \<Rightarrow> Inr ()
               | Some a \<Rightarrow> validate_shape (snd kw) a (p @ ''.'' @ fst kw)))"
        by (simp add: KObject d validate_kind.simps items_of_def is_kind_cases isOk_bind guard_Inr Ex_mapE
            list_all_iff split_beta)
      also have "\<dots> \<longleftrightarrow> (\<forall>x \<in> set (s_required s). has_key d x)
          \<and> (\<forall>kw \<in> set d. \<exists>a. map_of (s_props s) (fst kw) = Some a \<and> isOk (validate_shape (snd kw) a (p @ ''.'' @ fst kw)))"
        by (simp only: all_found)
      also have "\<dots> \<longleftrightarrow> conforms_kind s k v"
      proof (cases "(\<forall>x \<in> set (s_required s). has_key d x) \<and> (\<forall>kw \<in> set d. map_of (s_props s) (fst kw) \<noteq> None)")
        case True
        have "isOk (validate_shape (snd kw) a (p @ ''.'' @ fst kw)) = conforms a (snd kw)"
          if "kw \<in> set d" "map_of (s_props s) (fst kw) = Some a" for kw a
          using 2(1) [of "()" "()" "()" kw "fst kw" "snd kw" a] that True
          by (auto simp: KObject d items_of_def is_kind_cases guard_Inr list_all_iff split_beta)
        then have "(\<forall>kw \<in> set d. \<exists>a. map_of (s_props s) (fst kw) = Some a \<and> isOk (validate_shape (snd kw) a (p @ ''.'' @ fst kw)))
            \<longleftrightarrow> (\<forall>kw \<in> set d. \<exists>a. map_of (s_props s) (fst kw) = Some a \<and> conforms a (snd kw))"
          by blast
        with KObject d show ?thesis by (simp only: conforms_kind_iff json.inject ex_simps simp_thms)
      qed (auto simp: KObject d conforms_kind_iff)
      finally show ?thesis .
    qed (auto simp: KObject validate_kind.simps is_kind_cases isOk_bind exc_elims conforms_kind_iff)
  next
    case KArray
    show ?thesis
    proof (cases "\<exists>xs. v = JArr xs")
      case True
      then obtain xs where xs: "v = JArr xs" by blast
      have "isOk (validate_kind v s p k) \<longleftrightarrow> s_min_items s \<le> length xs \<and> (s_unique s \<longrightarrow> \<not> has_duplicates [] xs)
          \<and> (\<forall>x \<in> set xs. isOk (case s_items s of None \<Rightarrow> Inr () | Some a \<Rightarrow> validate_shape x a (p @ ''[]'')))"
        by (auto simp: KArray xs validate_kind.simps elements_of_def is_kind_cases isOk_bind guard_Inr Ex_mapE)
      also have "\<dots> \<longleftrightarrow> conforms_kind s k v"
        using 2(2) KArray by (auto simp: conforms_kind_iff xs elements_of_def guard_Inr is_kind_cases split: option.splits)
      finally show ?thesis .
    qed (auto simp: KArray validate_kind.simps is_kind_cases isOk_bind exc_elims conforms_kind_iff)
  qed (auto simp: validate_kind.simps conforms_kind_iff is_kind_cases isOk_bind exc_elims text_in_def)
qed


lemma validate_shape_nested: "validate_shape v s p = Inr () \<longleftrightarrow> conforms s v"
  using validate_conforms(1) [of v s p] by (cases "validate_shape v s p") auto

text \<open>Every error is a \<open>ValueError\<close>.\<close>

lemma guard_error: "guard c m = Inl e \<longleftrightarrow> \<not> c \<and> e = ValueError m"
  by (auto simp: guard_def)

lemma mapE_error: "mapE f xs = Inl e \<Longrightarrow> \<exists>x \<in> set xs. f x = Inl e"
  by (induction xs) (auto simp: bindE_eq_Inl)

lemma validate_error:
  "validate_shape v s p = Inl e \<Longrightarrow> exc_type e = ''ValueError''"
  "validate_kind v s p k = Inl e \<Longrightarrow> exc_type e = ''ValueError''"
proof (induction v s p and v s p k rule: validate_shape_validate_kind.induct)
  case (1 v s p)
  have IH: "exc_type e = ''ValueError''"
    if "s_any s = []" "const_fits s v" "enum_fits s v" "s_type s = OneType k" "validate_kind v s p k = Inl e" for k
    using 1(2) [of "()" "()" k] that by (simp add: guard_Inr)
  from 1(4) show ?case
    by (subst (asm) validate_shape.simps)
       (auto simp: bindE_eq_Inl guard_error guard_Inr split: if_splits types.splits dest: IH)
next
  case (2 v s p k)
  have IH1: "exc_type e = ''ValueError''"
    if "k = KObject" "is_kind k v" "list_all (has_key (items_of v)) (s_required s)"
      "list_all (\<lambda>(k, _). \<exists>y. map_of (s_props s) k = Some y) (items_of v)" "(l, w) \<in> set (items_of v)"
      "map_of (s_props s) l = Some a" "validate_shape w a (p @ CHR ''.'' # l) = Inl e" for l w a
    using 2(1) [of "()" "()" "()" "(l, w)" l w a] that by (simp add: guard_Inr)
  have IH2: "exc_type e = ''ValueError''"
    if "k = KArray" "is_kind k v" "s_min_items s \<le> length (elements_of v)"
      "\<not> (s_unique s \<and> has_duplicates [] (elements_of v))" "w \<in> set (elements_of v)"
      "s_items s = Some a" "validate_shape w a (p @ ''[]'') = Inl e" for w a
    using 2(2) [of "()" "()" "()" w a] that by (simp add: guard_Inr)
  from 2(3) show ?case
  proof (cases k)
    case KObject
    with 2(3) show ?thesis
      by (subst (asm) validate_kind.simps)
         (auto simp: bindE_eq_Inl guard_error guard_Inr split: option.splits dest!: mapE_error intro: IH1)
  next
    case KArray
    with 2(3) show ?thesis
      by (subst (asm) validate_kind.simps)
         (auto simp: bindE_eq_Inl guard_error guard_Inr split: option.splits dest!: mapE_error intro: IH2)
  qed (auto simp: validate_kind.simps bindE_eq_Inl guard_error guard_Inr)
qed

text \<open>C34.  The validator, a recursion over the schema, returns on every value and accepts exactly the values
  that conform to the schema, whatever the path it reports errors under; what it rejects it
  rejects with a \<open>ValueError\<close> that names only the path.\<close>

theorem validator_exact:
  "(validate_shape v s p = Inr () \<longleftrightarrow> conforms s v)
   \<and> (\<not> conforms s v \<longleftrightarrow> (\<exists>m. validate_shape v s p = Inl (ValueError m)))"
proof -
  have "validate_shape v s p = Inl e \<Longrightarrow> \<exists>m. e = ValueError m" for e
    using validate_error(1) [of v s p e] by (cases e) simp
  then show ?thesis
    using validate_shape_nested [of v s p] by (cases "validate_shape v s p") auto
qed

section \<open>The schemas of search cup v2.3\<close>

definition TEXT :: schema where "TEXT = text_schema 1 NonBlank"

definition HASH :: schema where "HASH = text_schema 0 Hex64"

definition COUNT :: schema where "COUNT = number_schema (OneType KInteger) (Some 0) None"

definition NUMBER :: schema where "NUMBER = number_schema (OneType KNumber) (Some 0) None"

definition TEXTS :: schema where "TEXTS = arr_schema TEXT 0"

definition REF :: schema where
  "REF = obj_schema [(''id'', TEXT), (''version'', TEXT), (''fingerprint'', HASH)]"

definition TERMINALS :: "string list" where
  "TERMINALS = [''PASS'', ''FAIL'', ''UNKNOWN'', ''BLOCKED'', ''NOT_EVALUABLE'', ''ERROR'']"

definition TRACKS :: "string list" where
  "TRACKS = [''E1_LIVE'', ''E1_FROZEN'', ''E2_RETRIEVER'', ''JUDGMENT_ONLY'',
     ''E_PLUS_J'', ''GLM_SEARCH_STACK'', ''SYSTEM_PLAYOFF'', ''ECONOMIC_TRACK'']"

definition A1_BEHAVIORS :: "string list" where
  "A1_BEHAVIORS = [''QUERY_WORDING'', ''SYNONYMS'', ''SUBDIRECTION'', ''BOUNDED_REFINEMENT'',
     ''EVIDENCE_FOLLOWING'', ''DECOMPOSITION'', ''QUERY_REWRITE'', ''SYNTHESIS'',
     ''CROSS_QUERY_PLANNING'', ''INTENT_EXPANSION'']"

definition E1_BEHAVIORS :: "string list" where
  "E1_BEHAVIORS = take 5 A1_BEHAVIORS"

definition ABLATION_CAPABILITIES :: "string list" where
  "ABLATION_CAPABILITIES = A1_BEHAVIORS @ [''RETRIEVAL'', ''RANKING'', ''AGGREGATION'', ''VERIFICATION'']"

definition MEASURE :: schema where
  "MEASURE = obj_schema [(''state'', enum_schema [''KNOWN'', ''UNKNOWN'', ''NOT_APPLICABLE'']),
     (''value'', number_schema (OneOf [KNumber, KNull]) (Some 0) None), (''unit'', TEXT), (''reason'', TEXT)]"

definition CHECK :: schema where
  "CHECK = obj_schema [(''status'', enum_schema [''PASS'', ''FAIL'', ''UNKNOWN'']), (''evidence'', arr_schema REF 0)]"

definition QUALIFICATION :: schema where
  "QUALIFICATION = obj_schema [(''backend_fingerprint'', HASH),
     (''criteria'', obj_schema (map (\<lambda>r. (r, CHECK)) [''R1'', ''R2'', ''R3'', ''R4'', ''R5'', ''R6'', ''R7'', ''R8'']))]"

definition RETRIEVER :: schema where
  "RETRIEVER = obj_schema [(''identity'', REF), (''backend_id'', TEXT),
     (''class'', enum_schema [''RAW_RETRIEVER'', ''FROZEN_RETRIEVER'', ''INTEGRATED_SEARCH_STACK'']),
     (''config_fingerprint'', HASH), (''request_schema'', REF), (''result_schema'', REF),
     (''capabilities'', arr_schema (enum_schema (A1_BEHAVIORS @ [''RANKING'', ''RETRIEVAL''])) 0),
     (''qualification'', nullable QUALIFICATION)]"

definition RESOURCE :: schema where
  "RESOURCE = obj_schema [
     (''schema_id'', const_schema (JStr ''search-resource/v2'')),
     (''max_search_calls'', COUNT), (''max_search_turns'', COUNT),
     (''max_results_per_call'', COUNT), (''max_follow_links'', COUNT),
     (''automatic_retries'', COUNT), (''retry_policy'', REF),
     (''manual_retry_policy'', enum_schema [''FORBIDDEN'', ''NEW_BUDGETED_EVENT'']),
     (''timeout_per_call_ms'', number_schema (OneType KNumber) None (Some 0)),
     (''max_total_runtime_ms'', MEASURE), (''token_ceiling'', MEASURE),
     (''money_ceiling'', MEASURE), (''resource_unit_definition'', TEXT),
     (''search_unit'', enum_schema [''RAW_BACKEND_ATTEMPT'', ''INTEGRATED_STACK_INVOCATION'', ''NONE'']),
     (''failure_policy'', const_schema (JStr ''INFRASTRUCTURE_NOT_QUALITY'')),
     (''exhaustion_policy'', const_schema (JStr ''STOP_NO_EXPANSION'')),
     (''budget_rejection_policy'', const_schema (JStr ''NO_BACKEND_NO_TICKET''))]"

definition TASK :: schema where
  "TASK = obj_schema [
     (''task_id'', TEXT), (''task_class'', TEXT), (''target'', TEXT),
     (''objective'', TEXT), (''success_criteria'', arr_schema TEXT 1),
     (''unit_of_evaluation'', TEXT),
     (''output_cardinality'', obj_schema [(''minimum'', COUNT), (''maximum'', COUNT)]),
     (''inclusion_criteria'', TEXTS), (''exclusion_criteria'', TEXTS),
     (''evidence_requirements'', arr_schema TEXT 1),
     (''unknown_semantics'', const_schema (JStr ''INSUFFICIENT_EVIDENCE_NOT_NEGATIVE'')),
     (''stop_conditions'', arr_schema TEXT 1)]"

definition SCOPE :: schema where
  "SCOPE = obj_schema [
     (''language_pool'', arr_schema TEXT 1),
     (''geography_scope'', obj_schema [(''included'', arr_schema TEXT 1), (''excluded'', TEXTS)]),
     (''source_classes_allowed'', arr_schema TEXT 1), (''source_classes_excluded'', TEXTS),
     (''time_window'', TEXT), (''freshness_rule'', TEXT),
     (''verification_sources_allowed'', TEXTS), (''verification_sources_excluded'', TEXTS),
     (''privacy_class'', const_schema (JStr ''PUBLIC_SAFE'')), (''public_safe_only'', const_schema (JBool True))]"

definition CONTROLS :: "string list" where
  "CONTROLS = [''task'', ''scope'', ''a0'', ''a1'', ''resources'', ''output'', ''judgment'',
     ''candidate_set'', ''evidence_packet'', ''rubric'', ''ordering'', ''corpus'',
     ''index'', ''retriever'', ''time_window'', ''environment'', ''prompt_context'',
     ''tools'', ''privacy'', ''control_model'', ''system_disclosure'',
     ''economic_package'', ''architecture'', ''disclosure_standard'']"

definition PRINCIPAL :: "(string \<times> string) list" where
  "PRINCIPAL = [
     (''JUDGMENT_ONLY'', ''JUDGE_MODEL_CONFIG''), (''E1_FROZEN'', ''ENTRANT_MODEL_CONFIG''),
     (''E1_LIVE'', ''ENTRANT_MODEL_CONFIG''), (''E2_RETRIEVER'', ''RETRIEVER_CONFIG''),
     (''GLM_SEARCH_STACK'', ''SYSTEM''), (''SYSTEM_PLAYOFF'', ''SYSTEM''),
     (''ECONOMIC_TRACK'', ''SYSTEM_RESOURCE_PACKAGE''), (''E_PLUS_J'', ''COMPOSITE_SYSTEM'')]"

definition CLAIMS :: "string list" where
  "CLAIMS = [''JUDGMENT_ON_FROZEN_PACKAGE'', ''EXECUTION_ON_FROZEN_ENVIRONMENT'',
     ''EXECUTION_IN_LIVE_WINDOW'', ''RETRIEVER_SYSTEM_PERFORMANCE'',
     ''DECLARED_SYSTEM_PERFORMANCE'', ''OBSERVED_ECONOMIC_EFFICIENCY'',
     ''SINGLE_CAPABILITY_EFFECT'', ''ABSOLUTE_RECALL'']"


definition FROZEN_OVERLAY :: schema where
  "FROZEN_OVERLAY = obj_schema [
     (''kind'', const_schema (JStr ''FROZEN'')), (''corpus'', REF), (''collection_provenance'', REF),
     (''public_safe'', const_schema (JBool True)), (''index'', REF), (''reference_set'', REF),
     (''reproduction_procedure'', REF)]"

definition LIVE_OVERLAY :: schema where
  "LIVE_OVERLAY = obj_schema [
     (''kind'', const_schema (JStr ''LIVE'')), (''window_policy'', REF), (''backend'', REF),
     (''drift_policy'', REF), (''pooled_candidate_policy'', REF),
     (''adjudication_timing'', REF), (''capture_policy'', REF),
     (''exhaustive_reference'', nullable REF)]"

definition JUDGMENT_OVERLAY :: schema where
  "JUDGMENT_OVERLAY = obj_schema [
     (''kind'', const_schema (JStr ''JUDGMENT'')), (''candidate_set'', REF), (''evidence_packet'', REF),
     (''rubric'', REF), (''output_schema'', REF), (''adjudication_policy'', REF),
     (''blind_transform'', REF), (''order_policy'', REF), (''aggregation_policy'', REF),
     (''allowed_tools'', arr_schema TEXT 0), (''independent_first_pass'', const_schema (JBool True))]"

definition SYSTEM_DISCLOSURE :: schema where
  "SYSTEM_DISCLOSURE = obj_schema [
     (''components'', arr_schema REF 1), (''capabilities'', TEXTS), (''tool_classes'', TEXTS),
     (''retry_fallback_policy'', REF), (''human_intervention_policy'', REF),
     (''money_source'', REF), (''time_source'', REF),
     (''opaque_quantities'', TEXTS)]"

definition ECONOMIC_PACKAGE :: schema where
  "ECONOMIC_PACKAGE = obj_schema [
     (''basis'', enum_schema [''MONEY'', ''OPERATOR_TIME'', ''WALL_CLOCK'', ''MONEY_AND_TIME'', ''APPROVED_EQUIVALENT'']),
     (''definition'', REF), (''accounting_period'', TEXT), (''currency'', TEXT),
     (''billing_basis'', TEXT), (''price_source'', REF), (''tax_policy'', TEXT),
     (''exchange_policy'', REF), (''rounding_policy'', TEXT),
     (''free_credit_policy'', TEXT), (''prepaid_credit_policy'', TEXT),
     (''unused_credit_policy'', TEXT),
     (''cost_basis'', enum_schema [''CASH_OUTLAY'', ''LIST_PRICE_EQUIVALENT'', ''BOTH'']),
     (''time_kinds'', arr_schema (enum_schema [''MACHINE_ELAPSED'', ''OPERATOR_ACTIVE'', ''WAITING_QUEUE'']) 2)]"

definition METRIC :: schema where
  "METRIC = obj_schema [
     (''metric_id'', TEXT), (''numerator'', TEXT), (''denominator'', TEXT),
     (''population'', REF), (''exclusion_rule'', TEXT),
     (''missingness'', const_schema (JStr ''PRESERVE_TYPED_STATES'')),
     (''zero_denominator'', const_schema (JStr ''NOT_EVALUABLE''))]"

text \<open>The nested schemas of the specification, named.\<close>

definition A0_SCHEMA :: schema where
  "A0_SCHEMA = obj_schema [(''origin'', const_schema (JStr ''HUMAN_MODEL_CO_DESIGN'')), (''scored'', const_schema (JBool False)),
     (''frozen'', const_schema (JBool True)), (''task_fingerprint'', HASH),
     (''scope_fingerprint'', HASH), (''resource_fingerprint'', HASH),
     (''task_hierarchy'', arr_schema TEXT 1), (''stop_on_signal'', arr_schema TEXT 1),
     (''economic_success_criteria'', TEXTS)]"

definition A1_SCHEMA :: schema where
  "A1_SCHEMA = obj_schema [(''owner'', enum_schema [''ENTRANT'', ''SEARCH_STACK'', ''NONE'']),
     (''allowed'', arr_schema (enum_schema A1_BEHAVIORS) 0),
     (''forbidden_mutations'', const_schema (JArr [JStr ''TASK'', JStr ''SCOPE'', JStr ''BUDGET'', JStr ''EVIDENCE'', JStr ''UNKNOWN_RULE'']))]"

definition CONTROL_SCHEMA :: schema where
  "CONTROL_SCHEMA = obj_schema [
     (''principal'', enum_schema [''COMPOSITE_SYSTEM'', ''ENTRANT_MODEL_CONFIG'', ''JUDGE_MODEL_CONFIG'',
         ''RETRIEVER_CONFIG'', ''SYSTEM'', ''SYSTEM_RESOURCE_PACKAGE'', ''ONE_CAPABILITY'']),
     (''fixed'', obj_schema_opt (map (\<lambda>name. (name, HASH)) CONTROLS) CONTROLS),
     (''qualified_nuisance'', TEXTS),
     (''changed_capabilities'', arr_schema (enum_schema ABLATION_CAPABILITIES) 0),
     (''fixed_capabilities'', obj_schema_opt (map (\<lambda>name. (name, HASH)) ABLATION_CAPABILITIES) ABLATION_CAPABILITIES)]"

definition PRIVACY_SCHEMA :: schema where
  "PRIVACY_SCHEMA = obj_schema [(''public_safe_inputs_only'', const_schema (JBool True)),
     (''credential_access'', const_schema (JBool False)), (''private_locator_access'', const_schema (JBool False)),
     (''hidden_authority_access'', const_schema (JBool False)), (''official_prompt_access'', const_schema (JBool False))]"

definition OVERLAY_SCHEMA :: schema where
  "OVERLAY_SCHEMA = any_of [FROZEN_OVERLAY, LIVE_OVERLAY, JUDGMENT_OVERLAY]"

definition SEARCHSPEC_SCHEMA :: schema where
  "SEARCHSPEC_SCHEMA = obj_schema [
     (''schema_id'', const_schema (JStr ''searchspec/v2'')), (''spec_id'', TEXT), (''spec_version'', TEXT),
     (''spec_status'', enum_schema [''DRAFT'', ''FROZEN'', ''RETIRED'']),
     (''architecture_authority'', const_schema (JStr ''SEARCH-CUP/v2.3'')),
     (''created_at'', TEXT), (''frozen_at'', typed (OneOf [KString, KNull])),
     (''track_id'', enum_schema TRACKS), (''fairness_mode'', enum_schema [''F1'', ''F2'', ''F3'', ''ABLATION'']),
     (''task'', TASK), (''scope'', SCOPE), (''a0'', A0_SCHEMA), (''a1'', A1_SCHEMA),
     (''variable_control'', CONTROL_SCHEMA),
     (''retriever'', nullable RETRIEVER),
     (''resources'', RESOURCE),
     (''output_contract'', REF), (''judgment_contract'', REF),
     (''overlay'', OVERLAY_SCHEMA),
     (''system_disclosure'', nullable SYSTEM_DISCLOSURE),
     (''economic_package'', nullable ECONOMIC_PACKAGE),
     (''claims'', arr_schema (enum_schema CLAIMS) 1), (''metrics'', arr_schema METRIC 1),
     (''privacy'', PRIVACY_SCHEMA),
     (''canonical_fingerprint'', HASH)]"

text \<open>What a value that conforms to an object schema looks like.\<close>

lemma conforms_typed_iff:
  "s_any s = [] \<Longrightarrow> s_type s = OneType k \<Longrightarrow>
     conforms s v \<longleftrightarrow> const_fits s v \<and> enum_fits s v \<and> conforms_kind s k v"
  by (subst conforms_iff) auto

lemma conforms_types_iff:
  "s_any s = [] \<Longrightarrow> s_type s = OneOf ks \<Longrightarrow>
     conforms s v \<longleftrightarrow> const_fits s v \<and> enum_fits s v \<and> (\<exists>k \<in> set ks. conforms_kind s k v)"
  by (subst conforms_iff) auto

lemma conforms_obj:
  "conforms (obj_schema_opt ps os) v \<longleftrightarrow>
     (\<exists>d. v = JObj d \<and> (\<forall>k \<in> set (map fst ps) - set os. has_key d k)
        \<and> (\<forall>kw \<in> set d. \<exists>a. map_of ps (fst kw) = Some a \<and> conforms a (snd kw)))"
  by (subst conforms_typed_iff [where k = KObject]; simp add: obj_schema_opt_def const_fits_def enum_fits_def conforms_kind_iff)
     auto

text \<open>A document with the fields of its schema in the same order.\<close>

lemma conforms_objI:
  assumes "list_all2 (\<lambda>ks kv. fst ks = fst kv \<and> conforms (snd ks) (snd kv)) ps d" and "distinct (map fst ps)"
  shows "conforms (obj_schema ps) (JObj d)"
proof -
  have keys: "map fst ps = map fst d"
    using assms(1) by (induction ps d rule: list_all2_induct) auto
  have "\<exists>a. map_of ps k = Some a \<and> conforms a v" if "(k, v) \<in> set d" for k v
  proof -
    from that obtain i where i: "i < length d" "d ! i = (k, v)" by (metis in_set_conv_nth)
    with assms(1) have "i < length ps" "fst (ps ! i) = k" "conforms (snd (ps ! i)) v"
      by (auto simp: list_all2_conv_all_nth)
    then show ?thesis using assms(2) by (metis map_of_is_SomeI nth_mem prod.collapse)
  qed
  moreover have "has_key d k" if "k \<in> set (map fst ps)" for k
    using that keys by (simp add: has_key_def)
  ultimately show ?thesis by (auto simp: conforms_obj)
qed

lemma conforms_arr:
  "conforms (arr_schema a n) v \<longleftrightarrow>
     (\<exists>xs. v = JArr xs \<and> n \<le> length xs \<and> \<not> has_duplicates [] xs \<and> (\<forall>x \<in> set xs. conforms a x))"
  by (subst conforms_typed_iff [where k = KArray]; simp add: arr_schema_def const_fits_def enum_fits_def conforms_kind_iff)

lemma conforms_enum: "conforms (enum_schema ws) v \<longleftrightarrow> (\<exists>w \<in> set ws. v = JStr w)"
  by (subst conforms_typed_iff [where k = KString];
      simp add: enum_schema_def const_fits_def enum_fits_def conforms_kind_iff text_fits_def)
     (auto simp: py_in_def list_ex_iff)

lemma conforms_const: "conforms (const_schema c) v \<longleftrightarrow> py_type v = py_type c \<and> py_eq v c"
  by (subst conforms_iff) (simp add: const_schema_def const_fits_def enum_fits_def)

lemma conforms_any: "ss \<noteq> [] \<Longrightarrow> conforms (any_of ss) v \<longleftrightarrow> (\<exists>a \<in> set ss. conforms a v)"
  by (subst conforms_iff) (auto simp: any_of_def)

lemma conforms_text: "conforms (text_schema n p) v \<longleftrightarrow> (\<exists>t. v = JStr t \<and> n \<le> length t \<and> matches_pattern p t)"
  by (subst conforms_typed_iff [where k = KString];
      simp add: text_schema_def const_fits_def enum_fits_def conforms_kind_iff text_fits_def)

lemma conforms_typed_none: "conforms (typed (OneType KNull)) v \<longleftrightarrow> v = JNull"
  by (subst conforms_typed_iff [where k = KNull]; simp add: typed_def const_fits_def enum_fits_def conforms_kind_iff)

end
