(* ===== verification/V23Safety.thy ===== *)
theory V23Safety
  imports V23Schema CupContracts PyUnicode
begin

text \<open>
  The first part of \<open>src/search_cup/protocol_v23.py\<close>: the finite-JSON gate, the scanner for
  private keys, credentials and locators (which percent-decodes every string twice and
  searches six regular expressions in it), and the seal, a top-level fingerprint of the
  rest of a document.

  The strings of a document are lists of code points below 256, but the text that the
  scanner searches is not: percent-decoding may yield any code point, so the scanner
  works on lists of code points (\<open>PyUnicode\<close>).
\<close>

section \<open>Finite JSON\<close>

definition finite_number :: "flt \<Rightarrow> bool" where
  "finite_number f = (case f of Fin _ \<Rightarrow> True | _ \<Rightarrow> False)"

fun finite_json :: "json \<Rightarrow> unit result" where
  "finite_json (JObj d) = bindE (mapE (\<lambda>(_, w). finite_json w) d) (\<lambda>_. Inr ())"
| "finite_json (JArr xs) = bindE (mapE finite_json xs) (\<lambda>_. Inr ())"
| "finite_json (JFloat f) = guard (finite_number f) ''non-finite JSON number''"
| "finite_json _ = Inr ()"

section \<open>The scanner's regular expressions\<close>

text \<open>
  The constructs that \<open>PRIVATE_PATTERNS\<close> uses, with the matching of \<open>re\<close> as the list of
  places where a match can end: the character before and the rest of the text.
  \<open>Run n P\<close> is a class repeated at least \<open>n\<close> times, \<open>Boundary\<close> is \<open>\b\<close>.
\<close>

datatype 'a rx = One "'a \<Rightarrow> bool" | Run nat "'a \<Rightarrow> bool" | Then "'a rx" "'a rx" | Or "'a rx" "'a rx"
  | Maybe "'a rx" | Boundary "'a \<Rightarrow> bool"

type_synonym 'a place = "'a option \<times> 'a list"

definition word_place :: "('a \<Rightarrow> bool) \<Rightarrow> 'a option \<Rightarrow> bool" where
  "word_place W c = (case c of None \<Rightarrow> False | Some x \<Rightarrow> W x)"

definition head_of :: "'a list \<Rightarrow> 'a option" where
  "head_of s = (case s of [] \<Rightarrow> None | c # _ \<Rightarrow> Some c)"

fun runs :: "('a \<Rightarrow> bool) \<Rightarrow> nat \<Rightarrow> 'a place \<Rightarrow> 'a place list" where
  "runs P n (p, []) = (if n = 0 then [(p, [])] else [])"
| "runs P n (p, c # s) = (if P c then runs P (n - 1) (Some c, s) else []) @ (if n = 0 then [(p, c # s)] else [])"

primrec matches :: "'a rx \<Rightarrow> 'a place \<Rightarrow> 'a place list" where
  "matches (One P) = (\<lambda>(p, s). case s of [] \<Rightarrow> [] | c # t \<Rightarrow> if P c then [(Some c, t)] else [])"
| "matches (Run n P) = runs P n"
| "matches (Then a b) = (\<lambda>x. concat (map (matches b) (matches a x)))"
| "matches (Or a b) = (\<lambda>x. matches a x @ matches b x)"
| "matches (Maybe a) = (\<lambda>x. matches a x @ [x])"
| "matches (Boundary W) = (\<lambda>(p, s). if word_place W p \<noteq> word_place W (head_of s) then [(p, s)] else [])"

fun search_from :: "'a rx \<Rightarrow> 'a place \<Rightarrow> bool" where
  "search_from r (p, []) \<longleftrightarrow> matches r (p, []) \<noteq> []"
| "search_from r (p, c # s) \<longleftrightarrow> matches r (p, c # s) \<noteq> [] \<or> search_from r (Some c, s)"

definition re_search :: "'a rx \<Rightarrow> 'a list \<Rightarrow> bool" where
  "re_search r s = search_from r (None, s)"

text \<open>Every pattern is searched with \<open>re.I\<close>.\<close>

definition letter :: "char \<Rightarrow> nat rx" where
  "letter a = One (same_letter a)"

fun word :: "string \<Rightarrow> nat rx" where
  "word [] = Run 0 (\<lambda>_. False)"
| "word [a] = letter a"
| "word (a # b # s) = Then (letter a) (word (b # s))"

text \<open>\<open>[A-Za-z0-9]\<close> and the characters of \<open>extra\<close>\<close>

definition token_class :: "string \<Rightarrow> nat \<Rightarrow> bool" where
  "token_class extra n \<longleftrightarrow> alnum_point n \<or> n \<in> code ` set extra"

definition dash :: "nat rx" where
  "dash = One (\<lambda>n. n \<in> {code (CHR ''-''), code (CHR ''_'')})"

definition spaces :: "nat \<Rightarrow> nat rx" where
  "spaces n = Run n space_point"

definition edge :: "nat rx" where
  "edge = Boundary word_point"

definition PRIVATE_PATTERNS :: "nat rx list" where
  "PRIVATE_PATTERNS = [
     Then (Or (word ''docs'') (word ''drive'')) (word ''.google.com''),
     Then (Or (word ''file'') (word ''gdrive'')) (word ''://''),
     Then edge (Then (Or (word ''sk'') (Or (word ''ghp'') (word ''github_pat'')))
       (Then dash (Run 12 (token_class ''_-'')))),
     Then edge (Then (Or (word ''bearer'') (word ''basic''))
       (Then (spaces 1) (Run 8 (token_class ''+/=_-'')))),
     Then (word ''-----begin '') (Then (Maybe (Or (word ''rsa '') (Or (word ''ec '') (word ''openssh ''))))
       (word ''private key-----'')),
     Then edge (Then (Or (Then (word ''api'') (Then (Maybe dash) (word ''key'')))
         (Or (Then (word ''access'') (Then (Maybe dash) (word ''token''))) (word ''password'')))
       (Then (spaces 0) (Then (One (\<lambda>n. n \<in> {code (CHR '':''), code (CHR ''='')}))
         (Then (spaces 0) (Run 1 (\<lambda>n. \<not> space_point n))))))]"

definition PRIVATE_KEYS :: "string list" where
  "PRIVATE_KEYS = [''api_key'', ''apikey'', ''access_token'', ''refresh_token'',
     ''authorization'', ''password'', ''credentials'', ''private_key'', ''private_archive'',
     ''raw'', ''l0'', ''health'', ''relationship'', ''financial'', ''google_drive'',
     ''hidden_registry'', ''answer_key'']"

definition squeeze :: "string \<Rightarrow> string" where
  "squeeze s = filter (\<lambda>c. (97 \<le> code c \<and> code c \<le> 122) \<or> (48 \<le> code c \<and> code c \<le> 57)) s"

definition NORMALIZED_PRIVATE_KEYS :: "string list" where
  "NORMALIZED_PRIVATE_KEYS = map squeeze PRIVATE_KEYS"

section \<open>Content safety\<close>

definition text_safe :: "string \<Rightarrow> bool" where
  "text_safe s \<longleftrightarrow> (let decoded = unquote (unquote (map code s)) in \<not> list_ex (\<lambda>r. re_search r decoded) PRIVATE_PATTERNS)"

definition visit_text :: "string \<Rightarrow> unit result" where
  "visit_text s = guard (text_safe s) ''excluded credential or private locator''"

fun visit :: "json \<Rightarrow> unit result" where
  "visit (JObj d) = bindE (mapE (\<lambda>(k, w).
       if squeeze (lower k) \<in> set NORMALIZED_PRIVATE_KEYS then Inl (ValueError ''excluded private field'')
       else bindE (visit_text k) (\<lambda>_. visit w)) d) (\<lambda>_. Inr ())"
| "visit (JArr xs) = bindE (mapE visit xs) (\<lambda>_. Inr ())"
| "visit (JStr s) = visit_text s"
| "visit _ = Inr ()"

definition assert_content_safe :: "json \<Rightarrow> unit result" where
  "assert_content_safe v = bindE (finite_json v) (\<lambda>_. visit v)"

text \<open>What a safe document is, as a predicate.\<close>

definition key_safe :: "string \<Rightarrow> bool" where
  "key_safe k \<longleftrightarrow> squeeze (lower k) \<notin> set NORMALIZED_PRIVATE_KEYS \<and> text_safe k"

fun content_safe :: "json \<Rightarrow> bool" where
  "content_safe (JObj d) \<longleftrightarrow> list_all (\<lambda>kw. key_safe (fst kw) \<and> content_safe (snd kw)) d"
| "content_safe (JArr xs) \<longleftrightarrow> list_all content_safe xs"
| "content_safe (JStr s) \<longleftrightarrow> text_safe s"
| "content_safe (JFloat f) \<longleftrightarrow> finite_number f"
| "content_safe _ \<longleftrightarrow> True"

lemma mapE_unit_ok: "bindE (mapE f xs) (\<lambda>_. Inr ()) = Inr () \<longleftrightarrow> (\<forall>x \<in> set xs. isOk (f x))"
  by (simp add: bindE_eq_Inr Ex_mapE)

lemma unit_isOk: "isOk (r :: unit result) \<longleftrightarrow> r = Inr ()"
  by (cases r) auto

lemma finite_visit_safe: "finite_json v = Inr () \<and> visit v = Inr () \<longleftrightarrow> content_safe v"
proof (induction v)
  case (JArr xs)
  then show ?case
    by (auto simp: mapE_unit_ok unit_isOk list_all_iff)
next
  case (JObj d)
  have "(\<lambda>(_, w). finite_json w) kw = Inr () \<and> (\<lambda>(k, w).
       if squeeze (lower k) \<in> set NORMALIZED_PRIVATE_KEYS then Inl (ValueError ''excluded private field'')
       else bindE (visit_text k) (\<lambda>_. visit w)) kw = Inr () \<longleftrightarrow> key_safe (fst kw) \<and> content_safe (snd kw)"
    if "kw \<in> set d" for kw
    using JObj [of kw "snd kw"] that
    by (cases kw) (auto simp: key_safe_def visit_text_def bindE_eq_Inr guard_Inr)
  then show ?case
    by (simp add: mapE_unit_ok unit_isOk list_all_iff ball_conj_distrib [symmetric] split_beta)
qed (auto simp: visit_text_def guard_Inr)

theorem assert_content_safe_iff: "assert_content_safe v = Inr () \<longleftrightarrow> content_safe v"
  by (simp add: assert_content_safe_def bindE_eq_Inr finite_visit_safe [symmetric])

lemma content_safe_canon [simp]: "content_safe (canon v) \<longleftrightarrow> content_safe v"
proof (induction v)
  case (JArr xs)
  then show ?case by (simp add: list_all_iff)
next
  case (JObj d)
  then show ?case
    by (force simp: canon_JObj set_canon_items list_all_iff snds.simps simp del: canon.simps)
qed simp_all


section \<open>Scanning text without percent signs\<close>

text \<open>
  Text without a percent sign stays in Latin-1, and there a pattern over code points is a
  pattern over characters: \<open>pull f r\<close> matches \<open>s\<close> where \<open>r\<close> matches \<open>map f s\<close>.
\<close>

primrec pull :: "('a \<Rightarrow> 'b) \<Rightarrow> 'b rx \<Rightarrow> 'a rx" where
  "pull f (One P) = One (\<lambda>c. P (f c))"
| "pull f (Run n P) = Run n (\<lambda>c. P (f c))"
| "pull f (Then a b) = Then (pull f a) (pull f b)"
| "pull f (Or a b) = Or (pull f a) (pull f b)"
| "pull f (Maybe a) = Maybe (pull f a)"
| "pull f (Boundary W) = Boundary (\<lambda>c. W (f c))"

definition map_place :: "('a \<Rightarrow> 'b) \<Rightarrow> 'a place \<Rightarrow> 'b place" where
  "map_place f x = (map_option f (fst x), map f (snd x))"

lemma runs_pull: "runs P n (map_place f x) = map (map_place f) (runs (\<lambda>c. P (f c)) n x)"
proof -
  have "runs P n (map_option f p, map f s) = map (map_place f) (runs (\<lambda>c. P (f c)) n (p, s))" for p s
    by (induction s arbitrary: n p) (simp_all add: map_place_def, metis option.map(2))
  then show ?thesis by (cases x) (simp add: map_place_def)
qed

lemma matches_pull: "matches r (map_place f x) = map (map_place f) (matches (pull f r) x)"
proof (induction r arbitrary: x)
  case (Then a b)
  then show ?case by (simp add: map_concat comp_def)
next
  case (Boundary W)
  have "word_place W (map_option f p) = word_place (\<lambda>c. W (f c)) p"
    "word_place W (head_of (map f s)) = word_place (\<lambda>c. W (f c)) (head_of s)" for p s
    by (auto simp: word_place_def head_of_def split: option.splits list.splits)
  then show ?case by (cases x) (simp add: map_place_def)
next
  case (One P)
  show ?case by (cases x) (auto simp: map_place_def split: list.splits)
qed (simp_all add: runs_pull)

lemma search_pull: "re_search r (map f s) \<longleftrightarrow> re_search (pull f r) s"
proof -
  have "search_from r (map_option f p, map f s) \<longleftrightarrow> search_from (pull f r) (p, s)" for p
  proof (induction s arbitrary: p)
    case Nil
    show ?case using matches_pull [of r f "(p, [])"] by (simp add: map_place_def)
  next
    case (Cons c s)
    show ?case using matches_pull [of r f "(p, c # s)"] Cons [of "Some c"] by (simp add: map_place_def)
  qed
  from this [of None] show ?thesis by (simp add: re_search_def)
qed

text \<open>The patterns over characters.\<close>

definition char_letter :: "char \<Rightarrow> char rx" where
  "char_letter a = One (\<lambda>c. lower_char c = a)"

fun char_word :: "string \<Rightarrow> char rx" where
  "char_word [] = Run 0 (\<lambda>_. False)"
| "char_word [a] = char_letter a"
| "char_word (a # b # s) = Then (char_letter a) (char_word (b # s))"

definition alnum :: "char \<Rightarrow> bool" where
  "alnum c \<longleftrightarrow> (let n = code c in (48 \<le> n \<and> n \<le> 57) \<or> (65 \<le> n \<and> n \<le> 90) \<or> (97 \<le> n \<and> n \<le> 122))"

definition char_dash :: "char rx" where
  "char_dash = One (\<lambda>c. c = CHR ''-'' \<or> c = CHR ''_'')"

definition char_spaces :: "nat \<Rightarrow> char rx" where
  "char_spaces n = Run n py_isspace"

definition char_patterns :: "char rx list" where
  "char_patterns = [
     Then (Or (char_word ''docs'') (char_word ''drive'')) (char_word ''.google.com''),
     Then (Or (char_word ''file'') (char_word ''gdrive'')) (char_word ''://''),
     Then (Boundary word_char) (Then (Or (char_word ''sk'') (Or (char_word ''ghp'') (char_word ''github_pat'')))
       (Then char_dash (Run 12 (\<lambda>c. alnum c \<or> c = CHR ''_'' \<or> c = CHR ''-'')))),
     Then (Boundary word_char) (Then (Or (char_word ''bearer'') (char_word ''basic''))
       (Then (char_spaces 1) (Run 8 (\<lambda>c. alnum c \<or> c \<in> {CHR ''+'', CHR ''/'', CHR ''='', CHR ''_'', CHR ''-''})))),
     Then (char_word ''-----begin '') (Then (Maybe (Or (char_word ''rsa '') (Or (char_word ''ec '') (char_word ''openssh ''))))
       (char_word ''private key-----'')),
     Then (Boundary word_char) (Then (Or (Then (char_word ''api'') (Then (Maybe char_dash) (char_word ''key'')))
         (Or (Then (char_word ''access'') (Then (Maybe char_dash) (char_word ''token''))) (char_word ''password'')))
       (Then (char_spaces 0) (Then (One (\<lambda>c. c = CHR '':'' \<or> c = CHR ''=''))
         (Then (char_spaces 0) (Run 1 (\<lambda>c. \<not> py_isspace c))))))]"

lemma code_eq: "code c = code d \<longleftrightarrow> c = d"
  by (metis char_of_code_id)

lemma alnum_point_code [simp]: "alnum_point (code c) \<longleftrightarrow> alnum c"
  unfolding alnum_point_def alnum_def FOLDED_def Let_def using code_less [of c]
  by (simp add: less_le_trans [of _ 256, THEN less_imp_neq])

lemma pull_word [simp]: "pull code (word w) = char_word w"
  by (induction w rule: word.induct) (simp_all add: letter_def char_letter_def)

lemma pull_patterns: "map (pull code) PRIVATE_PATTERNS = char_patterns"
  by (simp add: PRIVATE_PATTERNS_def char_patterns_def edge_def dash_def char_dash_def spaces_def char_spaces_def
      token_class_def code_eq del: word.simps char_word.simps)

lemma plain_text_safe: "CHR 0x25 \<notin> set s \<Longrightarrow> text_safe s \<longleftrightarrow> list_all (\<lambda>r. \<not> re_search r s) char_patterns"
  by (simp add: text_safe_def unquote_plain percent_code [simplified] search_pull list.pred_map comp_def list_ex_iff
      list_all_iff flip: pull_patterns)

section \<open>Text without markers\<close>

text \<open>
  Every pattern needs a character that no hexadecimal digest has, so fingerprints are
  safe.  \<open>needs Q r\<close>: each match of \<open>r\<close> uses a character with the property \<open>Q\<close>.
\<close>

fun needs :: "('a \<Rightarrow> bool) \<Rightarrow> 'a rx \<Rightarrow> bool" where
  "needs Q (One P) \<longleftrightarrow> (\<forall>c. P c \<longrightarrow> Q c)"
| "needs Q (Run n P) \<longleftrightarrow> n \<noteq> 0 \<and> (\<forall>c. P c \<longrightarrow> Q c)"
| "needs Q (Then a b) \<longleftrightarrow> needs Q a \<or> needs Q b"
| "needs Q (Or a b) \<longleftrightarrow> needs Q a \<and> needs Q b"
| "needs Q (Maybe a) \<longleftrightarrow> False"
| "needs Q (Boundary W) \<longleftrightarrow> False"

lemma runs_end: "(p', s') \<in> set (runs P n (p, s)) \<Longrightarrow> \<exists>a. s = a @ s' \<and> n \<le> length a \<and> list_all P a"
proof (induction P n "(p, s)" arbitrary: p s rule: runs.induct)
  case (2 P n p c s)
  then show ?case
  proof (cases "P c \<and> (p', s') \<in> set (runs P (n - 1) (Some c, s))")
    case True
    with 2 obtain a where "s = a @ s' \<and> n - 1 \<le> length a \<and> list_all P a" by blast
    with True show ?thesis by (intro exI [of _ "c # a"]) auto
  next
    case False
    with 2(2) have "n = 0" "s' = c # s" by (auto split: if_splits)
    then show ?thesis by simp
  qed
next
  case (1 P n p)
  then show ?case by (cases "n = 0") simp_all
qed

lemma matches_end:
  "(p', s') \<in> set (matches r (p, s)) \<Longrightarrow> \<exists>a. s = a @ s' \<and> (needs Q r \<longrightarrow> (\<exists>c \<in> set a. Q c))"
proof (induction r arbitrary: p s p' s')
  case (One P)
  then show ?case by (auto split: list.splits if_splits)
next
  case (Run n P)
  then have "(p', s') \<in> set (runs P n (p, s))" by simp
  from runs_end [OF this] obtain a where "s = a @ s'" "n \<le> length a" "list_all P a" by blast
  then show ?case by (cases a) (auto simp: list_all_iff)
next
  case (Then a b)
  then obtain p1 s1 where m: "(p1, s1) \<in> set (matches a (p, s))" "(p', s') \<in> set (matches b (p1, s1))" by auto
  from Then.IH(1) [OF m(1)] obtain u where u: "s = u @ s1" "needs Q a \<longrightarrow> (\<exists>c \<in> set u. Q c)" by blast
  from Then.IH(2) [OF m(2)] obtain v where v: "s1 = v @ s'" "needs Q b \<longrightarrow> (\<exists>c \<in> set v. Q c)" by blast
  from u v show ?case by (intro exI [of _ "u @ v"]) auto
next
  case (Or a b)
  from Or.prems consider "(p', s') \<in> set (matches a (p, s))" | "(p', s') \<in> set (matches b (p, s))" by auto
  then show ?case using Or.IH by cases (metis needs.simps(4))+
next
  case (Maybe a)
  from Maybe.prems consider "(p', s') \<in> set (matches a (p, s))" | "s' = s" by auto
  then show ?case using Maybe.IH by cases (metis needs.simps(5), simp)
next
  case (Boundary W)
  then show ?case by (auto split: if_splits)
qed

lemma no_match: "needs Q r \<Longrightarrow> list_all (\<lambda>c. \<not> Q c) s \<Longrightarrow> matches r (p, s) = []"
  using matches_end [of _ _ r p s Q]
  by (cases "matches r (p, s)") (auto simp: list_all_iff, metis Un_iff list.set_intros(1) set_append surj_pair)

lemma no_search: "needs Q r \<Longrightarrow> list_all (\<lambda>c. \<not> Q c) s \<Longrightarrow> \<not> re_search r s"
proof -
  have "needs Q r \<Longrightarrow> list_all (\<lambda>c. \<not> Q c) s \<Longrightarrow> \<not> search_from r (p, s)" for p
    by (induction s arbitrary: p) (auto simp: no_match)
  then show "needs Q r \<Longrightarrow> list_all (\<lambda>c. \<not> Q c) s \<Longrightarrow> \<not> re_search r s"
    by (simp add: re_search_def)
qed

lemma lower_hex: "is_hex c \<Longrightarrow> lower_char c = c"
  by (auto simp: is_hex_def lower_char_def Let_def)

lemma needs_letter: "\<not> is_hex a \<Longrightarrow> needs (\<lambda>c. \<not> is_hex c) (char_letter a)"
  by (auto simp: char_letter_def lower_hex)

lemma not_hex_chars: "\<not> is_hex (CHR ''.'')" "\<not> is_hex (CHR '':'')" "\<not> is_hex (CHR ''-'')"
  "\<not> is_hex (CHR ''_'')" "\<not> is_hex (CHR ''='')" "py_isspace c \<Longrightarrow> \<not> is_hex c" "\<not> is_hex (CHR 0x25)"
  by (auto simp: is_hex_def py_isspace_def code_def)

lemma patterns_need: "list_all (needs (\<lambda>c. \<not> is_hex c)) char_patterns"
  unfolding char_patterns_def char_dash_def char_spaces_def
  by (simp add: not_hex_chars needs_letter is_hex_def [of "CHR ''.''"] is_hex_def [of "CHR '':''"] code_def)

lemma hex_safe: "list_all is_hex s \<Longrightarrow> text_safe s"
proof -
  assume h: "list_all is_hex s"
  then have "CHR 0x25 \<notin> set s" using not_hex_chars(7) by (auto simp: list_all_iff)
  with h show "text_safe s"
    by (auto simp: plain_text_safe list_all_iff no_search
        dest: patterns_need [unfolded list_all_iff, rule_format])
qed

lemma fingerprint_safe [simp]: "text_safe (fingerprint v)"
  using sha256_text_shape by (auto simp: fingerprint_def is_sha256_hex_def intro!: hex_safe)

text \<open>
  A quick test for ordinary text: no percent sign and none of the fixed words that a match
  of each pattern contains.
\<close>

definition forces :: "string list \<Rightarrow> char rx \<Rightarrow> bool" where
  "forces ws r \<longleftrightarrow> (\<forall>p s p' s'. (p', s') \<in> set (matches r (p, s)) \<longrightarrow>
     (\<exists>a. s = a @ s' \<and> (\<exists>w \<in> set ws. contains w (lower a))))"

lemma contains_extend: "contains w a \<Longrightarrow> contains w (u @ a @ v)"
  unfolding contains_iff by (metis append.assoc)

lemma runs_none [simp]: "runs (\<lambda>_. False) 0 x = [x]"
  by (cases x; cases "snd x") auto

lemma word_spells: "(p', s') \<in> set (matches (char_word w) (p, s)) \<Longrightarrow> \<exists>a. s = a @ s' \<and> lower a = w"
proof (induction w arbitrary: p s rule: char_word.induct)
  case (2 a)
  then show ?case by (auto simp: char_letter_def lower_def split: list.splits if_splits)
next
  case (3 a b w)
  then obtain c t where s: "s = c # t" "lower_char c = a" "(p', s') \<in> set (matches (char_word (b # w)) (Some c, t))"
    by (auto simp: char_letter_def split: list.splits if_splits)
  from 3(1) [OF s(3)] obtain u where "t = u @ s' \<and> lower u = b # w" by blast
  with s show ?case by (intro exI [of _ "c # u"]) (simp add: lower_def)
qed (auto simp: lower_def)

lemma contains_self [simp]: "contains w w"
  unfolding contains_iff by (intro exI [of _ "[]"]) simp

lemma forces_word: "w \<in> set ws \<Longrightarrow> forces ws (char_word w)"
proof (unfold forces_def, intro allI impI)
  fix p s p' s'
  assume w: "w \<in> set ws" and "(p', s') \<in> set (matches (char_word w) (p, s))"
  from word_spells [OF this(2)] obtain a where "s = a @ s'" "lower a = w" by blast
  with w show "\<exists>a. s = a @ s' \<and> (\<exists>w \<in> set ws. contains w (lower a))"
    by (intro exI [of _ a] conjI bexI [of _ w]) simp_all
qed

lemma forces_One: "\<forall>c. P c \<longrightarrow> [lower_char c] \<in> set ws \<Longrightarrow> forces ws (One P)"
proof (unfold forces_def, intro allI impI)
  fix p s p' s'
  assume w: "\<forall>c. P c \<longrightarrow> [lower_char c] \<in> set ws" and "(p', s') \<in> set (matches (One P) (p, s))"
  then obtain c where "s = [c] @ s'" "P c" by (auto split: list.splits if_splits)
  with w show "\<exists>a. s = a @ s' \<and> (\<exists>w \<in> set ws. contains w (lower a))"
    by (intro exI [of _ "[c]"] conjI bexI [of _ "[lower_char c]"]) (simp_all add: lower_def)
qed

lemma forces_Or: "forces ws a \<Longrightarrow> forces ws b \<Longrightarrow> forces ws (Or a b)"
  unfolding forces_def by (metis Un_iff matches.simps(4) set_append)

lemma forces_Then: "forces ws a \<or> forces ws b \<Longrightarrow> forces ws (Then a b)"
proof (unfold forces_def, intro allI impI)
  fix p s p' s'
  assume f: "(\<forall>p s p' s'. (p', s') \<in> set (matches a (p, s)) \<longrightarrow>
     (\<exists>a. s = a @ s' \<and> (\<exists>w \<in> set ws. contains w (lower a)))) \<or> (\<forall>p s p' s'. (p', s') \<in> set (matches b (p, s)) \<longrightarrow>
     (\<exists>a. s = a @ s' \<and> (\<exists>w \<in> set ws. contains w (lower a))))"
  assume "(p', s') \<in> set (matches (Then a b) (p, s))"
  then obtain p1 s1 where m: "(p1, s1) \<in> set (matches a (p, s))" "(p', s') \<in> set (matches b (p1, s1))" by auto
  from matches_end [OF m(1)] obtain u where u: "s = u @ s1" by blast
  from matches_end [OF m(2)] obtain v where v: "s1 = v @ s'" by blast
  from f have "\<exists>w \<in> set ws. contains w (lower (u @ v))"
    using m u v contains_extend [of _ _ "[]"] contains_extend [of _ _ _ "[]"]
    by (auto simp: lower_def) (metis append_same_eq append_Nil append_Nil2)+
  with u v show "\<exists>a. s = a @ s' \<and> (\<exists>w \<in> set ws. contains w (lower a))"
    by (intro exI [of _ "u @ v"]) simp
qed

lemma search_place: "search_from r (p, s) \<Longrightarrow> \<exists>p' a b. s = a @ b \<and> matches r (p', b) \<noteq> []"
  by (induction s arbitrary: p) (force, metis append_Cons append_Nil search_from.simps(2))

lemma forces_search: "forces ws r \<Longrightarrow> re_search r s \<Longrightarrow> \<exists>w \<in> set ws. contains w (lower s)"
proof -
  assume f: "forces ws r" and "re_search r s"
  then obtain p a b x where "s = a @ b" "x \<in> set (matches r (p, b))"
    unfolding re_search_def by (metis list.set_intros(1) neq_Nil_conv search_place)
  obtain p' s' where x: "x = (p', s')" by (cases x)
  from \<open>x \<in> _\<close> obtain u where u: "b = u @ s'" "\<exists>w \<in> set ws. contains w (lower u)"
    using f by (simp only: forces_def x) blast
  then have "lower s = lower a @ lower u @ lower s'" using \<open>s = a @ b\<close> by (simp add: lower_def)
  with u(2) contains_extend show ?thesis by metis
qed

lemma get_snoc: "get (d @ [(k, v)]) k' = (if k' \<in> fst ` set d then get d k' else if k' = k then v else JNull)"
  unfolding get_append by (simp add: get_def)

lemma contains_char: "contains [c] s \<longleftrightarrow> c \<in> set s"
  by (induction s) auto

lemma lower_colon: "CHR '':'' \<in> set (lower s) \<longleftrightarrow> CHR '':'' \<in> set s" "CHR ''='' \<in> set (lower s) \<longleftrightarrow> CHR ''='' \<in> set s"
proof -
  have "code (lower_char c) \<noteq> 58 \<and> code (lower_char c) \<noteq> 61" if "lower_char c \<noteq> c" for c
    using that by (auto simp: lower_char_def Let_def code_char_of split: if_splits)
  then have "CHR '':'' = lower_char c \<longleftrightarrow> c = CHR '':''" "CHR ''='' = lower_char c \<longleftrightarrow> c = CHR ''=''" for c
    using code_ascii(25,28) lower_ascii(25,28) by metis+
  then show "CHR '':'' \<in> set (lower s) \<longleftrightarrow> CHR '':'' \<in> set s" "CHR ''='' \<in> set (lower s) \<longleftrightarrow> CHR ''='' \<in> set s"
    by (simp_all add: lower_def image_iff)
qed

definition marker_words :: "string list" where
  "marker_words = [''.google.com'', ''://'', ''bearer'', ''basic'', ''private key-----'']"

definition token_heads :: "string list" where
  "token_heads = [''sk-'', ''sk_'', ''ghp-'', ''ghp_'', ''pat-'', ''pat_'']"

definition unmarked :: "string \<Rightarrow> bool" where
  "unmarked s \<longleftrightarrow> CHR 0x25 \<notin> set s \<and> list_all (\<lambda>w. \<not> contains w (lower s)) marker_words
     \<and> list_all (\<lambda>w. \<not> contains w (take (length s - 12) (lower s))) token_heads
     \<and> ((CHR '':'' \<notin> set s \<and> CHR ''='' \<notin> set s)
        \<or> list_all (\<lambda>w. \<not> contains w (lower s)) [''key'', ''token'', ''password''])"

definition token_pattern :: "char rx" where
  "token_pattern = Then (Boundary word_char) (Then (Or (char_word ''sk'') (Or (char_word ''ghp'') (char_word ''github_pat'')))
       (Then char_dash (Run 12 (\<lambda>c. alnum c \<or> c = CHR ''_'' \<or> c = CHR ''-''))))"

lemma contains_suffix: "contains (u @ w) s \<Longrightarrow> contains w s"
  unfolding contains_iff by (metis append.assoc)

lemma token_match:
  assumes "re_search token_pattern s"
  shows "\<exists>a u c b. s = a @ u @ c # b \<and> lower u \<in> {''sk'', ''ghp'', ''github_pat''} \<and> (c = CHR ''-'' \<or> c = CHR ''_'') \<and> 12 \<le> length b"
proof -
  from assms obtain p a b x where ab: "s = a @ b" "x \<in> set (matches token_pattern (p, b))"
    unfolding re_search_def by (metis list.set_intros(1) neq_Nil_conv search_place)
  let ?heads = "Or (char_word ''sk'') (Or (char_word ''ghp'') (char_word ''github_pat''))"
  let ?tail = "runs (\<lambda>c. alnum c \<or> c = CHR ''_'' \<or> c = CHR ''-'') 12"
  from ab(2) have "x \<in> set (matches (Then ?heads (Then char_dash (Run 12 (\<lambda>c. alnum c \<or> c = CHR ''_'' \<or> c = CHR ''-'')))) (p, b))"
    by (simp add: token_pattern_def del: char_word.simps split: if_splits)
  then obtain y z where yz: "y \<in> set (matches ?heads (p, b))" "z \<in> set (matches char_dash y)" "x \<in> set (?tail z)"
    by (simp del: char_word.simps) blast
  obtain p1 s1 p2 s2 p3 s3 where pl: "y = (p1, s1)" "z = (p2, s2)" "x = (p3, s3)" by (cases x; cases y; cases z)
  from yz(1) obtain w where "w \<in> {''sk'', ''ghp'', ''github_pat''}" "(p1, s1) \<in> set (matches (char_word w) (p, b))"
    by (auto simp: pl simp del: char_word.simps)
  with yz pl have w: "w \<in> {''sk'', ''ghp'', ''github_pat''}" "(p1, s1) \<in> set (matches (char_word w) (p, b))"
      "(p2, s2) \<in> set (matches char_dash (p1, s1))" "(p3, s3) \<in> set (?tail (p2, s2))" by simp_all
  from word_spells [OF w(2)] obtain u where u: "b = u @ s1" "lower u = w" by blast
  from w(3) obtain c where c: "s1 = c # s2" "c = CHR ''-'' \<or> c = CHR ''_''"
    by (auto simp: char_dash_def split: list.splits if_splits)
  from runs_end [OF w(4)] obtain v where v: "s2 = v @ s3" "12 \<le> length v" by blast
  from ab(1) u c v w(1) show ?thesis by (intro exI [of _ a] exI [of _ u] exI [of _ c] exI [of _ s2]) auto
qed

lemma token_search:
  assumes "re_search token_pattern s"
  shows "\<exists>w \<in> set token_heads. contains w (take (length s - 12) (lower s))"
proof -
  from token_match [OF assms] obtain a u c b where s: "s = a @ u @ c # b" and u: "lower u \<in> {''sk'', ''ghp'', ''github_pat''}"
    and c: "c = CHR ''-'' \<or> c = CHR ''_''" and b: "12 \<le> length b" by blast
  have "length (lower (a @ u @ [c])) \<le> length s - 12" using b by (simp add: s lower_def)
  moreover have "lower s = lower (a @ u @ [c]) @ lower b" by (simp add: s lower_def)
  ultimately have "\<exists>t. take (length s - 12) (lower s) = lower (a @ u @ [c]) @ t"
    by (simp only: take_append take_all) blast
  moreover have "lower_char c = c" using c by (auto simp: ascii)
  ultimately obtain t where "take (length s - 12) (lower s) = lower a @ (lower u @ [c]) @ t"
    by (auto simp: lower_def)
  then have "contains (lower u @ [c]) (take (length s - 12) (lower s))"
    unfolding contains_iff by metis
  then show ?thesis
    using u c contains_suffix [of "''github_''" "''pat-''"] contains_suffix [of "''github_''" "''pat_''"]
    by (auto simp: token_heads_def)
qed

lemma forces_patterns:
  "list_all (\<lambda>r. forces marker_words r \<or> r = token_pattern
     \<or> (forces ['':'', ''=''] r \<and> forces [''key'', ''token'', ''password''] r)) char_patterns"
proof -
  have w: "w \<in> set marker_words \<Longrightarrow> forces marker_words (char_word w)" for w by (rule forces_word)
  have k: "w \<in> {''key'', ''token'', ''password''} \<Longrightarrow> forces [''key'', ''token'', ''password''] (char_word w)" for w
    by (rule forces_word) simp
  have c: "forces ['':'', ''=''] (One (\<lambda>c. c = CHR '':'' \<or> c = CHR ''=''))"
    by (rule forces_One) (auto simp: ascii)
  note T = forces_Then [OF disjI1] forces_Then [OF disjI2]
  show ?thesis
    unfolding char_patterns_def list.pred_inject token_pattern_def
    apply (intro conjI TrueI)
         apply (rule disjI1, rule T(2), rule w, simp add: marker_words_def)
        apply (rule disjI1, rule T(2), rule w, simp add: marker_words_def)
       apply (rule disjI2, rule disjI1, rule refl)
      apply (rule disjI1, rule T(2), rule T(1), rule forces_Or; rule w; simp add: marker_words_def)
     apply (rule disjI1, rule T(2), rule T(2), rule w, simp add: marker_words_def)
    apply (rule disjI2, rule disjI2, rule conjI)
     apply (rule T(2), rule T(2), rule T(2), rule T(1), rule c)
    apply (rule T(2), rule T(1), intro forces_Or)
      apply (rule T(2), rule T(2), rule k, simp)
     apply (rule T(2), rule T(2), rule k, simp)
     apply (rule k, simp)
    apply simp
    done
qed

lemma unmarked_safe:
  assumes "unmarked s"
  shows "text_safe s"
proof -
  have force: "forces marker_words r \<or> r = token_pattern \<or> (forces ['':'', ''=''] r \<and> forces [''key'', ''token'', ''password''] r)"
    if "r \<in> set char_patterns" for r
    using that forces_patterns by (auto simp: list_all_iff)
  have "\<not> re_search r s" if r: "r \<in> set char_patterns" for r
  proof
    assume m: "re_search r s"
    from force [OF r] show False
    proof (elim disjE conjE)
      assume "forces marker_words r"
      from forces_search [OF this m] assms show False by (auto simp: unmarked_def list_all_iff)
    next
      assume "r = token_pattern"
      with token_search m assms show False by (auto simp: unmarked_def list_all_iff)
    next
      assume "forces ['':'', ''=''] r" and "forces [''key'', ''token'', ''password''] r"
      from forces_search [OF this(1) m] forces_search [OF this(2) m] assms show False
        by (auto simp: unmarked_def contains_char lower_colon)
    qed
  qed
  moreover have "CHR 0x25 \<notin> set s" using assms by (simp add: unmarked_def)
  ultimately show ?thesis by (simp add: plain_text_safe list_all_iff)
qed

text \<open>
  Most text is plainer still: letters, digits and underscores, none of which follows
  \<open>sk\<close>, \<open>hp\<close> or \<open>at\<close>.
\<close>

definition token_end :: "char \<Rightarrow> char \<Rightarrow> bool" where
  "token_end p q \<longleftrightarrow> (p, q) \<in> {(CHR ''s'', CHR ''k''), (CHR ''h'', CHR ''p''), (CHR ''a'', CHR ''t'')}"

fun plain_from :: "char \<Rightarrow> char \<Rightarrow> string \<Rightarrow> bool" where
  "plain_from p q [] \<longleftrightarrow> True"
| "plain_from p q (c # s) \<longleftrightarrow> plain_char c \<and> (c = CHR ''_'' \<longrightarrow> \<not> token_end (lower_char p) (lower_char q)) \<and> plain_from q c s"

definition plain :: "string \<Rightarrow> bool" where
  "plain s \<longleftrightarrow> plain_from (CHR ''_'') (CHR ''_'') s"

lemma plain_chars: "plain_from p q s \<Longrightarrow> list_all plain_char s"
  by (induction p q s rule: plain_from.induct) auto

lemma plain_bigram:
  "plain_from p q s \<Longrightarrow> p # q # s = a @ x # y # CHR ''_'' # b \<Longrightarrow> \<not> token_end (lower_char x) (lower_char y)"
proof (induction p q s arbitrary: a rule: plain_from.induct)
  case (1 p q)
  then show ?case by (cases a; cases "tl a"; auto)
next
  case (2 p q c s)
  then show ?case by (cases a) auto
qed

lemma lower_plain: "plain_char c \<Longrightarrow> plain_char (lower_char c)"
  by (auto simp: plain_char_def lower_char_def Let_def code_char_of code_def split: if_splits)

lemma needs_plain: "\<not> plain_char a \<Longrightarrow> needs (\<lambda>c. \<not> plain_char c) (char_letter a)"
  using lower_plain by (auto simp: char_letter_def)

lemma space_not_plain: "py_isspace c \<Longrightarrow> \<not> plain_char c"
  by (auto simp: py_isspace_def plain_char_def Let_def code_ascii)

lemma patterns_need_plain: "list_all (\<lambda>r. needs (\<lambda>c. \<not> plain_char c) r \<or> r = token_pattern) char_patterns"
  unfolding char_patterns_def char_dash_def char_spaces_def token_pattern_def
  by (simp add: needs_plain space_not_plain ascii)

lemma plain_safe:
  assumes "plain s"
  shows "text_safe s"
proof -
  have chars: "list_all plain_char s" using assms plain_chars by (simp add: plain_def)
  have "\<not> re_search r s" if "r \<in> set char_patterns" for r
  proof (cases "r = token_pattern")
    case False
    with that patterns_need_plain have "needs (\<lambda>c. \<not> plain_char c) r" by (auto simp: list_all_iff)
    from no_search [OF this, of s] chars show ?thesis by simp
  next
    case True
    show ?thesis
    proof
      assume "re_search r s"
      with True obtain a u c b where s: "s = a @ u @ c # b" and u: "lower u \<in> {''sk'', ''ghp'', ''github_pat''}"
        and c: "c = CHR ''-'' \<or> c = CHR ''_''" using token_match by blast
      have c: "c = CHR ''_''" using c chars s by (auto simp: ascii)
      have "u = take (length u - 2) u @ drop (length u - 2) u" by simp
      moreover have "lower (drop (length u - 2) u) \<in> {''sk'', ''hp'', ''at''}"
        using u by (auto simp: lower_def map_eq_Cons_conv)
      then obtain x y where "drop (length u - 2) u = [x, y]" "token_end (lower_char x) (lower_char y)"
        by (auto simp: lower_def token_end_def map_eq_Cons_conv)
      ultimately obtain v where v: "u = v @ [x, y]" "token_end (lower_char x) (lower_char y)" by metis
      have "CHR ''_'' # CHR ''_'' # s = (CHR ''_'' # CHR ''_'' # a @ v) @ x # y # CHR ''_'' # b"
        by (simp add: s c v(1))
      from plain_bigram [OF _ this] assms v(2) show False by (simp add: plain_def)
    qed
  qed
  moreover have "CHR 0x25 \<notin> set s" using chars by (auto simp: list_all_iff plain_char_def code_def)
  ultimately show ?thesis by (simp add: plain_text_safe list_all_iff)
qed

section \<open>Sealed documents\<close>

definition canonical_fingerprint :: string where
  "canonical_fingerprint = ''canonical_fingerprint''"

definition pop :: "obj \<Rightarrow> string \<Rightarrow> obj" where
  "pop d k = filter (\<lambda>kw. fst kw \<noteq> k) d"

definition seal :: "obj \<Rightarrow> obj result" where
  "seal d =
     bindE (assert_content_safe (JObj d)) (\<lambda>_.
     bindE (json_loads (canonical_json (JObj d))) (\<lambda>v. case v of
         JObj r \<Rightarrow>
           (let rest = pop r canonical_fingerprint
            in Inr (put rest canonical_fingerprint (JStr (fingerprint (JObj rest)))))
       | _ \<Rightarrow> Inl (Exc ''AttributeError'' ''pop'')))"

definition verify_seal :: "json \<Rightarrow> unit result" where
  "verify_seal v =
     bindE (assert_content_safe v) (\<lambda>_. case v of
         JObj d \<Rightarrow>
           bindE (seal d) (\<lambda>s.
           guard (py_eq (get d canonical_fingerprint) (get s canonical_fingerprint)) ''canonical fingerprint mismatch'')
       | _ \<Rightarrow> Inl (ValueError ''canonical fingerprint mismatch''))"

definition reference :: "json \<Rightarrow> string \<Rightarrow> string \<Rightarrow> json result" where
  "reference v identity version =
     bindE (assert_content_safe v) (\<lambda>_.
     Inr (JObj [(''id'', JStr identity), (''version'', JStr version), (''fingerprint'', JStr (fingerprint v))]))"

lemma fingerprint_canon [simp]: "fingerprint (canon v) = fingerprint v"
  by (simp add: fingerprint_def canonical_json_def)

lemma pop_canon_items: "pop (canon_items d) k = canon_items (pop d k)"
proof -
  have "filter (\<lambda>kw. fst kw \<noteq> k) (map (\<lambda>(k, v). (k, canon v)) d) = map (\<lambda>(k, v). (k, canon v)) (pop d k)"
    by (induction d) (auto simp: pop_def)
  then show ?thesis by (simp add: pop_def canon_items_def filter_sort)
qed

lemma get_pop: "get (pop d k) k' = (if k' = k then JNull else get d k')"
  by (induction d) (auto simp: pop_def get_def)

lemma map_of_pop: "map_of (pop d k) k' = (if k' = k then None else map_of d k')"
  by (induction d) (auto simp: pop_def)

lemma distinct_pop: "distinct (map fst d) \<Longrightarrow> distinct (map fst (pop d k))"
  unfolding pop_def by (rule distinct_map_filter)

lemma put_new: "k \<notin> fst ` set d \<Longrightarrow> put d k v = d @ [(k, v)]"
  by (induction d k v rule: put.induct) auto

lemma pop_snoc: "k \<notin> fst ` set d \<Longrightarrow> pop (d @ [(k, v)]) k = d"
  by (force simp: pop_def filter_id_conv)

lemma pop_put: "pop (put d k v) k = pop d k"
  by (induction d k v rule: put.induct) (auto simp: pop_def)

text \<open>What \<open>seal\<close> computes on a document that JSON can carry.\<close>

lemma seal_eq:
  assumes "text_ok (JObj d)"
  shows "seal d = bindE (assert_content_safe (JObj d)) (\<lambda>_.
    Inr (canon_items (pop d canonical_fingerprint) @
         [(canonical_fingerprint, JStr (fingerprint (JObj (pop d canonical_fingerprint))))]))"
proof -
  have l: "json_loads (canonical_json (JObj d)) = Inr (JObj (canon_items d))"
    using loads_dumps [OF assms] by (simp only: canonical_json_def canon_JObj)
  have f: "fingerprint (JObj (canon_items (pop d k))) = fingerprint (JObj (pop d k))" for k
    using fingerprint_canon [of "JObj (pop d k)"] by (simp only: canon_JObj)
  have "k \<notin> fst ` set (canon_items (pop d k))" for k
    by (auto simp: set_canon_items pop_def)
  then show ?thesis
    by (simp add: seal_def l pop_canon_items Let_def f put_new)
qed

lemma canonical_fingerprint_safe [simp]: "key_safe canonical_fingerprint"
proof -
  have "unmarked canonical_fingerprint"
    by (simp add: unmarked_def canonical_fingerprint_def marker_words_def token_heads_def lower_def ascii)
  moreover have "squeeze (lower canonical_fingerprint) \<notin> set NORMALIZED_PRIVATE_KEYS"
    by (simp add: canonical_fingerprint_def lower_def squeeze_def NORMALIZED_PRIVATE_KEYS_def PRIVATE_KEYS_def ascii)
  ultimately show ?thesis by (simp add: key_safe_def unmarked_safe)
qed

lemma verify_seal_iff:
  assumes "text_ok (JObj d)"
  shows "verify_seal (JObj d) = Inr () \<longleftrightarrow>
     content_safe (JObj d) \<and> get d canonical_fingerprint = JStr (fingerprint (JObj (pop d canonical_fingerprint)))"
proof -
  let ?r = "canon_items (pop d canonical_fingerprint)"
  have "canonical_fingerprint \<notin> fst ` set ?r" by (auto simp: set_canon_items pop_def)
  then have "get (?r @ [(canonical_fingerprint, v)]) canonical_fingerprint = v" for v
    by (simp only: get_snoc if_False simp_thms if_True)
  then show ?thesis
    by (auto simp: verify_seal_def seal_eq [OF assms] bindE_eq_Inr assert_content_safe_iff guard_Inr)
qed

lemma text_ok_obj: "text_ok (JObj d) \<longleftrightarrow> distinct (map fst d) \<and> (\<forall>kv \<in> set d. text_ok (snd kv))"
  by (simp add: list_all_iff)

lemma text_ok_pop: "text_ok (JObj d) \<Longrightarrow> text_ok (JObj (pop d k))"
  unfolding text_ok_obj using distinct_pop [of d k] by (simp add: pop_def)

text \<open>The parts of a sealed document.\<close>

lemma seal_parts:
  assumes "text_ok (JObj d)" and "seal d = Inr s"
  shows "content_safe (JObj d)"
    and "s = canon_items (pop d canonical_fingerprint) @
             [(canonical_fingerprint, JStr (fingerprint (JObj (pop d canonical_fingerprint))))]"
    and "canonical_fingerprint \<notin> fst ` set (canon_items (pop d canonical_fingerprint))"
    and "text_ok (JObj (canon_items (pop d canonical_fingerprint)))"
    and "fingerprint (JObj (canon_items (pop d canonical_fingerprint))) = fingerprint (JObj (pop d canonical_fingerprint))"
    and "content_safe (JObj (canon_items (pop d canonical_fingerprint)))"
proof -
  let ?p = "pop d canonical_fingerprint"
  show 1: "content_safe (JObj d)" and "s = canon_items ?p @ [(canonical_fingerprint, JStr (fingerprint (JObj ?p)))]"
    using assms by (simp_all add: seal_eq bindE_eq_Inr assert_content_safe_iff)
  show "canonical_fingerprint \<notin> fst ` set (canon_items ?p)"
    by (auto simp: set_canon_items pop_def)
  show "text_ok (JObj (canon_items ?p))"
    using text_ok_canon [OF text_ok_pop [OF assms(1)]] by (simp only: canon_JObj)
  show "fingerprint (JObj (canon_items ?p)) = fingerprint (JObj ?p)"
    using fingerprint_canon [of "JObj ?p"] by (simp only: canon_JObj)
  have "content_safe (JObj ?p)" using 1 by (simp add: pop_def list_all_iff)
  then show "content_safe (JObj (canon_items ?p))"
    using content_safe_canon [of "JObj ?p"] by (simp only: canon_JObj)
qed

lemma seal_text_ok:
  assumes "text_ok (JObj d)" and "seal d = Inr s"
  shows "text_ok (JObj s)"
  using seal_parts(3,4) [OF assms] by (auto simp: seal_parts(2) [OF assms] list_all_iff)

lemma seal_fingerprint:
  assumes "text_ok (JObj d)" and "seal d = Inr s"
  shows "get s canonical_fingerprint = JStr (fingerprint (JObj (pop d canonical_fingerprint)))"
  using seal_parts(3) [OF assms] by (simp only: seal_parts(2) [OF assms] get_snoc if_False if_True refl)

lemma seal_get:
  assumes "text_ok (JObj d)" and "seal d = Inr s" and "k \<noteq> canonical_fingerprint"
  shows "get s k = canon (get d k)"
proof -
  let ?r = "canon_items (pop d canonical_fingerprint)"
  have "get ?r k = canon (get d k)"
    using assms distinct_pop [of d canonical_fingerprint] by (simp add: get_canon_items get_pop)
  moreover have "k \<notin> fst ` set ?r \<Longrightarrow> get ?r k = JNull"
    by (simp add: get_def map_of_eq_None_iff [THEN iffD2])
  ultimately show ?thesis
    using assms(3) by (simp only: seal_parts(2) [OF assms(1,2)] get_snoc) auto
qed

lemma seal_verifies:
  assumes "text_ok (JObj d)"
  shows "isOk (seal d) \<longleftrightarrow> content_safe (JObj d)"
    and "seal d = Inr s \<Longrightarrow> verify_seal (JObj s) = Inr ()"
    and "seal d = Inr s \<Longrightarrow> k \<noteq> canonical_fingerprint \<Longrightarrow> get s k = canon (get d k)"
proof -
  show "isOk (seal d) \<longleftrightarrow> content_safe (JObj d)"
    using assms by (auto simp: seal_eq isOk_bind assert_content_safe_iff [symmetric])
next
  assume s: "seal d = Inr s"
  note parts = seal_parts [OF assms s]
  have "content_safe (JObj s)" using parts(6) by (simp add: parts(2))
  moreover have "pop s canonical_fingerprint = canon_items (pop d canonical_fingerprint)"
    using pop_snoc [OF parts(3)] by (simp only: parts(2))
  ultimately show "verify_seal (JObj s) = Inr ()"
    using seal_fingerprint [OF assms s] parts(5)
    by (simp only: verify_seal_iff [OF seal_text_ok [OF assms s]])
next
  assume "seal d = Inr s" and "k \<noteq> canonical_fingerprint"
  then show "get s k = canon (get d k)" using assms by (intro seal_get)
qed

text \<open>C35.  Sealing a document fails exactly when the scanner refuses it; otherwise the sealed document
  verifies, and every field but the fingerprint is the canonical form of the field it was sealed with.\<close>

theorem sealed_document_verifies:
  assumes "text_ok (JObj d)"
  shows "case seal d of
      Inl _ \<Rightarrow> \<not> content_safe (JObj d)
    | Inr s \<Rightarrow> content_safe (JObj d) \<and> verify_seal (JObj s) = Inr ()
        \<and> (\<forall>k. k \<noteq> canonical_fingerprint \<longrightarrow> get s k = canon (get d k))"
  using seal_verifies [OF assms] by (cases "seal d") (auto simp del: content_safe.simps)

lemma x_safe: "key_safe ''x''"
proof -
  have "unmarked ''x''"
    by (simp add: unmarked_def marker_words_def token_heads_def lower_def ascii)
  moreover have "squeeze (lower ''x'') \<notin> set NORMALIZED_PRIVATE_KEYS"
    by (simp add: lower_def squeeze_def NORMALIZED_PRIVATE_KEYS_def PRIVATE_KEYS_def ascii)
  ultimately show ?thesis by (simp add: key_safe_def unmarked_safe)
qed

theorem sealed_document_verifies_witness:
  "\<exists>s. seal [(''x'', JInt 1)] = Inr s \<and> verify_seal (JObj s) = Inr () \<and> get s ''x'' = JInt 1"
proof -
  have "content_safe (JObj [(''x'', JInt 1)])" using x_safe by simp
  with sealed_document_verifies [of "[(''x'', JInt 1)]"] show ?thesis
    by (auto simp: canonical_fingerprint_def get_def split: sum.splits)
qed

end
