(* ===== verification/PyDatetime.thy ===== *)
theory PyDatetime
  imports PyText
begin

text \<open>
  Python's \<open>datetime.fromisoformat\<close> (3.11): calendar and week dates, with or without
  separators, an optional time and an optional offset.  A value is the instant in
  microseconds from the start of year 1, in local time, with the offset of its zone; two
  aware values compare by the instant in UTC.
\<close>

section \<open>The calendar\<close>

definition leap :: "int \<Rightarrow> bool" where
  "leap y \<longleftrightarrow> y mod 4 = 0 \<and> (y mod 100 \<noteq> 0 \<or> y mod 400 = 0)"

definition days_before_year :: "int \<Rightarrow> int" where
  "days_before_year y = (let z = y - 1 in z * 365 + z div 4 - z div 100 + z div 400)"

definition month_days :: "int \<Rightarrow> int list" where
  "month_days y = [31, if leap y then 29 else 28, 31, 30, 31, 30, 31, 31, 30, 31, 30, 31]"

text \<open>The number of a day, 1 for the first day of year 1.\<close>

definition ymd_ordinal :: "int \<Rightarrow> int \<Rightarrow> int \<Rightarrow> int option" where
  "ymd_ordinal y m d =
     (if 1 \<le> y \<and> y \<le> 9999 \<and> 1 \<le> m \<and> m \<le> 12 \<and> 1 \<le> d \<and> d \<le> month_days y ! nat (m - 1)
      then Some (days_before_year y + sum_list (take (nat (m - 1)) (month_days y)) + d)
      else None)"

definition week_ordinal :: "int \<Rightarrow> int \<Rightarrow> int \<Rightarrow> int option" where
  "week_ordinal y w d =
     (let first = days_before_year y + 1; weekday = (first + 6) mod 7;
          monday = first - weekday + (if weekday > 3 then 7 else 0);
          long = weekday = 3 \<or> (weekday = 2 \<and> leap y);
          day = monday + 7 * (w - 1) + (d - 1)
      in if 1 \<le> y \<and> y \<le> 9999 \<and> 1 \<le> w \<and> (w \<le> 52 \<or> (w = 53 \<and> long)) \<and> 1 \<le> d \<and> d \<le> 7 \<and> 1 \<le> day \<and> day \<le> 3652059
         then Some day else None)"

section \<open>Reading digits\<close>

definition digits :: "nat \<Rightarrow> string \<Rightarrow> (int \<times> string) option" where
  "digits n s = (if n \<le> length s \<and> list_all is_digit (take n s)
     then Some (int (nat_of_digits (take n s)), drop n s) else None)"

definition drop_dash :: "bool \<Rightarrow> string \<Rightarrow> string option" where
  "drop_dash dashed s = (if dashed then (case s of c # t \<Rightarrow> if c = CHR ''-'' then Some t else None | [] \<Rightarrow> None) else Some s)"

text \<open>The date at the start of a text; its length is \<open>n\<close>.\<close>

definition iso_date :: "nat \<Rightarrow> string \<Rightarrow> int option" where
  "iso_date n s =
     Option.bind (digits 4 s) (\<lambda>(y, r).
     let dashed = starts_with ''-'' r; r = (if dashed then tl r else r) in
     if starts_with ''W'' r then
       Option.bind (digits 2 (tl r)) (\<lambda>(w, q).
       if length s - length q < n
       then Option.bind (drop_dash dashed q) (\<lambda>q. Option.bind (digits 1 q) (\<lambda>(d, _). week_ordinal y w d))
       else week_ordinal y w 1)
     else
       Option.bind (digits 2 r) (\<lambda>(m, q).
       Option.bind (drop_dash dashed q) (\<lambda>q.
       Option.bind (digits 2 q) (\<lambda>(d, q). if length s - length q = n then ymd_ordinal y m d else None))))"

text \<open>Where the date ends.\<close>

definition char_at :: "string \<Rightarrow> nat \<Rightarrow> char option" where
  "char_at s i = (if i < length s then Some (s ! i) else None)"

definition digit_at :: "string \<Rightarrow> nat \<Rightarrow> bool" where
  "digit_at s i = (case char_at s i of Some c \<Rightarrow> is_digit c | None \<Rightarrow> False)"

definition date_length :: "string \<Rightarrow> nat option" where
  "date_length s =
     (if length s < 7 then None
      else if length s = 7 then Some 7
      else if char_at s 4 = Some (CHR ''-'') then
        (if char_at s 5 = Some (CHR ''W'') then
           (if char_at s 8 = Some (CHR ''-'') then
              (if length s = 9 then None else if digit_at s 10 then Some 8 else Some 10)
            else Some 8)
         else Some 10)
      else if char_at s 4 = Some (CHR ''W'') then
        (let pos = 7 + length (takeWhile is_digit (drop 7 s))
         in if pos < 9 then Some pos else if even pos then Some 7 else Some 8)
      else Some 8)"

section \<open>Times\<close>

text \<open>
  \<open>HH[:?MM[:?SS[(.|,)f+]]]\<close>: the microseconds of the day part, and whether characters
  that are not part of it follow.  \<open>after\<close> is the character after the text, if any.
\<close>

definition fraction :: "string \<Rightarrow> char option \<Rightarrow> (int \<times> bool) option" where
  "fraction s after =
     Option.bind (digits (min 6 (length s)) s) (\<lambda>(n, r).
     Some (n * 10 ^ (6 - min 6 (length s)), dropWhile is_digit r \<noteq> [] \<or> after \<noteq> None))"

function clock :: "nat \<Rightarrow> bool \<Rightarrow> string \<Rightarrow> char option \<Rightarrow> (int list \<times> int \<times> bool) option" where
  "clock i colons s after =
     Option.bind (digits 2 s) (\<lambda>(v, r). case r of
         [] \<Rightarrow> Some ([v], 0, after \<noteq> None)
       | c # q \<Rightarrow>
           (let colons = (if i = 0 then c = CHR '':'' else colons) in
            if q = [] then Some ([v], 0, True)
            else if colons \<and> c = CHR '':'' then
              (if i < 2 then map_option (\<lambda>(vs, x). (v # vs, x)) (clock (Suc i) colons q after)
               else map_option (\<lambda>(f, x). ([v], f, x)) (fraction q after))
            else if c = CHR ''.'' \<or> c = CHR '','' then
              map_option (\<lambda>(f, x). ([v], f, x)) (fraction q after)
            else if \<not> colons then
              (if i < 2 then map_option (\<lambda>(vs, x). (v # vs, x)) (clock (Suc i) colons (c # q) after)
               else map_option (\<lambda>(f, x). ([v], f, x)) (fraction (c # q) after))
            else None))"
  by pat_completeness auto

termination
  by (relation "measure (\<lambda>(i, _). 3 - i)") auto

declare clock.simps [simp del]

definition part :: "int list \<Rightarrow> nat \<Rightarrow> int" where
  "part vs i = (if i < length vs then vs ! i else 0)"

definition day_micros :: "int list \<Rightarrow> int \<Rightarrow> int" where
  "day_micros vs f = (part vs 0 * 3600 + part vs 1 * 60 + part vs 2) * 1000000 + f"

definition is_zone :: "char \<Rightarrow> bool" where
  "is_zone c \<longleftrightarrow> c = CHR ''+'' \<or> c = CHR ''-'' \<or> c = CHR ''Z''"

text \<open>The time part: microseconds of the day and the offset of the zone, if one is given.\<close>

definition iso_time :: "string \<Rightarrow> (int \<times> int option) option" where
  "iso_time s =
     (let t = takeWhile (\<lambda>c. \<not> is_zone c) s; z = dropWhile (\<lambda>c. \<not> is_zone c) s in
      Option.bind (clock 0 True t (case z of [] \<Rightarrow> None | c # _ \<Rightarrow> Some c)) (\<lambda>(vs, f, trailing).
      if part vs 0 > 23 \<or> part vs 1 > 59 \<or> part vs 2 > 59 then None
      else case z of
          [] \<Rightarrow> if trailing then None else Some (day_micros vs f, None)
        | c # q \<Rightarrow>
            if c = CHR ''Z'' then (if q = [] then Some (day_micros vs f, Some 0) else None)
            else Option.bind (clock 0 True q None) (\<lambda>(os, g, trailing).
              let off = (if c = CHR ''-'' then - 1 else 1) * day_micros os g in
              if trailing \<or> \<bar>off\<bar> \<ge> 86400 * 1000000 then None else Some (day_micros vs f, Some off))))"

definition fromisoformat :: "string \<Rightarrow> (int \<times> int option) option" where
  "fromisoformat s =
     Option.bind (date_length s) (\<lambda>n.
     Option.bind (iso_date n s) (\<lambda>day.
     if length s \<le> n then Some ((day - 1) * 86400000000, None)
     else map_option (\<lambda>(m, z). ((day - 1) * 86400000000 + m, z)) (iso_time (drop (Suc n) s))))"

text \<open>The instant in UTC, which is what a comparison of aware values compares.\<close>

definition utc_micros :: "int \<times> int option \<Rightarrow> int" where
  "utc_micros v = fst v - (case snd v of None \<Rightarrow> 0 | Some z \<Rightarrow> z)"

end
