(* ===== verification/V23Spec.thy ===== *)
theory V23Spec
  imports V23Safety PyDatetime
begin

text \<open>
  The search specification of \<open>src/search_cup/protocol_v23.py\<close>: time stamps, measures, the
  qualification of a retriever, the variable controls of a track, \<open>SearchSpecV2\<close> with its
  validator, the comparison of specifications, the metric ratio and the identity of an
  entrant.  Once a document has passed \<open>validate_shape\<close> its fields exist with the types of
  the schema, so \<open>doc["k"]\<close> is \<open>field doc k\<close>.
\<close>

section \<open>Reading validated documents\<close>

definition field :: "json \<Rightarrow> string \<Rightarrow> json" where
  "field v k = get (items_of v) k"

definition text_at :: "json \<Rightarrow> string \<Rightarrow> string" where
  "text_at v k = text_in (field v k)"

definition texts_at :: "json \<Rightarrow> string \<Rightarrow> string list" where
  "texts_at v k = map text_in (elements_of (field v k))"

definition keys_at :: "json \<Rightarrow> string \<Rightarrow> string list" where
  "keys_at v k = map fst (items_of (field v k))"

definition int_at :: "json \<Rightarrow> string \<Rightarrow> int" where
  "int_at v k = (case int_value (field v k) of Some i \<Rightarrow> i | None \<Rightarrow> 0)"

lemma field_JObj [simp]: "field (JObj d) k = get d k"
  by (simp add: field_def items_of_def)

section \<open>Time stamps and measures\<close>

definition replace_z :: "string \<Rightarrow> string" where
  "replace_z s = concat (map (\<lambda>c. if c = CHR ''Z'' then ''+00:00'' else [c]) s)"

definition timestamp :: "string \<Rightarrow> int result" where
  "timestamp s = (case fromisoformat (replace_z s) of
      None \<Rightarrow> Inl (ValueError ''invalid timestamp'')
    | Some v \<Rightarrow> (case snd v of
          None \<Rightarrow> Inl (ValueError ''timestamp requires timezone'')
        | Some _ \<Rightarrow> Inr (utc_micros v)))"

definition validate_measure :: "json \<Rightarrow> string option \<Rightarrow> unit result" where
  "validate_measure m unit =
     bindE (validate_shape m MEASURE ''contract'') (\<lambda>_.
     bindE (guard ((text_at m ''state'' = ''KNOWN'') = (field m ''value'' \<noteq> JNull)) ''measurement missingness/value mismatch'') (\<lambda>_.
     guard (unit = None \<or> unit = Some (text_at m ''unit'')) ''measurement unit mismatch''))"

section \<open>Retrievers\<close>

definition criteria_names :: "string list" where
  "criteria_names = [''R1'', ''R2'', ''R3'', ''R4'', ''R5'', ''R6'', ''R7'', ''R8'']"

definition check_passes :: "json \<Rightarrow> bool" where
  "check_passes c \<longleftrightarrow> text_at c ''status'' = ''PASS'' \<and> elements_of (field c ''evidence'') \<noteq> []"

definition f1_eligibility :: "json \<Rightarrow> string result" where
  "f1_eligibility r =
     (if r = JNull then Inr ''NOT_F1_ELIGIBLE''
      else
        bindE (validate_shape r RETRIEVER ''contract'') (\<lambda>_.
        bindE (assert_content_safe r) (\<lambda>_.
        let q = field r ''qualification'' in
        if q = JNull then
          Inr (if contains ''search_pro'' (lower (text_at r ''backend_id'')) then ''NOT_F1_ELIGIBLE_BY_DEFAULT''
               else ''NOT_F1_ELIGIBLE'')
        else if text_at q ''backend_fingerprint'' \<noteq> fingerprint (JObj (pop (items_of r) ''qualification'')) then Inr ''NOT_F1_ELIGIBLE''
        else let checks = items_of (field q ''criteria'') in
        if set (map fst checks) \<noteq> set criteria_names \<or> list_ex (\<lambda>kc. \<not> check_passes (snd kc)) checks then Inr ''NOT_F1_ELIGIBLE''
        else if text_at r ''class'' = ''INTEGRATED_SEARCH_STACK''
          \<or> \<not> set (texts_at r ''capabilities'') \<subseteq> {''RETRIEVAL'', ''RANKING''} then Inr ''NOT_F1_ELIGIBLE''
        else Inr ''F1_ELIGIBLE'')))"

section \<open>Controls of a track\<close>

definition COMMON :: "string list" where
  "COMMON = [''task'', ''scope'', ''a0'', ''a1'', ''resources'', ''output'', ''judgment'']"

definition SYSTEM_COMMON :: "string list" where
  "SYSTEM_COMMON = [''task'', ''scope'', ''a0'', ''output'', ''judgment'', ''disclosure_standard'']"

definition REQUIRED_CONTROLS :: "(string \<times> string list) list" where
  "REQUIRED_CONTROLS = [
     (''JUDGMENT_ONLY'', COMMON @ [''candidate_set'', ''evidence_packet'', ''rubric'', ''ordering'', ''tools'', ''privacy'']),
     (''E1_FROZEN'', COMMON @ [''corpus'', ''index'', ''retriever'', ''environment'', ''prompt_context'', ''tools'', ''privacy'']),
     (''E1_LIVE'', COMMON @ [''retriever'', ''time_window'', ''environment'', ''prompt_context'', ''tools'', ''privacy'']),
     (''E2_RETRIEVER'', COMMON @ [''control_model'']),
     (''E_PLUS_J'', SYSTEM_COMMON @ [''architecture'']),
     (''GLM_SEARCH_STACK'', SYSTEM_COMMON),
     (''SYSTEM_PLAYOFF'', SYSTEM_COMMON),
     (''ECONOMIC_TRACK'', SYSTEM_COMMON @ [''economic_package''])]"

definition TRACK_CLAIM :: "(string \<times> string) list" where
  "TRACK_CLAIM = [
     (''JUDGMENT_ONLY'', ''JUDGMENT_ON_FROZEN_PACKAGE''),
     (''E1_FROZEN'', ''EXECUTION_ON_FROZEN_ENVIRONMENT''),
     (''E1_LIVE'', ''EXECUTION_IN_LIVE_WINDOW''),
     (''E2_RETRIEVER'', ''RETRIEVER_SYSTEM_PERFORMANCE''),
     (''E_PLUS_J'', ''DECLARED_SYSTEM_PERFORMANCE''),
     (''GLM_SEARCH_STACK'', ''DECLARED_SYSTEM_PERFORMANCE''),
     (''SYSTEM_PLAYOFF'', ''DECLARED_SYSTEM_PERFORMANCE''),
     (''ECONOMIC_TRACK'', ''OBSERVED_ECONOMIC_EFFICIENCY'')]"

text \<open>\<open>D[k]\<close> for a key that the schema guarantees.\<close>

definition entry :: "(string \<times> 'a list) list \<Rightarrow> string \<Rightarrow> 'a list" where
  "entry d k = (case map_of d k of Some x \<Rightarrow> x | None \<Rightarrow> [])"

definition select :: "json \<Rightarrow> string list \<Rightarrow> json" where
  "select v ks = JObj (map (\<lambda>k. (k, field v k)) ks)"

definition a0_resource_binding :: "json \<Rightarrow> string" where
  "a0_resource_binding doc =
     (if text_at doc ''fairness_mode'' = ''F1'' then fingerprint (field doc ''resources'')
      else fingerprint (select (field doc ''resources'')
        (if text_at doc ''fairness_mode'' = ''F3'' then [''max_total_runtime_ms'', ''money_ceiling''] else [''max_total_runtime_ms''])))"

definition put_all :: "obj \<Rightarrow> (string \<times> json) list \<Rightarrow> obj" where
  "put_all d kvs = foldl (\<lambda>d kv. put d (fst kv) (snd kv)) d kvs"

lemma put_mem: "(k, v) \<in> set (put d k v)" "(k', v') \<in> set d \<Longrightarrow> k' \<noteq> k \<Longrightarrow> (k', v') \<in> set (put d k v)"
  by (induction d k v rule: put.induct) auto

lemma put_all_mem: "distinct (map fst kvs) \<Longrightarrow> (k, v) \<in> set kvs \<Longrightarrow> (k, v) \<in> set (put_all b kvs)"
proof (induction kvs rule: rev_induct)
  case (snoc kv kvs)
  then show ?case
    by (cases kv) (force simp: put_all_def intro: put_mem)
qed simp

definition ref_print :: "json \<Rightarrow> string \<Rightarrow> json" where
  "ref_print v k = field (field v k) ''fingerprint''"

definition control_bindings :: "json \<Rightarrow> obj" where
  "control_bindings doc =
     (let print = (\<lambda>v. JStr (fingerprint v));
          b = map (\<lambda>k. (k, print (field doc k))) [''task'', ''scope'', ''a0'', ''a1'', ''resources'', ''privacy''];
          b = put_all b [(''output'', ref_print doc ''output_contract''), (''judgment'', ref_print doc ''judgment_contract'')];
          b = (if text_at doc ''track_id'' = ''E2_RETRIEVER''
               then put b ''resources'' (print (select (field doc ''resources'')
                  [''failure_policy'', ''exhaustion_policy'', ''budget_rejection_policy'', ''retry_policy'',
                   ''automatic_retries'', ''manual_retry_policy'', ''max_total_runtime_ms'']))
               else b);
          b = (if field doc ''retriever'' \<noteq> JNull then put b ''retriever'' (print (field doc ''retriever'')) else b);
          b = put_all b (concat (map (\<lambda>k. if field doc k \<noteq> JNull then [(k, print (field doc k))] else [])
                [''system_disclosure'', ''economic_package'']));
          overlay = field doc ''overlay'';
          kind = text_at overlay ''kind''
      in if kind = ''JUDGMENT'' then
           put_all b (map (\<lambda>k. (k, ref_print overlay k)) [''candidate_set'', ''evidence_packet'', ''rubric'']
             @ [(''ordering'', ref_print overlay ''order_policy''), (''tools'', print (JArr []))])
         else if kind = ''FROZEN'' then put_all b (map (\<lambda>k. (k, ref_print overlay k)) [''corpus'', ''index''])
         else put b ''time_window'' (ref_print overlay ''window_policy''))"


section \<open>\<open>SearchSpecV2.validate\<close>\<close>

text \<open>The checks in the order of the code, one definition per group of checks.\<close>

definition check_freeze :: "json \<Rightarrow> unit result" where
  "check_freeze doc =
     bindE (timestamp (text_at doc ''created_at'')) (\<lambda>created.
     if text_at doc ''spec_status'' \<in> {''FROZEN'', ''RETIRED''} then
       (if field doc ''frozen_at'' = JNull then Inl (ValueError ''frozen SearchSpec requires valid freeze timestamp'')
        else bindE (timestamp (text_at doc ''frozen_at'')) (\<lambda>frozen.
             guard (created \<le> frozen) ''frozen SearchSpec requires valid freeze timestamp''))
     else guard (field doc ''frozen_at'' = JNull) ''draft cannot assert freeze'')"

definition check_bindings :: "json \<Rightarrow> unit result" where
  "check_bindings doc =
     (let card = field (field doc ''task'') ''output_cardinality''; a0 = field doc ''a0''; resource = field doc ''resources'' in
      bindE (guard (int_at card ''minimum'' \<le> int_at card ''maximum'') ''invalid output cardinality'') (\<lambda>_.
      bindE (guard (list_all (\<lambda>k. text_at a0 (k @ ''_fingerprint'') = fingerprint (field doc k)) [''task'', ''scope''])
        ''A0 binding mismatch'') (\<lambda>_.
      bindE (guard (text_at a0 ''resource_fingerprint'' = a0_resource_binding doc) ''A0 resource binding mismatch'') (\<lambda>_.
      bindE (validate_measure (field resource ''max_total_runtime_ms'') (Some ''ms'')) (\<lambda>_.
      bindE (validate_measure (field resource ''token_ceiling'') (Some ''tokens'')) (\<lambda>_.
      validate_measure (field resource ''money_ceiling'') None))))))"

definition check_controls :: "json \<Rightarrow> unit result" where
  "check_controls doc =
     (let track = text_at doc ''track_id''; mode = text_at doc ''fairness_mode''; controls = field doc ''variable_control'';
          required = entry REQUIRED_CONTROLS track; fixed = items_of (field controls ''fixed'');
          changed = texts_at controls ''changed_capabilities'';
          expected_mode = (if track \<in> {''JUDGMENT_ONLY'', ''E1_FROZEN'', ''E1_LIVE''} then ''F1''
                           else if track = ''ECONOMIC_TRACK'' then ''F3'' else ''F2'') in
      bindE (guard (list_all (has_key fixed) required) ''missing variable controls'') (\<lambda>_.
      bindE (guard (list_all (\<lambda>(k, v). k \<in> set required \<longrightarrow> get fixed k = v) (control_bindings doc))
        ''control fingerprint mismatch'') (\<lambda>_.
      bindE (if mode = ''ABLATION'' then
          bindE (guard (track = ''E2_RETRIEVER'' \<and> text_at controls ''principal'' = ''ONE_CAPABILITY'' \<and> length changed = 1)
            ''ablation requires exactly one changed capability'') (\<lambda>_.
          guard (set (keys_at controls ''fixed_capabilities'') = set ABLATION_CAPABILITIES - set changed)
            ''ablation must freeze all non-target capabilities'')
        else guard (text_at controls ''principal'' = entry PRINCIPAL track \<and> changed = [] \<and> keys_at controls ''fixed_capabilities'' = [])
          ''principal changed-variable mismatch'') (\<lambda>_.
      guard (mode = expected_mode \<or> (track = ''E2_RETRIEVER'' \<and> mode = ''ABLATION'')) ''track/fairness mismatch''))))"

definition allowed_claims :: "json \<Rightarrow> string list" where
  "allowed_claims doc =
     (let track = text_at doc ''track_id''; overlay = field doc ''overlay''; kind = text_at overlay ''kind'' in
      [entry TRACK_CLAIM track]
      @ (if text_at doc ''fairness_mode'' = ''ABLATION'' then [''SINGLE_CAPABILITY_EFFECT''] else [])
      @ (if (kind = ''FROZEN'' \<or> (kind = ''LIVE'' \<and> field overlay ''exhaustive_reference'' \<noteq> JNull)) \<and> track \<noteq> ''JUDGMENT_ONLY''
         then [''ABSOLUTE_RECALL''] else []))"

definition check_claims :: "json \<Rightarrow> unit result" where
  "check_claims doc = guard (set (texts_at doc ''claims'') \<subseteq> set (allowed_claims doc)) ''claims ceiling exceeded''"

definition check_judgment :: "json \<Rightarrow> unit result" where
  "check_judgment doc =
     (let overlay = field doc ''overlay''; resource = field doc ''resources'' in
      bindE (guard (text_at overlay ''kind'' = ''JUDGMENT'' \<and> elements_of (field overlay ''allowed_tools'') = [] \<and> field doc ''retriever'' = JNull)
        ''Judgment-only must have no retriever or tools'') (\<lambda>_.
      bindE (guard (list_all (\<lambda>k. int_at resource k = 0) [''max_search_calls'', ''max_search_turns'', ''max_results_per_call'', ''max_follow_links'']
          \<and> text_at resource ''search_unit'' = ''NONE'') ''Judgment-only requires zero search and verification'') (\<lambda>_.
      guard (text_at (field doc ''a1'') ''owner'' = ''NONE'' \<and> texts_at (field doc ''a1'') ''allowed'' = [])
        ''Judgment-only forbids query planning'')))"

definition stack_planning :: "json \<Rightarrow> string list" where
  "stack_planning doc = filter (\<lambda>c. c \<in> set A1_BEHAVIORS) (texts_at (field doc ''retriever'') ''capabilities'')"

definition check_search :: "json \<Rightarrow> unit result" where
  "check_search doc =
     (let resource = field doc ''resources''; a1 = field doc ''a1''; planning = stack_planning doc in
      bindE (guard (text_at (field doc ''overlay'') ''kind'' \<noteq> ''JUDGMENT'' \<and> field doc ''retriever'' \<noteq> JNull
          \<and> text_at resource ''search_unit'' \<noteq> ''NONE'') ''search track requires retrieval/environment contract'') (\<lambda>_.
      bindE (guard (planning = [] \<or> (text_at a1 ''owner'' = ''SEARCH_STACK'' \<and> set planning \<subseteq> set (texts_at a1 ''allowed'')))
        ''search-stack planning ownership must be explicit'') (\<lambda>_.
      guard (\<not> (text_at (field doc ''retriever'') ''class'' = ''INTEGRATED_SEARCH_STACK''
          \<and> text_at resource ''search_unit'' \<noteq> ''INTEGRATED_STACK_INVOCATION''))
        ''integrated invocation is not a raw-call equivalent'')))"

definition check_e1 :: "json \<Rightarrow> unit result" where
  "check_e1 doc =
     (let track = text_at doc ''track_id''; a1 = field doc ''a1'' in
      if track \<in> {''E1_FROZEN'', ''E1_LIVE''} then
        bindE (guard (text_at (field doc ''overlay'') ''kind'' = (if track = ''E1_FROZEN'' then ''FROZEN'' else ''LIVE''))
          ''Live/Frozen overlay mismatch'') (\<lambda>_.
        bindE (guard (text_at a1 ''owner'' = ''ENTRANT'' \<and> set (texts_at a1 ''allowed'') \<subseteq> set E1_BEHAVIORS)
          ''E1 planning must remain bounded and entrant-owned'') (\<lambda>_.
        bindE (f1_eligibility (field doc ''retriever'')) (\<lambda>e.
        guard (e = ''F1_ELIGIBLE'' \<and> text_at (field doc ''resources'') ''search_unit'' = ''RAW_BACKEND_ATTEMPT'')
          ''F1 retriever not qualified'')))
      else Inr ())"

definition check_live :: "json \<Rightarrow> unit result" where
  "check_live doc =
     (let overlay = field doc ''overlay'' in
      if text_at overlay ''kind'' = ''LIVE'' \<and> field doc ''retriever'' \<noteq> JNull then
        bindE (guard (ref_print overlay ''backend'' = ref_print (field doc ''retriever'') ''identity'')
          ''live backend binding mismatch'') (\<lambda>_.
        guard (elements_of (field (field doc ''variable_control'') ''qualified_nuisance'') \<noteq> [])
          ''live drift qualification required'')
      else Inr ())"

definition check_economy :: "json \<Rightarrow> unit result" where
  "check_economy doc =
     (let mode = text_at doc ''fairness_mode''; economic = field doc ''economic_package''; resource = field doc ''resources'';
          money = field resource ''money_ceiling''; basis = text_at economic ''basis'' in
      bindE (guard (\<not> (mode \<in> {''F2'', ''F3'', ''ABLATION''} \<and> field doc ''system_disclosure'' = JNull))
        ''system capability/resource disclosure required'') (\<lambda>_.
      bindE (guard (\<not> (mode = ''F1'' \<and> (field doc ''system_disclosure'' \<noteq> JNull \<or> economic \<noteq> JNull)))
        ''F1 cannot carry a system/economic comparison package'') (\<lambda>_.
      if mode = ''F3'' then
        bindE (guard (economic \<noteq> JNull \<and> {''MACHINE_ELAPSED'', ''OPERATOR_ACTIVE''} \<subseteq> set (texts_at economic ''time_kinds''))
          ''real-resource/normalization package required'') (\<lambda>_.
        bindE (guard (text_at money ''unit'' = text_at economic ''currency'') ''currency mismatch'') (\<lambda>_.
        bindE (guard (\<not> (basis \<in> {''MONEY'', ''MONEY_AND_TIME''} \<and> text_at money ''state'' \<noteq> ''KNOWN''))
          ''money-aligned comparison requires known ceiling'') (\<lambda>_.
        guard (\<not> (basis \<in> {''WALL_CLOCK'', ''MONEY_AND_TIME''} \<and> text_at (field resource ''max_total_runtime_ms'') ''state'' \<noteq> ''KNOWN''))
          ''time-aligned comparison requires known ceiling'')))
      else Inr ())))"

definition spec_validate :: "json \<Rightarrow> unit result" where
  "spec_validate doc =
     bindE (assert_content_safe doc) (\<lambda>_.
     bindE (validate_shape doc SEARCHSPEC_SCHEMA ''contract'') (\<lambda>_.
     bindE (verify_seal doc) (\<lambda>_.
     bindE (check_freeze doc) (\<lambda>_.
     bindE (check_bindings doc) (\<lambda>_.
     bindE (check_controls doc) (\<lambda>_.
     bindE (check_claims doc) (\<lambda>_.
     bindE (if text_at doc ''track_id'' = ''JUDGMENT_ONLY'' then check_judgment doc else check_search doc) (\<lambda>_.
     bindE (check_e1 doc) (\<lambda>_.
     bindE (check_live doc) (\<lambda>_.
     check_economy doc))))))))))"

section \<open>\<open>SearchSpecV2\<close>\<close>

record search_spec =
  canonical_content :: string

definition make_spec :: "string \<Rightarrow> search_spec result" where
  "make_spec content =
     bindE (json_loads content) (\<lambda>doc.
     bindE (spec_validate doc) (\<lambda>_.
     bindE (guard (canonical_json doc = content) ''noncanonical SearchSpec representation'') (\<lambda>_.
     Inr \<lparr>canonical_content = content\<rparr>)))"

definition spec_from_mapping :: "json \<Rightarrow> search_spec result" where
  "spec_from_mapping doc = bindE (spec_validate doc) (\<lambda>_. make_spec (canonical_json doc))"

definition spec_dict :: "search_spec \<Rightarrow> json" where
  "spec_dict s = (case json_loads (canonical_content s) of Inr v \<Rightarrow> v | Inl _ \<Rightarrow> JNull)"

definition spec_fingerprint :: "search_spec \<Rightarrow> string" where
  "spec_fingerprint s = text_at (spec_dict s) ''canonical_fingerprint''"

definition require_successor :: "search_spec \<Rightarrow> search_spec \<Rightarrow> string \<Rightarrow> string \<Rightarrow> unit result" where
  "require_successor s successor old_run_id new_run_id =
     (let old = spec_dict s; new = spec_dict successor in
      bindE (guard (text_at old ''spec_status'' = ''FROZEN'' \<and> text_at new ''spec_status'' = ''FROZEN'')
        ''version transition requires frozen specs'') (\<lambda>_.
      guard (\<not> (spec_fingerprint s \<noteq> spec_fingerprint successor
          \<and> (text_at old ''spec_version'' = text_at new ''spec_version'' \<or> old_run_id = new_run_id)))
        ''post-freeze change requires new version and run identity''))"

definition compare_one :: "json \<Rightarrow> json \<Rightarrow> unit result" where
  "compare_one first doc =
     (let vc = field doc ''variable_control''; vc0 = field first ''variable_control'' in
      bindE (guard (text_at doc ''spec_status'' = ''FROZEN'' \<and> text_at first ''spec_status'' = ''FROZEN'')
        ''comparison requires frozen declarations'') (\<lambda>_.
      bindE (guard (text_at doc ''track_id'' = text_at first ''track_id'' \<and> text_at doc ''fairness_mode'' = text_at first ''fairness_mode'')
        ''cross-track/fairness aggregation forbidden'') (\<lambda>_.
      bindE (guard (py_eq (field vc ''fixed'') (field vc0 ''fixed'')) ''non-principal control changed'') (\<lambda>_.
      bindE (guard (list_all (\<lambda>k. py_eq (field vc k) (field vc0 k)) [''changed_capabilities'', ''fixed_capabilities''])
        ''ablation capability controls changed'') (\<lambda>_.
      bindE (guard (py_eq (field doc ''claims'') (field first ''claims'')) ''claims policy changed'') (\<lambda>_.
      guard (\<not> (text_at first ''fairness_mode'' = ''F1'' \<and> text_at doc ''canonical_fingerprint'' \<noteq> text_at first ''canonical_fingerprint''))
        ''F1 requires identical SearchSpec identity''))))))"

definition compare_controls :: "search_spec list \<Rightarrow> unit result" where
  "compare_controls specs = (case map spec_dict specs of
      first # second # docs \<Rightarrow> bindE (mapE (compare_one first) (second # docs)) (\<lambda>_. Inr ())
    | _ \<Rightarrow> Inl (ValueError ''comparison requires at least two declarations''))"

section \<open>Metrics and entrants\<close>

text \<open>\<open>a / b\<close> of two finite numbers, the second not zero.\<close>

definition as_float :: "json \<Rightarrow> flt result" where
  "as_float v = (case v of JInt i \<Rightarrow> int_to_float i | JFloat f \<Rightarrow> Inr f | _ \<Rightarrow> Inl (TypeError ''unsupported operand''))"

definition float_div :: "flt \<Rightarrow> flt \<Rightarrow> flt" where
  "float_div a b = (case (a, b) of (Fin x, Fin y) \<Rightarrow> to_float (x / y) | _ \<Rightarrow> NaN)"

definition num_div :: "json \<Rightarrow> json \<Rightarrow> json result" where
  "num_div a b = (case (a, b) of
      (JInt i, JInt j) \<Rightarrow> (case to_float (of_int i / of_int j) of
          Fin x \<Rightarrow> Inr (JFloat (Fin x))
        | _ \<Rightarrow> Inl (Exc ''OverflowError'' ''integer division result too large for a float''))
    | _ \<Rightarrow> bindE (as_float a) (\<lambda>x. bindE (as_float b) (\<lambda>y. Inr (JFloat (float_div x y)))))"

definition metric_ratio :: "json \<Rightarrow> json \<Rightarrow> json \<Rightarrow> obj result" where
  "metric_ratio numerator denominator metric =
     bindE (validate_shape metric METRIC ''contract'') (\<lambda>_.
     bindE (validate_measure numerator None) (\<lambda>_.
     bindE (validate_measure denominator None) (\<lambda>_.
     let states = [text_at numerator ''state'', text_at denominator ''state''] in
     bindE (if ''NOT_APPLICABLE'' \<in> set states then Inr (''NOT_EVALUABLE'', JNull)
            else if ''UNKNOWN'' \<in> set states then Inr (''UNKNOWN'', JNull)
            else if py_eq (field denominator ''value'') (JInt 0) then Inr (''NOT_EVALUABLE'', JNull)
            else bindE (num_div (field numerator ''value'') (field denominator ''value'')) (\<lambda>v. Inr (''PASS'', v)))
       (\<lambda>(state, v).
     seal [(''definition_fingerprint'', JStr (fingerprint metric)), (''terminal_status'', JStr state),
           (''value'', v), (''raw_numerator'', numerator), (''raw_denominator'', denominator)]))))"

definition ENTRANT :: schema where
  "ENTRANT = obj_schema [(''entrant_id'', TEXT), (''provider'', TEXT), (''requested_model_id'', TEXT),
     (''resolved_model_id'', typed (OneOf [KString, KNull])),
     (''resolution_status'', enum_schema [''KNOWN'', ''UNKNOWN'']),
     (''identity_status'', enum_schema [''AS_REQUESTED'', ''DECLARED_ALIAS'', ''UNRESOLVED'', ''SUBSTITUTED'']),
     (''alias_evidence'', nullable REF), (''endpoint_mode'', TEXT), (''config_fingerprint'', HASH)]"

definition validate_entrant :: "json \<Rightarrow> unit result" where
  "validate_entrant e =
     bindE (validate_shape e ENTRANT ''contract'') (\<lambda>_.
     bindE (assert_content_safe e) (\<lambda>_.
     let known = (text_at e ''resolution_status'' = ''KNOWN''); identity = text_at e ''identity_status'' in
     bindE (guard (known = truthy (field e ''resolved_model_id'')) ''model resolution missingness mismatch'') (\<lambda>_.
     bindE (guard (known \<or> identity = ''UNRESOLVED'') ''unresolved model cannot assert resolved identity'') (\<lambda>_.
     bindE (guard (\<not> (known \<and> (identity = ''UNRESOLVED''
         \<or> (identity = ''AS_REQUESTED'' \<and> field e ''requested_model_id'' \<noteq> field e ''resolved_model_id''))))
       ''unrecorded model substitution'') (\<lambda>_.
     guard (\<not> (identity = ''DECLARED_ALIAS'' \<and> field e ''alias_evidence'' = JNull)) ''model alias requires frozen evidence'')))))"


section \<open>What a valid specification guarantees\<close>

lemma spec_validate_iff:
  "spec_validate doc = Inr () \<longleftrightarrow>
     content_safe doc \<and> conforms SEARCHSPEC_SCHEMA doc \<and> verify_seal doc = Inr ()
     \<and> check_freeze doc = Inr () \<and> check_bindings doc = Inr () \<and> check_controls doc = Inr () \<and> check_claims doc = Inr ()
     \<and> (if text_at doc ''track_id'' = ''JUDGMENT_ONLY'' then check_judgment doc else check_search doc) = Inr ()
     \<and> check_e1 doc = Inr () \<and> check_live doc = Inr () \<and> check_economy doc = Inr ()"
  by (simp add: spec_validate_def bindE_eq_Inr assert_content_safe_iff validate_shape_nested)

lemma f1_eligible_iff:
  "f1_eligibility r = Inr ''F1_ELIGIBLE'' \<longleftrightarrow>
     conforms RETRIEVER r \<and> content_safe r \<and> r \<noteq> JNull \<and> field r ''qualification'' \<noteq> JNull
     \<and> text_at (field r ''qualification'') ''backend_fingerprint'' = fingerprint (JObj (pop (items_of r) ''qualification''))
     \<and> set (keys_at (field r ''qualification'') ''criteria'') = set criteria_names
     \<and> list_all (\<lambda>kc. check_passes (snd kc)) (items_of (field (field r ''qualification'') ''criteria''))
     \<and> text_at r ''class'' \<noteq> ''INTEGRATED_SEARCH_STACK'' \<and> set (texts_at r ''capabilities'') \<subseteq> {''RETRIEVAL'', ''RANKING''}"
  by (auto simp: f1_eligibility_def bindE_eq_Inr assert_content_safe_iff validate_shape_nested Let_def keys_at_def
      list_ex_iff list_all_iff split: if_splits)

text \<open>The bindings of a Judgment-only specification: the parts of the document and of its overlay.\<close>

lemma put_all_keeps: "(k, v) \<in> set d \<Longrightarrow> k \<notin> fst ` set kvs \<Longrightarrow> (k, v) \<in> set (put_all d kvs)"
  by (induction kvs arbitrary: d) (auto simp: put_all_def intro: put_mem)

lemma put_keeps: "(k, v) \<in> set d \<Longrightarrow> k \<noteq> k' \<Longrightarrow> (k, v) \<in> set (put d k' w)"
  by (rule put_mem(2))

lemma judgment_bindings:
  assumes "text_at doc ''track_id'' = ''JUDGMENT_ONLY''" and "text_at (field doc ''overlay'') ''kind'' = ''JUDGMENT''"
  shows "k \<in> {''candidate_set'', ''evidence_packet'', ''rubric''} \<Longrightarrow> (k, ref_print (field doc ''overlay'') k) \<in> set (control_bindings doc)"
    and "(''ordering'', ref_print (field doc ''overlay'') ''order_policy'') \<in> set (control_bindings doc)"
    and "(''tools'', JStr (fingerprint (JArr []))) \<in> set (control_bindings doc)"
    and "k \<in> {''task'', ''scope'', ''a0'', ''a1'', ''resources'', ''privacy''} \<Longrightarrow>
      (k, JStr (fingerprint (field doc k))) \<in> set (control_bindings doc)"
    and "k \<in> {''output'', ''judgment''} \<Longrightarrow> (k, ref_print doc (k @ ''_contract'')) \<in> set (control_bindings doc)"
proof -
  let ?print = "\<lambda>v. JStr (fingerprint v)"
  let ?b1 = "map (\<lambda>k. (k, ?print (field doc k))) [''task'', ''scope'', ''a0'', ''a1'', ''resources'', ''privacy'']"
  let ?kv2 = "[(''output'', ref_print doc ''output_contract''), (''judgment'', ref_print doc ''judgment_contract'')]"
  let ?b2 = "put_all ?b1 ?kv2"
  let ?b3 = "if field doc ''retriever'' \<noteq> JNull then put ?b2 ''retriever'' (?print (field doc ''retriever'')) else ?b2"
  let ?kv4 = "concat (map (\<lambda>k. if field doc k \<noteq> JNull then [(k, ?print (field doc k))] else []) [''system_disclosure'', ''economic_package''])"
  let ?kv5 = "map (\<lambda>k. (k, ref_print (field doc ''overlay'') k)) [''candidate_set'', ''evidence_packet'', ''rubric'']
             @ [(''ordering'', ref_print (field doc ''overlay'') ''order_policy''), (''tools'', ?print (JArr []))]"
  have c: "control_bindings doc = put_all (put_all ?b3 ?kv4) ?kv5"
    using assms by (simp add: control_bindings_def Let_def)
  have d5: "distinct (map fst ?kv5)" by simp
  note m5 = put_all_mem [OF d5, of _ _ "put_all ?b3 ?kv4"]
  show "k \<in> {''candidate_set'', ''evidence_packet'', ''rubric''} \<Longrightarrow> (k, ref_print (field doc ''overlay'') k) \<in> set (control_bindings doc)"
    unfolding c by (rule m5) auto
  show "(''ordering'', ref_print (field doc ''overlay'') ''order_policy'') \<in> set (control_bindings doc)"
    "(''tools'', JStr (fingerprint (JArr []))) \<in> set (control_bindings doc)"
    unfolding c by (rule m5; simp)+
  let ?own = "{''task'', ''scope'', ''a0'', ''a1'', ''resources'', ''privacy'', ''output'', ''judgment''}"
  have k4: "fst ` set ?kv4 \<subseteq> {''system_disclosure'', ''economic_package''}" by auto
  have k5: "fst ` set ?kv5 = {''candidate_set'', ''evidence_packet'', ''rubric'', ''ordering'', ''tools''}" by simp
  have keep: "(k, v) \<in> set (control_bindings doc)" if m: "(k, v) \<in> set ?b2" and k: "k \<in> ?own" for k v
  proof -
    have other: "k \<noteq> ''retriever''" "k \<notin> {''system_disclosure'', ''economic_package''}"
      "k \<notin> {''candidate_set'', ''evidence_packet'', ''rubric'', ''ordering'', ''tools''}"
      using k by auto
    have "(k, v) \<in> set ?b3" using put_keeps [OF m other(1)] m by (simp only: split: if_split) simp
    then show ?thesis unfolding c
    proof (intro put_all_keeps)
      show "k \<notin> fst ` set ?kv4" using other(2) k4 by blast
      show "k \<notin> fst ` set ?kv5" unfolding k5 by (rule other(3))
    qed
  qed
  show "(k, JStr (fingerprint (field doc k))) \<in> set (control_bindings doc)"
    if "k \<in> {''task'', ''scope'', ''a0'', ''a1'', ''resources'', ''privacy''}"
    using that by (intro keep put_all_keeps) auto
  show "(k, ref_print doc (k @ ''_contract'')) \<in> set (control_bindings doc)" if "k \<in> {''output'', ''judgment''}"
    using that by (intro keep put_all_mem) auto
qed

text \<open>C36.  A valid Judgment-only specification cannot search: it has no retriever and no tool, all four
  search limits are zero and no search unit is declared, query planning is forbidden and belongs to nobody,
  the only claim it may make is the judgment claim, its principal variable is the judge model, and every
  control that its track requires to be fixed is bound: the candidate set, evidence packet, rubric and ordering
  to its overlay, the tools to the empty list, the rest to the parts of the document itself.\<close>

theorem judgment_only_isolated:
  assumes "spec_validate doc = Inr ()" and "text_at doc ''track_id'' = ''JUDGMENT_ONLY''"
  defines "fixed \<equiv> items_of (field (field doc ''variable_control'') ''fixed'')" and "overlay \<equiv> field doc ''overlay''"
  shows "field doc ''retriever'' = JNull \<and> elements_of (field overlay ''allowed_tools'') = []
     \<and> (\<forall>k \<in> {''max_search_calls'', ''max_search_turns'', ''max_results_per_call'', ''max_follow_links''}.
          int_at (field doc ''resources'') k = 0)
     \<and> text_at (field doc ''resources'') ''search_unit'' = ''NONE''
     \<and> text_at (field doc ''a1'') ''owner'' = ''NONE'' \<and> texts_at (field doc ''a1'') ''allowed'' = []
     \<and> set (texts_at doc ''claims'') \<subseteq> {''JUDGMENT_ON_FROZEN_PACKAGE''}
     \<and> text_at (field doc ''variable_control'') ''principal'' = ''JUDGE_MODEL_CONFIG''
     \<and> (\<forall>k \<in> {''candidate_set'', ''evidence_packet'', ''rubric''}. get fixed k = ref_print overlay k)
     \<and> get fixed ''ordering'' = ref_print overlay ''order_policy''
     \<and> get fixed ''tools'' = JStr (fingerprint (JArr []))
     \<and> (\<forall>k \<in> {''task'', ''scope'', ''a0'', ''a1'', ''resources'', ''privacy''}. get fixed k = JStr (fingerprint (field doc k)))
     \<and> (\<forall>k \<in> {''output'', ''judgment''}. get fixed k = ref_print doc (k @ ''_contract''))
     \<and> set (entry REQUIRED_CONTROLS ''JUDGMENT_ONLY'') \<subseteq> set (keys_at (field doc ''variable_control'') ''fixed'')"
proof -
  from assms have j: "check_judgment doc = Inr ()" and c: "check_controls doc = Inr ()" and l: "check_claims doc = Inr ()"
    by (auto simp: spec_validate_iff)
  from j have kind: "text_at overlay ''kind'' = ''JUDGMENT''"
    by (auto simp: check_judgment_def Let_def bindE_eq_Inr guard_Inr overlay_def)
  have mode: "text_at doc ''fairness_mode'' = ''F1''"
    using c assms(2) by (auto simp: check_controls_def Let_def bindE_eq_Inr guard_Inr)
  have bound: "list_all (\<lambda>(k, v). k \<in> set (entry REQUIRED_CONTROLS ''JUDGMENT_ONLY'') \<longrightarrow> get fixed k = v) (control_bindings doc)"
    using c assms(2) by (auto simp: check_controls_def Let_def bindE_eq_Inr guard_Inr fixed_def)
  then have get: "get fixed k = v" if "(k, v) \<in> set (control_bindings doc)" "k \<in> set (entry REQUIRED_CONTROLS ''JUDGMENT_ONLY'')" for k v
    using that by (auto simp: list_all_iff)
  have required: "set (entry REQUIRED_CONTROLS ''JUDGMENT_ONLY'') = {''task'', ''scope'', ''a0'', ''a1'', ''resources'', ''output'', ''judgment'',
      ''candidate_set'', ''evidence_packet'', ''rubric'', ''ordering'', ''tools'', ''privacy''}"
    by (simp add: entry_def REQUIRED_CONTROLS_def COMMON_def)
  note b = judgment_bindings [OF assms(2) kind [unfolded overlay_def], folded overlay_def]
  have "get fixed k = ref_print overlay k" if "k \<in> {''candidate_set'', ''evidence_packet'', ''rubric''}" for k
    using that by (intro get b(1)) (auto simp: required)
  moreover have "get fixed ''ordering'' = ref_print overlay ''order_policy''" "get fixed ''tools'' = JStr (fingerprint (JArr []))"
    by (intro get b(2,3); simp add: required)+
  moreover have "get fixed k = JStr (fingerprint (field doc k))"
    if "k \<in> {''task'', ''scope'', ''a0'', ''a1'', ''resources'', ''privacy''}" for k
    using that by (intro get b(4)) (auto simp: required)
  moreover have "get fixed k = ref_print doc (k @ ''_contract'')" if "k \<in> {''output'', ''judgment''}" for k
    using that by (intro get b(5)) (auto simp: required)
  moreover have "set (entry REQUIRED_CONTROLS ''JUDGMENT_ONLY'') \<subseteq> set (keys_at (field doc ''variable_control'') ''fixed'')"
    using c assms(2) by (auto simp: check_controls_def Let_def bindE_eq_Inr guard_Inr list_all_iff has_key_def keys_at_def)
  moreover have "set (texts_at doc ''claims'') \<subseteq> {''JUDGMENT_ON_FROZEN_PACKAGE''}"
    using l assms(2) mode by (auto simp: check_claims_def guard_Inr allowed_claims_def Let_def entry_def TRACK_CLAIM_def)
  moreover have "text_at (field doc ''variable_control'') ''principal'' = ''JUDGE_MODEL_CONFIG''"
    using c assms(2) mode by (auto simp: check_controls_def Let_def bindE_eq_Inr guard_Inr entry_def PRINCIPAL_def)
  moreover have "field doc ''retriever'' = JNull \<and> elements_of (field overlay ''allowed_tools'') = []
     \<and> (\<forall>k \<in> {''max_search_calls'', ''max_search_turns'', ''max_results_per_call'', ''max_follow_links''}.
          int_at (field doc ''resources'') k = 0)
     \<and> text_at (field doc ''resources'') ''search_unit'' = ''NONE''
     \<and> text_at (field doc ''a1'') ''owner'' = ''NONE'' \<and> texts_at (field doc ''a1'') ''allowed'' = []"
    using j by (auto simp: check_judgment_def Let_def bindE_eq_Inr guard_Inr overlay_def)
  ultimately show ?thesis by (intro conjI ballI; simp only:)
qed

text \<open>Every E1 specification runs on a retriever that passed all eight qualification criteria.\<close>

lemma e1_retriever_qualified:
  assumes "spec_validate doc = Inr ()" and "text_at doc ''track_id'' \<in> {''E1_FROZEN'', ''E1_LIVE''}"
  shows "f1_eligibility (field doc ''retriever'') = Inr ''F1_ELIGIBLE''
     \<and> text_at (field doc ''a1'') ''owner'' = ''ENTRANT'' \<and> set (texts_at (field doc ''a1'') ''allowed'') \<subseteq> set E1_BEHAVIORS"
  using assms by (auto simp: spec_validate_iff check_e1_def Let_def bindE_eq_Inr guard_Inr)

lemma absolute_recall_claims:
  assumes "spec_validate doc = Inr ()" and "''ABSOLUTE_RECALL'' \<in> set (texts_at doc ''claims'')"
  shows "text_at (field doc ''overlay'') ''kind'' = ''FROZEN'' \<or> field (field doc ''overlay'') ''exhaustive_reference'' \<noteq> JNull"
  using assms
  by (auto simp: spec_validate_iff check_claims_def guard_Inr allowed_claims_def Let_def entry_def TRACK_CLAIM_def
      split: if_splits)

lemma spec_roundtrip:
  assumes "text_ok doc" and "spec_from_mapping doc = Inr s"
  shows "spec_dict s = canon doc" and "canonical_content s = canonical_json doc" and "spec_validate (canon doc) = Inr ()"
  using assms loads_dumps [OF assms(1)]
  by (auto simp: spec_from_mapping_def make_spec_def spec_dict_def bindE_eq_Inr canonical_json_def)

end
