(* ===== verification/V23Accounting.thy ===== *)
theory V23Accounting
  imports V23Spec
begin

text \<open>
  \<open>src/search_cup/v23_accounting.py\<close>: the resource ledger, an append-only history of
  accounting events that every construction validates from the start, and the receipt that
  is computed from it.  A retry chain is walked back to its root by a loop of the code;
  here it has fuel, and the history invariant shows that the fuel suffices.
\<close>

section \<open>Events and measures\<close>

definition EVENT_SCHEMA :: schema where
  "EVENT_SCHEMA = obj_schema [
     (''event_id'', TEXT), (''kind'', enum_schema [''SEARCH'', ''VERIFY'', ''MODEL'']),
     (''unit'', enum_schema [''RAW_BACKEND_ATTEMPT'', ''INTEGRATED_STACK_INVOCATION'', ''VERIFICATION'', ''MODEL_REQUEST'']),
     (''status'', enum_schema [''SUCCEEDED'', ''FAILED'', ''REJECTED'']),
     (''crossed_boundary'', typed (OneType KBoolean)), (''turn'', COUNT), (''result_count'', COUNT),
     (''elapsed_ms'', NUMBER), (''tokens'', MEASURE), (''money'', MEASURE),
     (''retry_kind'', enum_schema [''NONE'', ''MANUAL'', ''AUTOMATIC'']),
     (''retry_of'', typed (OneOf [KString, KNull])),
     (''failure_class'', enum_schema [''NONE'', ''INFRASTRUCTURE'', ''BUDGET'', ''POLICY'']),
     (''request_fingerprint'', nullable REF),
     (''result_fingerprints'', arr_schema REF 0)]"

definition measure_of :: "json \<Rightarrow> string \<Rightarrow> string option \<Rightarrow> string \<Rightarrow> json result" where
  "measure_of v unit state reason =
     (let result = JObj [(''state'', JStr (case state of
            Some s \<Rightarrow> s | None \<Rightarrow> if v \<noteq> JNull then ''KNOWN'' else ''UNKNOWN'')),
          (''value'', v), (''unit'', JStr unit), (''reason'', JStr reason)]
      in bindE (validate_measure result None) (\<lambda>_. Inr result))"

text \<open>\<open>sum\<close> of Python 3.11: additions from the left, starting at the integer 0.\<close>

definition float_add :: "flt \<Rightarrow> flt \<Rightarrow> flt" where
  "float_add a b = (case (a, b) of
      (Fin x, Fin y) \<Rightarrow> to_float (x + y)
    | (PInf, NInf) \<Rightarrow> NaN | (NInf, PInf) \<Rightarrow> NaN | (NaN, _) \<Rightarrow> NaN | (_, NaN) \<Rightarrow> NaN
    | (Fin _, y) \<Rightarrow> y | (x, _) \<Rightarrow> x)"

definition num_add :: "json \<Rightarrow> json \<Rightarrow> json result" where
  "num_add a b = (case (a, b) of
      (JInt i, JInt j) \<Rightarrow> Inr (JInt (i + j))
    | _ \<Rightarrow> bindE (as_float a) (\<lambda>x. bindE (as_float b) (\<lambda>y. Inr (JFloat (float_add x y)))))"

definition py_sum :: "json list \<Rightarrow> json result" where
  "py_sum vs = foldE num_add (JInt 0) vs"

definition total_measure :: "json list \<Rightarrow> string \<Rightarrow> json result" where
  "total_measure values unit =
     bindE (mapE (\<lambda>m. validate_measure m (Some unit)) values) (\<lambda>_.
     if list_ex (\<lambda>m. text_at m ''state'' = ''UNKNOWN'') values then
       measure_of JNull unit None ''at least one raw component unobservable''
     else if list_ex (\<lambda>m. text_at m ''state'' = ''NOT_APPLICABLE'') values then
       measure_of JNull unit (Some ''NOT_APPLICABLE'') ''component not applicable; no zero imputation''
     else bindE (py_sum (map (\<lambda>m. field m ''value'') values)) (\<lambda>v.
       measure_of v unit None ''sum of raw observed components''))"

section \<open>The event checks\<close>

definition flag_at :: "json \<Rightarrow> string \<Rightarrow> bool" where
  "flag_at v k = (field v k = JBool True)"

definition max_default :: "'a :: {linorder, zero} list \<Rightarrow> 'a" where
  "max_default xs = (case xs of [] \<Rightarrow> 0 | x # r \<Rightarrow> foldl max x r)"

text \<open>An event that spent a ticket of its kind.\<close>

definition attempt_of :: "string \<Rightarrow> json \<Rightarrow> bool" where
  "attempt_of kind e \<longleftrightarrow> text_at e ''kind'' = kind \<and> flag_at e ''crossed_boundary''"

definition zero_known :: "json \<Rightarrow> bool" where
  "zero_known m \<longleftrightarrow> text_at m ''state'' = ''KNOWN'' \<and> py_eq (field m ''value'') (JInt 0)"

definition check_status :: "json \<Rightarrow> unit result" where
  "check_status e =
     (let status = text_at e ''status''; failure = text_at e ''failure_class'' in
      bindE (guard (flag_at e ''crossed_boundary'' = (status \<noteq> ''REJECTED'')) ''attempt/status mismatch'') (\<lambda>_.
      bindE (guard (\<not> (status = ''SUCCEEDED'' \<and> failure \<noteq> ''NONE'')) ''successful event cannot have failure'') (\<lambda>_.
      bindE (guard (\<not> (status = ''FAILED'' \<and> failure \<noteq> ''INFRASTRUCTURE'')) ''backend failure must remain infrastructure'') (\<lambda>_.
      bindE (if status = ''REJECTED'' then
          bindE (guard (failure \<in> {''BUDGET'', ''POLICY''} \<and> int_at e ''result_count'' = 0 \<and> elements_of (field e ''result_fingerprints'') = [])
            ''invalid pre-boundary rejection'') (\<lambda>_.
          guard (zero_known (field e ''money'') \<and> zero_known (field e ''tokens''))
            ''pre-boundary rejection must not consume backend resources'')
        else Inr ()) (\<lambda>_.
      guard (int (length (elements_of (field e ''result_fingerprints''))) = int_at e ''result_count'')
        ''result provenance count mismatch'')))))"

definition expected_unit :: "json \<Rightarrow> string \<Rightarrow> string" where
  "expected_unit resource kind =
     (if kind = ''SEARCH'' then text_at resource ''search_unit'' else if kind = ''VERIFY'' then ''VERIFICATION'' else ''MODEL_REQUEST'')"

definition check_unit :: "json \<Rightarrow> json \<Rightarrow> unit result" where
  "check_unit doc e =
     (let unit = expected_unit (field doc ''resources'') (text_at e ''kind''); crossed = flag_at e ''crossed_boundary'' in
      bindE (if unit = ''NONE'' then guard (\<not> crossed) ''Judgment-only prohibits search attempts''
             else guard (text_at e ''unit'' = unit) ''resource-unit equivalence is forbidden'') (\<lambda>_.
      bindE (guard (\<not> (text_at doc ''track_id'' = ''JUDGMENT_ONLY'' \<and> text_at e ''kind'' = ''VERIFY'' \<and> crossed))
        ''Judgment-only prohibits live verification'') (\<lambda>_.
      guard (\<not> (crossed \<and> field e ''request_fingerprint'' = JNull)) ''attempt must retain request provenance'')))"

definition check_turn :: "json list \<Rightarrow> json \<Rightarrow> unit result" where
  "check_turn prior e =
     (if attempt_of ''SEARCH'' e then
        (let last_turn = max_default (map (\<lambda>p. int_at p ''turn'') (filter (attempt_of ''SEARCH'') prior))
         in guard (max 1 last_turn \<le> int_at e ''turn'' \<and> int_at e ''turn'' \<le> last_turn + 1) ''search-turn sequence invalid'')
      else guard (text_at e ''kind'' = ''SEARCH'' \<or> int_at e ''turn'' = 0) ''non-search event cannot increment search turns'')"

definition event_named :: "json \<Rightarrow> json list \<Rightarrow> json option" where
  "event_named name prior = find (\<lambda>p. field p ''event_id'' = name) prior"

text \<open>\<open>while e["retry_of"] is not None: e = next(...)\<close>\<close>

fun retry_root :: "nat \<Rightarrow> json list \<Rightarrow> json \<Rightarrow> json result" where
  "retry_root 0 prior e = Inl (Exc ''OutOfFuel'' [])"
| "retry_root (Suc n) prior e =
     (if field e ''retry_of'' = JNull then Inr e
      else (case event_named (field e ''retry_of'') prior of
          None \<Rightarrow> Inl (Exc ''StopIteration'' [])
        | Some p \<Rightarrow> retry_root n prior p))"

definition root_id :: "json list \<Rightarrow> json \<Rightarrow> json result" where
  "root_id prior e = bindE (retry_root (Suc (length prior)) prior e) (\<lambda>r. Inr (field r ''event_id''))"

text \<open>\<open>sum(e["retry_kind"] == "AUTOMATIC" and root_id(e) == origin["event_id"] for e in prior)\<close>\<close>

definition automatic :: "json \<Rightarrow> bool" where
  "automatic e \<longleftrightarrow> text_at e ''retry_kind'' = ''AUTOMATIC''"

definition count_automatic :: "json list \<Rightarrow> json \<Rightarrow> nat result" where
  "count_automatic prior origin =
     bindE (mapE (root_id prior) (filter automatic prior)) (\<lambda>ids.
     Inr (length (filter (\<lambda>i. i = field origin ''event_id'') ids)))"

definition check_retry :: "json \<Rightarrow> json list \<Rightarrow> json \<Rightarrow> unit result" where
  "check_retry resource prior e =
     (if text_at e ''retry_kind'' = ''NONE'' then guard (field e ''retry_of'' = JNull) ''undeclared retry''
      else (case event_named (field e ''retry_of'') prior of
          None \<Rightarrow> Inl (ValueError ''retry must reference a prior failed same-kind attempt'')
        | Some target \<Rightarrow>
            bindE (guard (text_at target ''kind'' = text_at e ''kind'' \<and> text_at target ''status'' = ''FAILED'')
              ''retry must reference a prior failed same-kind attempt'') (\<lambda>_.
            bindE (guard (\<not> (text_at e ''retry_kind'' = ''MANUAL'' \<and> text_at resource ''manual_retry_policy'' \<noteq> ''NEW_BUDGETED_EVENT''))
              ''manual retry forbidden'') (\<lambda>_.
            if automatic e then
              bindE (retry_root (Suc (length prior)) prior target) (\<lambda>origin.
              bindE (count_automatic prior origin) (\<lambda>n.
              guard (int n < int_at resource ''automatic_retries'') ''automatic retry policy exceeded''))
            else Inr ()))))"

definition validate_event :: "json \<Rightarrow> json list \<Rightarrow> json \<Rightarrow> unit result" where
  "validate_event doc prior e =
     (let resource = field doc ''resources'' in
      bindE (validate_shape e EVENT_SCHEMA ''contract'') (\<lambda>_.
      bindE (assert_content_safe e) (\<lambda>_.
      bindE (validate_measure (field e ''tokens'') (Some ''tokens'')) (\<lambda>_.
      bindE (validate_measure (field e ''money'') (Some (text_at (field resource ''money_ceiling'') ''unit''))) (\<lambda>_.
      bindE (guard (field e ''event_id'' \<notin> set (map (\<lambda>p. field p ''event_id'') prior)) ''duplicate accounting event'') (\<lambda>_.
      bindE (check_status e) (\<lambda>_.
      bindE (check_unit doc e) (\<lambda>_.
      bindE (check_turn prior e) (\<lambda>_.
      check_retry resource prior e)))))))))"

section \<open>The ledger\<close>

record ledger =
  lg_spec :: search_spec
  lg_run_id :: json
  lg_events_json :: string

definition validate_history :: "json \<Rightarrow> json list \<Rightarrow> json list result" where
  "validate_history doc events =
     foldE (\<lambda>prior e. bindE (validate_event doc prior e) (\<lambda>_. Inr (prior @ [e]))) [] events"

definition make_ledger :: "search_spec \<Rightarrow> json \<Rightarrow> string \<Rightarrow> ledger result" where
  "make_ledger spec run_id events_json =
     bindE (guard (text_at (spec_dict spec) ''spec_status'' = ''FROZEN'') ''accounting requires frozen SearchSpec'') (\<lambda>_.
     bindE (validate_shape run_id TEXT ''contract'') (\<lambda>_.
     bindE (assert_content_safe run_id) (\<lambda>_.
     bindE (json_loads events_json) (\<lambda>v. case v of
         JArr events \<Rightarrow>
           bindE (guard (canonical_json v = events_json) ''noncanonical accounting events'') (\<lambda>_.
           bindE (validate_history (spec_dict spec) events) (\<lambda>_.
           Inr \<lparr>lg_spec = spec, lg_run_id = run_id, lg_events_json = events_json\<rparr>))
       | _ \<Rightarrow> Inl (ValueError ''noncanonical accounting events'')))))"

definition ledger_events :: "ledger \<Rightarrow> json list" where
  "ledger_events l = (case json_loads (lg_events_json l) of Inr v \<Rightarrow> elements_of v | Inl _ \<Rightarrow> [])"

definition ledger_append :: "ledger \<Rightarrow> json \<Rightarrow> ledger result" where
  "ledger_append l e = make_ledger (lg_spec l) (lg_run_id l) (canonical_json (JArr (ledger_events l @ [e])))"


section \<open>The receipt\<close>

text \<open>A number of a validated document.\<close>

definition amount :: "json \<Rightarrow> rat" where
  "amount v = (case num_of v of Some (Fin x) \<Rightarrow> x | _ \<Rightarrow> 0)"

record receipt_input =
  ri_entrant_fingerprint :: json
  ri_elapsed_ms :: json
  ri_operator_ms :: json
  ri_waiting_ms :: json
  ri_outcomes :: json
  ri_price_evidence :: json

definition limit_violations :: "(string \<times> int \<times> int) list \<Rightarrow> string list" where
  "limit_violations rows = concat (map (\<lambda>(label, observed, ceiling). if observed > ceiling then [label @ ''_EXCEEDED''] else []) rows)"

definition measure_violations :: "(string \<times> json \<times> json) list \<Rightarrow> string list" where
  "measure_violations rows = concat (map (\<lambda>(label, observed, ceiling).
     if text_at ceiling ''state'' = ''KNOWN'' then
       (if text_at observed ''state'' \<noteq> ''KNOWN'' then [label @ ''_COMPLIANCE_UNKNOWN'']
        else if amount (field observed ''value'') > amount (field ceiling ''value'') then [label @ ''_EXCEEDED''] else [])
     else []) rows)"

definition check_input :: "receipt_input \<Rightarrow> unit result" where
  "check_input i =
     bindE (validate_shape (ri_entrant_fingerprint i) HASH ''contract'') (\<lambda>_.
     bindE (validate_shape (ri_elapsed_ms i) NUMBER ''contract'') (\<lambda>_.
     bindE (validate_measure (ri_operator_ms i) (Some ''ms'')) (\<lambda>_.
     bindE (validate_measure (ri_waiting_ms i) (Some ''ms'')) (\<lambda>_.
     bindE (validate_shape (ri_price_evidence i) (arr_schema REF 0) ''contract'') (\<lambda>_.
     bindE (assert_content_safe (ri_outcomes i)) (\<lambda>_. case ri_outcomes i of
         JObj d \<Rightarrow> bindE (mapE (\<lambda>kv. validate_measure (snd kv) None) d) (\<lambda>_. Inr ())
       | _ \<Rightarrow> Inl (Exc ''AttributeError'' ''values'')))))))"

definition crossed :: "json list \<Rightarrow> json list" where
  "crossed events = filter (\<lambda>e. flag_at e ''crossed_boundary'') events"

definition of_kind :: "string \<Rightarrow> json list \<Rightarrow> json list" where
  "of_kind kind es = filter (\<lambda>e. text_at e ''kind'' = kind) es"

definition count_text :: "string \<Rightarrow> string \<Rightarrow> json list \<Rightarrow> int" where
  "count_text k w es = int (length (filter (\<lambda>e. text_at e k = w) es))"

definition search_turns :: "json list \<Rightarrow> int" where
  "search_turns es = max_default (map (\<lambda>e. int_at e ''turn'') es)"

definition violations_of :: "json \<Rightarrow> json list \<Rightarrow> json \<Rightarrow> json \<Rightarrow> json \<Rightarrow> json list \<Rightarrow> string list" where
  "violations_of doc events tokens money elapsed prices =
     (let resource = field doc ''resources''; attempts = crossed events; search = of_kind ''SEARCH'' attempts in
      limit_violations [(''SEARCH_CALLS'', int (length search), int_at resource ''max_search_calls''),
          (''SEARCH_TURNS'', search_turns search, int_at resource ''max_search_turns''),
          (''FOLLOW_LINKS'', int (length (of_kind ''VERIFY'' attempts)), int_at resource ''max_follow_links'')]
      @ (if list_ex (\<lambda>e. int_at e ''result_count'' > int_at resource ''max_results_per_call'') search then [''RESULT_LIMIT_EXCEEDED''] else [])
      @ (if list_ex (\<lambda>e. amount (field e ''elapsed_ms'') > amount (field resource ''timeout_per_call_ms'')) attempts
         then [''CALL_TIMEOUT_EXCEEDED''] else [])
      @ measure_violations [(''TOKENS'', tokens, field resource ''token_ceiling''), (''MONEY'', money, field resource ''money_ceiling''),
          (''RUNTIME'', elapsed, field resource ''max_total_runtime_ms'')]
      @ (if text_at doc ''fairness_mode'' = ''F3'' \<and> text_at money ''state'' = ''KNOWN'' \<and> prices = [] then [''PRICE_EVIDENCE_MISSING''] else [])
      @ (if list_ex (\<lambda>e. text_at e ''status'' = ''REJECTED'') events then [''REQUEST_REJECTED''] else []))"

definition terminal_of :: "string list \<Rightarrow> json list \<Rightarrow> string" where
  "terminal_of violations attempts =
     (if violations \<noteq> [] then ''BLOCKED''
      else if count_text ''status'' ''FAILED'' attempts \<noteq> 0 then ''NOT_EVALUABLE'' else ''PASS'')"

definition class_money :: "json list \<Rightarrow> json \<Rightarrow> json result" where
  "class_money attempts money =
     bindE (mapE (\<lambda>kind. bindE (total_measure (map (\<lambda>e. field e ''money'') (of_kind kind attempts)) (text_at money ''unit''))
       (\<lambda>m. Inr (kind, m))) [''SEARCH'', ''VERIFY'', ''MODEL'']) (\<lambda>kms. Inr (JObj kms))"

definition paid_failed :: "json list \<Rightarrow> json" where
  "paid_failed attempts = JArr (map (\<lambda>e. field e ''event_id'') (filter (\<lambda>e. text_at e ''status'' = ''FAILED''
      \<and> (text_at (field e ''money'') ''state'' \<noteq> ''KNOWN'' \<or> amount (field (field e ''money'') ''value'') > 0)) attempts))"

definition public_scan :: json where
  "public_scan = JObj [(''scanner'', JStr ''public-safe-patterns/v1''), (''status'', JStr ''PASS'')]"

definition receipt_fields :: "search_spec \<Rightarrow> json \<Rightarrow> json list \<Rightarrow> receipt_input \<Rightarrow> json \<Rightarrow> json \<Rightarrow> json \<Rightarrow> string list \<Rightarrow> obj" where
  "receipt_fields spec run_id events i tokens money by_class violations =
     (let doc = spec_dict spec; resource = field doc ''resources''; attempts = crossed events; search = of_kind ''SEARCH'' attempts in
      [(''schema_id'', JStr ''search-resource-receipt/v2''), (''run_id'', run_id),
       (''spec_fingerprint'', JStr (spec_fingerprint spec)), (''track_id'', field doc ''track_id''),
       (''fairness_mode'', field doc ''fairness_mode''), (''entrant_fingerprint'', ri_entrant_fingerprint i),
       (''retriever_fingerprint'', if truthy (field doc ''retriever'') then JStr (fingerprint (field doc ''retriever'')) else JNull),
       (''resource_contract_fingerprint'', JStr (fingerprint resource)), (''events'', JArr events),
       (''search_unit'', field resource ''search_unit''),
       (''search_attempted'', JInt (int (length search))),
       (''search_succeeded'', JInt (count_text ''status'' ''SUCCEEDED'' search)),
       (''search_failed'', JInt (count_text ''status'' ''FAILED'' search)),
       (''search_remaining'', JInt (max 0 (int_at resource ''max_search_calls'' - int (length search)))),
       (''search_turns'', JInt (search_turns search)),
       (''results'', JInt (sum_list (map (\<lambda>e. int_at e ''result_count'') search))),
       (''follow_links'', JInt (int (length (of_kind ''VERIFY'' attempts)))),
       (''provider_requests'', JInt (count_text ''kind'' ''MODEL'' attempts)),
       (''automatic_retries'', JInt (count_text ''retry_kind'' ''AUTOMATIC'' attempts)),
       (''manual_retries'', JInt (count_text ''retry_kind'' ''MANUAL'' attempts)),
       (''retry_policy'', field resource ''retry_policy''), (''tokens'', tokens), (''money'', money),
       (''money_by_class'', by_class), (''paid_failed_attempts'', paid_failed attempts),
       (''elapsed_ms'', ri_elapsed_ms i), (''operator_ms'', ri_operator_ms i), (''waiting_ms'', ri_waiting_ms i),
       (''infrastructure_failures'', JInt (count_text ''status'' ''FAILED'' attempts)),
       (''outcome_inputs'', ri_outcomes i), (''price_evidence'', ri_price_evidence i),
       (''terminal_status'', JStr (terminal_of violations attempts)),
       (''reason_codes'', JArr (map JStr (sort violations))), (''quality_score'', JNull),
       (''secret_exclusion'', public_scan),
       (''evidence_kind'', JStr ''OFFLINE_SUPPLIED_ACCOUNTING_FACTS_NOT_EXECUTION'')])"

definition receipt_body :: "search_spec \<Rightarrow> json \<Rightarrow> json list \<Rightarrow> receipt_input \<Rightarrow> obj result" where
  "receipt_body spec run_id events i =
     (let doc = spec_dict spec; resource = field doc ''resources''; attempts = crossed events in
      bindE (total_measure (map (\<lambda>e. field e ''tokens'') attempts) ''tokens'') (\<lambda>tokens.
      bindE (total_measure (map (\<lambda>e. field e ''money'') attempts) (text_at (field resource ''money_ceiling'') ''unit'')) (\<lambda>money.
      bindE (measure_of (ri_elapsed_ms i) ''ms'' None ''observed fixture value'') (\<lambda>elapsed.
      bindE (guard (max_default (map (\<lambda>e. amount (field e ''elapsed_ms'')) attempts) \<le> amount (ri_elapsed_ms i))
        ''elapsed time shorter than a recorded call'') (\<lambda>_.
      bindE (class_money attempts money) (\<lambda>by_class.
      Inr (receipt_fields spec run_id events i tokens money by_class
             (violations_of doc events tokens money elapsed (elements_of (ri_price_evidence i))))))))))"

definition receipt :: "ledger \<Rightarrow> receipt_input \<Rightarrow> obj result" where
  "receipt l i =
     bindE (check_input i) (\<lambda>_.
     bindE (receipt_body (lg_spec l) (lg_run_id l) (ledger_events l) i) seal)"

text \<open>\<open>except (KeyError, TypeError)\<close>\<close>

definition catch_shape :: "string \<Rightarrow> 'a result \<Rightarrow> 'a result" where
  "catch_shape m r = (case r of
      Inl e \<Rightarrow> if exc_type e \<in> {''KeyError'', ''TypeError''} then Inl (ValueError m) else Inl e
    | Inr x \<Rightarrow> Inr x)"

definition receipt_reader :: "obj \<Rightarrow> receipt_input result" where
  "receipt_reader d =
     bindE (item d ''entrant_fingerprint'') (\<lambda>a.
     bindE (item d ''elapsed_ms'') (\<lambda>b.
     bindE (item d ''operator_ms'') (\<lambda>c.
     bindE (item d ''waiting_ms'') (\<lambda>w.
     bindE (item d ''outcome_inputs'') (\<lambda>u.
     bindE (item d ''price_evidence'') (\<lambda>p.
     Inr \<lparr>ri_entrant_fingerprint = a, ri_elapsed_ms = b, ri_operator_ms = c, ri_waiting_ms = w,
          ri_outcomes = u, ri_price_evidence = p\<rparr>))))))"

definition validate_resource_receipt :: "json \<Rightarrow> search_spec \<Rightarrow> unit result" where
  "validate_resource_receipt v spec =
     bindE (verify_seal v) (\<lambda>_.
     let d = items_of v in
     bindE (catch_shape ''resource receipt shape mismatch''
         (bindE (item d ''run_id'') (\<lambda>run_id.
          bindE (item d ''events'') (\<lambda>events.
          bindE (make_ledger spec run_id (canonical_json events)) (\<lambda>l.
          bindE (receipt_reader d) (\<lambda>i. receipt l i)))))) (\<lambda>rebuilt.
     guard (py_eq v (JObj rebuilt)) ''resource receipt accounting mismatch''))"

end
