(* ===== verification/V23Ledger.thy ===== *)
theory V23Ledger
  imports V23Accounting
begin

text \<open>
  What the ledger of \<open>v23_accounting.py\<close> keeps: the histories it accepts as a step relation
  with the validator as its guard, invariants by rule induction, the end of every retry
  chain, and the receipt as a document that its own validator accepts.
\<close>

section \<open>Histories\<close>

inductive history :: "json \<Rightarrow> json list \<Rightarrow> bool" for doc where
  empty: "history doc []"
| record_event: "history doc es \<Longrightarrow> validate_event doc es e = Inr () \<Longrightarrow> history doc (es @ [e])"

inductive_cases history_snocE: "history doc (es @ [e])"

lemma history_snoc: "history doc (es @ [e]) \<longleftrightarrow> history doc es \<and> validate_event doc es e = Inr ()"
  by (auto intro: history.intros elim: history_snocE)

lemma validate_history_iff: "validate_history doc es = Inr es' \<longleftrightarrow> history doc es \<and> es' = es"
proof (induction es arbitrary: es' rule: rev_induct)
  case Nil
  then show ?case by (auto simp: validate_history_def intro: history.intros)
next
  case (snoc e es)
  have "validate_history doc (es @ [e])
      = bindE (validate_history doc es) (\<lambda>prior. bindE (validate_event doc prior e) (\<lambda>_. Inr (prior @ [e])))"
    by (simp add: validate_history_def foldE_append)
       (cases "foldE (\<lambda>prior e. bindE (validate_event doc prior e) (\<lambda>_. Inr (prior @ [e]))) [] es";
        simp add: bindE_assoc)
  with snoc show ?case by (auto simp: bindE_eq_Inr history_snoc)
qed

lemma make_ledger_iff:
  "make_ledger spec run_id ej = Inr l \<longleftrightarrow>
     text_at (spec_dict spec) ''spec_status'' = ''FROZEN'' \<and> conforms TEXT run_id \<and> content_safe run_id
     \<and> (\<exists>es. json_loads ej = Inr (JArr es) \<and> canonical_json (JArr es) = ej \<and> history (spec_dict spec) es)
     \<and> l = \<lparr>lg_spec = spec, lg_run_id = run_id, lg_events_json = ej\<rparr>"
  by (auto simp: make_ledger_def bindE_eq_Inr guard_Inr assert_content_safe_iff validate_shape_nested
      validate_history_iff json_case_Inr)

lemma ledger_history:
  assumes "make_ledger spec run_id ej = Inr l"
  shows "history (spec_dict spec) (ledger_events l)" and "canonical_json (JArr (ledger_events l)) = ej"
  using assms by (auto simp: make_ledger_iff ledger_events_def elements_of_def)

section \<open>Identity, provenance and turns\<close>

abbreviation ids :: "json list \<Rightarrow> json list" where
  "ids es \<equiv> map (\<lambda>e. field e ''event_id'') es"

lemmas event_checks = validate_event_def Let_def bindE_eq_Inr guard_Inr

lemma history_distinct: "history doc es \<Longrightarrow> distinct (ids es)"
  by (induction rule: history.induct) (auto simp: event_checks)

lemma history_members:
  "history doc es \<Longrightarrow> e \<in> set es \<Longrightarrow>
     conforms EVENT_SCHEMA e \<and> content_safe e \<and> check_status e = Inr () \<and> check_unit doc e = Inr ()"
  by (induction rule: history.induct)
     (auto simp: event_checks validate_shape_nested assert_content_safe_iff)

definition search_attempts :: "json list \<Rightarrow> json list" where
  "search_attempts es = filter (attempt_of ''SEARCH'') es"

lemma max_default_snoc: "xs \<noteq> [] \<Longrightarrow> max_default (xs @ [x]) = max (max_default xs) x"
  by (cases xs) (simp_all add: max_default_def)

lemma history_turns:
  assumes "history doc es"
  shows "sorted (map (\<lambda>e. int_at e ''turn'') (search_attempts es))
    \<and> set (map (\<lambda>e. int_at e ''turn'') (search_attempts es)) = {1 .. search_turns (search_attempts es)}"
  using assms
proof (induction rule: history.induct)
  case empty
  then show ?case by (simp add: search_attempts_def search_turns_def max_default_def)
next
  case (record_event es e)
  show ?case
  proof (cases "attempt_of ''SEARCH'' e")
    case False
    with record_event show ?thesis by (simp add: search_attempts_def)
  next
    case True
    let ?ts = "map (\<lambda>e. int_at e ''turn'') (search_attempts es)" and ?t = "int_at e ''turn''"
    let ?m = "max_default ?ts"
    from record_event True have t: "max 1 ?m \<le> ?t" "?t \<le> ?m + 1"
      by (auto simp: event_checks check_turn_def search_attempts_def)
    from record_event have IH: "sorted ?ts" "set ?ts = {1..?m}" by (simp_all add: search_turns_def)
    have new: "map (\<lambda>e. int_at e ''turn'') (search_attempts (es @ [e])) = ?ts @ [?t]"
      using True by (simp add: search_attempts_def)
    have m': "max_default (?ts @ [?t]) = ?t"
    proof (cases "?ts = []")
      case True
      then show ?thesis by (simp add: max_default_def)
    next
      case False
      with t show ?thesis by (simp add: max_default_snoc)
    qed
    have "set (?ts @ [?t]) = {1..?t}" using IH(2) t by auto
    moreover have "sorted (?ts @ [?t])" using IH t by (auto simp: sorted_append)
    ultimately show ?thesis
      by (simp only: search_turns_def new m' simp_thms)
  qed
qed

section \<open>Retry chains\<close>

lemma find_distinct:
  "distinct (map f xs) \<Longrightarrow> i < length xs \<Longrightarrow> find (\<lambda>p. f p = f (xs ! i)) (xs @ ys) = Some (xs ! i)"
proof (induction xs arbitrary: i)
  case (Cons x xs)
  show ?case
  proof (cases i)
    case (Suc n)
    with Cons.prems have "f x \<noteq> f (xs ! n)" by auto
    with Cons Suc show ?thesis by simp
  qed simp
qed simp

lemma history_retry:
  assumes "history doc es" and "i < length es" and "field (es ! i) ''retry_of'' \<noteq> JNull"
  shows "\<exists>j < i. field (es ! j) ''event_id'' = field (es ! i) ''retry_of'' \<and> text_at (es ! j) ''status'' = ''FAILED''
     \<and> text_at (es ! j) ''kind'' = text_at (es ! i) ''kind''"
  using assms
proof (induction arbitrary: i rule: history.induct)
  case (record_event es e)
  show ?case
  proof (cases "i < length es")
    case True
    with record_event show ?thesis by (force simp: nth_append)
  next
    case False
    with record_event.prems have [simp]: "i = length es" by simp
    from record_event have "check_retry (field doc ''resources'') es e = Inr ()" "field e ''retry_of'' \<noteq> JNull"
      by (auto simp: event_checks)
    then obtain p where p: "event_named (field e ''retry_of'') es = Some p" "text_at p ''status'' = ''FAILED''"
        "text_at p ''kind'' = text_at e ''kind''"
      by (auto simp: check_retry_def guard_Inr bindE_eq_Inr split: option.splits if_splits)
    from p(1) obtain j where "j < length es" "p = es ! j" "field p ''event_id'' = field e ''retry_of''"
      by (auto simp: event_named_def find_Some_iff)
    with p show ?thesis by (intro exI [of _ j]) (simp add: nth_append)
  qed
qed simp

text \<open>Every chain ends, at the same event however much fuel and whatever follows.\<close>

lemma chain_ends:
  assumes "history doc es" and "i < length es"
  shows "\<exists>r \<in> set es. field r ''retry_of'' = JNull \<and> (\<forall>n ys. i < n \<longrightarrow> retry_root n (es @ ys) (es ! i) = Inr r)"
  using assms(2)
proof (induction i rule: less_induct)
  case (less i)
  show ?case
  proof (cases "field (es ! i) ''retry_of'' = JNull")
    case True
    then have "retry_root n (es @ ys) (es ! i) = Inr (es ! i)" if "i < n" for n ys
      using that by (cases n) simp_all
    with True less.prems show ?thesis by (intro bexI [of _ "es ! i"]) auto
  next
    case False
    from history_retry [OF assms(1) less.prems False] obtain j where j: "j < i" "field (es ! j) ''event_id'' = field (es ! i) ''retry_of''"
      by blast
    with less obtain r where r: "r \<in> set es" "field r ''retry_of'' = JNull"
        "\<And>n ys. j < n \<Longrightarrow> retry_root n (es @ ys) (es ! j) = Inr r"
      by (meson less_trans)
    have "event_named (field (es ! i) ''retry_of'') (es @ ys) = Some (es ! j)" for ys
      using find_distinct [OF history_distinct [OF assms(1)], of j ys] j less.prems by (simp add: event_named_def)
    then have "retry_root n (es @ ys) (es ! i) = Inr r" if "i < n" for n ys
      using that j(1) False r(3) by (cases n) simp_all
    with r show ?thesis by (intro bexI [of _ r]) auto
  qed
qed


lemma chain_from:
  assumes "history doc es" and "e \<in> set es"
  shows "\<exists>r \<in> set es. field r ''retry_of'' = JNull \<and> (\<forall>n ys. length es \<le> n \<longrightarrow> retry_root n (es @ ys) e = Inr r)"
proof -
  from assms(2) obtain i where "i < length es" "e = es ! i" by (metis in_set_conv_nth)
  with chain_ends [OF assms(1)] show ?thesis by (meson less_le_trans)
qed

lemma root_id_value:
  assumes "history doc es" and "e \<in> set es"
  shows "\<exists>i. \<forall>ys. root_id (es @ ys) e = Inr i"
proof -
  from chain_from [OF assms] obtain r where r: "\<And>n ys. length es \<le> n \<Longrightarrow> retry_root n (es @ ys) e = Inr r" by blast
  have "root_id (es @ ys) e = Inr (field r ''event_id'')" for ys
    unfolding root_id_def by (subst r) simp_all
  then show ?thesis by blast
qed

lemma root_id_extend:
  assumes "history doc es" and "e \<in> set es"
  shows "root_id (es @ ys) e = root_id es e"
proof -
  from root_id_value [OF assms] obtain i where i: "\<forall>ys. root_id (es @ ys) e = Inr i" ..
  from i [rule_format, of ys] i [rule_format, of "[]"] show ?thesis by simp
qed

lemma conforms_field:
  assumes "conforms (obj_schema ps) v" and "map_of ps k = Some a"
  shows "conforms a (field v k)"
proof -
  from assms(1) obtain d where d: "v = JObj d" "\<forall>k \<in> set (map fst ps). has_key d k"
      "\<forall>kw \<in> set d. \<exists>a. map_of ps (fst kw) = Some a \<and> conforms a (snd kw)"
    by (auto simp: conforms_obj)
  from assms(2) have "k \<in> set (map fst ps)" by (force dest: map_of_SomeD)
  with d(2) have "k \<in> fst ` set d" by (auto simp: has_key_def)
  then obtain w where w: "map_of d k = Some w" by (metis map_of_eq_None_iff not_None_eq)
  with d(3) assms(2) have "conforms a w" by (force dest: map_of_SomeD)
  with d(1) w show ?thesis by (simp add: get_def)
qed

lemma event_id_text: "conforms EVENT_SCHEMA e \<Longrightarrow> \<exists>t. field e ''event_id'' = JStr t"
proof -
  assume "conforms EVENT_SCHEMA e"
  then have "conforms TEXT (field e ''event_id'')"
    unfolding EVENT_SCHEMA_def by (rule conforms_field) simp
  then show "\<exists>t. field e ''event_id'' = JStr t" by (auto simp: TEXT_def conforms_text)
qed

lemma find_append: "find P xs = Some x \<Longrightarrow> find P (xs @ ys) = Some x"
  by (induction xs) auto

definition automatic_retries :: "json list \<Rightarrow> json \<Rightarrow> nat" where
  "automatic_retries es r = length (filter (\<lambda>e. automatic e \<and> root_id es e = Inr r) es)"

lemma root_id_ok:
  assumes "history doc es" and "e \<in> set es"
  shows "isOk (root_id es e)"
proof -
  from root_id_value [OF assms] obtain i where i: "\<forall>ys. root_id (es @ ys) e = Inr i" ..
  from i [rule_format, of "[]"] show ?thesis by simp
qed

lemma length_filter_map_filter: "length (filter P (map g (filter A xs))) = length (filter (\<lambda>x. A x \<and> P (g x)) xs)"
  by (induction xs) auto

lemma count_automatic_eq:
  assumes "history doc es"
  shows "count_automatic es r = Inr (automatic_retries es (field r ''event_id''))"
proof -
  have "\<forall>e \<in> set es. \<exists>i. root_id es e = Inr i"
    using root_id_ok [OF assms] by (simp add: isOk_iff)
  then obtain g where g: "\<And>e. e \<in> set es \<Longrightarrow> root_id es e = Inr (g e)" by metis
  then have "mapE (root_id es) (filter automatic es) = Inr (map g (filter automatic es))"
    by (intro mapE_pure) auto
  moreover have "filter (\<lambda>e. automatic e \<and> g e = x) es = filter (\<lambda>e. automatic e \<and> root_id es e = Inr x) es" for x
    by (rule filter_cong) (simp_all add: g)
  ultimately show ?thesis
    by (simp add: count_automatic_def automatic_retries_def length_filter_map_filter)
qed

lemma automatic_bound:
  "history doc es \<Longrightarrow> int (automatic_retries es r) \<le> max 0 (int_at (field doc ''resources'') ''automatic_retries'')"
proof (induction arbitrary: r rule: history.induct)
  case empty
  then show ?case by (simp add: automatic_retries_def)
next
  case (record_event es e)
  have "filter (\<lambda>e'. automatic e' \<and> root_id (es @ [e]) e' = Inr r) es = filter (\<lambda>e'. automatic e' \<and> root_id es e' = Inr r) es"
    by (rule filter_cong) (simp_all add: root_id_extend [OF record_event.hyps(1)])
  then have old: "automatic_retries (es @ [e]) r = automatic_retries es r + (if automatic e \<and> root_id (es @ [e]) e = Inr r then 1 else 0)"
    by (simp add: automatic_retries_def)
  show ?case
  proof (cases "automatic e \<and> root_id (es @ [e]) e = Inr r")
    case False
    with record_event.IH show ?thesis by (simp only: old if_False add_0_right)
  next
    case True
    from record_event.hyps(2) have "check_retry (field doc ''resources'') es e = Inr ()" by (simp add: event_checks)
    with True obtain p origin n where p: "event_named (field e ''retry_of'') es = Some p"
        "retry_root (Suc (length es)) es p = Inr origin" "count_automatic es origin = Inr n"
        "int n < int_at (field doc ''resources'') ''automatic_retries''"
      by (auto simp: check_retry_def automatic_def guard_Inr bindE_eq_Inr simp del: retry_root.simps split: option.splits if_splits)
    have mem: "p \<in> set es" "field p ''event_id'' = field e ''retry_of''"
      using p(1) by (auto simp: event_named_def find_Some_iff)
    have "field e ''retry_of'' \<noteq> JNull"
      using mem event_id_text history_members [OF record_event.hyps(1) mem(1)] by force
    moreover have "event_named (field e ''retry_of'') (es @ [e]) = Some p"
      using p(1) by (auto simp: event_named_def find_append)
    moreover have "retry_root (Suc (length es)) (es @ [e]) p = Inr origin"
    proof -
      from chain_from [OF record_event.hyps(1) mem(1)] obtain q
        where q: "\<And>n ys. length es \<le> n \<Longrightarrow> retry_root n (es @ ys) p = Inr q" by blast
      from q [of "Suc (length es)" "[]"] p(2) q [of "Suc (length es)" "[e]"] show ?thesis by (simp del: retry_root.simps)
    qed
    ultimately have "root_id (es @ [e]) e = Inr (field origin ''event_id'')"
      by (simp add: root_id_def)
    with True p(3,4) show ?thesis
      by (auto simp: old count_automatic_eq [OF record_event.hyps(1)])
  qed
qed


section \<open>What a ledger guarantees\<close>

lemma rejected_free:
  assumes "history doc es" and "e \<in> set es" and "text_at e ''status'' = ''REJECTED''"
  shows "\<not> flag_at e ''crossed_boundary'' \<and> int_at e ''result_count'' = 0
     \<and> zero_known (field e ''money'') \<and> zero_known (field e ''tokens'')"
  using history_members [OF assms(1,2)] assms(3) by (auto simp: check_status_def Let_def bindE_eq_Inr guard_Inr)

text \<open>C37.  Every ledger that can be built: no event id occurs twice; the turns of its search attempts never
  go back and leave no turn out; and a request rejected before the boundary spent no money, no
  tokens and brought no result.\<close>

theorem ledger_invariant:
  assumes "make_ledger spec run_id ej = Inr l"
  shows "distinct (ids (ledger_events l))
     \<and> sorted (map (\<lambda>e. int_at e ''turn'') (search_attempts (ledger_events l)))
     \<and> set (map (\<lambda>e. int_at e ''turn'') (search_attempts (ledger_events l))) = {1 .. search_turns (search_attempts (ledger_events l))}
     \<and> (\<forall>e \<in> set (ledger_events l). text_at e ''status'' = ''REJECTED'' \<longrightarrow>
          \<not> flag_at e ''crossed_boundary'' \<and> int_at e ''result_count'' = 0
          \<and> zero_known (field e ''money'') \<and> zero_known (field e ''tokens''))"
  using ledger_history(1) [OF assms] history_distinct history_turns rejected_free by blast

text \<open>C38.  The loop that walks a retry back to its first attempt ends on every ledger: from any event it
  reaches, in at most as many steps as there are events, an event of the ledger that is no retry;
  and the automatic retries of one first attempt never outnumber the policy.\<close>

theorem retry_chains_end:
  assumes "make_ledger spec run_id ej = Inr l" and "e \<in> set (ledger_events l)"
  shows "\<exists>r \<in> set (ledger_events l). retry_root (length (ledger_events l)) (ledger_events l) e = Inr r \<and> field r ''retry_of'' = JNull
     \<and> int (automatic_retries (ledger_events l) (field r ''event_id''))
         \<le> max 0 (int_at (field (spec_dict spec) ''resources'') ''automatic_retries'')"
proof -
  note h = ledger_history(1) [OF assms(1)]
  from chain_from [OF h assms(2)] obtain r where r: "r \<in> set (ledger_events l)" "field r ''retry_of'' = JNull"
      "\<forall>n ys. length (ledger_events l) \<le> n \<longrightarrow> retry_root n (ledger_events l @ ys) e = Inr r" by blast
  from r(3) [rule_format, of "length (ledger_events l)" "[]"] r(1,2) automatic_bound [OF h] show ?thesis by auto
qed

end
