(* ===== verification/V23Canon.thy ===== *)
theory V23Canon
  imports V23Spec
begin

text \<open>
  The order of keys is irrelevant to the validators: the canonical form of a document
  conforms to every schema that the document conforms to.
\<close>

lemma text_json_ok: "text_ok v \<Longrightarrow> json_ok v"
proof (induction v)
  case (JArr xs)
  then show ?case by (auto simp: json_ok_list_iff list_all_iff)
next
  case (JObj d)
  then show ?case by (force simp: json_ok_items_iff list_all_iff snds.simps)
qed simp_all

lemma safe_nan_free: "content_safe v \<Longrightarrow> nan_free v"
proof (induction v)
  case (JFloat f)
  then show ?case by (cases f) (simp_all add: finite_number_def)
next
  case (JArr xs)
  then show ?case by (auto simp: list_all_iff)
next
  case (JObj d)
  then show ?case by (force simp: list_all_iff snds.simps)
qed simp_all

lemma num_of_canon [simp]: "num_of (canon v) = num_of v"
  by (cases v) auto

lemma py_type_canon [simp]: "py_type (canon v) = py_type v"
  by (cases v) (auto simp: py_type_def)

lemma is_kind_canon [simp]: "is_kind k (canon v) = is_kind k v"
  by (cases k) (auto simp: is_kind_def, (cases v; auto)+)

lemma py_eq_items_iff: "py_eq_items d e \<longleftrightarrow> (\<forall>kv \<in> set d. \<exists>w. map_of e (fst kv) = Some w \<and> py_eq (snd kv) w)"
  by (induction d) (auto split: option.splits)

lemma py_eq_list_iff: "py_eq_list xs ys \<longleftrightarrow> list_all2 py_eq xs ys"
  by (induction xs arbitrary: ys) (auto split: list.splits simp: list_all2_Cons1)

lemma length_canon_items [simp]: "length (canon_items d) = length d"
  by (simp add: canon_items_def)

lemma py_eq_canon_left: "py_eq (canon v) w \<longleftrightarrow> py_eq v w"
proof (induction v arbitrary: w)
  case (JArr xs)
  then show ?case
    by (cases w) (auto simp: py_eq_list_iff list_all2_map1 list_all2_conv_all_nth)
next
  case (JObj d)
  have "py_eq_items (canon_items d) e \<longleftrightarrow> py_eq_items d e" for e
    unfolding py_eq_items_iff set_canon_items using JObj by (force simp: snds.simps)
  then show ?case
    by (cases w) (simp_all add: canon_JObj del: canon.simps(2))
qed simp_all

lemma py_eq_canon_right: "json_ok w \<Longrightarrow> py_eq v (canon w) \<longleftrightarrow> py_eq v w"
proof (induction v arbitrary: w)
  case (JArr xs)
  then show ?case
    by (cases w) (auto simp: py_eq_list_iff list_all2_map2 list_all2_conv_all_nth json_ok_list_iff list_all_iff)
next
  case (JObj d)
  show ?case
  proof (cases w)
    case w: (JObj e)
    have e: "distinct (map fst e)" "\<And>k v. map_of e k = Some v \<Longrightarrow> json_ok v"
      using JObj.prems by (auto simp: w json_ok_items_iff list_all_iff dest: map_of_SomeD)
    have "(\<exists>x. map_of (canon_items e) (fst kv) = Some x \<and> py_eq (snd kv) x) \<longleftrightarrow> (\<exists>x. map_of e (fst kv) = Some x \<and> py_eq (snd kv) x)"
      if "kv \<in> set d" for kv
    proof (cases "map_of e (fst kv)")
      case (Some x)
      then have "py_eq (snd kv) (canon x) \<longleftrightarrow> py_eq (snd kv) x"
        using JObj.IH [OF that _ e(2) [OF Some]] by (cases kv) (simp add: snds.simps)
      with Some show ?thesis by (simp add: map_of_canon_items [OF e(1)])
    qed (simp add: map_of_canon_items [OF e(1)])
    then have "py_eq_items d (canon_items e) \<longleftrightarrow> py_eq_items d e"
      unfolding py_eq_items_iff by simp
    then show ?thesis by (simp add: w canon_JObj del: canon.simps(2))
  qed auto
qed (case_tac [!] w, simp_all)


lemma py_in_canon: "json_ok_list ys \<Longrightarrow> py_in (canon x) (map canon ys) \<longleftrightarrow> py_in x ys"
  by (auto simp: py_in_def list_ex_iff json_ok_list_iff list_all_iff py_eq_canon_left py_eq_canon_right)

lemma has_duplicates_canon:
  "json_ok_list seen \<Longrightarrow> json_ok_list xs \<Longrightarrow> has_duplicates (map canon seen) (map canon xs) = has_duplicates seen xs"
proof (induction xs arbitrary: seen)
  case (Cons x xs)
  then have "json_ok_list (seen @ [x])" by (simp add: json_ok_list_iff)
  with Cons.IH [OF this] Cons.prems show ?case by (simp add: py_in_canon)
qed simp

lemma const_enum_canon [simp]: "const_fits s (canon v) = const_fits s v" "enum_fits s (canon v) = enum_fits s v"
  by (auto simp: const_fits_def enum_fits_def py_eq_canon_left py_in_def split: option.splits)

lemma conforms_canon:
  "conforms s v \<Longrightarrow> json_ok v \<Longrightarrow> conforms s (canon v)"
  "conforms_kind s k v \<Longrightarrow> json_ok v \<Longrightarrow> conforms_kind s k (canon v)"
proof (induction rule: conforms_conforms_kind.inducts)
  case (object s d)
  have "has_key (canon_items d) k \<longleftrightarrow> has_key d k" for k
    by (force simp: has_key_def set_canon_items)
  moreover have "\<exists>a. map_of (s_props s) (fst kw) = Some a \<and> conforms a (snd kw)" if kw: "kw \<in> set (canon_items d)" for kw
  proof -
    from kw obtain kv where "kv \<in> set d" "kw = (fst kv, canon (snd kv))" by (auto simp: set_canon_items)
    with object show ?thesis by (force simp: json_ok_items_iff list_all_iff)
  qed
  ultimately show ?case
    using object(1) unfolding canon_JObj by (intro conforms_conforms_kind.object) auto
next
  case (array s xs)
  then show ?case
    using has_duplicates_canon [of "[]" xs]
    by (auto simp: json_ok_list_iff list_all_iff intro!: conforms_conforms_kind.array)
qed (auto intro: conforms_conforms_kind.intros)

lemma field_canon: "json_ok v \<Longrightarrow> field (canon v) k = canon (field v k)"
proof (cases v)
  case (JObj d)
  then show "json_ok v \<Longrightarrow> ?thesis"
    by (simp only: canon_JObj field_JObj json_ok.simps get_canon_items)
qed (simp_all add: field_def items_of_def get_def)

lemma text_in_canon [simp]: "text_in (canon v) = text_in v"
  by (cases v) (auto simp: text_in_def)

lemma canon_JNull_iff [simp]: "canon v = JNull \<longleftrightarrow> v = JNull"
  by (cases v) auto

lemma text_at_canon: "json_ok v \<Longrightarrow> text_at (canon v) k = text_at v k"
  by (simp add: text_at_def field_canon)

lemma validate_measure_iff:
  "validate_measure m u = Inr () \<longleftrightarrow> conforms MEASURE m \<and> (text_at m ''state'' = ''KNOWN'') = (field m ''value'' \<noteq> JNull)
     \<and> (u = None \<or> u = Some (text_at m ''unit''))"
  by (simp add: validate_measure_def bindE_eq_Inr guard_Inr validate_shape_nested)

lemma validate_measure_canon: "json_ok m \<Longrightarrow> validate_measure m u = Inr () \<Longrightarrow> validate_measure (canon m) u = Inr ()"
  by (simp add: validate_measure_iff text_at_canon field_canon conforms_canon)

end
