(* ===== verification/V23Receipt.thy ===== *)
theory V23Receipt
  imports V23Ledger V23Canon
begin

text \<open>
  The receipt of a ledger: its validator recomputes every field from the events it
  carries, accepts what the ledger produced, and a receipt that says PASS has kept
  every limit of the specification.
\<close>

section \<open>Sealing up to the order of keys\<close>

definition recanon :: "obj \<Rightarrow> obj \<Rightarrow> bool" where
  "recanon = list_all2 (\<lambda>x y. fst y = fst x \<and> (snd y = snd x \<or> snd y = canon (snd x)))"

lemma recanon_canon_items: "recanon b b' \<Longrightarrow> canon_items b' = canon_items b"
proof -
  assume "recanon b b'"
  then have "map (\<lambda>(k, v). (k, canon v)) b' = map (\<lambda>(k, v). (k, canon v)) b"
    unfolding recanon_def
    by (induction b b' rule: list_all2_induct) (auto simp: canon_idem)
  then show ?thesis by (simp add: canon_items_def)
qed

lemma recanon_text_ok:
  assumes "recanon b b'" and "text_ok (JObj b)"
  shows "text_ok (JObj b')"
proof -
  have "map fst b' = map fst b"
    using assms(1) unfolding recanon_def by (induction b b' rule: list_all2_induct) auto
  moreover have "\<forall>kv \<in> set b. text_ok (snd kv) \<Longrightarrow> \<forall>kv \<in> set b'. text_ok (snd kv)"
    using assms(1) unfolding recanon_def
    by (induction b b' rule: list_all2_induct) (auto intro: text_ok_canon)
  ultimately show ?thesis using assms(2) unfolding text_ok_obj by metis
qed

lemma recanon_pop: "recanon b b' \<Longrightarrow> recanon (pop b k) (pop b' k)"
  unfolding recanon_def pop_def by (induction b b' rule: list_all2_induct) auto

lemma fingerprint_cong: "canon v = canon w \<Longrightarrow> fingerprint v = fingerprint w"
  by (metis fingerprint_canon)

lemma seal_recanon:
  assumes "recanon b b'" and "text_ok (JObj b)"
  shows "seal b' = seal b \<or> \<not> isOk (seal b)"
proof -
  have "canon (JObj b') = canon (JObj b)"
    using recanon_canon_items [OF assms(1)] by (simp only: canon_JObj)
  then have safe: "content_safe (JObj b') \<longleftrightarrow> content_safe (JObj b)" by (metis content_safe_canon)
  have p: "canon_items (pop b' k) = canon_items (pop b k)" for k
    using recanon_canon_items [OF recanon_pop [OF assms(1)]] .
  then have "fingerprint (JObj (pop b' k)) = fingerprint (JObj (pop b k))" for k
    by (intro fingerprint_cong) (simp only: canon_JObj)
  with p safe show ?thesis
    using assms(2) recanon_text_ok [OF assms]
    by (auto simp: seal_eq isOk_bind assert_content_safe_iff [symmetric] simp del: content_safe.simps)
qed

section \<open>Reading a receipt back\<close>

definition canon_input :: "receipt_input \<Rightarrow> receipt_input" where
  "canon_input i = \<lparr>ri_entrant_fingerprint = canon (ri_entrant_fingerprint i), ri_elapsed_ms = canon (ri_elapsed_ms i),
     ri_operator_ms = canon (ri_operator_ms i), ri_waiting_ms = canon (ri_waiting_ms i),
     ri_outcomes = canon (ri_outcomes i), ri_price_evidence = canon (ri_price_evidence i)\<rparr>"

definition input_ok :: "receipt_input \<Rightarrow> bool" where
  "input_ok i \<longleftrightarrow> json_ok (ri_operator_ms i) \<and> json_ok (ri_waiting_ms i) \<and> json_ok (ri_outcomes i) \<and> json_ok (ri_price_evidence i)"

lemma check_input_iff:
  "check_input i = Inr () \<longleftrightarrow>
     conforms HASH (ri_entrant_fingerprint i) \<and> conforms NUMBER (ri_elapsed_ms i)
     \<and> validate_measure (ri_operator_ms i) (Some ''ms'') = Inr () \<and> validate_measure (ri_waiting_ms i) (Some ''ms'') = Inr ()
     \<and> conforms (arr_schema REF 0) (ri_price_evidence i) \<and> content_safe (ri_outcomes i)
     \<and> (\<exists>d. ri_outcomes i = JObj d \<and> (\<forall>kv \<in> set d. validate_measure (snd kv) None = Inr ()))"
  by (auto simp: check_input_def bindE_eq_Inr validate_shape_nested assert_content_safe_iff json_case_Inr Ex_mapE unit_isOk)

lemma hash_text: "conforms HASH v \<Longrightarrow> \<exists>t. v = JStr t"
  by (auto simp: HASH_def conforms_text)

lemma number_leaf: "conforms NUMBER v \<Longrightarrow> canon v = v"
  by (subst (asm) conforms_typed_iff [where k = KNumber];
      auto simp: NUMBER_def number_schema_def conforms_kind_iff)

lemma canon_input_leaves:
  "check_input i = Inr () \<Longrightarrow> ri_entrant_fingerprint (canon_input i) = ri_entrant_fingerprint i"
  "check_input i = Inr () \<Longrightarrow> ri_elapsed_ms (canon_input i) = ri_elapsed_ms i"
  by (auto simp: check_input_iff canon_input_def number_leaf dest!: hash_text)

lemma check_canon_input:
  assumes "check_input i = Inr ()" and "input_ok i"
  shows "check_input (canon_input i) = Inr ()"
proof -
  from assms(1) obtain d where d: "ri_outcomes i = JObj d" "\<forall>kv \<in> set d. validate_measure (snd kv) None = Inr ()"
    by (auto simp: check_input_iff)
  have "\<forall>kv \<in> set (canon_items d). validate_measure (snd kv) None = Inr ()"
    using d assms(2) by (auto simp: set_canon_items input_ok_def json_ok_items_iff list_all_iff intro!: validate_measure_canon)
  moreover have "ri_outcomes (canon_input i) = JObj (canon_items d)"
    using d(1) by (simp add: canon_input_def canon_JObj del: canon.simps)
  moreover have "content_safe (ri_outcomes (canon_input i))"
    using assms(1) by (simp add: check_input_iff canon_input_def)
  ultimately show ?thesis
    using assms canon_input_leaves [OF assms(1)]
    by (auto simp: check_input_iff input_ok_def canon_input_def intro: validate_measure_canon conforms_canon)
qed

lemma body_canon_input:
  assumes "receipt_body spec run_id es i = Inr b" and "check_input i = Inr ()"
  shows "\<exists>b'. receipt_body spec run_id es (canon_input i) = Inr b' \<and> recanon b b'"
proof -
  have p: "elements_of (ri_price_evidence (canon_input i)) = [] \<longleftrightarrow> elements_of (ri_price_evidence i) = []"
    by (cases "ri_price_evidence i") (auto simp: canon_input_def elements_of_def)
  have v: "violations_of doc es t m e (elements_of (ri_price_evidence (canon_input i)))
      = violations_of doc es t m e (elements_of (ri_price_evidence i))" for doc t m e
    by (simp add: violations_of_def p Let_def)
  from assms(1) obtain t m e c where body:
      "total_measure (map (\<lambda>e. field e ''tokens'') (crossed es)) ''tokens'' = Inr t"
      "total_measure (map (\<lambda>e. field e ''money'') (crossed es))
         (text_at (field (field (spec_dict spec) ''resources'') ''money_ceiling'') ''unit'') = Inr m"
      "measure_of (ri_elapsed_ms i) ''ms'' None ''observed fixture value'' = Inr e"
      "max_default (map (\<lambda>e. amount (field e ''elapsed_ms'')) (crossed es)) \<le> amount (ri_elapsed_ms i)"
      "class_money (crossed es) m = Inr c"
      "b = receipt_fields spec run_id es i t m c (violations_of (spec_dict spec) es t m e (elements_of (ri_price_evidence i)))"
    by (auto simp: receipt_body_def Let_def bindE_eq_Inr guard_Inr)
  then have "receipt_body spec run_id es (canon_input i) = Inr (receipt_fields spec run_id es (canon_input i) t m c
      (violations_of (spec_dict spec) es t m e (elements_of (ri_price_evidence i))))"
    by (simp add: receipt_body_def Let_def bindE_eq_Inr guard_Inr v canon_input_leaves [OF assms(2)])
  moreover have "recanon (receipt_fields spec run_id es i t m c vs) (receipt_fields spec run_id es (canon_input i) t m c vs)" for vs
    unfolding receipt_fields_def Let_def recanon_def
    by (simp add: canon_input_def)
  ultimately show ?thesis using body(6) by blast
qed


lemma seal_item:
  assumes "text_ok (JObj b)" and "seal b = Inr r" and "k \<noteq> canonical_fingerprint" and "map_of b k = Some v"
  shows "item r k = Inr (canon v)"
proof -
  have "map_of (canon_items (pop b canonical_fingerprint)) k = Some (canon v)"
    using assms distinct_pop [of b canonical_fingerprint] by (simp add: map_of_canon_items map_of_pop)
  then show ?thesis by (simp add: item_def seal_parts(2) [OF assms(1,2)])
qed

lemma body_fields:
  assumes "receipt_body spec run_id es i = Inr b"
  shows "map_of b ''run_id'' = Some run_id" "map_of b ''events'' = Some (JArr es)"
    "map_of b ''entrant_fingerprint'' = Some (ri_entrant_fingerprint i)" "map_of b ''elapsed_ms'' = Some (ri_elapsed_ms i)"
    "map_of b ''operator_ms'' = Some (ri_operator_ms i)" "map_of b ''waiting_ms'' = Some (ri_waiting_ms i)"
    "map_of b ''outcome_inputs'' = Some (ri_outcomes i)" "map_of b ''price_evidence'' = Some (ri_price_evidence i)"
proof -
  from assms obtain t m c vs where "b = receipt_fields spec run_id es i t m c vs"
    by (auto simp: receipt_body_def Let_def bindE_eq_Inr guard_Inr)
  then show "map_of b ''run_id'' = Some run_id" "map_of b ''events'' = Some (JArr es)"
    "map_of b ''entrant_fingerprint'' = Some (ri_entrant_fingerprint i)" "map_of b ''elapsed_ms'' = Some (ri_elapsed_ms i)"
    "map_of b ''operator_ms'' = Some (ri_operator_ms i)" "map_of b ''waiting_ms'' = Some (ri_waiting_ms i)"
    "map_of b ''outcome_inputs'' = Some (ri_outcomes i)" "map_of b ''price_evidence'' = Some (ri_price_evidence i)"
    by (simp_all add: receipt_fields_def Let_def)
qed

lemma map_text_ok: "text_ok (JObj b) \<Longrightarrow> map_of b k = Some v \<Longrightarrow> text_ok v"
  by (auto simp: list_all_iff dest!: map_of_SomeD)

text \<open>C39.  What a ledger issues its own validator accepts: the validator rebuilds the ledger from the
  events the receipt carries, recomputes every field and finds the same document.\<close>

theorem receipt_validates:
  assumes "make_ledger spec run_id ej = Inr l"
    and "receipt_body spec run_id (ledger_events l) i = Inr b" and "text_ok (JObj b)"
    and "receipt l i = Inr r"
  shows "validate_resource_receipt (JObj r) spec = Inr ()"
proof -
  have l: "l = \<lparr>lg_spec = spec, lg_run_id = run_id, lg_events_json = ej\<rparr>" "conforms TEXT run_id"
    using assms(1) by (auto simp: make_ledger_iff)
  have chk: "check_input i = Inr ()" and s: "seal b = Inr r"
    using assms(2,4) l(1) by (auto simp: receipt_def bindE_eq_Inr)
  note fields = body_fields [OF assms(2)]
  note okv = map_text_ok [OF assms(3)]
  have "input_ok i"
    using fields(5-8) okv by (auto simp: input_ok_def intro: text_json_ok)
  then have chk': "check_input (canon_input i) = Inr ()" by (rule check_canon_input [OF chk])
  from body_canon_input [OF assms(2) chk] obtain b' where b': "receipt_body spec run_id (ledger_events l) (canon_input i) = Inr b'" "recanon b b'"
    by blast
  have "receipt l (canon_input i) = Inr r"
    using seal_recanon [OF b'(2) assms(3)] s b'(1) chk' by (auto simp: receipt_def l(1))
  moreover have "canonical_json (canon (JArr (ledger_events l))) = ej"
    using ledger_history(2) [OF assms(1)] by (simp add: canonical_json_def del: canon.simps)
  moreover have "canon run_id = run_id" using l(2) by (auto simp: TEXT_def conforms_text)
  moreover note it = fields [THEN seal_item [OF assms(3) s, rotated]]
  have "receipt_reader r = Inr (canon_input i)"
    unfolding receipt_reader_def canon_input_def by (simp add: it canonical_fingerprint_def)
  moreover have "item r ''run_id'' = Inr (canon run_id)" "item r ''events'' = Inr (canon (JArr (ledger_events l)))"
    by (simp_all add: it canonical_fingerprint_def del: canon.simps)
  ultimately have rebuilt: "bindE (item r ''run_id'') (\<lambda>run_id. bindE (item r ''events'') (\<lambda>events.
      bindE (make_ledger spec run_id (canonical_json events)) (\<lambda>l. bindE (receipt_reader r) (receipt l)))) = Inr r"
    using assms(1) by (simp del: canon.simps)
  have v: "verify_seal (JObj r) = Inr ()" by (rule seal_verifies(2) [OF assms(3) s])
  moreover have "py_eq (JObj r) (JObj r)"
  proof (rule py_eq_refl)
    show "json_ok (JObj r)" by (rule text_json_ok [OF seal_text_ok [OF assms(3) s]])
    show "nan_free (JObj r)"
      using v verify_seal_iff [OF seal_text_ok [OF assms(3) s]] by (intro safe_nan_free) simp
  qed
  ultimately show ?thesis
    by (simp add: validate_resource_receipt_def items_of_def rebuilt catch_shape_def guard_Inr bindE_eq_Inr)
qed

section \<open>What PASS means\<close>

lemma limit_none: "limit_violations rows = [] \<longleftrightarrow> (\<forall>(l, observed, ceiling) \<in> set rows. observed \<le> ceiling)"
  by (auto simp: limit_violations_def not_less split: if_split_asm)

lemma measure_none:
  "measure_violations rows = [] \<longleftrightarrow> (\<forall>(l, observed, ceiling) \<in> set rows. text_at ceiling ''state'' = ''KNOWN'' \<longrightarrow>
     text_at observed ''state'' = ''KNOWN'' \<and> amount (field observed ''value'') \<le> amount (field ceiling ''value''))"
  by (auto simp: measure_violations_def not_less split: if_split_asm)

lemma flagged_none: "(if P then [x] else []) = [] \<longleftrightarrow> \<not> P"
  by simp

text \<open>A known ceiling asks for a known total that does not pass it.\<close>

definition within_ceiling :: "json \<Rightarrow> json \<Rightarrow> bool" where
  "within_ceiling observed bound \<longleftrightarrow> (text_at bound ''state'' = ''KNOWN'' \<longrightarrow>
     text_at observed ''state'' = ''KNOWN'' \<and> amount (field observed ''value'') \<le> amount (field bound ''value''))"

lemma no_violations:
  fixes doc :: json and es :: "json list"
  defines "resource \<equiv> field doc ''resources''" and "search \<equiv> of_kind ''SEARCH'' (crossed es)"
  shows "violations_of doc es t m e ps = [] \<longleftrightarrow>
     int (length search) \<le> int_at resource ''max_search_calls'' \<and> search_turns search \<le> int_at resource ''max_search_turns''
     \<and> int (length (of_kind ''VERIFY'' (crossed es))) \<le> int_at resource ''max_follow_links''
     \<and> (\<forall>x \<in> set search. int_at x ''result_count'' \<le> int_at resource ''max_results_per_call'')
     \<and> (\<forall>x \<in> set (crossed es). amount (field x ''elapsed_ms'') \<le> amount (field resource ''timeout_per_call_ms''))
     \<and> within_ceiling t (field resource ''token_ceiling'') \<and> within_ceiling m (field resource ''money_ceiling'')
     \<and> within_ceiling e (field resource ''max_total_runtime_ms'')
     \<and> (text_at doc ''fairness_mode'' = ''F3'' \<and> text_at m ''state'' = ''KNOWN'' \<longrightarrow> ps \<noteq> [])
     \<and> (\<forall>x \<in> set es. text_at x ''status'' \<noteq> ''REJECTED'')"
  unfolding violations_of_def Let_def append_is_Nil_conv limit_none measure_none flagged_none within_ceiling_def
  by (simp add: list_ex_iff not_less resource_def search_def conj_assoc) blast

lemma elapsed_known:
  assumes "measure_of v u None reason = Inr e" and "conforms NUMBER v"
  shows "text_at e ''state'' = ''KNOWN'' \<and> field e ''value'' = v"
proof -
  have "v \<noteq> JNull"
    using assms(2) by (subst (asm) conforms_typed_iff [where k = KNumber];
        auto simp: NUMBER_def number_schema_def conforms_kind_iff)
  with assms(1) show ?thesis by (auto simp: measure_of_def Let_def bindE_eq_Inr text_at_def text_in_def get_def)
qed

text \<open>Every event of a ledger has one of three states, and a failed one crossed the boundary.\<close>

lemma all_succeeded_iff:
  assumes "make_ledger spec run_id ej = Inr l"
  shows "(\<forall>x \<in> set (ledger_events l). text_at x ''status'' = ''SUCCEEDED'') \<longleftrightarrow>
     (\<forall>x \<in> set (ledger_events l). text_at x ''status'' \<noteq> ''REJECTED'')
     \<and> count_text ''status'' ''FAILED'' (crossed (ledger_events l)) = 0"
proof -
  have x: "text_at x ''status'' \<in> {''SUCCEEDED'', ''FAILED'', ''REJECTED''}"
    "text_at x ''status'' \<noteq> ''REJECTED'' \<Longrightarrow> flag_at x ''crossed_boundary''" if "x \<in> set (ledger_events l)" for x
  proof -
    note h = history_members [OF ledger_history(1) [OF assms] that]
    have "conforms (enum_schema [''SUCCEEDED'', ''FAILED'', ''REJECTED'']) (field x ''status'')"
      using h unfolding EVENT_SCHEMA_def by (intro conforms_field) auto
    then show "text_at x ''status'' \<in> {''SUCCEEDED'', ''FAILED'', ''REJECTED''}"
      by (auto simp: conforms_enum text_at_def text_in_def)
    show "flag_at x ''crossed_boundary''" if "text_at x ''status'' \<noteq> ''REJECTED''"
      using h that by (auto simp: check_status_def Let_def bindE_eq_Inr guard_Inr)
  qed
  show ?thesis
  proof (intro iffI conjI ballI)
    assume a: "\<forall>x \<in> set (ledger_events l). text_at x ''status'' = ''SUCCEEDED''"
    then show "count_text ''status'' ''FAILED'' (crossed (ledger_events l)) = 0"
      by (auto simp: count_text_def crossed_def filter_empty_conv)
    show "text_at x ''status'' \<noteq> ''REJECTED''" if "x \<in> set (ledger_events l)" for x using a that by simp
  next
    fix x
    assume a: "(\<forall>x \<in> set (ledger_events l). text_at x ''status'' \<noteq> ''REJECTED'')
      \<and> count_text ''status'' ''FAILED'' (crossed (ledger_events l)) = 0" and m: "x \<in> set (ledger_events l)"
    then have "text_at x ''status'' \<noteq> ''FAILED''"
      using x(2) [OF m] by (auto simp: count_text_def crossed_def filter_empty_conv)
    with a m x(1) [OF m] show "text_at x ''status'' = ''SUCCEEDED''" by auto
  qed
qed

text \<open>C40.  A receipt says PASS exactly when every limit was kept: calls, turns, followed links, results
  per call and time per call are within the specification, every request was admitted and succeeded, each
  known ceiling (tokens, money, running time) bounds a known total, and in mode F3 a known cost comes with
  price evidence.  The totals are the ones the receipt reports.\<close>

theorem receipt_pass_in_budget:
  assumes "make_ledger spec run_id ej = Inr l"
    and "receipt_body spec run_id (ledger_events l) i = Inr b" and "text_ok (JObj b)"
    and "receipt l i = Inr r"
  defines "resource \<equiv> field (spec_dict spec) ''resources''" and "attempts \<equiv> crossed (ledger_events l)"
  shows "\<exists>tokens money.
     total_measure (map (\<lambda>e. field e ''tokens'') attempts) ''tokens'' = Inr tokens
     \<and> total_measure (map (\<lambda>e. field e ''money'') attempts) (text_at (field resource ''money_ceiling'') ''unit'') = Inr money
     \<and> get r ''tokens'' = canon tokens \<and> get r ''money'' = canon money
     \<and> (get r ''terminal_status'' = JStr ''PASS'' \<longleftrightarrow>
          int (length (of_kind ''SEARCH'' attempts)) \<le> int_at resource ''max_search_calls''
        \<and> search_turns (of_kind ''SEARCH'' attempts) \<le> int_at resource ''max_search_turns''
        \<and> int (length (of_kind ''VERIFY'' attempts)) \<le> int_at resource ''max_follow_links''
        \<and> (\<forall>x \<in> set (of_kind ''SEARCH'' attempts). int_at x ''result_count'' \<le> int_at resource ''max_results_per_call'')
        \<and> (\<forall>x \<in> set attempts. amount (field x ''elapsed_ms'') \<le> amount (field resource ''timeout_per_call_ms''))
        \<and> (\<forall>x \<in> set (ledger_events l). text_at x ''status'' = ''SUCCEEDED'')
        \<and> (text_at (field resource ''token_ceiling'') ''state'' = ''KNOWN'' \<longrightarrow> text_at tokens ''state'' = ''KNOWN''
             \<and> amount (field tokens ''value'') \<le> amount (field (field resource ''token_ceiling'') ''value''))
        \<and> (text_at (field resource ''money_ceiling'') ''state'' = ''KNOWN'' \<longrightarrow> text_at money ''state'' = ''KNOWN''
             \<and> amount (field money ''value'') \<le> amount (field (field resource ''money_ceiling'') ''value''))
        \<and> (text_at (field resource ''max_total_runtime_ms'') ''state'' = ''KNOWN'' \<longrightarrow>
             amount (ri_elapsed_ms i) \<le> amount (field (field resource ''max_total_runtime_ms'') ''value''))
        \<and> (text_at (spec_dict spec) ''fairness_mode'' = ''F3'' \<and> text_at money ''state'' = ''KNOWN'' \<longrightarrow>
             elements_of (ri_price_evidence i) \<noteq> []))"
proof -
  let ?es = "ledger_events l" and ?doc = "spec_dict spec"
  have s: "seal b = Inr r" and chk: "check_input i = Inr ()"
    using assms(1,2,4) by (auto simp: receipt_def bindE_eq_Inr make_ledger_iff)
  from assms(2) obtain t m e c where body:
      "total_measure (map (\<lambda>e. field e ''tokens'') (crossed ?es)) ''tokens'' = Inr t"
      "total_measure (map (\<lambda>e. field e ''money'') (crossed ?es))
         (text_at (field (field ?doc ''resources'') ''money_ceiling'') ''unit'') = Inr m"
      "measure_of (ri_elapsed_ms i) ''ms'' None ''observed fixture value'' = Inr e"
      "b = receipt_fields spec run_id ?es i t m c (violations_of ?doc ?es t m e (elements_of (ri_price_evidence i)))"
    by (auto simp: receipt_body_def Let_def bindE_eq_Inr guard_Inr)
  let ?vs = "violations_of ?doc ?es t m e (elements_of (ri_price_evidence i))"
  have e: "text_at e ''state'' = ''KNOWN''" "field e ''value'' = ri_elapsed_ms i"
    using elapsed_known [OF body(3)] chk by (simp_all add: check_input_iff)
  have "get b ''terminal_status'' = JStr (terminal_of ?vs (crossed ?es))" and tm: "get b ''tokens'' = t" "get b ''money'' = m"
    by (simp_all add: body(4) receipt_fields_def Let_def get_def)
  then have "get r ''terminal_status'' = JStr (terminal_of ?vs (crossed ?es))"
    using seal_get [OF assms(3) s, of "''terminal_status''"] by (simp add: canonical_fingerprint_def)
  then have pass: "get r ''terminal_status'' = JStr ''PASS'' \<longleftrightarrow> ?vs = [] \<and> count_text ''status'' ''FAILED'' (crossed ?es) = 0"
    by (simp add: terminal_of_def)
  have "get r ''tokens'' = canon t" "get r ''money'' = canon m"
    using seal_get [OF assms(3) s, of "''tokens''"] seal_get [OF assms(3) s, of "''money''"] tm
    by (simp_all add: canonical_fingerprint_def)
  moreover note kept = no_violations [of ?doc ?es t m e "elements_of (ri_price_evidence i)", unfolded within_ceiling_def e]
  ultimately show ?thesis
    unfolding resource_def attempts_def
    by (intro exI [of _ t] exI [of _ m])
      (simp only: body(1,2) pass kept all_succeeded_iff [OF assms(1)] simp_thms conj_ac)
qed

end
