(* ===== verification/V23Sample.thy ===== *)
theory V23Sample
  imports V23Spec
begin

text \<open>
  A concrete Judgment-only specification, the example the properties of search cup v2.3
  are applied to.  Its fingerprints are those of its own parts.
\<close>

definition zero_hash :: string where
  "zero_hash = replicate 64 (CHR ''0'')"

definition sample_ref :: json where
  "sample_ref = JObj [(''id'', JStr ''x''), (''version'', JStr ''1''), (''fingerprint'', JStr zero_hash)]"

definition unknown_measure :: "string \<Rightarrow> json" where
  "unknown_measure u = JObj [(''state'', JStr ''UNKNOWN''), (''value'', JNull), (''unit'', JStr u), (''reason'', JStr ''x'')]"

definition xs1 :: json where
  "xs1 = JArr [JStr ''x'']"

definition sample_task :: json where
  "sample_task = JObj [(''task_id'', JStr ''x''), (''task_class'', JStr ''x''), (''target'', JStr ''x''),
     (''objective'', JStr ''x''), (''success_criteria'', xs1), (''unit_of_evaluation'', JStr ''x''),
     (''output_cardinality'', JObj [(''minimum'', JInt 0), (''maximum'', JInt 3)]),
     (''inclusion_criteria'', JArr []), (''exclusion_criteria'', JArr []), (''evidence_requirements'', xs1),
     (''unknown_semantics'', JStr ''INSUFFICIENT_EVIDENCE_NOT_NEGATIVE''), (''stop_conditions'', xs1)]"

definition sample_scope :: json where
  "sample_scope = JObj [(''language_pool'', xs1),
     (''geography_scope'', JObj [(''included'', xs1), (''excluded'', JArr [])]),
     (''source_classes_allowed'', xs1), (''source_classes_excluded'', JArr []),
     (''time_window'', JStr ''x''), (''freshness_rule'', JStr ''x''),
     (''verification_sources_allowed'', JArr []), (''verification_sources_excluded'', JArr []),
     (''privacy_class'', JStr ''PUBLIC_SAFE''), (''public_safe_only'', JBool True)]"

definition sample_resources :: json where
  "sample_resources = JObj [(''schema_id'', JStr ''search-resource/v2''),
     (''max_search_calls'', JInt 0), (''max_search_turns'', JInt 0),
     (''max_results_per_call'', JInt 0), (''max_follow_links'', JInt 0),
     (''automatic_retries'', JInt 1), (''retry_policy'', sample_ref),
     (''manual_retry_policy'', JStr ''FORBIDDEN''), (''timeout_per_call_ms'', JInt 10),
     (''max_total_runtime_ms'', unknown_measure ''ms''), (''token_ceiling'', unknown_measure ''tokens''),
     (''money_ceiling'', unknown_measure ''USD''), (''resource_unit_definition'', JStr ''x''),
     (''search_unit'', JStr ''NONE''), (''failure_policy'', JStr ''INFRASTRUCTURE_NOT_QUALITY''),
     (''exhaustion_policy'', JStr ''STOP_NO_EXPANSION''), (''budget_rejection_policy'', JStr ''NO_BACKEND_NO_TICKET'')]"

definition sample_a0 :: json where
  "sample_a0 = JObj [(''origin'', JStr ''HUMAN_MODEL_CO_DESIGN''), (''scored'', JBool False), (''frozen'', JBool True),
     (''task_fingerprint'', JStr (fingerprint sample_task)), (''scope_fingerprint'', JStr (fingerprint sample_scope)),
     (''resource_fingerprint'', JStr (fingerprint sample_resources)), (''task_hierarchy'', xs1),
     (''stop_on_signal'', xs1), (''economic_success_criteria'', JArr [])]"

definition sample_a1 :: json where
  "sample_a1 = JObj [(''owner'', JStr ''NONE''), (''allowed'', JArr []),
     (''forbidden_mutations'', JArr [JStr ''TASK'', JStr ''SCOPE'', JStr ''BUDGET'', JStr ''EVIDENCE'', JStr ''UNKNOWN_RULE''])]"

definition sample_privacy :: json where
  "sample_privacy = JObj [(''public_safe_inputs_only'', JBool True), (''credential_access'', JBool False),
     (''private_locator_access'', JBool False), (''hidden_authority_access'', JBool False),
     (''official_prompt_access'', JBool False)]"

definition sample_overlay :: json where
  "sample_overlay = JObj [(''kind'', JStr ''JUDGMENT''), (''candidate_set'', sample_ref), (''evidence_packet'', sample_ref),
     (''rubric'', sample_ref), (''output_schema'', sample_ref), (''adjudication_policy'', sample_ref),
     (''blind_transform'', sample_ref), (''order_policy'', sample_ref), (''aggregation_policy'', sample_ref),
     (''allowed_tools'', JArr []), (''independent_first_pass'', JBool True)]"

definition sample_fixed :: json where
  "sample_fixed = JObj [(''task'', JStr (fingerprint sample_task)), (''scope'', JStr (fingerprint sample_scope)),
     (''a0'', JStr (fingerprint sample_a0)), (''a1'', JStr (fingerprint sample_a1)),
     (''resources'', JStr (fingerprint sample_resources)), (''output'', JStr zero_hash), (''judgment'', JStr zero_hash),
     (''candidate_set'', JStr zero_hash), (''evidence_packet'', JStr zero_hash), (''rubric'', JStr zero_hash),
     (''ordering'', JStr zero_hash), (''tools'', JStr (fingerprint (JArr []))), (''privacy'', JStr (fingerprint sample_privacy))]"

definition sample_controls :: json where
  "sample_controls = JObj [(''principal'', JStr ''JUDGE_MODEL_CONFIG''), (''fixed'', sample_fixed),
     (''qualified_nuisance'', JArr []), (''changed_capabilities'', JArr []), (''fixed_capabilities'', JObj [])]"

definition sample_metric :: json where
  "sample_metric = JObj [(''metric_id'', JStr ''x''), (''numerator'', JStr ''x''), (''denominator'', JStr ''x''),
     (''population'', sample_ref), (''exclusion_rule'', JStr ''x''),
     (''missingness'', JStr ''PRESERVE_TYPED_STATES''), (''zero_denominator'', JStr ''NOT_EVALUABLE'')]"

definition sample_core :: obj where
  "sample_core = [(''schema_id'', JStr ''searchspec/v2''), (''spec_id'', JStr ''x''), (''spec_version'', JStr ''1''),
     (''spec_status'', JStr ''FROZEN''), (''architecture_authority'', JStr ''SEARCH-CUP/v2.3''),
     (''created_at'', JStr ''2026-01-01T00:00:00Z''), (''frozen_at'', JStr ''2026-01-02T00:00:00Z''),
     (''track_id'', JStr ''JUDGMENT_ONLY''), (''fairness_mode'', JStr ''F1''), (''task'', sample_task), (''scope'', sample_scope),
     (''a0'', sample_a0), (''a1'', sample_a1), (''variable_control'', sample_controls), (''retriever'', JNull),
     (''resources'', sample_resources), (''output_contract'', sample_ref), (''judgment_contract'', sample_ref),
     (''overlay'', sample_overlay), (''system_disclosure'', JNull), (''economic_package'', JNull),
     (''claims'', JArr [JStr ''JUDGMENT_ON_FROZEN_PACKAGE'']), (''metrics'', JArr [sample_metric]),
     (''privacy'', sample_privacy)]"

definition sample_doc :: obj where
  "sample_doc = sample_core @ [(''canonical_fingerprint'', JStr (fingerprint (JObj sample_core)))]"

lemmas sample_defs = sample_task_def sample_scope_def sample_resources_def sample_a0_def sample_a1_def sample_privacy_def
  sample_overlay_def sample_fixed_def sample_controls_def sample_metric_def sample_core_def sample_doc_def xs1_def
  sample_ref_def unknown_measure_def

section \<open>Its text is safe\<close>

lemma zero_hash_hex: "is_sha256_hex zero_hash"
  by (simp add: is_sha256_hex_def zero_hash_def is_hex_def list_all_iff ascii)

lemma zero_hash_safe [simp]: "text_safe zero_hash"
  using zero_hash_hex by (auto simp: is_sha256_hex_def intro!: hex_safe)

lemma key_safeI: "unmarked k \<Longrightarrow> squeeze (lower k) \<notin> set NORMALIZED_PRIVATE_KEYS \<Longrightarrow> key_safe k"
  by (simp add: key_safe_def unmarked_safe)

lemma key_plainI: "plain k \<Longrightarrow> squeeze (lower k) \<notin> set NORMALIZED_PRIVATE_KEYS \<Longrightarrow> key_safe k"
  by (simp add: key_safe_def plain_safe)

lemma NORMALIZED_eq: "set NORMALIZED_PRIVATE_KEYS = {''apikey'', ''accesstoken'', ''refreshtoken'',
    ''authorization'', ''password'', ''credentials'', ''privatekey'', ''privatearchive'',
    ''raw'', ''l0'', ''health'', ''relationship'', ''financial'', ''googledrive'', ''hiddenregistry'', ''answerkey''}"
  by (simp add: NORMALIZED_PRIVATE_KEYS_def PRIVATE_KEYS_def squeeze_def ascii)

lemmas safe_eval = key_safeI key_plainI plain_safe plain_def token_end_def unmarked_safe unmarked_def marker_words_def token_heads_def lower_def squeeze_def NORMALIZED_eq ascii

lemma ref_safe [simp]: "content_safe sample_ref"
  by (simp add: sample_ref_def safe_eval)

lemma xs1_safe [simp]: "content_safe xs1"
  by (simp add: xs1_def safe_eval)

lemma measure_safe: "text_safe u \<Longrightarrow> content_safe (unknown_measure u)"
  by (simp add: unknown_measure_def safe_eval)

lemma task_safe [simp]: "content_safe sample_task"
  by (simp add: sample_task_def safe_eval)

lemma scope_safe [simp]: "content_safe sample_scope"
  by (simp add: sample_scope_def safe_eval)

lemma resources_safe [simp]: "content_safe sample_resources"
  by (simp add: sample_resources_def measure_safe safe_eval)

lemma a0_safe [simp]: "content_safe sample_a0"
  by (simp add: sample_a0_def safe_eval)

lemma a1_safe [simp]: "content_safe sample_a1"
  by (simp add: sample_a1_def safe_eval)

lemma privacy_safe [simp]: "content_safe sample_privacy"
  by (simp add: sample_privacy_def safe_eval)

lemma overlay_safe [simp]: "content_safe sample_overlay"
  by (simp add: sample_overlay_def safe_eval)

lemma controls_safe [simp]: "content_safe sample_controls"
  by (simp add: sample_controls_def sample_fixed_def safe_eval)

lemma metric_safe [simp]: "content_safe sample_metric"
  by (simp add: sample_metric_def safe_eval)

lemma sample_safe: "content_safe (JObj sample_doc)"
proof -
  have "key_safe ''canonical_fingerprint''" using canonical_fingerprint_safe by (simp only: canonical_fingerprint_def)
  then show ?thesis
    by (simp add: sample_doc_def sample_core_def safe_eval)
qed

section \<open>Its shape\<close>

lemma TEXT_ok [simp]: "conforms TEXT (JStr t) \<longleftrightarrow> list_ex (\<lambda>c. \<not> py_isspace c) t"
  by (cases t) (auto simp: TEXT_def conforms_text matches_pattern_def)

lemma HASH_ok [simp]: "conforms HASH (JStr (fingerprint v))" "conforms HASH (JStr zero_hash)"
  using zero_hash_hex by (simp_all add: HASH_def conforms_text matches_pattern_def fingerprint_def)

lemma COUNT_ok [simp]: "conforms COUNT (JInt i) \<longleftrightarrow> 0 \<le> i"
  by (subst conforms_typed_iff [where k = KInteger]; simp add: COUNT_def number_schema_def const_fits_def enum_fits_def
      conforms_kind_iff number_fits_def)

lemma ref_ok [simp]: "conforms REF sample_ref"
  by (simp add: REF_def conforms_obj sample_ref_def has_key_def ascii)

lemma texts_ok [simp]: "conforms (arr_schema TEXT n) xs1 \<longleftrightarrow> n \<le> 1" "conforms (arr_schema a 0) (JArr [])"
  by (simp_all add: conforms_arr xs1_def py_in_def ascii)

lemma constants_ok [simp]: "conforms (const_schema (JStr s)) v \<longleftrightarrow> v = JStr s" "conforms (const_schema (JBool b)) (JBool b)"
  by (auto simp: conforms_const py_type_def num_eq_def)

lemma measure_ok [simp]: "conforms MEASURE (unknown_measure u) \<longleftrightarrow> list_ex (\<lambda>c. \<not> py_isspace c) u"
proof -
  have "conforms (number_schema (OneOf [KNumber, KNull]) (Some 0) None) JNull"
    by (subst conforms_types_iff [where ks = "[KNumber, KNull]"];
        simp add: number_schema_def const_fits_def enum_fits_def conforms_kind_iff)
  then show ?thesis
    by (simp add: MEASURE_def conforms_obj unknown_measure_def has_key_def conforms_enum ascii)
qed

lemma nullable_ok [simp]: "conforms (nullable s) JNull"
  by (simp add: nullable_def conforms_any conforms_typed_none)

lemma string_or_null_ok [simp]: "conforms (typed (OneOf [KString, KNull])) (JStr s)"
  by (subst conforms_types_iff [where ks = "[KString, KNull]"];
      simp add: typed_def const_fits_def enum_fits_def conforms_kind_iff text_fits_def)

lemma task_ok [simp]: "conforms TASK sample_task"
  unfolding TASK_def sample_task_def TEXTS_def by (rule conforms_objI) (simp_all add: conforms_obj has_key_def ascii)

lemma scope_ok [simp]: "conforms SCOPE sample_scope"
  unfolding SCOPE_def sample_scope_def TEXTS_def by (rule conforms_objI) (simp_all add: conforms_obj has_key_def ascii)

lemma timeout_ok: "conforms (number_schema (OneType KNumber) None (Some 0)) (JInt 10)"
  by (subst conforms_typed_iff [where k = KNumber]; simp add: number_schema_def const_fits_def enum_fits_def
      conforms_kind_iff number_fits_def)

lemma resources_ok [simp]: "conforms RESOURCE sample_resources"
  unfolding RESOURCE_def sample_resources_def by (rule conforms_objI) (simp_all add: conforms_enum timeout_ok ascii)

lemma overlay_ok [simp]: "conforms JUDGMENT_OVERLAY sample_overlay"
  unfolding JUDGMENT_OVERLAY_def sample_overlay_def by (rule conforms_objI) (simp_all add: ascii)

lemma metric_ok: "conforms METRIC sample_metric"
  unfolding METRIC_def sample_metric_def by (rule conforms_objI) (simp_all add: ascii)

lemma metrics_ok [simp]: "conforms (arr_schema METRIC (Suc 0)) (JArr [sample_metric])"
  using metric_ok by (simp add: conforms_arr py_in_def)

lemma fixed_ok [simp]: "conforms (obj_schema_opt (map (\<lambda>name. (name, HASH)) CONTROLS) CONTROLS) sample_fixed"
  by (simp add: conforms_obj sample_fixed_def has_key_def CONTROLS_def)

lemma behaviors_ok [simp]: "conforms (const_schema (JArr [JStr ''TASK'', JStr ''SCOPE'', JStr ''BUDGET'', JStr ''EVIDENCE'', JStr ''UNKNOWN_RULE'']))
     (JArr [JStr ''TASK'', JStr ''SCOPE'', JStr ''BUDGET'', JStr ''EVIDENCE'', JStr ''UNKNOWN_RULE''])"
  by (simp add: conforms_const)

lemma claims_ok [simp]: "conforms (arr_schema (enum_schema CLAIMS) (Suc 0)) (JArr [JStr ''JUDGMENT_ON_FROZEN_PACKAGE''])"
  by (simp add: conforms_arr py_in_def conforms_enum CLAIMS_def)

lemma a0_ok [simp]: "conforms A0_SCHEMA sample_a0"
  unfolding A0_SCHEMA_def sample_a0_def TEXTS_def by (rule conforms_objI) simp_all

lemma a1_ok [simp]: "conforms A1_SCHEMA sample_a1"
  unfolding A1_SCHEMA_def sample_a1_def by (rule conforms_objI) (simp_all add: conforms_enum)

lemma controls_ok [simp]: "conforms CONTROL_SCHEMA sample_controls"
proof -
  have "conforms (obj_schema_opt ps (map fst ps)) (JObj [])" for ps
    by (simp add: conforms_obj)
  then have "conforms (obj_schema_opt (map (\<lambda>name. (name, HASH)) ABLATION_CAPABILITIES) ABLATION_CAPABILITIES) (JObj [])"
    by (simp add: conforms_obj)
  then show ?thesis
    unfolding CONTROL_SCHEMA_def sample_controls_def TEXTS_def by (intro conforms_objI) (simp_all add: conforms_enum)
qed

lemma privacy_ok [simp]: "conforms PRIVACY_SCHEMA sample_privacy"
  unfolding PRIVACY_SCHEMA_def sample_privacy_def by (rule conforms_objI) simp_all

lemma any_overlay_ok [simp]: "conforms OVERLAY_SCHEMA sample_overlay"
  by (simp add: OVERLAY_SCHEMA_def conforms_any)

lemma sample_shape: "conforms SEARCHSPEC_SCHEMA (JObj sample_doc)"
  unfolding SEARCHSPEC_SCHEMA_def sample_doc_def sample_core_def
  by (rule conforms_objI) (simp_all add: ascii conforms_enum TRACKS_def)


section \<open>It is valid\<close>

lemma sample_text_ok: "text_ok (JObj sample_doc)"
  by (simp add: sample_defs)

lemma sample_sealed: "verify_seal (JObj sample_doc) = Inr ()"
proof -
  have f: "''canonical_fingerprint'' \<notin> fst ` set sample_core" by (simp add: sample_core_def)
  have "get sample_doc canonical_fingerprint = JStr (fingerprint (JObj (pop sample_doc canonical_fingerprint)))"
    unfolding sample_doc_def canonical_fingerprint_def pop_snoc [OF f] get_snoc using f by simp
  then show ?thesis using sample_safe by (simp only: verify_seal_iff [OF sample_text_ok])
qed

lemma sample_field [simp]: "get sample_doc ''track_id'' = JStr ''JUDGMENT_ONLY''" "get sample_doc ''fairness_mode'' = JStr ''F1''"
  "get sample_doc ''task'' = sample_task" "get sample_doc ''scope'' = sample_scope" "get sample_doc ''a0'' = sample_a0"
  "get sample_doc ''a1'' = sample_a1" "get sample_doc ''resources'' = sample_resources" "get sample_doc ''overlay'' = sample_overlay"
  "get sample_doc ''variable_control'' = sample_controls" "get sample_doc ''retriever'' = JNull"
  "get sample_doc ''created_at'' = JStr ''2026-01-01T00:00:00Z''" "get sample_doc ''frozen_at'' = JStr ''2026-01-02T00:00:00Z''"
  "get sample_doc ''spec_status'' = JStr ''FROZEN''" "get sample_doc ''claims'' = JArr [JStr ''JUDGMENT_ON_FROZEN_PACKAGE'']"
  "get sample_doc ''system_disclosure'' = JNull" "get sample_doc ''economic_package'' = JNull"
  "get sample_doc ''privacy'' = sample_privacy" "get sample_doc ''output_contract'' = sample_ref"
  "get sample_doc ''judgment_contract'' = sample_ref"
  by (simp_all add: sample_doc_def sample_core_def get_def)

lemma sample_times: "timestamp ''2026-01-01T00:00:00Z'' = Inr 63902822400000000" "timestamp ''2026-01-02T00:00:00Z'' = Inr 63902908800000000"
  by code_simp+


lemma text_in_JStr [simp]: "text_in (JStr s) = s"
  by (simp add: text_in_def)

lemma sample_freeze: "check_freeze (JObj sample_doc) = Inr ()"
  by (simp add: check_freeze_def text_at_def sample_times guard_Inr)

lemma sample_resource_fields:
  "field sample_resources ''max_total_runtime_ms'' = unknown_measure ''ms''"
  "field sample_resources ''token_ceiling'' = unknown_measure ''tokens''"
  "field sample_resources ''money_ceiling'' = unknown_measure ''USD''"
  "list_all (\<lambda>k. int_at sample_resources k = 0) [''max_search_calls'', ''max_search_turns'', ''max_results_per_call'', ''max_follow_links'']"
  "text_at sample_resources ''search_unit'' = ''NONE''"
  by (simp_all add: sample_resources_def int_at_def text_at_def get_def)

lemma unknown_measure_valid: "u = None \<or> u = Some w \<Longrightarrow> list_ex (\<lambda>c. \<not> py_isspace c) w \<Longrightarrow>
    validate_measure (unknown_measure w) u = Inr ()"
  by (auto simp: validate_measure_def bindE_eq_Inr validate_shape_nested guard_Inr)
     (auto simp: unknown_measure_def text_at_def get_def)

lemma sample_bindings: "check_bindings (JObj sample_doc) = Inr ()"
proof -
  have "validate_measure (field sample_resources ''max_total_runtime_ms'') (Some ''ms'') = Inr ()"
    "validate_measure (field sample_resources ''token_ceiling'') (Some ''tokens'') = Inr ()"
    "validate_measure (field sample_resources ''money_ceiling'') None = Inr ()"
    by (simp_all add: sample_resource_fields unknown_measure_valid ascii)
  moreover have "int_at (field sample_task ''output_cardinality'') ''minimum'' \<le> int_at (field sample_task ''output_cardinality'') ''maximum''"
    by (simp add: sample_task_def int_at_def get_def)
  moreover have "text_at sample_a0 ''task_fingerprint'' = fingerprint sample_task"
    "text_at sample_a0 ''scope_fingerprint'' = fingerprint sample_scope"
    "text_at sample_a0 ''resource_fingerprint'' = fingerprint sample_resources"
    by (simp_all add: sample_a0_def text_at_def get_def)
  ultimately show ?thesis
    by (simp add: check_bindings_def bindE_eq_Inr guard_Inr a0_resource_binding_def text_at_def [of "JObj _"])
qed

lemma overlay_fields: "text_at sample_overlay ''kind'' = ''JUDGMENT''" "elements_of (field sample_overlay ''allowed_tools'') = []"
  "k \<in> {''candidate_set'', ''evidence_packet'', ''rubric'', ''order_policy''} \<Longrightarrow> ref_print sample_overlay k = JStr zero_hash"
  by (auto simp: sample_overlay_def text_at_def get_def elements_of_def ref_print_def sample_ref_def)

lemma controls_fields: "field sample_controls ''fixed'' = sample_fixed" "text_at sample_controls ''principal'' = ''JUDGE_MODEL_CONFIG''"
  "texts_at sample_controls ''changed_capabilities'' = []" "keys_at sample_controls ''fixed_capabilities'' = []"
  by (simp_all add: sample_controls_def get_def text_at_def texts_at_def keys_at_def elements_of_def items_of_def)

lemma sample_bound:
  "list_all (\<lambda>(k, v). k \<in> set (entry REQUIRED_CONTROLS ''JUDGMENT_ONLY'') \<longrightarrow> get (items_of sample_fixed) k = v) (control_bindings (JObj sample_doc))"
proof -
  have refs: "ref_print (JObj sample_doc) ''output_contract'' = JStr zero_hash" "ref_print (JObj sample_doc) ''judgment_contract'' = JStr zero_hash"
    by (simp_all add: ref_print_def) (simp_all add: sample_ref_def get_def)
  show ?thesis
    by (simp add: control_bindings_def Let_def put_all_def overlay_fields refs text_at_def [of "JObj _"])
       (simp add: sample_fixed_def items_of_def get_def)
qed

lemma sample_controlled: "check_controls (JObj sample_doc) = Inr ()"
proof -
  have "list_all (has_key (items_of sample_fixed)) (entry REQUIRED_CONTROLS ''JUDGMENT_ONLY'')"
    by (simp add: entry_def REQUIRED_CONTROLS_def COMMON_def sample_fixed_def items_of_def has_key_def)
  moreover have "entry PRINCIPAL ''JUDGMENT_ONLY'' = ''JUDGE_MODEL_CONFIG''" by (simp add: entry_def PRINCIPAL_def)
  ultimately show ?thesis
    using sample_bound
    by (simp add: check_controls_def Let_def bindE_eq_Inr guard_Inr controls_fields text_at_def [of "JObj _"])
qed

lemma sample_claims: "check_claims (JObj sample_doc) = Inr ()"
  by (simp add: check_claims_def guard_Inr texts_at_def elements_of_def allowed_claims_def Let_def text_at_def [of "JObj _"] entry_def TRACK_CLAIM_def)

lemma sample_judgment: "check_judgment (JObj sample_doc) = Inr ()"
proof -
  have "text_at sample_a1 ''owner'' = ''NONE''" "texts_at sample_a1 ''allowed'' = []"
    by (simp_all add: sample_a1_def text_at_def texts_at_def get_def elements_of_def)
  then show ?thesis
    using sample_resource_fields(4)
    by (simp add: check_judgment_def Let_def bindE_eq_Inr guard_Inr overlay_fields sample_resource_fields)
qed

theorem sample_valid: "spec_validate (JObj sample_doc) = Inr ()"
  using sample_safe sample_shape sample_sealed sample_freeze sample_bindings sample_controlled sample_claims sample_judgment
  by (simp add: spec_validate_iff check_e1_def check_live_def check_economy_def Let_def text_at_def [of "JObj _"] overlay_fields guard_Inr)

end
