(* ===== verification/V23Witness.thy ===== *)
theory V23Witness
  imports V23Receipt V23Sample
begin

text \<open>
  The properties of the ledger and its receipt at concrete inputs: the sample
  specification, a failed model request with its automatic retry, and a successful one.
\<close>

section \<open>The specification\<close>

definition sample_spec :: search_spec where
  "sample_spec = \<lparr>canonical_content = canonical_json (JObj sample_doc)\<rparr>"

lemma sample_json_ok: "json_ok (JObj sample_doc)"
  by (rule text_json_ok [OF sample_text_ok])

lemma sample_spec_dict: "spec_dict sample_spec = canon (JObj sample_doc)"
  using loads_dumps [OF sample_text_ok] by (simp add: spec_dict_def sample_spec_def canonical_json_def del: canon.simps)

lemma sample_spec_field: "field (spec_dict sample_spec) k = canon (get sample_doc k)"
  by (simp add: sample_spec_dict field_canon [OF sample_json_ok] del: canon.simps)

lemma resources_json_ok: "json_ok sample_resources" "json_ok (unknown_measure u)"
  by (simp_all add: sample_resources_def unknown_measure_def sample_ref_def)

lemma sample_resource_field: "field (field (spec_dict sample_spec) ''resources'') k = canon (field sample_resources k)"
  by (simp add: sample_spec_field field_canon [OF resources_json_ok(1)] del: canon.simps)

lemma sample_status: "text_at (spec_dict sample_spec) ''spec_status'' = ''FROZEN''"
    "text_at (spec_dict sample_spec) ''track_id'' = ''JUDGMENT_ONLY''" "text_at (spec_dict sample_spec) ''fairness_mode'' = ''F1''"
  by (simp_all add: text_at_def sample_spec_field)

section \<open>Events\<close>

definition known :: "int \<Rightarrow> string \<Rightarrow> json" where
  "known n u = JObj [(''state'', JStr ''KNOWN''), (''value'', JInt n), (''unit'', JStr u), (''reason'', JStr ''x'')]"

definition model_event :: "string \<Rightarrow> string \<Rightarrow> string \<Rightarrow> string \<Rightarrow> json \<Rightarrow> json" where
  "model_event name status failure retry retry_of = JObj [
     (''event_id'', JStr name), (''kind'', JStr ''MODEL''), (''unit'', JStr ''MODEL_REQUEST''), (''status'', JStr status),
     (''crossed_boundary'', JBool True), (''turn'', JInt 0), (''result_count'', JInt 0), (''elapsed_ms'', JInt 1),
     (''tokens'', known 5 ''tokens''), (''money'', known 0 ''USD''), (''retry_kind'', JStr retry), (''retry_of'', retry_of),
     (''failure_class'', JStr failure), (''request_fingerprint'', sample_ref), (''result_fingerprints'', JArr [])]"

definition failed :: json where
  "failed = model_event ''a'' ''FAILED'' ''INFRASTRUCTURE'' ''NONE'' JNull"

definition retried :: json where
  "retried = model_event ''b'' ''SUCCEEDED'' ''NONE'' ''AUTOMATIC'' (JStr ''a'')"

lemma known_ok [simp]: "conforms MEASURE (known n u) \<longleftrightarrow> 0 \<le> n \<and> list_ex (\<lambda>c. \<not> py_isspace c) u"
proof -
  have "conforms (number_schema (OneOf [KNumber, KNull]) (Some 0) None) (JInt n) \<longleftrightarrow> 0 \<le> n"
    by (subst conforms_types_iff [where ks = "[KNumber, KNull]"];
        simp add: number_schema_def const_fits_def enum_fits_def conforms_kind_iff number_fits_def)
  then show ?thesis
    by (simp add: MEASURE_def conforms_obj known_def has_key_def conforms_enum ascii)
qed

lemma known_safe: "text_safe u \<Longrightarrow> content_safe (known n u)"
  by (simp add: known_def safe_eval)

lemma known_json_ok: "json_ok (known n u)"
  by (simp add: known_def)

lemma known_fields: "text_at (known n u) ''state'' = ''KNOWN''" "text_at (known n u) ''unit'' = u" "field (known n u) ''value'' = JInt n"
  by (simp_all add: known_def text_at_def get_def)

lemma number_ok [simp]: "conforms NUMBER (JInt n) \<longleftrightarrow> 0 \<le> n"
  by (subst conforms_typed_iff [where k = KNumber]; simp add: NUMBER_def number_schema_def const_fits_def enum_fits_def
      conforms_kind_iff number_fits_def)

lemma boolean_ok [simp]: "conforms (typed (OneType KBoolean)) (JBool b)"
  by (subst conforms_typed_iff [where k = KBoolean]; simp add: typed_def const_fits_def enum_fits_def conforms_kind_iff)

lemma string_null_ok [simp]: "conforms (typed (OneOf [KString, KNull])) JNull"
  by (subst conforms_types_iff [where ks = "[KString, KNull]"];
      simp add: typed_def const_fits_def enum_fits_def conforms_kind_iff)

lemma nullable_ref_ok [simp]: "conforms (nullable REF) sample_ref"
  by (simp add: nullable_def conforms_any)

lemma event_shape:
  assumes "status \<in> {''SUCCEEDED'', ''FAILED''}" and "failure \<in> {''NONE'', ''INFRASTRUCTURE''}" and "retry \<in> {''NONE'', ''AUTOMATIC''}"
    and "name = ''a'' \<or> name = ''b''" and "retry_of = JNull \<or> retry_of = JStr ''a''"
  shows "conforms EVENT_SCHEMA (model_event name status failure retry retry_of)"
  unfolding EVENT_SCHEMA_def model_event_def
  using assms by (intro conforms_objI) (auto simp: conforms_enum ascii)

lemma event_safe:
  assumes "status \<in> {''SUCCEEDED'', ''FAILED''}" and "failure \<in> {''NONE'', ''INFRASTRUCTURE''}" and "retry \<in> {''NONE'', ''AUTOMATIC''}"
    and "name = ''a'' \<or> name = ''b''" and "retry_of = JNull \<or> retry_of = JStr ''a''"
  shows "content_safe (model_event name status failure retry retry_of)"
proof -
  have "text_safe name" "text_safe status" "text_safe failure" "text_safe retry" "content_safe retry_of"
    using assms by (auto simp: safe_eval)
  then show ?thesis by (simp add: model_event_def known_safe safe_eval)
qed

lemma event_json_ok: "json_ok retry_of \<Longrightarrow> json_ok (model_event name status failure retry retry_of)"
  by (simp add: model_event_def known_def sample_ref_def)

lemma event_fields:
  "field (model_event name status failure retry retry_of) ''event_id'' = JStr name"
  "field (model_event name status failure retry retry_of) ''kind'' = JStr ''MODEL''"
  "field (model_event name status failure retry retry_of) ''unit'' = JStr ''MODEL_REQUEST''"
  "field (model_event name status failure retry retry_of) ''status'' = JStr status"
  "field (model_event name status failure retry retry_of) ''crossed_boundary'' = JBool True"
  "field (model_event name status failure retry retry_of) ''turn'' = JInt 0"
  "field (model_event name status failure retry retry_of) ''result_count'' = JInt 0"
  "field (model_event name status failure retry retry_of) ''elapsed_ms'' = JInt 1"
  "field (model_event name status failure retry retry_of) ''tokens'' = known 5 ''tokens''"
  "field (model_event name status failure retry retry_of) ''money'' = known 0 ''USD''"
  "field (model_event name status failure retry retry_of) ''retry_kind'' = JStr retry"
  "field (model_event name status failure retry retry_of) ''retry_of'' = retry_of"
  "field (model_event name status failure retry retry_of) ''failure_class'' = JStr failure"
  "field (model_event name status failure retry retry_of) ''request_fingerprint'' = sample_ref"
  "field (model_event name status failure retry retry_of) ''result_fingerprints'' = JArr []"
  by (simp_all add: model_event_def get_def)


section \<open>A ledger with a retry\<close>

text \<open>The events as they stand in the ledger, with sorted keys.\<close>

definition sample_events :: "json list" where
  "sample_events = [canon failed, canon retried]"

lemma failed_ok: "conforms EVENT_SCHEMA failed" "content_safe failed" "json_ok failed" "text_ok failed"
  unfolding failed_def by (simp_all add: event_shape event_safe event_json_ok)
     (simp add: model_event_def known_def sample_ref_def)

lemma retried_ok: "conforms EVENT_SCHEMA retried" "content_safe retried" "json_ok retried" "text_ok retried"
  unfolding retried_def by (simp_all add: event_shape event_safe event_json_ok)
     (simp add: model_event_def known_def sample_ref_def)

lemma canon_event_field:
  "json_ok retry_of \<Longrightarrow> field (canon (model_event name status failure retry retry_of)) k
     = canon (field (model_event name status failure retry retry_of) k)"
  by (rule field_canon [OF event_json_ok])

lemma known_valid: "0 \<le> n \<Longrightarrow> list_ex (\<lambda>c. \<not> py_isspace c) u \<Longrightarrow> validate_measure (canon (known n u)) (Some u) = Inr ()"
  by (intro validate_measure_canon known_json_ok) (simp add: validate_measure_iff known_fields)

lemma money_unit: "text_at (field (field (spec_dict sample_spec) ''resources'') ''money_ceiling'') ''unit'' = ''USD''"
proof -
  have "text_at (unknown_measure ''USD'') ''unit'' = ''USD''" by (simp add: unknown_measure_def text_at_def get_def)
  then show ?thesis
    by (simp add: sample_resource_field sample_resource_fields text_at_canon [OF resources_json_ok(2)])
qed

lemma retry_limit: "int_at (field (spec_dict sample_spec) ''resources'') ''automatic_retries'' = 1"
  by (simp add: int_at_def sample_resource_field) (simp add: sample_resources_def get_def)

lemma canon_not_null: "sample_ref \<noteq> JNull"
  by (simp add: sample_ref_def)

lemmas event_eval = canon_event_field event_fields text_at_def int_at_def flag_at_def elements_of_def attempt_of_def automatic_def
  expected_unit_def canon_not_null

lemma failed_step: "validate_event (spec_dict sample_spec) [] (canon failed) = Inr ()"
proof -
  have "check_status (canon failed) = Inr ()" "check_turn [] (canon failed) = Inr ()"
    "check_unit (spec_dict sample_spec) (canon failed) = Inr ()"
    "check_retry (field (spec_dict sample_spec) ''resources'') [] (canon failed) = Inr ()"
    by (simp_all add: check_status_def check_turn_def check_unit_def check_retry_def guard_Inr bindE_eq_Inr Let_def
        event_eval failed_def)
  then show ?thesis
    using failed_ok conforms_canon(1) [OF failed_ok(1,3)]
    by (simp add: event_checks validate_shape_nested assert_content_safe_iff money_unit)
       (simp add: failed_def canon_event_field event_fields known_valid ascii)
qed

lemma retried_step: "validate_event (spec_dict sample_spec) [canon failed] (canon retried) = Inr ()"
proof -
  have named: "event_named (field (canon retried) ''retry_of'') [canon failed] = Some (canon failed)"
    by (simp add: event_named_def event_eval failed_def retried_def)
  have origin: "retry_root (Suc 1) [canon failed] (canon failed) = Inr (canon failed)"
    by (simp add: event_eval failed_def)
  have "count_automatic [canon failed] (canon failed) = Inr 0"
    by (simp add: count_automatic_def event_eval failed_def)
  with named origin have "check_retry (field (spec_dict sample_spec) ''resources'') [canon failed] (canon retried) = Inr ()"
    by (simp add: check_retry_def guard_Inr bindE_eq_Inr retry_limit) (simp add: event_eval failed_def retried_def)
  moreover have "check_status (canon retried) = Inr ()" "check_turn [canon failed] (canon retried) = Inr ()"
    "check_unit (spec_dict sample_spec) (canon retried) = Inr ()"
    by (simp_all add: check_status_def check_turn_def check_unit_def guard_Inr bindE_eq_Inr Let_def event_eval retried_def)
  moreover have "field (canon retried) ''event_id'' \<noteq> field (canon failed) ''event_id''"
    by (simp add: event_eval failed_def retried_def)
  ultimately show ?thesis
    using retried_ok conforms_canon(1) [OF retried_ok(1,3)]
    by (simp add: event_checks validate_shape_nested assert_content_safe_iff money_unit)
       (simp add: canon_event_field retried_def event_fields known_valid ascii)
qed

lemma sample_history: "history (spec_dict sample_spec) sample_events"
proof -
  have "history (spec_dict sample_spec) (([] @ [canon failed]) @ [canon retried])"
    using failed_step retried_step by (intro history.intros) simp_all
  then show ?thesis by (simp add: sample_events_def)
qed

definition sample_run_id :: json where
  "sample_run_id = JStr ''x''"

lemma run_id_ok: "conforms TEXT sample_run_id" "content_safe sample_run_id"
  by (simp_all add: sample_run_id_def safe_eval)

text \<open>Any history of documents that JSON can carry is a ledger.\<close>

lemma history_ledger:
  assumes "history (spec_dict sample_spec) (map canon es)" and "\<forall>e \<in> set es. text_ok e"
  shows "\<exists>l. make_ledger sample_spec sample_run_id (canonical_json (JArr es)) = Inr l \<and> ledger_events l = map canon es
     \<and> lg_spec l = sample_spec \<and> lg_run_id l = sample_run_id"
proof -
  have "text_ok (JArr es)" using assms(2) by (simp add: list_all_iff)
  from loads_dumps [OF this] have l: "json_loads (canonical_json (JArr es)) = Inr (JArr (map canon es))"
    by (simp add: canonical_json_def)
  moreover have "canonical_json (JArr (map canon es)) = canonical_json (JArr es)"
    using json_dumps_canon [of "JArr es"] by (simp add: canonical_json_def)
  ultimately have "make_ledger sample_spec sample_run_id (canonical_json (JArr es))
      = Inr \<lparr>lg_spec = sample_spec, lg_run_id = sample_run_id, lg_events_json = canonical_json (JArr es)\<rparr>"
    using assms(1) run_id_ok by (simp add: make_ledger_iff sample_status)
  with l show ?thesis by (simp add: ledger_events_def elements_of_def)
qed

theorem retry_chains_end_witness:
  "\<exists>l r. make_ledger sample_spec sample_run_id (canonical_json (JArr [failed, retried])) = Inr l
     \<and> ledger_events l = [canon failed, canon retried]
     \<and> retry_root (length (ledger_events l)) (ledger_events l) (canon retried) = Inr r \<and> field r ''retry_of'' = JNull"
proof -
  from history_ledger [of "[failed, retried]"] sample_history failed_ok retried_ok
  obtain l where l: "make_ledger sample_spec sample_run_id (canonical_json (JArr [failed, retried])) = Inr l"
      "ledger_events l = [canon failed, canon retried]"
    by (auto simp: sample_events_def)
  from retry_chains_end [OF l(1), of "canon retried"] l show ?thesis by auto
qed

theorem ledger_invariant_witness:
  "\<exists>l. make_ledger sample_spec sample_run_id (canonical_json (JArr [failed, retried])) = Inr l \<and> distinct (ids (ledger_events l))"
proof -
  from history_ledger [of "[failed, retried]"] sample_history failed_ok retried_ok
  obtain l where l: "make_ledger sample_spec sample_run_id (canonical_json (JArr [failed, retried])) = Inr l"
    by (auto simp: sample_events_def)
  from ledger_invariant [OF l] l show ?thesis by auto
qed

theorem judgment_only_isolated_witness:
  "text_at (JObj sample_doc) ''track_id'' = ''JUDGMENT_ONLY'' \<and> int_at (field (JObj sample_doc) ''resources'') ''max_search_calls'' = 0
     \<and> text_at (field (JObj sample_doc) ''a1'') ''owner'' = ''NONE''
     \<and> get (items_of (field (field (JObj sample_doc) ''variable_control'') ''fixed'')) ''tools'' = JStr (fingerprint (JArr []))"
proof -
  have t: "text_at (JObj sample_doc) ''track_id'' = ''JUDGMENT_ONLY''" by (simp add: text_at_def)
  from judgment_only_isolated [OF sample_valid t] t show ?thesis by simp
qed


section \<open>A receipt\<close>

definition finished :: json where
  "finished = model_event ''b'' ''SUCCEEDED'' ''NONE'' ''NONE'' JNull"

lemma finished_ok: "conforms EVENT_SCHEMA finished" "content_safe finished" "json_ok finished" "text_ok finished"
  unfolding finished_def by (simp_all add: event_shape event_safe event_json_ok)
     (simp add: model_event_def known_def sample_ref_def)

lemma finished_step: "validate_event (spec_dict sample_spec) [] (canon finished) = Inr ()"
proof -
  have "check_status (canon finished) = Inr ()" "check_turn [] (canon finished) = Inr ()"
    "check_unit (spec_dict sample_spec) (canon finished) = Inr ()"
    "check_retry (field (spec_dict sample_spec) ''resources'') [] (canon finished) = Inr ()"
    by (simp_all add: check_status_def check_turn_def check_unit_def check_retry_def guard_Inr bindE_eq_Inr Let_def
        event_eval finished_def)
  then show ?thesis
    using finished_ok conforms_canon(1) [OF finished_ok(1,3)]
    by (simp add: event_checks validate_shape_nested assert_content_safe_iff money_unit)
       (simp add: finished_def canon_event_field event_fields known_valid ascii)
qed

definition sample_input :: receipt_input where
  "sample_input = \<lparr>ri_entrant_fingerprint = JStr zero_hash, ri_elapsed_ms = JInt 2, ri_operator_ms = known 0 ''ms'',
     ri_waiting_ms = known 0 ''ms'', ri_outcomes = JObj [], ri_price_evidence = JArr []\<rparr>"

lemma sample_input_ok: "check_input sample_input = Inr ()"
  by (simp add: check_input_iff sample_input_def validate_measure_iff known_fields ascii)

definition summed :: "int \<Rightarrow> string \<Rightarrow> string \<Rightarrow> json" where
  "summed n u reason = JObj [(''state'', JStr ''KNOWN''), (''value'', JInt n), (''unit'', JStr u), (''reason'', JStr reason)]"

lemma summed_ok: "0 \<le> n \<Longrightarrow> list_ex (\<lambda>c. \<not> py_isspace c) u \<Longrightarrow> list_ex (\<lambda>c. \<not> py_isspace c) reason \<Longrightarrow>
    measure_of (JInt n) u None reason = Inr (summed n u reason)"
proof -
  assume a: "0 \<le> n" "list_ex (\<lambda>c. \<not> py_isspace c) u" "list_ex (\<lambda>c. \<not> py_isspace c) reason"
  have "conforms (number_schema (OneOf [KNumber, KNull]) (Some 0) None) (JInt n)"
    using a(1) by (subst conforms_types_iff [where ks = "[KNumber, KNull]"];
        simp add: number_schema_def const_fits_def enum_fits_def conforms_kind_iff number_fits_def)
  with a have "validate_measure (summed n u reason) None = Inr ()"
    by (simp add: validate_measure_iff MEASURE_def conforms_obj summed_def has_key_def conforms_enum text_at_def get_def)
  then show ?thesis by (simp add: measure_of_def summed_def)
qed

lemma reasons_ok: "list_ex (\<lambda>c. \<not> py_isspace c) ''sum of raw observed components''"
    "list_ex (\<lambda>c. \<not> py_isspace c) ''observed fixture value''"
  by (simp_all add: ascii)

lemma total_none: "list_ex (\<lambda>c. \<not> py_isspace c) u \<Longrightarrow> total_measure [] u = Inr (summed 0 u ''sum of raw observed components'')"
  using reasons_ok by (simp add: total_measure_def py_sum_def summed_ok)

lemma total_one:
  "0 \<le> n \<Longrightarrow> list_ex (\<lambda>c. \<not> py_isspace c) u \<Longrightarrow>
     total_measure [canon (known n u)] u = Inr (summed n u ''sum of raw observed components'')"
  using reasons_ok
  by (simp add: total_measure_def known_valid text_at_canon [OF known_json_ok] field_canon [OF known_json_ok] known_fields
      py_sum_def num_add_def summed_ok)

lemma summed_parts: "text_at (summed n u w) ''unit'' = u" "text_at (summed n u w) ''state'' = ''KNOWN''"
    "text_ok (summed n u w)" "text_safe u \<Longrightarrow> text_safe w \<Longrightarrow> content_safe (summed n u w)"
  by (simp_all add: summed_def text_at_def get_def safe_eval)

lemma finished_attempts: "crossed [canon finished] = [canon finished]" "of_kind ''MODEL'' [canon finished] = [canon finished]"
    "of_kind ''SEARCH'' [canon finished] = []" "of_kind ''VERIFY'' [canon finished] = []"
  by (simp_all add: crossed_def of_kind_def event_eval finished_def)

lemma no_sample_violations:
  "violations_of (spec_dict sample_spec) [canon finished] t m e [] = []"
proof -
  have unknown: "text_at (field (field (spec_dict sample_spec) ''resources'') k) ''state'' = ''UNKNOWN''"
    if "k \<in> {''max_total_runtime_ms'', ''token_ceiling'', ''money_ceiling''}" for k
    using that by (auto simp: sample_resource_field sample_resource_fields text_at_canon [OF resources_json_ok(2)])
       (simp_all add: unknown_measure_def text_at_def get_def)
  have ints: "int_at (field (spec_dict sample_spec) ''resources'') k = 0"
    if "k \<in> {''max_search_calls'', ''max_search_turns'', ''max_follow_links''}" for k
    using that by (auto simp: int_at_def sample_resource_field) (auto simp: sample_resources_def get_def)
  have "field (field (spec_dict sample_spec) ''resources'') ''timeout_per_call_ms'' = JInt 10"
    by (simp add: sample_resource_field) (simp add: sample_resources_def get_def)
  then show ?thesis
    by (simp add: violations_of_def Let_def finished_attempts limit_violations_def measure_violations_def unknown ints
        search_turns_def max_default_def sample_status)
       (simp add: event_eval finished_def amount_def)
qed

lemma sample_body:
  "\<exists>b. receipt_body sample_spec sample_run_id [canon finished] sample_input = Inr b
     \<and> text_ok (JObj b) \<and> content_safe (JObj b) \<and> map_of b ''terminal_status'' = Some (JStr ''PASS'')"
proof -
  let ?t = "summed 5 ''tokens'' ''sum of raw observed components''" and ?m = "summed 0 ''USD'' ''sum of raw observed components''"
  let ?c = "JObj [(''SEARCH'', ?m), (''VERIFY'', ?m), (''MODEL'', ?m)]"
  have events: "field (canon finished) ''tokens'' = canon (known 5 ''tokens'')" "field (canon finished) ''money'' = canon (known 0 ''USD'')"
    by (simp_all add: event_eval finished_def)
  have "max_default (map (\<lambda>e. amount (field e ''elapsed_ms'')) [canon finished]) \<le> amount (JInt 2)"
    by (simp add: max_default_def amount_def event_eval finished_def)
  then have body: "receipt_body sample_spec sample_run_id [canon finished] sample_input
      = Inr (receipt_fields sample_spec sample_run_id [canon finished] sample_input ?t ?m ?c [])"
    by (simp add: receipt_body_def Let_def finished_attempts events money_unit total_one total_none class_money_def summed_parts
        sample_input_def summed_ok reasons_ok elements_of_def no_sample_violations bindE_eq_Inr guard_Inr ascii)
  have pass: "terminal_of [] [canon finished] = ''PASS''"
    by (simp add: terminal_of_def count_text_def event_eval finished_def)
  have paid: "paid_failed [canon finished] = JArr []"
    by (simp add: paid_failed_def event_eval finished_def)
  have doc: "field (spec_dict sample_spec) ''track_id'' = JStr ''JUDGMENT_ONLY''"
      "field (spec_dict sample_spec) ''fairness_mode'' = JStr ''F1''" "field (spec_dict sample_spec) ''retriever'' = JNull"
    by (simp_all add: sample_spec_field)
  have res: "field (field (spec_dict sample_spec) ''resources'') ''search_unit'' = JStr ''NONE''"
      "field (field (spec_dict sample_spec) ''resources'') ''retry_policy'' = canon sample_ref"
    by (simp_all add: sample_resource_field) (simp_all add: sample_resources_def get_def)
  have "get sample_doc ''canonical_fingerprint'' = JStr (fingerprint (JObj sample_core))"
    unfolding sample_doc_def get_snoc by (simp add: sample_core_def)
  then have fp: "spec_fingerprint sample_spec = fingerprint (JObj sample_core)"
    by (simp add: spec_fingerprint_def text_at_def sample_spec_field)
  let ?b = "receipt_fields sample_spec sample_run_id [canon finished] sample_input ?t ?m ?c []"
  have "text_ok (canon finished)" "text_ok (canon sample_ref)" "text_ok (known 0 ''ms'')"
    using finished_ok(4) by (auto intro!: text_ok_canon simp: sample_ref_def known_def)
  then have "text_ok (JObj ?b)"
    by (simp add: receipt_fields_def Let_def finished_attempts doc res paid sample_input_def sample_run_id_def summed_parts public_scan_def)
  moreover have "content_safe (JObj ?b)"
    using finished_ok(2) known_safe [of "''ms''" 0] summed_parts(4)
    by (simp add: receipt_fields_def Let_def finished_attempts doc res paid pass fp sample_input_def sample_run_id_def public_scan_def
        summed_parts(4) safe_eval)
  moreover have "map_of ?b ''terminal_status'' = Some (JStr ''PASS'')"
    by (simp add: receipt_fields_def Let_def finished_attempts pass)
  ultimately show ?thesis using body by blast
qed


lemma sample_receipt:
  "\<exists>l b r. make_ledger sample_spec sample_run_id (canonical_json (JArr [finished])) = Inr l
     \<and> receipt_body sample_spec sample_run_id (ledger_events l) sample_input = Inr b \<and> text_ok (JObj b)
     \<and> receipt l sample_input = Inr r \<and> get r ''terminal_status'' = JStr ''PASS''"
proof -
  have "history (spec_dict sample_spec) ([] @ [canon finished])"
    using finished_step by (intro history.intros)
  with history_ledger [of "[finished]"] finished_ok(4)
  obtain l where l: "make_ledger sample_spec sample_run_id (canonical_json (JArr [finished])) = Inr l"
      "ledger_events l = [canon finished]" "lg_spec l = sample_spec" "lg_run_id l = sample_run_id"
    by auto
  from sample_body obtain b where b: "receipt_body sample_spec sample_run_id [canon finished] sample_input = Inr b"
      "text_ok (JObj b)" "content_safe (JObj b)" "map_of b ''terminal_status'' = Some (JStr ''PASS'')" by blast
  have "seal b = bindE (Inr ()) (\<lambda>_. Inr (canon_items (pop b canonical_fingerprint) @
         [(canonical_fingerprint, JStr (fingerprint (JObj (pop b canonical_fingerprint))))]))"
    using b(3) seal_eq [OF b(2)] by (simp only: assert_content_safe_iff [symmetric])
  then obtain r where r: "seal b = Inr r" by simp
  then have "get r ''terminal_status'' = JStr ''PASS''"
    using seal_get [OF b(2) r, of "''terminal_status''"] b(4) by (simp add: canonical_fingerprint_def get_def)
  moreover have "receipt l sample_input = Inr r"
    using b(1) r l sample_input_ok by (simp add: receipt_def)
  ultimately show ?thesis using l b by auto
qed

theorem receipt_validates_witness:
  "\<exists>l r. make_ledger sample_spec sample_run_id (canonical_json (JArr [finished])) = Inr l
     \<and> receipt l sample_input = Inr r \<and> validate_resource_receipt (JObj r) sample_spec = Inr ()"
  using sample_receipt receipt_validates by blast

theorem receipt_pass_in_budget_witness:
  "\<exists>l r. make_ledger sample_spec sample_run_id (canonical_json (JArr [finished])) = Inr l
     \<and> receipt l sample_input = Inr r \<and> get r ''terminal_status'' = JStr ''PASS''
     \<and> (\<forall>x \<in> set (ledger_events l). text_at x ''status'' = ''SUCCEEDED'')
     \<and> int (length (of_kind ''SEARCH'' (crossed (ledger_events l)))) \<le> int_at (field (spec_dict sample_spec) ''resources'') ''max_search_calls''"
proof -
  from sample_receipt obtain l b r where l: "make_ledger sample_spec sample_run_id (canonical_json (JArr [finished])) = Inr l"
    "receipt_body sample_spec sample_run_id (ledger_events l) sample_input = Inr b" "text_ok (JObj b)"
    "receipt l sample_input = Inr r" "get r ''terminal_status'' = JStr ''PASS''" by blast
  from receipt_pass_in_budget [OF l(1-4)] l show ?thesis by blast
qed

end
