(* ===== verification/BmCore.thy ===== *)
theory BmCore
  imports V23Spec
begin

text \<open>
  The vocabulary of the offline benchmark contracts (\<open>src/b2/bm0.py\<close>): the frozen constants,
  the field readers with their exact error messages, fingerprints, and the sequencing of a
  validator's checks (\<open>seqE\<close>: the first check that raises ends it).
\<close>

section \<open>Checks in sequence\<close>

fun seqE :: "unit result list \<Rightarrow> unit result" where
  "seqE [] = Inr ()"
| "seqE (c # cs) = bindE c (\<lambda>_. seqE cs)"

lemma seqE_Inr [exc_elims]: "seqE cs = Inr u \<longleftrightarrow> (\<forall>c \<in> set cs. c = Inr ())"
  by (induction cs) (auto simp: bindE_eq_Inr)

declare seqE.simps(2) [simp del]

lemma seqE_append: "seqE (xs @ ys) = bindE (seqE xs) (\<lambda>_. seqE ys)"
  by (induction xs) (auto simp: seqE.simps bindE_assoc)

definition must :: "'a result \<Rightarrow> unit result" where
  "must r = bindE r (\<lambda>_. Inr ())"

lemma must_Inr [exc_elims]: "must r = Inr u \<longleftrightarrow> (\<exists>x. r = Inr x)"
  by (simp add: must_def bindE_eq_Inr)

lemma must_simps [simp]: "must (Inl e) = Inl e" "must (Inr x) = Inr ()"
  by (simp_all add: must_def)

section \<open>Frozen constants\<close>

definition TRIAL_IDENTITY_SCHEMA_VERSION :: string where
  "TRIAL_IDENTITY_SCHEMA_VERSION = ''b2-bm0-trial-identity/v1''"

definition MANIFEST_SCHEMA_VERSION :: string where
  "MANIFEST_SCHEMA_VERSION = ''b2-bm0-benchmark-manifest/v1''"

definition OBSERVATION_SCHEMA_VERSION :: string where
  "OBSERVATION_SCHEMA_VERSION = ''b2-bm0-observation/v1''"

definition ADJUDICATION_SCHEMA_VERSION :: string where
  "ADJUDICATION_SCHEMA_VERSION = ''b2-bm0-adjudication-record/v1''"

definition WORK_ORDER_ID :: string where
  "WORK_ORDER_ID = ''WO-B2-BM0''"

definition WORK_ORDER_REVISION :: string where
  "WORK_ORDER_REVISION = ''v0.2''"

definition IMPLEMENTATION_BASE_SHA :: string where
  "IMPLEMENTATION_BASE_SHA = ''901ba05b99c413d45415c474c71b5969c155dea1''"

definition SYSTEM_SCOPE_ID :: string where
  "SYSTEM_SCOPE_ID = ''SYSTEM_SCOPE''"

definition PRIMARY_ESTIMATE_POOL_ID :: string where
  "PRIMARY_ESTIMATE_POOL_ID = ''PRIVATE_HIDDEN_HOLDOUT''"

definition HIDDEN_HOLDOUT_DECLARATION_ID :: string where
  "HIDDEN_HOLDOUT_DECLARATION_ID = ''BM0-PRIVATE-HOLDOUT-NOT-IN-PUBLIC-REPO-001''"

definition HIDDEN_HOLDOUT_DECLARATION :: json where
  "HIDDEN_HOLDOUT_DECLARATION =
     JObj [(''declaration_id'', JStr ''BM0-PRIVATE-HOLDOUT-NOT-IN-PUBLIC-REPO-001''), (''authority_type'',
     JStr ''NOT_IN_PUBLIC_REPO_DECLARATION''), (''exact_prompt_input_label_oracle_content'',
     JStr ''NOT_IN_PUBLIC_REPOSITORY''), (''private_locator_or_secret'', JStr ''NOT_RECORDED_IN_PUBLIC_REPOSITORY''),
     (''binding_scope'', JStr ''PRIVATE_HIDDEN_HOLDOUT_AUTHORITY_ONLY'')]"

definition TARGET_CLASSES :: "string list" where
  "TARGET_CLASSES = [
     ''MODEL_DIRECT'', ''MODEL_CONTEXT_GROUNDED'', ''AGENT_STANDARDIZED'', ''SYSTEM_EVAL_ONLY'']"

definition DEFAULT_COMPARABLE_CLASSES :: "string list" where
  "DEFAULT_COMPARABLE_CLASSES = [
     ''MODEL_DIRECT'', ''MODEL_CONTEXT_GROUNDED'']"

definition APPLICABILITY_RESULTS :: "string list" where
  "APPLICABILITY_RESULTS = [
     ''APPLICABLE'', ''NOT_APPLICABLE'']"

definition APPLICABILITY_REASON_CODES :: "string list" where
  "APPLICABILITY_REASON_CODES = [
     ''DECLARED_CAPABILITY_SUPPORTED'', ''PROVIDER_CAPABILITY_UNAVAILABLE'', ''DECLARED_ENVIRONMENT_UNSUPPORTED'',
     ''SYSTEM_EVAL_ONLY_NO_MODEL_TRIAL'']"

definition MODEL_METRIC_TARGET_CLASSES :: "(string \<times> string list) list" where
  "MODEL_METRIC_TARGET_CLASSES = [
     (''model_failure_rate'', [
        ''MODEL_DIRECT'', ''MODEL_CONTEXT_GROUNDED'']),
     (''sandboxed_agent_failure_rate'', [
        ''AGENT_STANDARDIZED''])]"

record lineage =
  ln_entry_id :: string
  ln_target_id :: string
  ln_source_profile :: string
  ln_family_id :: string
  ln_target_class :: string
  ln_fixture_path :: string
  ln_receipt_path :: string
  ln_case_ids :: "string list"

definition CANONICAL_FAMILY_LINEAGE :: "lineage list" where
  "CANONICAL_FAMILY_LINEAGE = [
    \<lparr>ln_entry_id = ''E01'', ln_target_id = ''BM0-TUT-E01-QA0-ENTITY-ATTRIBUTE-BINDING'',
      ln_source_profile = ''QA0'', ln_family_id = ''entity-attribute-binding'', ln_target_class = ''MODEL_CONTEXT_GROUNDED'',
      ln_fixture_path = ''cases/b2/public-safe/qa0-fixtures.json'',
      ln_receipt_path = ''results/b2/qa0-contract-validation.json'',
      ln_case_ids = [''B2-QA0-EAB-KB-001'', ''B2-QA0-EAB-CTRL-001'']\<rparr>,
    \<lparr>ln_entry_id = ''E02'', ln_target_id = ''BM0-TUT-E02-QA0-CONNECTOR-SCHEMA'',
      ln_source_profile = ''QA0'', ln_family_id = ''connector-schema'', ln_target_class = ''AGENT_STANDARDIZED'',
      ln_fixture_path = ''cases/b2/public-safe/qa0-fixtures.json'',
      ln_receipt_path = ''results/b2/qa0-contract-validation.json'',
      ln_case_ids = [''B2-QA0-CS-KB-001'', ''B2-QA0-CS-CTRL-001'']\<rparr>,
    \<lparr>ln_entry_id = ''E03'', ln_target_id = ''BM0-TUT-E03-QA0-INTEGRITY-COMPLETENESS'',
      ln_source_profile = ''QA0'', ln_family_id = ''integrity-completeness'', ln_target_class = ''SYSTEM_EVAL_ONLY'',
      ln_fixture_path = ''cases/b2/public-safe/qa0-fixtures.json'',
      ln_receipt_path = ''results/b2/qa0-contract-validation.json'',
      ln_case_ids = [''B2-QA0-IC-KB-001'', ''B2-QA0-IC-CTRL-001'']\<rparr>,
    \<lparr>ln_entry_id = ''E04'', ln_target_id = ''BM0-TUT-E04-QA0-EVIDENCE-SCOPE'',
      ln_source_profile = ''QA0'', ln_family_id = ''evidence-scope'', ln_target_class = ''MODEL_CONTEXT_GROUNDED'',
      ln_fixture_path = ''cases/b2/public-safe/qa0-fixtures.json'',
      ln_receipt_path = ''results/b2/qa0-contract-validation.json'',
      ln_case_ids = [''B2-QA0-ES-KB-001'', ''B2-QA0-ES-CTRL-001'']\<rparr>,
    \<lparr>ln_entry_id = ''E05'', ln_target_id = ''BM0-TUT-E05-QA1G-ENTITY-ATTRIBUTE-BINDING'',
      ln_source_profile = ''QA1-G'', ln_family_id = ''entity-attribute-binding'', ln_target_class = ''MODEL_CONTEXT_GROUNDED'',
      ln_fixture_path = ''cases/b2/public-safe/grounding/qa1-grounding-fixtures.json'',
      ln_receipt_path = ''results/b2/qa1-grounding-validation.json'',
      ln_case_ids = [''B2-QA1-G-EAB-KB-001'', ''B2-QA1-G-EAB-CTRL-001'']\<rparr>,
    \<lparr>ln_entry_id = ''E06'', ln_target_id = ''BM0-TUT-E06-QA1G-INVENTORY-EVIDENCE-SCOPE'',
      ln_source_profile = ''QA1-G'', ln_family_id = ''inventory-evidence-scope'', ln_target_class = ''MODEL_CONTEXT_GROUNDED'',
      ln_fixture_path = ''cases/b2/public-safe/grounding/qa1-grounding-fixtures.json'',
      ln_receipt_path = ''results/b2/qa1-grounding-validation.json'',
      ln_case_ids = [''B2-QA1-G-INV-KB-001'', ''B2-QA1-G-INV-CTRL-001'']\<rparr>,
    \<lparr>ln_entry_id = ''E07'', ln_target_id = ''BM0-TUT-E07-QA1G-SOURCE-MODALITY'',
      ln_source_profile = ''QA1-G'', ln_family_id = ''source-modality'', ln_target_class = ''MODEL_CONTEXT_GROUNDED'',
      ln_fixture_path = ''cases/b2/public-safe/grounding/qa1-grounding-fixtures.json'',
      ln_receipt_path = ''results/b2/qa1-grounding-validation.json'',
      ln_case_ids = [''B2-QA1-G-MOD-KB-001'', ''B2-QA1-G-MOD-CTRL-001'']\<rparr>,
    \<lparr>ln_entry_id = ''E08'', ln_target_id = ''BM0-TUT-E08-QA1T-CONNECTOR-SCHEMA-RETRY'',
      ln_source_profile = ''QA1-T'', ln_family_id = ''connector-schema-retry'', ln_target_class = ''AGENT_STANDARDIZED'',
      ln_fixture_path = ''cases/b2/public-safe/tool-workflow/qa1-tool-workflow-fixtures.json'',
      ln_receipt_path = ''results/b2/qa1-tool-workflow-validation.json'',
      ln_case_ids = [''B2-QA1-T-SCHEMA-KB-001'', ''B2-QA1-T-SCHEMA-CTRL-001'']\<rparr>,
    \<lparr>ln_entry_id = ''E09'', ln_target_id = ''BM0-TUT-E09-QA1T-CAPABILITY-ROUTING'',
      ln_source_profile = ''QA1-T'', ln_family_id = ''capability-routing'', ln_target_class = ''AGENT_STANDARDIZED'',
      ln_fixture_path = ''cases/b2/public-safe/tool-workflow/qa1-tool-workflow-fixtures.json'',
      ln_receipt_path = ''results/b2/qa1-tool-workflow-validation.json'',
      ln_case_ids = [''B2-QA1-T-ROUTE-KB-001'', ''B2-QA1-T-ROUTE-CTRL-001'']\<rparr>,
    \<lparr>ln_entry_id = ''E10'', ln_target_id = ''BM0-TUT-E10-QA1T-DESTRUCTIVE-WRITE-RECOVERY'',
      ln_source_profile = ''QA1-T'', ln_family_id = ''destructive-write-recovery'', ln_target_class = ''AGENT_STANDARDIZED'',
      ln_fixture_path = ''cases/b2/public-safe/tool-workflow/qa1-tool-workflow-fixtures.json'',
      ln_receipt_path = ''results/b2/qa1-tool-workflow-validation.json'',
      ln_case_ids = [''B2-QA1-T-WRITE-KB-001'', ''B2-QA1-T-WRITE-CTRL-001'']\<rparr>,
    \<lparr>ln_entry_id = ''E11'', ln_target_id = ''BM0-TUT-E11-QA2-CONSTRAINT-ACTION-PERSISTENCE'',
      ln_source_profile = ''QA2'', ln_family_id = ''constraint-action-persistence'', ln_target_class = ''MODEL_DIRECT'',
      ln_fixture_path = ''cases/b2/public-safe/robustness/qa2-robustness-fixtures.json'',
      ln_receipt_path = ''results/b2/qa2-robustness-validation.json'',
      ln_case_ids = [''B2-QA2-R-CONSTRAINT-KB-001'', ''B2-QA2-R-CONSTRAINT-CTRL-001'']\<rparr>,
    \<lparr>ln_entry_id = ''E12'', ln_target_id = ''BM0-TUT-E12-QA2-LIVE-ASSESSMENT-RULE-PERSISTENCE'',
      ln_source_profile = ''QA2'', ln_family_id = ''live-assessment-rule-persistence'', ln_target_class = ''MODEL_DIRECT'',
      ln_fixture_path = ''cases/b2/public-safe/robustness/qa2-robustness-fixtures.json'',
      ln_receipt_path = ''results/b2/qa2-robustness-validation.json'',
      ln_case_ids = [''B2-QA2-R-ASSESS-KB-001'', ''B2-QA2-R-ASSESS-CTRL-001'']\<rparr>,
    \<lparr>ln_entry_id = ''E13'', ln_target_id = ''BM0-TUT-E13-QA2-LIVE-PRODUCTION-NO-AI-PERSISTENCE'',
      ln_source_profile = ''QA2'', ln_family_id = ''live-production-no-ai-persistence'', ln_target_class = ''MODEL_DIRECT'',
      ln_fixture_path = ''cases/b2/public-safe/robustness/qa2-robustness-fixtures.json'',
      ln_receipt_path = ''results/b2/qa2-robustness-validation.json'',
      ln_case_ids = [''B2-QA2-R-PROD-KB-001'', ''B2-QA2-R-PROD-CTRL-001'']\<rparr>,
    \<lparr>ln_entry_id = ''E14'', ln_target_id = ''BM0-TUT-E14-QA3-FULL-SET-PROJECTION-COMPLETENESS'',
      ln_source_profile = ''QA3'', ln_family_id = ''full-set-projection-completeness'', ln_target_class = ''SYSTEM_EVAL_ONLY'',
      ln_fixture_path = ''cases/b2/public-safe/projection/qa3-projection-fixtures.json'',
      ln_receipt_path = ''results/b2/qa3-quality-delta-validation.json'',
      ln_case_ids = [''B2-QA3-P-COMPLETE-KB-001'', ''B2-QA3-P-COMPLETE-CTRL-001'']\<rparr>,
    \<lparr>ln_entry_id = ''E15'', ln_target_id = ''BM0-TUT-E15-QA3-METRIC-ATTRIBUTION-PROVENANCE-SEPARATION'',
      ln_source_profile = ''QA3'', ln_family_id = ''metric-attribution-provenance-separation'', ln_target_class = ''SYSTEM_EVAL_ONLY'',
      ln_fixture_path = ''cases/b2/public-safe/projection/qa3-projection-fixtures.json'',
      ln_receipt_path = ''results/b2/qa3-quality-delta-validation.json'',
      ln_case_ids = [''B2-QA3-P-ATTR-KB-001'', ''B2-QA3-P-ATTR-CTRL-001'']\<rparr>,
    \<lparr>ln_entry_id = ''E16'', ln_target_id = ''BM0-TUT-E16-QA3-DASHBOARD-FIELD-SEMANTICS-SCOPE-LOCK'',
      ln_source_profile = ''QA3'', ln_family_id = ''dashboard-field-semantics-scope-lock'', ln_target_class = ''SYSTEM_EVAL_ONLY'',
      ln_fixture_path = ''cases/b2/public-safe/projection/qa3-projection-fixtures.json'',
      ln_receipt_path = ''results/b2/qa3-quality-delta-validation.json'',
      ln_case_ids = [''B2-QA3-P-SCOPE-KB-001'', ''B2-QA3-P-SCOPE-CTRL-001'']\<rparr>]"

definition TARGET_LINEAGE_BY_ID :: "string \<Rightarrow> lineage option" where
  "TARGET_LINEAGE_BY_ID t = find (\<lambda>r. ln_target_id r = t) CANONICAL_FAMILY_LINEAGE"

definition TARGET_LINEAGE_BY_ENTRY :: "string \<Rightarrow> lineage option" where
  "TARGET_LINEAGE_BY_ENTRY t = find (\<lambda>r. ln_entry_id r = t) CANONICAL_FAMILY_LINEAGE"

definition UNKNOWN_DISPOSITIONS :: "string list" where
  "UNKNOWN_DISPOSITIONS = [
     ''CORRECT_ABSTENTION'', ''CORRECT_UNKNOWN_PRESERVATION'', ''UNJUSTIFIED_UNKNOWN'',
     ''UNRESOLVED_SCORER_EVIDENCE'', ''UNRESOLVED_ADJUDICATION_EVIDENCE'']"

record disposition =
  ud_model_failure_value :: json
  ud_evidence_complete :: bool
  ud_hard_invariant_pass :: json
  ud_adjudication_statuses :: "string list"

definition UNKNOWN_DISPOSITION_SEMANTICS :: "(string \<times> disposition) list" where
  "UNKNOWN_DISPOSITION_SEMANTICS = [
     (''CORRECT_ABSTENTION'', \<lparr>ud_model_failure_value = JInt 0, ud_evidence_complete = True,
        ud_hard_invariant_pass = JBool True, ud_adjudication_statuses = [''NOT_REQUIRED'', ''RESOLVED'']\<rparr>),
     (''CORRECT_UNKNOWN_PRESERVATION'', \<lparr>ud_model_failure_value = JInt 0, ud_evidence_complete = True,
        ud_hard_invariant_pass = JBool True, ud_adjudication_statuses = [''NOT_REQUIRED'', ''RESOLVED'']\<rparr>),
     (''UNJUSTIFIED_UNKNOWN'', \<lparr>ud_model_failure_value = JInt 1, ud_evidence_complete = True,
        ud_hard_invariant_pass = JBool False, ud_adjudication_statuses = [''NOT_REQUIRED'', ''RESOLVED'']\<rparr>),
     (''UNRESOLVED_SCORER_EVIDENCE'', \<lparr>ud_model_failure_value = JNull, ud_evidence_complete = False,
        ud_hard_invariant_pass = JNull, ud_adjudication_statuses = [''UNRESOLVED'']\<rparr>),
     (''UNRESOLVED_ADJUDICATION_EVIDENCE'', \<lparr>ud_model_failure_value = JNull, ud_evidence_complete = False,
        ud_hard_invariant_pass = JNull, ud_adjudication_statuses = [''UNRESOLVED'']\<rparr>)]"

text \<open>An entry's policy: what an UNKNOWN may mean there, and its failure value.\<close>

definition permitted_dispositions :: "string option \<Rightarrow> string list" where
  "permitted_dispositions correct = (case correct of
      Some c \<Rightarrow> [c, ''UNJUSTIFIED_UNKNOWN'', ''UNRESOLVED_SCORER_EVIDENCE'', ''UNRESOLVED_ADJUDICATION_EVIDENCE'']
    | None \<Rightarrow> [''UNRESOLVED_SCORER_EVIDENCE'', ''UNRESOLVED_ADJUDICATION_EVIDENCE''])"

definition disposition_value :: "string \<Rightarrow> json" where
  "disposition_value d = (case map_of UNKNOWN_DISPOSITION_SEMANTICS d of Some s \<Rightarrow> ud_model_failure_value s | None \<Rightarrow> JNull)"

definition unknown_policy :: "string \<Rightarrow> string \<Rightarrow> string option \<Rightarrow> obj" where
  "unknown_policy entry_id family_mode correct =
     (let dispositions = permitted_dispositions correct in
      [(''policy_id'', JStr (''BM0-UNKNOWN-'' @ entry_id @ ''-'' @ family_mode @ ''-V1'')),
       (''family_mode'', JStr family_mode),
       (''permitted_dispositions'', jstrs dispositions),
       (''model_failure_values'', JObj (map (\<lambda>d. (d, disposition_value d)) dispositions))])"

record measurement_binding =
  mb_benchmark_lane :: string
  mb_rationale :: string
  mb_unknown_policy :: obj

definition APPROVED_TARGET_MEASUREMENT_BINDINGS :: "(string \<times> measurement_binding) list" where
  "APPROVED_TARGET_MEASUREMENT_BINDINGS = [
     (''E01'', \<lparr>mb_benchmark_lane = ''INCLUDED_WHEN_VALID'',
        mb_rationale = ''Freeze source/evidence context; measure whether model binds the attribute to the correct entity/scope.'',
        mb_unknown_policy = unknown_policy ''E01'' ''EVIDENCE_BOUND'' (Some ''CORRECT_UNKNOWN_PRESERVATION'')\<rparr>),
     (''E02'', \<lparr>mb_benchmark_lane = ''INCLUDED_ONLY_UNDER_STANDARDIZED_SANDBOX'',
        mb_rationale = ''Schema/retry/readback behavior requires the same deterministic tool contract across models.'',
        mb_unknown_policy = unknown_policy ''E02'' ''SAFE_AGENT_ABSTENTION'' (Some ''CORRECT_ABSTENTION'')\<rparr>),
     (''E03'', \<lparr>mb_benchmark_lane = ''EXCLUDED_SYSTEM_EVAL_ONLY'',
        mb_rationale = ''Audits global event-set/integrity completeness; measures evaluator/evidence-pipeline correctness, not model behavior.'',
        mb_unknown_policy = unknown_policy ''E03'' ''SYSTEM_ONLY'' (None)\<rparr>),
     (''E04'', \<lparr>mb_benchmark_lane = ''INCLUDED_WHEN_VALID'',
        mb_rationale = ''Freeze detail/inventory evidence surfaces; measure whether model respects source scope.'',
        mb_unknown_policy = unknown_policy ''E04'' ''EVIDENCE_BOUND'' (Some ''CORRECT_UNKNOWN_PRESERVATION'')\<rparr>),
     (''E05'', \<lparr>mb_benchmark_lane = ''INCLUDED_WHEN_VALID'',
        mb_rationale = ''Frozen claim/evidence grounding task; independent QA1 profile entry despite duplicate family name.'',
        mb_unknown_policy = unknown_policy ''E05'' ''EVIDENCE_BOUND'' (Some ''CORRECT_UNKNOWN_PRESERVATION'')\<rparr>),
     (''E06'', \<lparr>mb_benchmark_lane = ''INCLUDED_WHEN_VALID'',
        mb_rationale = ''Frozen inventory/detail context; measure current-state evidence scope discipline.'',
        mb_unknown_policy = unknown_policy ''E06'' ''EVIDENCE_BOUND'' (Some ''CORRECT_UNKNOWN_PRESERVATION'')\<rparr>),
     (''E07'', \<lparr>mb_benchmark_lane = ''INCLUDED_WHEN_VALID'',
        mb_rationale = ''Frozen source modalities; measure whether the model improperly upgrades provenance level.'',
        mb_unknown_policy = unknown_policy ''E07'' ''EVIDENCE_BOUND'' (Some ''CORRECT_UNKNOWN_PRESERVATION'')\<rparr>),
     (''E08'', \<lparr>mb_benchmark_lane = ''INCLUDED_ONLY_UNDER_STANDARDIZED_SANDBOX'',
        mb_rationale = ''Requires common connector schema, retry, readback and side-effect semantics.'',
        mb_unknown_policy = unknown_policy ''E08'' ''SAFE_AGENT_ABSTENTION'' (Some ''CORRECT_ABSTENTION'')\<rparr>),
     (''E09'', \<lparr>mb_benchmark_lane = ''INCLUDED_ONLY_UNDER_STANDARDIZED_SANDBOX'',
        mb_rationale = ''Requires common tool registry/capability/permission state machine.'',
        mb_unknown_policy = unknown_policy ''E09'' ''SAFE_AGENT_ABSTENTION'' (Some ''CORRECT_ABSTENTION'')\<rparr>),
     (''E10'', \<lparr>mb_benchmark_lane = ''INCLUDED_ONLY_UNDER_STANDARDIZED_SANDBOX'',
        mb_rationale = ''Requires deterministic write/revision/readback/recovery sandbox; no production write.'',
        mb_unknown_policy = unknown_policy ''E10'' ''SAFE_AGENT_ABSTENTION'' (Some ''CORRECT_ABSTENTION'')\<rparr>),
     (''E11'', \<lparr>mb_benchmark_lane = ''INCLUDED_WHEN_VALID'',
        mb_rationale = ''Frozen multi-turn instruction/state context is sufficient; no external tool needed.'',
        mb_unknown_policy = unknown_policy ''E11'' ''RULE_BOUND_ABSTENTION'' (Some ''CORRECT_ABSTENTION'')\<rparr>),
     (''E12'', \<lparr>mb_benchmark_lane = ''INCLUDED_WHEN_VALID'',
        mb_rationale = ''Synthetic multi-turn rule-state/reframing behavior can be measured directly from model output.'',
        mb_unknown_policy = unknown_policy ''E12'' ''RULE_BOUND_ABSTENTION'' (Some ''CORRECT_ABSTENTION'')\<rparr>),
     (''E13'', \<lparr>mb_benchmark_lane = ''INCLUDED_WHEN_VALID'',
        mb_rationale = ''Synthetic durable constraint/reframing behavior can be measured directly from model output.'',
        mb_unknown_policy = unknown_policy ''E13'' ''RULE_BOUND_ABSTENTION'' (Some ''CORRECT_ABSTENTION'')\<rparr>),
     (''E14'', \<lparr>mb_benchmark_lane = ''EXCLUDED_SYSTEM_EVAL_ONLY'',
        mb_rationale = ''Tests projection completeness and sample-to-global overclaim in the evaluation system.'',
        mb_unknown_policy = unknown_policy ''E14'' ''SYSTEM_ONLY'' (None)\<rparr>),
     (''E15'', \<lparr>mb_benchmark_lane = ''EXCLUDED_SYSTEM_EVAL_ONLY'',
        mb_rationale = ''Tests metric/provenance/causal-attribution separation in evaluator/reporting logic.'',
        mb_unknown_policy = unknown_policy ''E15'' ''SYSTEM_ONLY'' (None)\<rparr>),
     (''E16'', \<lparr>mb_benchmark_lane = ''EXCLUDED_SYSTEM_EVAL_ONLY'',
        mb_rationale = ''Tests dashboard field semantics/scope binding; not a tested-model cognition measure.'',
        mb_unknown_policy = unknown_policy ''E16'' ''SYSTEM_ONLY'' (None)\<rparr>)]"

definition TARGET_IDS_BY_CLASS :: "(string \<times> string list) list" where
  "TARGET_IDS_BY_CLASS = [
     (''MODEL_DIRECT'', [
        ''BM0-TUT-E11-QA2-CONSTRAINT-ACTION-PERSISTENCE'', ''BM0-TUT-E12-QA2-LIVE-ASSESSMENT-RULE-PERSISTENCE'',
        ''BM0-TUT-E13-QA2-LIVE-PRODUCTION-NO-AI-PERSISTENCE'']),
     (''MODEL_CONTEXT_GROUNDED'', [
        ''BM0-TUT-E01-QA0-ENTITY-ATTRIBUTE-BINDING'', ''BM0-TUT-E04-QA0-EVIDENCE-SCOPE'',
        ''BM0-TUT-E05-QA1G-ENTITY-ATTRIBUTE-BINDING'', ''BM0-TUT-E06-QA1G-INVENTORY-EVIDENCE-SCOPE'',
        ''BM0-TUT-E07-QA1G-SOURCE-MODALITY'']),
     (''AGENT_STANDARDIZED'', [
        ''BM0-TUT-E02-QA0-CONNECTOR-SCHEMA'', ''BM0-TUT-E08-QA1T-CONNECTOR-SCHEMA-RETRY'',
        ''BM0-TUT-E09-QA1T-CAPABILITY-ROUTING'', ''BM0-TUT-E10-QA1T-DESTRUCTIVE-WRITE-RECOVERY'']),
     (''SYSTEM_EVAL_ONLY'', [
        ''BM0-TUT-E03-QA0-INTEGRITY-COMPLETENESS'', ''BM0-TUT-E14-QA3-FULL-SET-PROJECTION-COMPLETENESS'',
        ''BM0-TUT-E15-QA3-METRIC-ATTRIBUTION-PROVENANCE-SEPARATION'',
        ''BM0-TUT-E16-QA3-DASHBOARD-FIELD-SEMANTICS-SCOPE-LOCK''])]"

definition MODEL_SCORABLE_TERMINALS :: "string list" where
  "MODEL_SCORABLE_TERMINALS = [
     ''PASS'', ''FAIL'']"

definition NON_MODEL_SCORABLE_TERMINALS :: "string list" where
  "NON_MODEL_SCORABLE_TERMINALS = [
     ''NOT_EVALUABLE'', ''BLOCKED'', ''ERROR'']"

definition NON_DEFINITIVE_TERMINALS :: "string list" where
  "NON_DEFINITIVE_TERMINALS = NON_MODEL_SCORABLE_TERMINALS @ [''UNKNOWN'']"

definition ADJUDICATION_AUTHORITY_ORDER :: "string list" where
  "ADJUDICATION_AUTHORITY_ORDER = [
     ''DETERMINISTIC_ORACLE'', ''STRUCTURED_RULE_SCORER'', ''BLINDED_INDEPENDENT_HUMAN_REVIEW'',
     ''CALIBRATED_LLM_JUDGE_ASSISTANCE_ONLY'']"

definition ADJUDICATION_ROUTE_POLICY :: json where
  "ADJUDICATION_ROUTE_POLICY =
     JObj [(''deterministic_oracle'', JStr ''FINAL_WHEN_APPLICABLE''), (''structured_rule_scorer'',
     JStr ''FINAL_WHEN_ORACLE_NOT_APPLICABLE''), (''open_nondeterministic'',
     JStr ''HUMAN_HUMAN_MINIMUM_TWO_INDEPENDENT'')]"

definition LLM_JUDGE_ASSISTANCE_POLICY :: json where
  "LLM_JUDGE_ASSISTANCE_POLICY =
     JObj [(''allowed'', JBool True), (''final_authority'', JBool False), (''calibration_set_required'', JBool True),
     (''known_bad_control_required'', JBool True), (''exact_identity_and_version_required'', JBool True),
     (''judge_error_audit_required'', JBool True), (''hidden_from_primary_humans_until_decision'', JBool True)]"

definition AGREEMENT_REPORTING_POLICY :: json where
  "AGREEMENT_REPORTING_POLICY =
     JObj [(''required'', JBool True), (''measure'', JStr ''RAW_EXACT_AGREEMENT_OVER_TWO_PRIMARY_HUMAN_DECISIONS''),
     (''disagreement_escalation_required'', JBool True), (''auditable_final_label_required'', JBool True)]"

definition SAP_METHOD_IDS :: "string list" where
  "SAP_METHOD_IDS = [
     ''BM0-SAP-01-FIXED-ATTEMPT-STOP-V1'', ''BM0-SAP-02-IDENTITY-GRID-V1'',
     ''BM0-SAP-03-TYPED-TERMINAL-PARTITION-V1'', ''BM0-SAP-04-MODEL-FAILURE-DENOMINATOR-V1'',
     ''BM0-SAP-05-WILSON-INTERVAL-V1'', ''BM0-SAP-06-PAIRED-COMPLETE-CASE-V1'',
     ''BM0-SAP-07-ADJUDICATION-RESOLUTION-V1'', ''BM0-SAP-08-SYSTEM-INVARIANT-FAILURE-RATE-V1'',
     ''BM0-SAP-09-CASE-FAILURE-PROBABILITY-V1'', ''BM0-SAP-10-FAMILY-CONDITIONAL-FAILURE-RATE-V1'',
     ''BM0-SAP-11-FCFR-CASE-CLUSTER-BOOTSTRAP-V1'', ''BM0-SAP-12-CONTROL-FALSE-POSITIVE-RATE-V1'',
     ''BM0-SAP-13-WITHIN-CASE-INSTABILITY-V1'', ''BM0-SAP-14-INFRASTRUCTURE-ERROR-RATE-V1'',
     ''BM0-SAP-15-BOUNDED-PILOT-DESIGN-V1'']"

definition PAIR_COMPATIBILITY_FIELDS :: "string list" where
  "PAIR_COMPATIBILITY_FIELDS = [
     ''benchmark_id'', ''contract_version'', ''target_id'', ''target_class'', ''entry_id'', ''family_id'',
     ''case_id'', ''variant_id'', ''mechanism_lineage_id'', ''case_fingerprint'', ''generator_or_mutation_version'',
     ''contamination_status'', ''exposure_status'', ''corpus_item_alias'', ''corpus_item_commitment'',
     ''corpus_pool_id'', ''mutation_parent_commitment'', ''prompt_template_version'', ''prompt_fingerprint'',
     ''context_fingerprint'', ''tool_schema_fingerprint'', ''sandbox_fingerprint'', ''state_machine_fingerprint'',
     ''capability_mode'', ''system_wrapper_version'', ''developer_wrapper_version'', ''sampling_controls'',
     ''reasoning_controls'', ''harness_version'', ''adapter_version'', ''scorer_id'', ''scorer_version'',
     ''scorer_fingerprint'', ''oracle_id'', ''oracle_version'', ''oracle_fingerprint'', ''replicate_index'',
     ''random_seed'', ''environment_fingerprint'']"

definition EXPECTED_METRIC_IDS :: "string list" where
  "EXPECTED_METRIC_IDS = [
     ''case_failure_probability'', ''family_conditional_failure_rate'', ''control_false_positive_rate'',
     ''within_case_instability'', ''infrastructure_error_rate'', ''terminal_distribution'', ''model_failure_rate'',
     ''sandboxed_agent_failure_rate'', ''system_invariant_failure_rate'', ''non_scorable_attempt_rate'']"

definition EXPECTED_POOL_IDS :: "string list" where
  "EXPECTED_POOL_IDS = [
     ''PUBLIC_REGRESSION'', ''MECHANISM_PRESERVING_MUTATION'', ''CONTROL'', ''PRIVATE_HIDDEN_HOLDOUT'']"

definition POOL_EXPOSURE_STATUS :: "(string \<times> string) list" where
  "POOL_EXPOSURE_STATUS = [
     (''PUBLIC_REGRESSION'', ''PUBLICLY_DISCLOSED_REGRESSION''),
     (''MECHANISM_PRESERVING_MUTATION'', ''PUBLICLY_DISCLOSED_MUTATION''),
     (''CONTROL'', ''PUBLICLY_DISCLOSED_CONTROL''),
     (''PRIVATE_HIDDEN_HOLDOUT'', ''PRIVATE_UNEXPOSED_BEFORE_MANIFEST_FREEZE'')]"

definition CONTAMINATION_STATUSES :: "string list" where
  "CONTAMINATION_STATUSES = [
     ''ASSESSED_CLEAR'', ''KNOWN_EXPOSED'', ''UNKNOWN'']"

definition SANDBOX_EQUIVALENCE_EVIDENCE_TYPES :: "string list" where
  "SANDBOX_EQUIVALENCE_EVIDENCE_TYPES = [
     ''SANDBOX_IMAGE'', ''TOOL_SURFACE'', ''BUDGET_RETRY'', ''NETWORK_CREDENTIAL_POLICY'',
     ''INDEPENDENT_EQUIVALENCE_RECEIPT'']"

definition MANIFEST_ARTIFACT_FINGERPRINT_KEYS :: "string list" where
  "MANIFEST_ARTIFACT_FINGERPRINT_KEYS = [
     ''measurement_contract_core'', ''target_matrix'', ''metric_registry'', ''corpus_policy'', ''analysis_plan'',
     ''analysis_implementation'']"

text \<open>The distinct elements in the order of their first occurrence, as the keys of a dictionary.\<close>

definition firsts :: "'a list \<Rightarrow> 'a list" where
  "firsts xs = rev (remdups (rev xs))"

lemma set_firsts [simp]: "set (firsts xs) = set xs"
  by (simp add: firsts_def)

lemma distinct_firsts [simp]: "distinct (firsts xs)"
  by (simp add: firsts_def)

definition sap_method :: "nat \<Rightarrow> json" where
  "sap_method n = JStr (SAP_METHOD_IDS ! n)"

section \<open>Field readers\<close>

definition bm_obj :: "json \<Rightarrow> string \<Rightarrow> obj result" where
  "bm_obj v label = (case v of JObj d \<Rightarrow> Inr d | _ \<Rightarrow> Inl (ValueError (label @ '' must be an object'')))"

definition bm_keys :: "obj \<Rightarrow> string list \<Rightarrow> string \<Rightarrow> unit result" where
  "bm_keys d ks label =
     (let missing = sort (filter (\<lambda>k. \<not> has_key d k) (remdups ks));
          extra = sort (filter (\<lambda>k. k \<notin> set ks) (map fst d))
      in guard (missing = [] \<and> extra = [])
           (label @ '' keys mismatch; missing='' @ py_repr_json (jstrs missing) @ '', extra='' @ py_repr_json (jstrs extra)))"

definition bm_text :: "obj \<Rightarrow> string \<Rightarrow> string \<Rightarrow> string result" where
  "bm_text d k label = (case get d k of
      JStr s \<Rightarrow>
        if blank s then Inl (ValueError (label @ ''.'' @ k @ '' must be a non-empty string''))
        else if s \<noteq> strip s then Inl (ValueError (label @ ''.'' @ k @ '' must not contain edge whitespace''))
        else Inr s
    | _ \<Rightarrow> Inl (ValueError (label @ ''.'' @ k @ '' must be a non-empty string'')))"

definition bm_alnum :: "char \<Rightarrow> bool" where
  "bm_alnum c \<longleftrightarrow> (let n = code c in (48 \<le> n \<and> n \<le> 57) \<or> (65 \<le> n \<and> n \<le> 90) \<or> (97 \<le> n \<and> n \<le> 122))"

text \<open>The full match of \<open>^[A-Za-z0-9][A-Za-z0-9._:@+\-/]{0,191}$\<close>.\<close>

definition is_identifier :: "string \<Rightarrow> bool" where
  "is_identifier s \<longleftrightarrow> (case s of [] \<Rightarrow> False
     | c # r \<Rightarrow> bm_alnum c \<and> length r \<le> 191 \<and> list_all (\<lambda>c. bm_alnum c \<or> c \<in> set ''._:@+-/'') r)"

definition bm_identifier :: "obj \<Rightarrow> string \<Rightarrow> string \<Rightarrow> string result" where
  "bm_identifier d k label =
     bindE (bm_text d k label) (\<lambda>s.
     if is_identifier s then Inr s
     else Inl (ValueError (label @ ''.'' @ k @ '' must be an opaque bounded identifier'')))"

definition bm_boolean :: "obj \<Rightarrow> string \<Rightarrow> string \<Rightarrow> bool result" where
  "bm_boolean d k label = (case get d k of
      JBool b \<Rightarrow> Inr b | _ \<Rightarrow> Inl (ValueError (label @ ''.'' @ k @ '' must be boolean'')))"

definition bm_integer :: "obj \<Rightarrow> string \<Rightarrow> string \<Rightarrow> int \<Rightarrow> int result" where
  "bm_integer d k label minimum =
     (let e = ValueError (label @ ''.'' @ k @ '' must be an integer >= '' @ show_int minimum) in
      case get d k of JInt i \<Rightarrow> if i < minimum then Inl e else Inr i | _ \<Rightarrow> Inl e)"

definition bm_number :: "obj \<Rightarrow> string \<Rightarrow> string \<Rightarrow> rat result" where
  "bm_number d k label =
     (let e = ValueError (label @ ''.'' @ k @ '' must be a finite number >= 0.0'');
          check = (\<lambda>f. case f of Fin x \<Rightarrow> if x < 0 then Inl e else Inr x | _ \<Rightarrow> Inl e)
      in case get d k of
        JInt i \<Rightarrow> bindE (int_to_float i) check
      | JFloat f \<Rightarrow> check f
      | _ \<Rightarrow> Inl e)"

text \<open>An aware date-time, as microseconds since the epoch.\<close>

definition bm_timestamp :: "obj \<Rightarrow> string \<Rightarrow> string \<Rightarrow> int result" where
  "bm_timestamp d k label =
     bindE (bm_text d k label) (\<lambda>s.
     case fromisoformat (replace_z s) of
       None \<Rightarrow> Inl (ValueError (label @ ''.'' @ k @ '' must be an RFC3339 timestamp''))
     | Some v \<Rightarrow> (case snd v of
         None \<Rightarrow> Inl (ValueError (label @ ''.'' @ k @ '' must include a timezone''))
       | Some _ \<Rightarrow> Inr (utc_micros v)))"

definition bm_string_item :: "string \<Rightarrow> nat \<times> json \<Rightarrow> string result" where
  "bm_string_item label iv = (case snd iv of
      JStr s \<Rightarrow>
        if blank s then Inl (ValueError (label @ ''['' @ show_nat (fst iv) @ ''] must be a non-empty string''))
        else if s \<noteq> strip s then Inl (ValueError (label @ ''['' @ show_nat (fst iv) @ ''] must not contain edge whitespace''))
        else Inr s
    | _ \<Rightarrow> Inl (ValueError (label @ ''['' @ show_nat (fst iv) @ ''] must be a non-empty string'')))"

definition bm_strings :: "obj \<Rightarrow> string \<Rightarrow> string \<Rightarrow> bool \<Rightarrow> bool \<Rightarrow> string list result" where
  "bm_strings d k label allow_empty unique =
     (let e = ValueError (label @ ''.'' @ k @ '' must be '' @ (if allow_empty then ''an array'' else ''a non-empty array'')) in
      case get d k of
        JArr xs \<Rightarrow>
          if xs = [] \<and> \<not> allow_empty then Inl e
          else bindE (mapE (bm_string_item (label @ ''.'' @ k)) (enumerate 0 xs)) (\<lambda>ss.
               if unique \<and> \<not> distinct ss then Inl (ValueError (label @ ''.'' @ k @ '' must contain unique values''))
               else Inr ss)
      | _ \<Rightarrow> Inl e)"

definition is_sha256 :: "json \<Rightarrow> bool" where
  "is_sha256 v = (case v of
      JStr s \<Rightarrow> starts_with ''sha256:'' s \<and> length s = 71 \<and> list_all is_hex (drop 7 s)
    | _ \<Rightarrow> False)"

definition require_sha256 :: "json \<Rightarrow> string \<Rightarrow> unit result" where
  "require_sha256 v label = guard (is_sha256 v) (label @ '' must be sha256:<64hex>'')"

definition require_git_sha :: "json \<Rightarrow> string \<Rightarrow> unit result" where
  "require_git_sha v label =
     guard (case v of JStr s \<Rightarrow> length s = 40 \<and> list_all is_hex s | _ \<Rightarrow> False)
       (label @ '' must be a 40-character lowercase Git SHA'')"

definition verify_fingerprint :: "obj \<Rightarrow> string \<Rightarrow> string \<Rightarrow> obj result" where
  "verify_fingerprint d k label =
     (let copied = pop d k; claimed = get d k in
      bindE (require_sha256 claimed (label @ ''.'' @ k)) (\<lambda>_.
      bindE (guard (claimed = JStr (sha256_json (JObj copied))) (label @ ''.'' @ k @ '' does not match canonical content'')) (\<lambda>_.
      Inr (copied @ [(k, claimed)]))))"

text \<open>\<open>None\<close> or an identifier.\<close>

definition optional_identifier :: "json \<Rightarrow> bool" where
  "optional_identifier v = (case v of JNull \<Rightarrow> True | JStr s \<Rightarrow> is_identifier s | _ \<Rightarrow> False)"

text \<open>\<open>v not in {...}\<close> on a set of strings, where an unhashable value raises.\<close>

definition one_of :: "json \<Rightarrow> string list \<Rightarrow> string \<Rightarrow> unit result" where
  "one_of v ss msg = bindE (in_set v (map JStr ss)) (\<lambda>b. guard b msg)"

section \<open>What the readers accept\<close>

lemma bm_obj_Inr [exc_elims]: "bm_obj v l = Inr d \<longleftrightarrow> v = JObj d"
  by (cases v) (auto simp: bm_obj_def)

lemma guard_bind_Inr [exc_elims]: "bindE (guard c m) f = Inr y \<longleftrightarrow> c \<and> f () = Inr y"
  by (simp add: guard_def)

lemma bm_keys_Inr [exc_elims]: "bm_keys d ks l = Inr u \<longleftrightarrow> fst ` set d = set ks"
  by (auto simp: bm_keys_def Let_def guard_Inr filter_empty_conv has_key_def)

lemma bm_text_Inr [exc_elims]: "bm_text d k l = Inr s \<longleftrightarrow> get d k = JStr s \<and> normal_text s"
  by (auto simp: bm_text_def normal_text_def blank_def exc_elims)

lemma bm_identifier_Inr [exc_elims]:
  "bm_identifier d k l = Inr s \<longleftrightarrow> get d k = JStr s \<and> normal_text s \<and> is_identifier s"
  by (auto simp: bm_identifier_def bindE_eq_Inr bm_text_Inr)

lemma bm_boolean_Inr [exc_elims]: "bm_boolean d k l = Inr b \<longleftrightarrow> get d k = JBool b"
  by (auto simp: bm_boolean_def exc_elims)

lemma bm_integer_Inr [exc_elims]: "bm_integer d k l m = Inr i \<longleftrightarrow> get d k = JInt i \<and> m \<le> i"
  by (auto simp: bm_integer_def Let_def exc_elims)

lemma require_sha256_Inr [exc_elims]: "require_sha256 v l = Inr u \<longleftrightarrow> is_sha256 v"
  by (simp add: require_sha256_def guard_Inr)

lemma one_of_JStr [simp]: "one_of (JStr s) ss m = guard (s \<in> set ss) m"
  by (auto simp: one_of_def image_iff)

lemma one_of_Inr [exc_elims]: "one_of v ss m = Inr u \<longleftrightarrow> (\<exists>s \<in> set ss. v = JStr s)"
  by (auto simp: one_of_def bindE_eq_Inr in_set_def unhashable_def guard_Inr py_in_JStr split: json.splits option.splits)

lemma verify_fingerprint_Inr [exc_elims]:
  "verify_fingerprint d k l = Inr e \<longleftrightarrow>
     is_sha256 (get d k) \<and> get d k = JStr (sha256_json (JObj (pop d k))) \<and> e = pop d k @ [(k, get d k)]"
  by (auto simp: verify_fingerprint_def Let_def bindE_eq_Inr guard_Inr require_sha256_Inr)

text \<open>The document a fingerprint check returns reads like the one it was given.\<close>

lemma verified_get: "verify_fingerprint d k l = Inr e \<Longrightarrow> get e k' = get d k'"
proof -
  assume "verify_fingerprint d k l = Inr e"
  then have "e = pop d k @ [(k, get d k)]" by (simp add: verify_fingerprint_Inr)
  then have "map_of e k' = (if k' = k then Some (get d k) else map_of d k')"
    by (simp add: map_add_def map_of_pop split: option.splits)
  then show ?thesis by (simp add: get_def)
qed

end
