(* ===== verification/BmTrial.thy ===== *)
theory BmTrial
  imports BmCore
begin

text \<open>
  The trial side of \<open>src/b2/bm0.py\<close>: the identity of one planned attempt, the adjudication
  plan, the aggregate commitment of the private holdout and the applicability grid of the
  selected models.
\<close>

section \<open>Trial identities\<close>

definition trial_keys :: "string list" where
  "trial_keys = [
     ''schema_version'', ''benchmark_id'', ''contract_version'', ''study_id'', ''trial_id'', ''attempt_id'',
     ''parent_attempt_id'', ''provider_subject_id'', ''model_subject_id'', ''model_snapshot_id'',
     ''requested_model_id'', ''expected_resolved_model_or_version_id'', ''required_identity_certainty'',
     ''alias_limitation'', ''endpoint_id'', ''capability_mode'', ''system_wrapper_version'',
     ''developer_wrapper_version'', ''sampling_controls'', ''reasoning_controls'', ''target_id'', ''target_class'',
     ''applicability_result'', ''entry_id'', ''family_id'', ''case_id'', ''variant_id'', ''mechanism_lineage_id'',
     ''case_fingerprint'', ''generator_or_mutation_version'', ''contamination_status'', ''exposure_status'',
     ''corpus_pool_id'', ''corpus_item_alias'', ''corpus_item_commitment'', ''mutation_parent_commitment'',
     ''prompt_template_version'', ''prompt_fingerprint'', ''context_fingerprint'', ''tool_schema_fingerprint'',
     ''sandbox_fingerprint'', ''state_machine_fingerprint'', ''harness_version'', ''adapter_id'',
     ''adapter_version'', ''scorer_id'', ''scorer_version'', ''scorer_fingerprint'', ''oracle_id'',
     ''oracle_version'', ''oracle_fingerprint'', ''replicate_index'', ''random_seed'', ''environment_fingerprint'']"

definition trial_identifiers :: "string list" where
  "trial_identifiers = [
     ''benchmark_id'', ''study_id'', ''trial_id'', ''attempt_id'', ''provider_subject_id'', ''model_subject_id'',
     ''model_snapshot_id'', ''requested_model_id'', ''endpoint_id'', ''capability_mode'', ''system_wrapper_version'',
     ''developer_wrapper_version'', ''target_id'', ''entry_id'', ''family_id'', ''case_id'', ''variant_id'',
     ''mechanism_lineage_id'', ''generator_or_mutation_version'', ''corpus_item_alias'', ''prompt_template_version'',
     ''harness_version'', ''adapter_id'', ''adapter_version'', ''scorer_id'', ''scorer_version'', ''oracle_id'',
     ''oracle_version'']"

definition trial_fingerprints :: "string list" where
  "trial_fingerprints = [
     ''prompt_fingerprint'', ''context_fingerprint'', ''tool_schema_fingerprint'', ''sandbox_fingerprint'',
     ''state_machine_fingerprint'', ''scorer_fingerprint'', ''oracle_fingerprint'']"

definition trial_label :: string where
  "trial_label = ''trial-identity''"

definition str_in :: "obj \<Rightarrow> string \<Rightarrow> string" where
  "str_in d k = text_in (get d k)"

definition check_trial_header :: "obj \<Rightarrow> unit result" where
  "check_trial_header d = seqE ([
     bm_keys d trial_keys trial_label,
     bindE (bm_text d ''schema_version'' trial_label) (\<lambda>v. guard (v = TRIAL_IDENTITY_SCHEMA_VERSION) ''unsupported BM0 trial identity schema''),
     bindE (bm_text d ''contract_version'' trial_label) (\<lambda>v. guard (v = WORK_ORDER_REVISION) ''trial identity contract version drifted'')]
     @ map (\<lambda>k. must (bm_identifier d k trial_label)) trial_identifiers)"

definition check_trial_parent :: "obj \<Rightarrow> unit result" where
  "check_trial_parent d = seqE [
     guard (optional_identifier (get d ''expected_resolved_model_or_version_id''))
       ''expected_resolved_model_or_version_id must be null or an identifier'',
     guard (optional_identifier (get d ''parent_attempt_id'')) ''parent_attempt_id must be null or an opaque identifier'',
     guard (get d ''parent_attempt_id'' = JNull \<or> get d ''parent_attempt_id'' \<noteq> get d ''attempt_id'') ''an attempt cannot be its own parent'']"

text \<open>\<open>TARGET_LINEAGE_BY_ID[...]\<close> of a target that the class table lists.\<close>

definition lineage_matches :: "obj \<Rightarrow> bool" where
  "lineage_matches d = (case TARGET_LINEAGE_BY_ID (str_in d ''target_id'') of
      None \<Rightarrow> False
    | Some r \<Rightarrow> get d ''entry_id'' = JStr (ln_entry_id r) \<and> get d ''family_id'' = JStr (ln_family_id r)
        \<and> get d ''target_class'' = JStr (ln_target_class r))"

definition check_trial_target :: "obj \<Rightarrow> unit result" where
  "check_trial_target d = seqE [
     bindE (bm_text d ''target_class'' trial_label) (\<lambda>c. guard (c \<in> set TARGET_CLASSES) ''trial identity target class is unsupported''),
     guard (str_in d ''target_id'' \<in> set (entry TARGET_IDS_BY_CLASS (str_in d ''target_class'')))
       ''trial target ID does not belong to its declared class'',
     bindE (bm_text d ''applicability_result'' trial_label) (\<lambda>a. guard (a \<in> set APPLICABILITY_RESULTS) ''trial applicability result is unsupported''),
     guard (lineage_matches d) ''trial entry/family/target lineage is inconsistent'']"

definition check_trial_pool :: "obj \<Rightarrow> unit result" where
  "check_trial_pool d =
     (let pool = str_in d ''corpus_pool_id''; parent = get d ''mutation_parent_commitment'' in seqE [
     bindE (bm_text d ''corpus_pool_id'' trial_label) (\<lambda>p. guard (p \<in> set EXPECTED_POOL_IDS) ''trial corpus pool is unsupported''),
     if pool = ''MECHANISM_PRESERVING_MUTATION'' then require_sha256 parent ''mutation_parent_commitment''
     else guard (parent = JNull) ''only mechanism-preserving mutation attempts may bind a mutation parent'',
     require_sha256 (get d ''case_fingerprint'') ''case_fingerprint'',
     bindE (bm_text d ''contamination_status'' trial_label) (\<lambda>s. guard (s \<in> set CONTAMINATION_STATUSES) ''trial contamination status is unsupported''),
     guard (map_of POOL_EXPOSURE_STATUS pool = Some (str_in d ''exposure_status'') \<and> get d ''exposure_status'' = JStr (str_in d ''exposure_status''))
       ''trial exposure status does not match its corpus lane'',
     guard (\<not> (pool = PRIMARY_ESTIMATE_POOL_ID \<and> str_in d ''contamination_status'' = ''KNOWN_EXPOSED''))
       ''known-exposed cases cannot enter the private holdout''])"

definition moving_aliases :: "string list" where
  "moving_aliases = [''latest'', ''default'', ''auto'', ''not_selected'']"

definition check_trial_subject :: "obj \<Rightarrow> unit result" where
  "check_trial_subject d =
     (let subject = map (str_in d) [''provider_subject_id'', ''model_subject_id'', ''model_snapshot_id''];
          expected = get d ''expected_resolved_model_or_version_id'';
          certainty = str_in d ''required_identity_certainty''; alias = str_in d ''alias_limitation'';
          applicability = str_in d ''applicability_result'' in seqE [
     must (bm_text d ''required_identity_certainty'' trial_label),
     must (bm_text d ''alias_limitation'' trial_label),
     if str_in d ''target_class'' = ''SYSTEM_EVAL_ONLY'' then seqE [
       guard (applicability = ''NOT_APPLICABLE'') ''system-only trials must disclose model/provider NOT_APPLICABLE'',
       guard (subject = [SYSTEM_SCOPE_ID, SYSTEM_SCOPE_ID, SYSTEM_SCOPE_ID])
         ''system-only trials must use the non-model SYSTEM_SCOPE identity'',
       guard (str_in d ''requested_model_id'' = SYSTEM_SCOPE_ID \<and> expected = JStr SYSTEM_SCOPE_ID \<and> certainty = ''SYSTEM_SCOPE''
           \<and> alias = ''NOT_APPLICABLE_SYSTEM_SCOPE'' \<and> str_in d ''endpoint_id'' = SYSTEM_SCOPE_ID
           \<and> str_in d ''capability_mode'' = ''SYSTEM_EVAL'')
         ''system-only identity fields must be explicit SYSTEM_SCOPE'']
     else if SYSTEM_SCOPE_ID \<in> set subject then Inl (ValueError ''model and agent trials cannot use the SYSTEM_SCOPE identity'')
     else if applicability \<noteq> ''APPLICABLE'' then Inl (ValueError ''model and agent trials must be declared APPLICABLE before execution'')
     else if certainty = ''EXACT'' then
       guard (expected \<noteq> JNull \<and> get d ''model_snapshot_id'' = expected \<and> alias \<in> {''NONE'', ''MOVING_ALIAS_RESOLUTION_REQUIRED''})
         ''EXACT identity requires one frozen expected resolved version''
     else if certainty = ''ALIAS_ONLY'' then
       guard (expected = JNull \<and> str_in d ''model_snapshot_id'' = ''UNRESOLVED_ALIAS'' \<and> alias = ''UNVERIFIABLE_ALIAS_DISCLOSED'')
         ''ALIAS_ONLY identity must disclose unresolved alias limits''
     else Inl (ValueError ''unsupported required identity certainty''),
     guard (lower (str_in d ''model_snapshot_id'') \<notin> set moving_aliases)
       ''model snapshot identity must be immutable, not a moving alias''])"

definition trial_digests :: "obj \<Rightarrow> unit result" where
  "trial_digests d = seqE ([
     require_sha256 (get d ''corpus_item_commitment'') ''corpus_item_commitment'',
     require_sha256 (get d ''environment_fingerprint'') ''environment_fingerprint'']
     @ map (\<lambda>k. require_sha256 (get d k) (''trial-identity.'' @ k)) trial_fingerprints)"

text \<open>\<open>None\<close> or a non-negative integer that is not a boolean.\<close>

definition optional_count :: "json \<Rightarrow> bool" where
  "optional_count v = (case v of JNull \<Rightarrow> True | JInt i \<Rightarrow> 0 \<le> i | _ \<Rightarrow> False)"

definition bounded_number :: "obj \<Rightarrow> string \<times> rat \<Rightarrow> unit result" where
  "bounded_number s km =
     (if get s (fst km) = JNull then Inr ()
      else bindE (bm_number s (fst km) ''trial-identity.sampling_controls'') (\<lambda>x.
        guard (x \<le> snd km) (''sampling_controls.'' @ fst km @ '' exceeds its frozen range'')))"

definition check_sampling :: "obj \<Rightarrow> unit result" where
  "check_sampling d =
     (let l = ''trial-identity.sampling_controls'' in
      bindE (bm_obj (get d ''sampling_controls'') l) (\<lambda>s. seqE [
      bm_keys s [''temperature'', ''top_p'', ''max_output_tokens'', ''seed'', ''automatic_retries'', ''additional_parameters_fingerprint''] l,
      bounded_number s (''temperature'', 2),
      bounded_number s (''top_p'', 1),
      must (bm_integer s ''max_output_tokens'' l 1),
      guard (optional_count (get s ''seed'')) ''sampling_controls.seed must be null or a non-negative integer'',
      bindE (bm_integer s ''automatic_retries'' l 0) (\<lambda>n. guard (n = 0) ''BM0 initial automatic_retries must remain zero''),
      require_sha256 (get s ''additional_parameters_fingerprint'') ''sampling_controls.additional_parameters_fingerprint'']))"

definition check_reasoning :: "obj \<Rightarrow> unit result" where
  "check_reasoning d =
     (let l = ''trial-identity.reasoning_controls'' in
      bindE (bm_obj (get d ''reasoning_controls'') l) (\<lambda>r. seqE [
      bm_keys r [''mode'', ''effort'', ''max_reasoning_tokens'', ''configuration_fingerprint''] l,
      one_of (get r ''mode'') [''DISABLED'', ''PROVIDER_DEFAULT'', ''FIXED''] ''reasoning_controls.mode is unsupported'',
      guard (optional_identifier (get r ''effort'')) ''reasoning_controls.effort must be null or an identifier'',
      guard (optional_count (get r ''max_reasoning_tokens'')) ''reasoning_controls.max_reasoning_tokens must be null or non-negative'',
      require_sha256 (get r ''configuration_fingerprint'') ''reasoning_controls.configuration_fingerprint'']))"

definition validate_trial_identity :: "json \<Rightarrow> obj result" where
  "validate_trial_identity document =
     bindE (bm_obj document trial_label) (\<lambda>d.
     bindE (seqE [
       check_trial_header d, check_trial_parent d, check_trial_target d, check_trial_pool d, check_trial_subject d,
       trial_digests d, check_sampling d, check_reasoning d,
       must (bm_integer d ''replicate_index'' trial_label 0),
       must (bm_integer d ''random_seed'' trial_label 0),
       assert_public_safe (JObj d)]) (\<lambda>_. Inr d))"

section \<open>The adjudication plan\<close>

definition checked_assignment :: "json \<Rightarrow> string \<Rightarrow> (string \<times> string) result" where
  "checked_assignment raw label =
     bindE (bm_obj raw label) (\<lambda>a.
     bindE (bm_keys a [''adjudicator_type'', ''adjudicator_id'', ''configuration_fingerprint''] label) (\<lambda>_.
     bindE (bm_text a ''adjudicator_type'' label) (\<lambda>t.
     bindE (guard (t = ''HUMAN'') ''final adjudication assignments must be HUMAN'') (\<lambda>_.
     bindE (bm_identifier a ''adjudicator_id'' label) (\<lambda>i.
     bindE (require_sha256 (get a ''configuration_fingerprint'') (label @ ''.configuration_fingerprint'')) (\<lambda>_.
     Inr (i, str_in a ''configuration_fingerprint'')))))))"

definition plan_label :: string where
  "plan_label = ''adjudication-plan''"

definition same_policy :: "obj \<Rightarrow> string \<Rightarrow> json \<Rightarrow> string \<Rightarrow> unit result" where
  "same_policy d k policy msg =
     bindE (bm_obj (get d k) (plan_label @ ''.'' @ k)) (\<lambda>p. guard (py_eq (JObj p) policy) msg)"

definition check_plan_policies :: "obj \<Rightarrow> unit result" where
  "check_plan_policies d = seqE [
     bm_keys d [''plan_id'', ''mode'', ''authority_order'', ''route_policy'', ''llm_judge_assistance_policy'',
       ''agreement_reporting_policy'', ''metric_ids'', ''primary_adjudicators'', ''tiebreak_adjudicator'', ''rubric_version'',
       ''rubric_fingerprint'', ''plan_fingerprint''] plan_label,
     must (bm_identifier d ''plan_id'' plan_label),
     bindE (bm_text d ''mode'' plan_label) (\<lambda>m. guard (m = ''HUMAN_HUMAN'') ''open-case final adjudication must be HUMAN_HUMAN''),
     guard (get d ''authority_order'' = jstrs ADJUDICATION_AUTHORITY_ORDER) ''adjudication authority order drifted'',
     same_policy d ''route_policy'' ADJUDICATION_ROUTE_POLICY ''adjudication route policy drifted'',
     same_policy d ''llm_judge_assistance_policy'' LLM_JUDGE_ASSISTANCE_POLICY ''LLM judge assistance policy drifted'',
     same_policy d ''agreement_reporting_policy'' AGREEMENT_REPORTING_POLICY ''adjudication agreement reporting policy drifted'',
     bindE (bm_strings d ''metric_ids'' plan_label False True) (\<lambda>ms.
       guard (set ms \<subseteq> set EXPECTED_METRIC_IDS) ''adjudication plan contains an unsupported metric''),
     must (bm_identifier d ''rubric_version'' plan_label),
     require_sha256 (get d ''rubric_fingerprint'') ''adjudication-plan.rubric_fingerprint'']"

definition primary_label :: "nat \<Rightarrow> string" where
  "primary_label i = plan_label @ ''.primary_adjudicators['' @ show_nat i @ '']''"

definition check_assignments :: "obj \<Rightarrow> unit result" where
  "check_assignments d = (case get d ''primary_adjudicators'' of
      JArr [p, q] \<Rightarrow>
        bindE (checked_assignment p (primary_label 0)) (\<lambda>a.
        bindE (checked_assignment q (primary_label 1)) (\<lambda>b.
        bindE (checked_assignment (get d ''tiebreak_adjudicator'') (plan_label @ ''.tiebreak_adjudicator'')) (\<lambda>t.
        guard (distinct [fst a, fst b, fst t]) ''adjudication plan identities must be distinct'')))
    | _ \<Rightarrow> Inl (ValueError ''adjudication plan requires exactly two primaries''))"

definition validate_adjudication_plan :: "json \<Rightarrow> obj result" where
  "validate_adjudication_plan document =
     bindE (bm_obj document plan_label) (\<lambda>d.
     bindE (seqE [check_plan_policies d, check_assignments d, assert_public_safe (JObj d)]) (\<lambda>_.
     verify_fingerprint d ''plan_fingerprint'' plan_label))"

section \<open>The commitment of the private holdout\<close>

record bindings =
  bd_alias :: "(string \<times> (string \<times> string)) list"
  bd_commitment :: "(string \<times> (string \<times> string)) list"
  bd_parents :: "string list"

definition no_bindings :: bindings where
  "no_bindings = \<lparr>bd_alias = [], bd_commitment = [], bd_parents = []\<rparr>"

text \<open>One attempt of the loop: aliases and commitments name each other within one pool.\<close>

definition bind_item :: "bindings \<Rightarrow> obj \<Rightarrow> bindings result" where
  "bind_item b a =
     (let pool = str_in a ''corpus_pool_id''; alias = str_in a ''corpus_item_alias''; commitment = str_in a ''corpus_item_commitment'';
          parent = get a ''mutation_parent_commitment'' in
      bindE (guard (map_of (bd_alias b) alias \<in> {None, Some (pool, commitment)})
        ''one corpus alias cannot cross pools or bind multiple commitments'') (\<lambda>_.
      bindE (guard (map_of (bd_commitment b) commitment \<in> {None, Some (pool, alias)})
        ''one corpus item commitment cannot cross pools or bind multiple aliases'') (\<lambda>_.
      bindE (guard (parent \<noteq> JStr commitment) ''a mutation cannot name itself as its parent commitment'') (\<lambda>_.
      Inr \<lparr>bd_alias = (alias, pool, commitment) # bd_alias b, bd_commitment = (commitment, pool, alias) # bd_commitment b,
           bd_parents = (case parent of JStr p \<Rightarrow> p # bd_parents b | _ \<Rightarrow> bd_parents b)\<rparr>))))"

definition hidden_items :: "bindings \<Rightarrow> (string \<times> string) list" where
  "hidden_items b = sort_key fst (remdups (map (\<lambda>x. (fst x, snd (snd x)))
     (filter (\<lambda>x. fst (snd x) = PRIMARY_ESTIMATE_POOL_ID) (bd_alias b))))"

definition corpus_aggregate_commitment :: "json list \<Rightarrow> string result" where
  "corpus_aggregate_commitment planned_attempts =
     bindE (mapE validate_trial_identity planned_attempts) (\<lambda>attempts.
     bindE (foldE bind_item no_bindings attempts) (\<lambda>b.
     let items = hidden_items b in
     bindE (guard (set (bd_parents b) \<inter> snd ` set items = {}) ''a mutation parent cannot belong to the private hidden holdout'') (\<lambda>_.
     Inr (sha256_json (JObj [
       (''commitment_scheme'', JStr ''B2-BM0-CORPUS-AGGREGATE-V1''),
       (''corpus_pool_id'', JStr PRIMARY_ESTIMATE_POOL_ID),
       (''item_count'', jint (length items)),
       (''items'', JArr (map (\<lambda>i. JObj [(''corpus_item_alias'', JStr (fst i)), (''corpus_item_commitment'', JStr (snd i))]) items))])))))"

section \<open>Applicability of the selected models\<close>

definition applicability_keys :: "string list" where
  "applicability_keys = [
     ''provider_subject_id'', ''model_subject_id'', ''requested_model_id'', ''entry_id'', ''target_id'',
     ''family_id'', ''target_class'', ''capability_mode'', ''applicability_result'', ''comparison_result'',
     ''reason_code'', ''evidence_fingerprint'', ''declared_before_execution'']"

definition applicability_identifiers :: "string list" where
  "applicability_identifiers = [
     ''provider_subject_id'', ''model_subject_id'', ''requested_model_id'', ''entry_id'', ''target_id'',
     ''family_id'', ''target_class'', ''capability_mode'', ''applicability_result'', ''comparison_result'',
     ''reason_code'']"

definition check_declaration :: "string \<Rightarrow> obj \<Rightarrow> unit result" where
  "check_declaration l row = seqE ([bm_keys row applicability_keys l]
     @ map (\<lambda>k. must (bm_identifier row k l)) applicability_identifiers
     @ [guard (list_all (\<lambda>k. str_in row k \<noteq> SYSTEM_SCOPE_ID) [''provider_subject_id'', ''model_subject_id'', ''requested_model_id''])
          ''per-model applicability records require a real provider/model subject'',
        guard (str_in row ''applicability_result'' \<in> set APPLICABILITY_RESULTS) ''unsupported model applicability result'',
        guard (str_in row ''reason_code'' \<in> set APPLICABILITY_REASON_CODES) ''unsupported model applicability reason'',
        require_sha256 (get row ''evidence_fingerprint'') (l @ ''.evidence_fingerprint''),
        bindE (bm_boolean row ''declared_before_execution'' l) (\<lambda>b. guard b ''applicability must be declared before execution''),
        guard (case TARGET_LINEAGE_BY_ENTRY (str_in row ''entry_id'') of
            None \<Rightarrow> False
          | Some r \<Rightarrow> str_in row ''target_id'' = ln_target_id r \<and> str_in row ''family_id'' = ln_family_id r
              \<and> str_in row ''target_class'' = ln_target_class r)
          ''model applicability lineage drifted''])"

text \<open>The comparison result and the reason that a declaration must carry.\<close>

definition expected_semantics :: "string \<Rightarrow> obj \<Rightarrow> (string \<times> string \<times> string) result" where
  "expected_semantics sandbox_status row =
     (let reason = str_in row ''reason_code'' in
      if str_in row ''target_class'' = ''SYSTEM_EVAL_ONLY'' then
        bindE (guard (str_in row ''capability_mode'' = ''SYSTEM_EVAL'') ''system-only applicability must use SYSTEM_EVAL capability mode'') (\<lambda>_.
        Inr (''NOT_APPLICABLE'', ''NOT_APPLICABLE'', ''SYSTEM_EVAL_ONLY_NO_MODEL_TRIAL''))
      else if str_in row ''applicability_result'' = ''NOT_APPLICABLE'' then
        bindE (guard (reason \<in> {''PROVIDER_CAPABILITY_UNAVAILABLE'', ''DECLARED_ENVIRONMENT_UNSUPPORTED''})
          ''non-system NOT_APPLICABLE requires a capability/environment reason'') (\<lambda>_.
        Inr (''NOT_APPLICABLE'', ''NOT_APPLICABLE'', reason))
      else Inr (''APPLICABLE'',
        (if str_in row ''target_class'' = ''AGENT_STANDARDIZED''
         then (if sandbox_status = ''ESTABLISHED'' then ''COMPARABLE_AFTER_SANDBOX_EQUIVALENCE'' else ''COMPARABILITY_LIMIT'')
         else ''DEFAULT_COMPARABLE''),
        ''DECLARED_CAPABILITY_SUPPORTED''))"

record applicability =
  ap_records :: "obj list"
  ap_subjects :: "(string \<times> (string \<times> string)) list"

definition declarations :: "applicability \<Rightarrow> string \<Rightarrow> obj list" where
  "declarations a subject = filter (\<lambda>r. str_in r ''model_subject_id'' = subject) (ap_records a)"

definition declaration_step :: "string \<Rightarrow> applicability \<Rightarrow> nat \<times> json \<Rightarrow> applicability result" where
  "declaration_step sandbox_status a iv =
     (let l = ''model-applicability['' @ show_nat (fst iv) @ '']'' in
      bindE (bm_obj (snd iv) l) (\<lambda>row.
      bindE (check_declaration l row) (\<lambda>_.
      bindE (expected_semantics sandbox_status row) (\<lambda>(result, comparison, reason).
      bindE (guard (str_in row ''applicability_result'' = result \<and> str_in row ''comparison_result'' = comparison
          \<and> str_in row ''reason_code'' = reason) ''model applicability semantics drifted'') (\<lambda>_.
      let subject = str_in row ''model_subject_id''; binding = (str_in row ''provider_subject_id'', str_in row ''requested_model_id'') in
      bindE (guard (map_of (ap_subjects a) subject \<in> {None, Some binding})
        ''one applicability subject cannot span providers or requested models'') (\<lambda>_.
      bindE (guard (str_in row ''entry_id'' \<notin> set (map (\<lambda>r. str_in r ''entry_id'') (declarations a subject)))
        ''duplicate provider/model applicability entry'') (\<lambda>_.
      Inr \<lparr>ap_records = ap_records a @ [row], ap_subjects = (subject, binding) # ap_subjects a\<rparr>)))))))"

definition validate_model_applicability_records :: "json \<Rightarrow> string \<Rightarrow> bool \<Rightarrow> applicability result" where
  "validate_model_applicability_records records sandbox_status require_selected_subject = (case records of
      JArr rows \<Rightarrow>
        bindE (guard (\<not> (require_selected_subject \<and> rows = [])) ''a frozen selected roster requires per-model applicability records'') (\<lambda>_.
        bindE (guard (sandbox_status \<in> {''NOT_ESTABLISHED'', ''ESTABLISHED''}) ''unsupported sandbox equivalence status'') (\<lambda>_.
        bindE (foldE (declaration_step sandbox_status) \<lparr>ap_records = [], ap_subjects = []\<rparr> (enumerate 0 rows)) (\<lambda>a.
        bindE (mapE (\<lambda>s. guard (set (map (\<lambda>r. str_in r ''entry_id'') (declarations a s)) = set (map ln_entry_id CANONICAL_FAMILY_LINEAGE))
            (s @ '' must disclose applicability for all 16 formal entries''))
          (firsts (map (\<lambda>r. str_in r ''model_subject_id'') (ap_records a)))) (\<lambda>_.
        Inr a))))
    | _ \<Rightarrow> Inl (ValueError ''model_applicability must be an array''))"

end
