(* ===== verification/BmManifest.thy ===== *)
theory BmManifest
  imports BmTrial
begin

text \<open>
  The benchmark manifest of \<open>src/b2/bm0.py\<close>: its validator, which ties the planned attempts to
  their cases, subjects, applicability declarations and retry chains, and the outcome-blind
  stopping rule that reads only identities and presence.
\<close>

section \<open>The manifest\<close>

definition manifest_keys :: "string list" where
  "manifest_keys = [
     ''schema_version'', ''manifest_id'', ''contract_id'', ''contract_revision'', ''implementation_base_sha'',
     ''study_state'', ''provider_roster_status'', ''corpus_commitment_status'', ''corpus_aggregate_commitment'',
     ''adjudication_mode'', ''adjudication_plan'', ''frozen_before_hidden_access'', ''hidden_holdout_authority'',
     ''comparison_classes'', ''sandbox_equivalence'', ''model_applicability'', ''artifact_fingerprints'',
     ''planned_attempts'', ''planned_attempt_count'', ''stop_rule'', ''manifest_fingerprint'']"

definition retry_identity_fields :: "string list" where
  "retry_identity_fields = [
     ''benchmark_id'', ''contract_version'', ''study_id'', ''trial_id'', ''provider_subject_id'',
     ''model_subject_id'', ''model_snapshot_id'', ''requested_model_id'', ''expected_resolved_model_or_version_id'',
     ''required_identity_certainty'', ''alias_limitation'', ''endpoint_id'', ''capability_mode'',
     ''system_wrapper_version'', ''developer_wrapper_version'', ''sampling_controls'', ''reasoning_controls'',
     ''target_id'', ''target_class'', ''applicability_result'', ''entry_id'', ''family_id'', ''case_id'',
     ''variant_id'', ''mechanism_lineage_id'', ''case_fingerprint'', ''generator_or_mutation_version'',
     ''contamination_status'', ''exposure_status'', ''corpus_pool_id'', ''corpus_item_alias'',
     ''corpus_item_commitment'', ''mutation_parent_commitment'', ''prompt_template_version'', ''prompt_fingerprint'',
     ''context_fingerprint'', ''tool_schema_fingerprint'', ''sandbox_fingerprint'', ''state_machine_fingerprint'',
     ''harness_version'', ''adapter_id'', ''adapter_version'', ''scorer_id'', ''scorer_version'',
     ''scorer_fingerprint'', ''oracle_id'', ''oracle_version'', ''oracle_fingerprint'', ''replicate_index'',
     ''random_seed'', ''environment_fingerprint'']"

definition manifest_label :: string where
  "manifest_label = ''benchmark-manifest''"

definition at_label :: "string \<Rightarrow> string" where
  "at_label k = manifest_label @ ''.'' @ k"

definition check_manifest_header :: "obj \<Rightarrow> unit result" where
  "check_manifest_header d = seqE [
     bm_keys d manifest_keys manifest_label,
     bindE (bm_text d ''schema_version'' manifest_label) (\<lambda>v. guard (v = MANIFEST_SCHEMA_VERSION) ''unsupported BM0 benchmark manifest schema''),
     must (bm_identifier d ''manifest_id'' manifest_label),
     guard (get d ''contract_id'' = JStr WORK_ORDER_ID \<and> get d ''contract_revision'' = JStr WORK_ORDER_REVISION)
       ''manifest work-order binding drifted'',
     bindE (require_git_sha (get d ''implementation_base_sha'') ''implementation_base_sha'') (\<lambda>_.
       guard (get d ''implementation_base_sha'' = JStr IMPLEMENTATION_BASE_SHA) ''manifest implementation baseline drifted''),
     bindE (bm_text d ''study_state'' manifest_label) (\<lambda>s. guard (s \<in> {''DESIGN_ONLY'', ''FROZEN''}) ''manifest study state is unsupported''),
     must (bm_text d ''provider_roster_status'' manifest_label),
     must (bm_text d ''corpus_commitment_status'' manifest_label),
     if get d ''corpus_aggregate_commitment'' = JNull then Inr ()
     else require_sha256 (get d ''corpus_aggregate_commitment'') (at_label ''corpus_aggregate_commitment''),
     must (bm_text d ''adjudication_mode'' manifest_label),
     if get d ''adjudication_plan'' = JNull then Inr () else must (validate_adjudication_plan (get d ''adjudication_plan'')),
     bindE (bm_boolean d ''frozen_before_hidden_access'' manifest_label) (\<lambda>b. guard b ''manifest must freeze before hidden-corpus access'')]"

definition authority_keys :: "string list" where
  "authority_keys = [''binding_status'', ''authority_type'', ''authority_id'', ''authority_fingerprint'',
     ''public_repository_content_status'', ''secret_locator_in_public_repository'']"

definition check_hidden_authority :: "obj \<Rightarrow> unit result" where
  "check_hidden_authority d =
     (let l = at_label ''hidden_holdout_authority''; unbound = ''PRIVATE_HIDDEN_HOLDOUT requires an external authority binding'' in
      bindE (bm_obj (get d ''hidden_holdout_authority'') l) (\<lambda>h. seqE [
      bm_keys h authority_keys l,
      guard (get h ''binding_status'' = JStr ''BOUND'') unbound,
      one_of (get h ''authority_type'') [''PRIVATE_FILE_ID'', ''PRIVATE_ARCHIVE_ID'', ''NOT_IN_PUBLIC_REPO_DECLARATION''] unbound,
      guard (get h ''public_repository_content_status'' = JStr ''ABSENT''
          \<and> get h ''secret_locator_in_public_repository'' = JBool False) unbound,
      must (bm_identifier h ''authority_id'' l),
      require_sha256 (get h ''authority_fingerprint'') (l @ ''.authority_fingerprint''),
      guard (\<not> (get h ''authority_type'' = JStr ''NOT_IN_PUBLIC_REPO_DECLARATION''
          \<and> (get h ''authority_id'' \<noteq> JStr HIDDEN_HOLDOUT_DECLARATION_ID
              \<or> get h ''authority_fingerprint'' \<noteq> JStr (sha256_json HIDDEN_HOLDOUT_DECLARATION))))
        ''public NOT_IN_PUBLIC_REPO authority declaration is not exact or verifiable'']))"

definition check_evidence_ref :: "nat \<times> json \<Rightarrow> unit result" where
  "check_evidence_ref iv =
     (let l = ''sandbox.evidence_refs['' @ show_nat (fst iv) @ '']'' in
      bindE (bm_obj (snd iv) l) (\<lambda>r. seqE [
      bm_keys r [''evidence_type'', ''evidence_id'', ''evidence_fingerprint''] l,
      bindE (bm_text r ''evidence_type'' l) (\<lambda>t. guard (t \<in> set SANDBOX_EQUIVALENCE_EVIDENCE_TYPES)
        ''sandbox equivalence evidence type is unsupported''),
      must (bm_identifier r ''evidence_id'' l),
      require_sha256 (get r ''evidence_fingerprint'') ''sandbox evidence fingerprint'']))"

definition sandbox_status :: "obj \<Rightarrow> string" where
  "sandbox_status d = text_at (get d ''sandbox_equivalence'') ''status''"

definition comparison_classes :: "obj \<Rightarrow> string list" where
  "comparison_classes d = map text_in (elements_of (get d ''comparison_classes''))"

definition check_sandbox :: "obj \<Rightarrow> unit result" where
  "check_sandbox d =
     (let l = at_label ''sandbox_equivalence''; refs = elements_of (field (get d ''sandbox_equivalence'') ''evidence_refs'');
          classes = comparison_classes d in
      bindE (bm_obj (get d ''sandbox_equivalence'') l) (\<lambda>s. seqE [
      bm_keys s [''status'', ''evidence_refs''] l,
      must (bm_text s ''status'' l),
      guard (case get s ''evidence_refs'' of JArr _ \<Rightarrow> True | _ \<Rightarrow> False) ''sandbox equivalence evidence_refs must be an array'',
      must (mapE check_evidence_ref (enumerate 0 refs)),
      guard (distinct (map (\<lambda>r. text_at r ''evidence_id'') refs)) ''sandbox equivalence evidence IDs must be unique'',
      must (bm_strings d ''comparison_classes'' manifest_label False True),
      if sandbox_status d = ''NOT_ESTABLISHED'' then
        guard (refs = [] \<and> classes = DEFAULT_COMPARABLE_CLASSES) ''unproven sandbox equivalence cannot expand comparability''
      else if sandbox_status d = ''ESTABLISHED'' then
        guard (map (\<lambda>r. text_at r ''evidence_type'') refs = SANDBOX_EQUIVALENCE_EVIDENCE_TYPES
            \<and> classes = DEFAULT_COMPARABLE_CLASSES @ [''AGENT_STANDARDIZED''])
          ''established equivalence requires evidence and exact expansion''
      else Inl (ValueError ''unsupported sandbox equivalence status''),
      guard (''SYSTEM_EVAL_ONLY'' \<notin> set classes) ''system-only targets can never enter model comparison'']))"

definition declared_applicability :: "obj \<Rightarrow> applicability result" where
  "declared_applicability d =
     validate_model_applicability_records (get d ''model_applicability'') (sandbox_status d) (get d ''study_state'' = JStr ''FROZEN'')"

definition check_artifacts :: "obj \<Rightarrow> obj option \<Rightarrow> unit result" where
  "check_artifacts d expected =
     (let l = at_label ''artifact_fingerprints'' in
      bindE (bm_obj (get d ''artifact_fingerprints'') l) (\<lambda>a. seqE [
      bm_keys a MANIFEST_ARTIFACT_FINGERPRINT_KEYS l,
      seqE (map (\<lambda>kv. require_sha256 (snd kv) (''artifact_fingerprints.'' @ fst kv)) a),
      guard (\<not> (get d ''study_state'' = JStr ''FROZEN'' \<and> expected = None))
        ''a FROZEN manifest requires independently supplied artifact fingerprints'',
      guard (case expected of None \<Rightarrow> True | Some e \<Rightarrow> py_eq (JObj a) (JObj e)) ''manifest artifact fingerprint binding drifted'']))"

section \<open>The planned attempts\<close>

definition attempts_of :: "obj \<Rightarrow> obj list" where
  "attempts_of d = map items_of (elements_of (get d ''planned_attempts''))"

definition check_attempts :: "obj \<Rightarrow> unit result" where
  "check_attempts d =
     (let attempts = attempts_of d in seqE [
      guard (case get d ''planned_attempts'' of JArr _ \<Rightarrow> True | _ \<Rightarrow> False) ''planned_attempts must be an array'',
      must (mapE validate_trial_identity (elements_of (get d ''planned_attempts''))),
      bindE (bm_integer d ''planned_attempt_count'' manifest_label 0) (\<lambda>n.
        guard (n = int (length attempts)) ''planned_attempt_count does not match planned_attempts''),
      guard (distinct (map (\<lambda>a. str_in a ''attempt_id'') attempts)) ''planned attempt IDs must be unique'',
      guard (length (remdups (map (\<lambda>a. str_in a ''study_id'') attempts)) \<le> 1) ''a frozen manifest cannot mix study identities'',
      must (corpus_aggregate_commitment (elements_of (get d ''planned_attempts'')))])"

definition case_binding :: "obj \<Rightarrow> json list" where
  "case_binding a = map (get a) [''target_id'', ''entry_id'', ''family_id'', ''variant_id'', ''mechanism_lineage_id'',
     ''case_fingerprint'', ''generator_or_mutation_version'', ''contamination_status'', ''exposure_status'',
     ''corpus_pool_id'', ''corpus_item_alias'', ''corpus_item_commitment'']"

definition subject_binding :: "obj \<Rightarrow> json list" where
  "subject_binding a = map (get a) [''provider_subject_id'', ''model_snapshot_id'', ''requested_model_id'',
     ''expected_resolved_model_or_version_id'', ''required_identity_certainty'', ''alias_limitation'']"

definition backed_by :: "obj list \<Rightarrow> obj \<Rightarrow> bool" where
  "backed_by rows a = (case find (\<lambda>r. get r ''entry_id'' = get a ''entry_id'') rows of
      None \<Rightarrow> False
    | Some r \<Rightarrow> list_all (\<lambda>k. get r k = get a k) [''provider_subject_id'', ''requested_model_id'', ''target_id'', ''capability_mode'']
        \<and> get r ''applicability_result'' = JStr ''APPLICABLE'')"

type_synonym binding_state = "(string \<times> json list) list \<times> (string \<times> json list) list"

definition bind_attempt :: "applicability \<Rightarrow> binding_state \<Rightarrow> obj \<Rightarrow> binding_state result" where
  "bind_attempt ap st a =
     (let (cases, subjects) = st; case_id = str_in a ''case_id''; subject = str_in a ''model_subject_id'' in
      bindE (guard (map_of cases case_id \<in> {None, Some (case_binding a)}) ''one case_id cannot masquerade as multiple case variants'') (\<lambda>_.
      let cases = (case_id, case_binding a) # cases in
      if str_in a ''target_class'' = ''SYSTEM_EVAL_ONLY'' then Inr (cases, subjects)
      else
        bindE (guard (map_of subjects subject \<in> {None, Some (subject_binding a)})
          ''one model subject cannot aggregate multiple providers or snapshots'') (\<lambda>_.
        bindE (guard (declarations ap subject \<noteq> []) ''planned model attempt lacks a complete applicability disclosure'') (\<lambda>_.
        bindE (guard (backed_by (declarations ap subject) a) ''planned model attempt is not backed by an APPLICABLE declaration'') (\<lambda>_.
        Inr (cases, (subject, subject_binding a) # subjects))))))"

text \<open>
  One attempt of the retry loop, with the attempts before it: a parent is planned, comes
  earlier, and is the same trial in every identity field.
\<close>

definition find_attempt :: "obj list \<Rightarrow> string \<Rightarrow> obj option" where
  "find_attempt attempts i = find (\<lambda>a. str_in a ''attempt_id'' = i) attempts"

definition check_retry_parent :: "obj list \<Rightarrow> obj list \<Rightarrow> obj \<Rightarrow> unit result" where
  "check_retry_parent attempts before a = (case get a ''parent_attempt_id'' of
      JStr p \<Rightarrow> (case find_attempt attempts p of
          None \<Rightarrow> Inl (ValueError ''retry parent must be present in the frozen manifest'')
        | Some parent \<Rightarrow>
            bindE (guard (find_attempt before p \<noteq> None) ''retry parent must precede its child in manifest order'') (\<lambda>_.
            guard (list_all (\<lambda>k. py_eq (get a k) (get parent k)) retry_identity_fields) ''retry attempt identity drifted from its parent''))
    | _ \<Rightarrow> Inr ())"

definition parents_of :: "obj list \<Rightarrow> string list" where
  "parents_of attempts = concat (map (\<lambda>a. case get a ''parent_attempt_id'' of JStr p \<Rightarrow> [p] | _ \<Rightarrow> []) attempts)"

definition check_retries :: "obj list \<Rightarrow> unit result" where
  "check_retries attempts = seqE [
     must (mapE (\<lambda>ia. check_retry_parent attempts (take (fst ia) attempts) (snd ia)) (enumerate 0 attempts)),
     guard (distinct (parents_of attempts)) ''retry chains cannot branch'',
     guard (list_all (\<lambda>t. length (filter (\<lambda>a. str_in a ''trial_id'' = t \<and> get a ''parent_attempt_id'' = JNull) attempts) = 1)
         (remdups (map (\<lambda>a. str_in a ''trial_id'') attempts)))
       ''each trial must have exactly one root attempt'']"

definition check_plan :: "obj \<Rightarrow> unit result" where
  "check_plan d =
     bindE (declared_applicability d) (\<lambda>ap. seqE [
     must (foldE (bind_attempt ap) ([], []) (attempts_of d)),
     check_retries (attempts_of d),
     guard (list_all (\<lambda>a. str_in a ''target_class'' \<in> set (comparison_classes d) \<or> str_in a ''target_class'' = ''SYSTEM_EVAL_ONLY'')
         (attempts_of d)) ''planned model/agent attempts must stay inside comparison classes''])"

section \<open>Stop rule and study state\<close>

definition forbidden_event_fields :: "string list" where
  "forbidden_event_fields = [''terminal_status'', ''model_failure_value'', ''score'', ''output'', ''adjudication_decision'']"

definition check_stop_rule :: "obj \<Rightarrow> unit result" where
  "check_stop_rule d =
     (let l = at_label ''stop_rule''; msg = ''manifest stop rule is not the frozen no-peeking method'' in
      bindE (bm_obj (get d ''stop_rule'') l) (\<lambda>s. seqE [
      bm_keys s [''method_id'', ''outcome_blind'', ''required_event_fields'', ''forbidden_event_fields'', ''planned_attempt_count''] l,
      guard (get s ''method_id'' = sap_method 0) msg,
      bindE (bm_boolean s ''outcome_blind'' l) (\<lambda>b. guard b msg),
      bindE (bm_strings s ''required_event_fields'' l False True) (\<lambda>ks. guard (ks = [''attempt_id'', ''recorded'']) msg),
      bindE (bm_strings s ''forbidden_event_fields'' l False True) (\<lambda>ks. guard (set ks = set forbidden_event_fields) msg),
      bindE (bm_integer s ''planned_attempt_count'' l 0) (\<lambda>n. guard (JInt n = get d ''planned_attempt_count'') msg)]))"

definition hidden_attempts :: "obj list \<Rightarrow> obj list" where
  "hidden_attempts attempts = filter (\<lambda>a. str_in a ''corpus_pool_id'' = PRIMARY_ESTIMATE_POOL_ID) attempts"

definition check_study_state :: "obj \<Rightarrow> unit result" where
  "check_study_state d =
     (if get d ''study_state'' = JStr ''DESIGN_ONLY'' then
        guard (get d ''provider_roster_status'' = JStr ''NOT_SELECTED'' \<and> get d ''corpus_commitment_status'' = JStr ''NOT_COMMITTED''
            \<and> get d ''corpus_aggregate_commitment'' = JNull \<and> get d ''adjudication_mode'' = JStr ''NOT_SELECTED''
            \<and> get d ''adjudication_plan'' = JNull \<and> attempts_of d = [] \<and> sandbox_status d = ''NOT_ESTABLISHED''
            \<and> elements_of (get d ''model_applicability'') = [])
          ''design-only template cannot select roster/corpus/adjudication''
      else
        bindE (corpus_aggregate_commitment (elements_of (get d ''planned_attempts''))) (\<lambda>expected.
        guard (get d ''provider_roster_status'' = JStr ''SELECTED'' \<and> get d ''corpus_commitment_status'' = JStr ''SEALED''
            \<and> get d ''corpus_aggregate_commitment'' = JStr expected \<and> get d ''adjudication_mode'' = JStr ''HUMAN_HUMAN''
            \<and> get d ''adjudication_plan'' \<noteq> JNull \<and> attempts_of d \<noteq> [] \<and> hidden_attempts (attempts_of d) \<noteq> [])
          ''frozen execution manifest is incomplete''))"

definition validate_benchmark_manifest :: "json \<Rightarrow> obj option \<Rightarrow> obj result" where
  "validate_benchmark_manifest document expected =
     bindE (bm_obj document manifest_label) (\<lambda>d.
     bindE (seqE [
       check_manifest_header d, check_hidden_authority d, check_sandbox d, must (declared_applicability d),
       check_artifacts d expected, check_attempts d, check_plan d, check_stop_rule d, check_study_state d,
       assert_public_safe (JObj d)]) (\<lambda>_.
     verify_fingerprint d ''manifest_fingerprint'' manifest_label))"

section \<open>The stopping rule\<close>

definition event_label :: "nat \<Rightarrow> string" where
  "event_label i = ''collection_events['' @ show_nat i @ '']''"

definition event_step :: "string list \<Rightarrow> (string \<times> bool) list \<Rightarrow> nat \<times> json \<Rightarrow> (string \<times> bool) list result" where
  "event_step planned seen iv =
     (let l = event_label (fst iv) in
      bindE (bm_obj (snd iv) l) (\<lambda>e.
      bindE (bm_keys e [''attempt_id'', ''recorded''] l) (\<lambda>_.
      bindE (bm_identifier e ''attempt_id'' l) (\<lambda>i.
      bindE (bm_boolean e ''recorded'' l) (\<lambda>r.
      bindE (guard (i \<in> set planned) ''collection event references an unplanned attempt'') (\<lambda>_.
      bindE (guard (i \<notin> fst ` set seen) ''collection event attempt IDs must be unique'') (\<lambda>_.
      Inr (seen @ [(i, r)]))))))))"

definition planned_ids :: "obj \<Rightarrow> string list" where
  "planned_ids m = map (\<lambda>a. str_in a ''attempt_id'') (attempts_of m)"

definition frozen_manifest :: "json \<Rightarrow> obj option \<Rightarrow> string \<Rightarrow> obj result" where
  "frozen_manifest manifest expected msg =
     bindE (validate_benchmark_manifest manifest expected) (\<lambda>m.
     bindE (guard (get m ''study_state'' = JStr ''FROZEN'') msg) (\<lambda>_. Inr m))"

definition fixed_attempt_stop :: "json \<Rightarrow> json list \<Rightarrow> obj \<Rightarrow> obj result" where
  "fixed_attempt_stop manifest events expected =
     bindE (frozen_manifest manifest (Some expected) ''the stop rule requires a FROZEN manifest'') (\<lambda>m.
     bindE (foldE (event_step (planned_ids m)) [] (enumerate 0 events)) (\<lambda>seen.
     let recorded = map fst (filter snd seen); missing = sort (filter (\<lambda>i. i \<notin> set recorded) (planned_ids m)) in
     Inr [(''method_id'', sap_method 0),
          (''decision'', JStr (if missing = [] then ''STOP'' else ''CONTINUE'')),
          (''planned_attempt_count'', jint (length (planned_ids m))),
          (''recorded_attempt_count'', jint (length recorded)),
          (''missing_attempt_ids'', jstrs missing),
          (''outcome_fields_observed'', JArr [])]))"

end
