(* ===== verification/BmObservation.thy ===== *)
theory BmObservation
  imports BmManifest
begin

text \<open>
  Observations of \<open>src/b2/bm0.py\<close>: the validator of one observation, with the semantics of its
  terminal, and the identity grid that matches the observations of a study to the attempts
  its frozen manifest planned.
\<close>

section \<open>One observation\<close>

definition observation_keys :: "string list" where
  "observation_keys = [
     ''schema_version'', ''benchmark_id'', ''contract_version'', ''attempt_id'', ''trial_id'',
     ''provider_subject_id'', ''model_subject_id'', ''requested_model_id'', ''resolved_model_or_version_id'',
     ''identity_certainty'', ''alias_limitation'', ''provider_request_id'', ''endpoint_id'', ''capability_mode'',
     ''system_wrapper_version'', ''developer_wrapper_version'', ''sampling_controls_fingerprint'',
     ''reasoning_controls_fingerprint'', ''target_id'', ''target_class'', ''applicability_result'', ''entry_id'',
     ''family_id'', ''case_id'', ''variant_id'', ''mechanism_lineage_id'', ''case_fingerprint'',
     ''generator_or_mutation_version'', ''contamination_status'', ''exposure_status'', ''corpus_item_alias'',
     ''replicate_index'', ''prompt_fingerprint'', ''context_fingerprint'', ''tool_schema_fingerprint'',
     ''sandbox_fingerprint'', ''state_machine_fingerprint'', ''timestamps'', ''raw_response_fingerprint'',
     ''scorer_id'', ''scorer_version'', ''scorer_fingerprint'', ''oracle_id'', ''oracle_version'',
     ''oracle_fingerprint'', ''evidence_receipt_fingerprint'', ''usage'', ''latency'', ''cost'',
     ''provider_terminal_status'', ''provider_http_status'', ''terminal_status'', ''unknown_disposition'',
     ''model_failure_value'', ''system_invariant_failure_value'', ''evidence_complete'', ''hard_invariant_pass'',
     ''adjudication_status'', ''observation_fingerprint'']"

definition observation_identifiers :: "string list" where
  "observation_identifiers = [
     ''benchmark_id'', ''attempt_id'', ''trial_id'', ''provider_subject_id'', ''model_subject_id'',
     ''requested_model_id'', ''endpoint_id'', ''capability_mode'', ''system_wrapper_version'',
     ''developer_wrapper_version'', ''target_id'', ''entry_id'', ''family_id'', ''case_id'', ''variant_id'',
     ''mechanism_lineage_id'', ''generator_or_mutation_version'', ''corpus_item_alias'', ''scorer_id'',
     ''scorer_version'', ''oracle_id'', ''oracle_version'']"

definition observation_fingerprints :: "string list" where
  "observation_fingerprints = [
     ''sampling_controls_fingerprint'', ''reasoning_controls_fingerprint'', ''prompt_fingerprint'',
     ''context_fingerprint'', ''tool_schema_fingerprint'', ''sandbox_fingerprint'', ''state_machine_fingerprint'',
     ''scorer_fingerprint'', ''oracle_fingerprint'']"

definition obs_label :: string where
  "obs_label = ''bm0-observation''"

definition check_obs_header :: "obj \<Rightarrow> unit result" where
  "check_obs_header d = seqE ([
     bm_keys d observation_keys obs_label,
     bindE (bm_text d ''schema_version'' obs_label) (\<lambda>v. guard (v = OBSERVATION_SCHEMA_VERSION) ''unsupported BM0 observation schema''),
     bindE (bm_text d ''contract_version'' obs_label) (\<lambda>v. guard (v = WORK_ORDER_REVISION) ''observation contract version drifted'')]
     @ map (\<lambda>k. must (bm_identifier d k obs_label)) observation_identifiers
     @ map (\<lambda>k. guard (optional_identifier (get d k)) (obs_label @ ''.'' @ k @ '' must be null or an identifier''))
         [''resolved_model_or_version_id'', ''provider_request_id''])"

definition text_among :: "obj \<Rightarrow> string \<Rightarrow> string list \<Rightarrow> string \<Rightarrow> unit result" where
  "text_among d k allowed msg = bindE (bm_text d k obs_label) (\<lambda>s. guard (s \<in> set allowed) msg)"

definition alias_limitations :: "string list" where
  "alias_limitations = [''NONE'', ''MOVING_ALIAS_RESOLUTION_REQUIRED'', ''UNVERIFIABLE_ALIAS_DISCLOSED'', ''NOT_APPLICABLE_SYSTEM_SCOPE'']"

definition check_obs_target :: "obj \<Rightarrow> unit result" where
  "check_obs_target d = seqE [
     bindE (bm_text d ''target_class'' obs_label) (\<lambda>c.
       guard (c \<in> set TARGET_CLASSES \<and> str_in d ''target_id'' \<in> set (entry TARGET_IDS_BY_CLASS c)) ''observation target identity is inconsistent''),
     text_among d ''applicability_result'' APPLICABILITY_RESULTS ''observation applicability result is unsupported'',
     guard (lineage_matches d) ''observation canonical family lineage is inconsistent'',
     require_sha256 (get d ''case_fingerprint'') (obs_label @ ''.case_fingerprint''),
     text_among d ''contamination_status'' CONTAMINATION_STATUSES ''observation contamination status is unsupported'',
     text_among d ''exposure_status'' (map snd POOL_EXPOSURE_STATUS) ''observation exposure status is unsupported'',
     text_among d ''identity_certainty'' [''EXACT'', ''ALIAS_ONLY'', ''UNKNOWN'', ''SYSTEM_SCOPE''] ''observation identity certainty is unsupported'',
     text_among d ''alias_limitation'' alias_limitations ''observation alias limitation is unsupported'']"

definition system_only :: "obj \<Rightarrow> bool" where
  "system_only d \<longleftrightarrow> str_in d ''target_class'' = ''SYSTEM_EVAL_ONLY''"

definition subject_fields :: "string list" where
  "subject_fields = [''provider_subject_id'', ''model_subject_id'', ''requested_model_id'', ''resolved_model_or_version_id'', ''endpoint_id'']"

definition check_obs_subject :: "obj \<Rightarrow> unit result" where
  "check_obs_subject d =
     (let applicability = str_in d ''applicability_result''; certainty = str_in d ''identity_certainty'';
          alias = str_in d ''alias_limitation''; resolved = get d ''resolved_model_or_version_id'' in
      if system_only d then seqE [
        guard (applicability = ''NOT_APPLICABLE'') ''system observation must disclose model/provider NOT_APPLICABLE'',
        guard (list_all (\<lambda>k. get d k = JStr SYSTEM_SCOPE_ID) subject_fields) ''system-only observations cannot identify a model subject'',
        guard (certainty = ''SYSTEM_SCOPE'' \<and> alias = ''NOT_APPLICABLE_SYSTEM_SCOPE'' \<and> get d ''provider_request_id'' = JNull
            \<and> str_in d ''capability_mode'' = ''SYSTEM_EVAL'') ''system-only runtime identity must be explicit'']
      else if list_ex (\<lambda>k. get d k = JStr SYSTEM_SCOPE_ID) subject_fields then
        Inl (ValueError ''model and agent observations cannot use SYSTEM_SCOPE'')
      else if applicability \<noteq> ''APPLICABLE'' then Inl (ValueError ''model and agent observations require an APPLICABLE declaration'')
      else if certainty = ''EXACT'' then
        guard (resolved \<noteq> JNull \<and> alias \<in> {''NONE'', ''MOVING_ALIAS_RESOLUTION_REQUIRED''})
          ''EXACT observations require one resolved model version''
      else if certainty = ''ALIAS_ONLY'' then
        guard (resolved = JNull \<and> alias = ''UNVERIFIABLE_ALIAS_DISCLOSED'')
          ''ALIAS_ONLY observations must preserve the disclosed limitation''
      else if certainty = ''UNKNOWN'' then
        guard (resolved = JNull \<and> alias \<noteq> ''NOT_APPLICABLE_SYSTEM_SCOPE'')
          ''UNKNOWN observations cannot assert a resolved model or system-only limitation''
      else Inl (ValueError ''non-system observations cannot use SYSTEM_SCOPE certainty''))"

definition check_obs_times :: "obj \<Rightarrow> unit result" where
  "check_obs_times d =
     (let l = obs_label @ ''.timestamps'' in
      bindE (bm_obj (get d ''timestamps'') l) (\<lambda>t.
      bindE (bm_keys t [''request_started_at'', ''response_completed_at''] l) (\<lambda>_.
      bindE (bm_timestamp t ''request_started_at'' l) (\<lambda>started.
      bindE (bm_timestamp t ''response_completed_at'' l) (\<lambda>completed.
      guard (started \<le> completed) ''observation timestamps are reversed'')))))"

definition check_obs_receipts :: "obj \<Rightarrow> unit result" where
  "check_obs_receipts d = seqE (map (\<lambda>k. if get d k = JNull then Inr () else require_sha256 (get d k) (obs_label @ ''.'' @ k))
     [''raw_response_fingerprint'', ''evidence_receipt_fingerprint''])"

section \<open>Provider accounting\<close>

definition accounting_status :: "obj \<Rightarrow> string \<Rightarrow> string" where
  "accounting_status d k = text_at (get d k) ''attribution_status''"

definition token_keys :: "string list" where
  "token_keys = [''input_tokens'', ''output_tokens'', ''total_tokens'']"

definition all_null :: "obj \<Rightarrow> string list \<Rightarrow> bool" where
  "all_null d ks \<longleftrightarrow> list_all (\<lambda>k. get d k = JNull) ks"

definition check_usage :: "obj \<Rightarrow> unit result" where
  "check_usage u =
     (if get u ''attribution_status'' = JStr ''ATTRIBUTABLE'' then
        bindE (mapE (\<lambda>k. bm_integer u k (obs_label @ ''.usage'') 0) token_keys) (\<lambda>ns.
        guard (ns ! 2 = ns ! 0 + ns ! 1) ''attributable usage token total is inconsistent'')
      else guard (all_null u token_keys) ''unattributed usage cannot carry token counts'')"

definition check_latency :: "obj \<Rightarrow> unit result" where
  "check_latency l =
     (if get l ''attribution_status'' = JStr ''ATTRIBUTABLE'' then must (bm_number l ''milliseconds'' (obs_label @ ''.latency''))
      else guard (get l ''milliseconds'' = JNull) ''unattributed latency cannot carry milliseconds'')"

definition check_cost :: "obj \<Rightarrow> unit result" where
  "check_cost c =
     (if get c ''attribution_status'' = JStr ''ATTRIBUTABLE'' then seqE [
        must (bm_text c ''currency'' (obs_label @ ''.cost'')),
        must (bm_number c ''amount'' (obs_label @ ''.cost'')),
        require_sha256 (get c ''pricing_source_fingerprint'') (obs_label @ ''.cost.pricing_source_fingerprint'')]
      else guard (all_null c [''currency'', ''amount'', ''pricing_source_fingerprint''])
        ''unattributed cost cannot carry amount or pricing data'')"

definition check_accounting :: "obj \<Rightarrow> unit result" where
  "check_accounting d =
     (let part = (\<lambda>k ks. bindE (bm_obj (get d k) (obs_label @ ''.'' @ k)) (\<lambda>p. bm_keys p (''attribution_status'' # ks) (obs_label @ ''.'' @ k)));
          status = (\<lambda>k. one_of (field (get d k) ''attribution_status'') [''ATTRIBUTABLE'', ''UNAVAILABLE'', ''NOT_APPLICABLE'']
             (k @ '' attribution status is unsupported''))
      in seqE [
       part ''usage'' token_keys,
       part ''latency'' [''milliseconds''],
       part ''cost'' [''currency'', ''amount'', ''pricing_source_fingerprint''],
       status ''usage'', status ''latency'', status ''cost'',
       check_usage (items_of (get d ''usage'')), check_latency (items_of (get d ''latency'')), check_cost (items_of (get d ''cost''))])"

section \<open>Terminals and failure values\<close>

definition provider_terminals :: "string list" where
  "provider_terminals = [''SUCCESS'', ''PROVIDER_ERROR'', ''NETWORK_ERROR'', ''SCHEMA_ERROR'', ''RUNTIME_ERROR'', ''NOT_APPLICABLE'']"

definition optional_bit :: "json \<Rightarrow> bool" where
  "optional_bit v = (v \<in> {JNull, JInt 0, JInt 1})"

definition optional_bool :: "json \<Rightarrow> bool" where
  "optional_bool v = (v \<in> {JNull, JBool True, JBool False})"

definition check_terminal_fields :: "obj \<Rightarrow> unit result" where
  "check_terminal_fields d = seqE [
     text_among d ''provider_terminal_status'' provider_terminals ''provider terminal status is unsupported'',
     guard (case get d ''provider_http_status'' of JNull \<Rightarrow> True | JInt n \<Rightarrow> 100 \<le> n \<and> n \<le> 599 | _ \<Rightarrow> False)
       ''provider_http_status must be null or an HTTP status'',
     text_among d ''terminal_status'' TERMINAL_STATUSES ''unsupported BM0 terminal status'',
     guard (get d ''unknown_disposition'' \<in> insert JNull (JStr ` set UNKNOWN_DISPOSITIONS))
       ''unknown_disposition must be null or a frozen disposition'',
     must (bm_boolean d ''evidence_complete'' obs_label),
     guard (optional_bool (get d ''hard_invariant_pass'')) ''hard_invariant_pass must be boolean or null'',
     guard (optional_bit (get d ''model_failure_value'')) ''model_failure_value must be 0, 1, or null'',
     guard (optional_bit (get d ''system_invariant_failure_value'')) ''system_invariant_failure_value must be 0, 1, or null'',
     text_among d ''adjudication_status'' [''NOT_REQUIRED'', ''RESOLVED'', ''UNRESOLVED'', ''ERROR''] ''unsupported adjudication status'']"

definition entry_dispositions :: "string \<Rightarrow> string list" where
  "entry_dispositions e = (case map_of APPROVED_TARGET_MEASUREMENT_BINDINGS e of
      None \<Rightarrow> [] | Some b \<Rightarrow> map text_in (elements_of (get (mb_unknown_policy b) ''permitted_dispositions'')))"

definition unknown_semantics :: "obj \<Rightarrow> disposition option" where
  "unknown_semantics d =
     (if str_in d ''terminal_status'' = ''UNKNOWN'' then map_of UNKNOWN_DISPOSITION_SEMANTICS (str_in d ''unknown_disposition'') else None)"

definition terminal_value :: "string \<Rightarrow> json" where
  "terminal_value t = (if t = ''PASS'' then JInt 0 else if t = ''FAIL'' then JInt 1 else JNull)"

definition expected_model_value :: "obj \<Rightarrow> json" where
  "expected_model_value d =
     (if system_only d then JNull
      else case unknown_semantics d of Some s \<Rightarrow> ud_model_failure_value s | None \<Rightarrow> terminal_value (str_in d ''terminal_status''))"

definition expected_system_value :: "obj \<Rightarrow> json" where
  "expected_system_value d = (if system_only d then terminal_value (str_in d ''terminal_status'') else JNull)"

definition check_verdict :: "obj \<Rightarrow> unit result" where
  "check_verdict d =
     (let terminal = str_in d ''terminal_status''; disposition = get d ''unknown_disposition''; hard = get d ''hard_invariant_pass'' in seqE [
      if terminal = ''UNKNOWN'' then seqE [
        guard (disposition \<noteq> JNull) ''UNKNOWN requires an explicit family-bound disposition'',
        guard (text_in disposition \<in> set (entry_dispositions (str_in d ''entry_id'')))
          ''UNKNOWN disposition is forbidden by the target family policy'']
      else guard (disposition = JNull) ''non-UNKNOWN terminals cannot carry an UNKNOWN disposition'',
      guard (get d ''model_failure_value'' = expected_model_value d \<and> get d ''system_invariant_failure_value'' = expected_system_value d)
        ''failure value does not match terminal and attribution class'',
      guard (\<not> (terminal = ''PASS'' \<and> hard \<noteq> JBool True)) ''PASS requires hard invariant PASS'',
      guard (\<not> (terminal = ''FAIL'' \<and> hard \<noteq> JBool False)) ''FAIL requires hard invariant FAIL'',
      guard (\<not> (terminal \<in> set NON_MODEL_SCORABLE_TERMINALS \<and> hard \<noteq> JNull))
        ''fixed non-scorable terminals cannot carry a hard verdict''])"

definition check_unknown :: "obj \<Rightarrow> unit result" where
  "check_unknown d = (case unknown_semantics d of
      None \<Rightarrow> Inr ()
    | Some s \<Rightarrow> seqE [
        guard (get d ''evidence_complete'' = JBool (ud_evidence_complete s) \<and> get d ''hard_invariant_pass'' = ud_hard_invariant_pass s
            \<and> str_in d ''adjudication_status'' \<in> set (ud_adjudication_statuses s))
          ''UNKNOWN evidence, verdict, or adjudication state contradicts its disposition'',
        if str_in d ''unknown_disposition'' = ''UNRESOLVED_SCORER_EVIDENCE'' then
          guard (get d ''evidence_receipt_fingerprint'' = JNull) ''unresolved scorer evidence cannot carry a completed evidence receipt''
        else guard (get d ''evidence_receipt_fingerprint'' \<noteq> JNull)
          ''resolved or adjudication-stage UNKNOWN requires an evidence receipt''])"

section \<open>What a scorable outcome needs\<close>

definition http_ok :: "json \<Rightarrow> bool" where
  "http_ok v = (case v of JInt n \<Rightarrow> 200 \<le> n \<and> n < 300 | _ \<Rightarrow> False)"

definition accounted :: "obj \<Rightarrow> bool" where
  "accounted d \<longleftrightarrow> list_all (\<lambda>k. accounting_status d k \<noteq> ''NOT_APPLICABLE'') [''usage'', ''latency'', ''cost'']"

definition provider_succeeded :: "obj \<Rightarrow> bool" where
  "provider_succeeded d \<longleftrightarrow> get d ''provider_request_id'' \<noteq> JNull \<and> str_in d ''provider_terminal_status'' = ''SUCCESS''
     \<and> http_ok (get d ''provider_http_status'')"

definition check_scorable_identity :: "obj \<Rightarrow> unit result" where
  "check_scorable_identity d =
     (let certainty = str_in d ''identity_certainty''; alias = str_in d ''alias_limitation''; resolved = get d ''resolved_model_or_version_id'' in
      if certainty = ''EXACT'' then
        guard (resolved \<noteq> JNull \<and> alias \<in> {''NONE'', ''MOVING_ALIAS_RESOLUTION_REQUIRED''})
          ''scorable EXACT observations require one resolved model version''
      else if certainty = ''ALIAS_ONLY'' then
        guard (resolved = JNull \<and> alias = ''UNVERIFIABLE_ALIAS_DISCLOSED'')
          ''scorable ALIAS_ONLY observations must preserve the disclosed limitation''
      else Inl (ValueError ''scorable model observations require EXACT or disclosed ALIAS_ONLY identity''))"

definition check_scorable :: "obj \<Rightarrow> unit result" where
  "check_scorable d =
     (if str_in d ''terminal_status'' \<in> set MODEL_SCORABLE_TERMINALS then seqE [
        guard (get d ''evidence_complete'' = JBool True \<and> str_in d ''adjudication_status'' \<in> {''NOT_REQUIRED'', ''RESOLVED''})
          ''model-scorable terminals require complete/resolved evidence'',
        guard (get d ''raw_response_fingerprint'' \<noteq> JNull \<and> get d ''evidence_receipt_fingerprint'' \<noteq> JNull)
          ''scorable observations require raw-response and evidence receipts'',
        if system_only d then Inr () else seqE [
          check_scorable_identity d,
          guard (provider_succeeded d \<and> accounted d)
            (''scorable model observations require successful provider receipts; ''
             @ ''usage, latency, and cost may be unavailable but not inapplicable'')]]
      else Inr ())"

definition check_unknown_response :: "obj \<Rightarrow> unit result" where
  "check_unknown_response d =
     (if str_in d ''terminal_status'' = ''UNKNOWN'' \<and> \<not> system_only d then seqE [
        guard (str_in d ''identity_certainty'' \<in> {''EXACT'', ''ALIAS_ONLY''})
          ''family-resolved UNKNOWN requires attributable model identity'',
        guard (provider_succeeded d \<and> get d ''raw_response_fingerprint'' \<noteq> JNull \<and> accounted d)
          ''UNKNOWN model outcomes require a successful attributable response'']
      else Inr ())"

definition check_system_accounting :: "obj \<Rightarrow> unit result" where
  "check_system_accounting d = seqE [
     guard (\<not> (system_only d \<and> (str_in d ''provider_terminal_status'' \<noteq> ''NOT_APPLICABLE'' \<or> get d ''provider_http_status'' \<noteq> JNull
         \<or> list_ex (\<lambda>k. accounting_status d k \<noteq> ''NOT_APPLICABLE'') [''usage'', ''latency'', ''cost''])))
       ''system-only observations must mark provider accounting not applicable'',
     guard (\<not> (str_in d ''terminal_status'' = ''ERROR'' \<and> str_in d ''adjudication_status'' = ''RESOLVED''))
       ''ERROR cannot claim resolved adjudication'',
     guard (\<not> (str_in d ''terminal_status'' = ''ERROR'' \<and> \<not> system_only d \<and> str_in d ''provider_terminal_status'' = ''SUCCESS''))
       ''ERROR cannot carry a successful provider terminal'']"

definition validate_observation :: "json \<Rightarrow> obj result" where
  "validate_observation document =
     bindE (bm_obj document obs_label) (\<lambda>d.
     bindE (seqE [
       check_obs_header d, check_obs_target d, check_obs_subject d,
       seqE (map (\<lambda>k. require_sha256 (get d k) (obs_label @ ''.'' @ k)) observation_fingerprints),
       must (bm_integer d ''replicate_index'' obs_label 0),
       check_obs_times d, check_obs_receipts d, check_accounting d, check_terminal_fields d, check_verdict d, check_unknown d,
       check_scorable d, check_unknown_response d, check_system_accounting d,
       assert_public_safe (JObj d)]) (\<lambda>_.
     verify_fingerprint d ''observation_fingerprint'' obs_label))"

section \<open>The identity grid\<close>

definition identity_grid_fields :: "string list" where
  "identity_grid_fields = [
     ''benchmark_id'', ''contract_version'', ''attempt_id'', ''trial_id'', ''provider_subject_id'',
     ''model_subject_id'', ''requested_model_id'', ''endpoint_id'', ''capability_mode'', ''system_wrapper_version'',
     ''developer_wrapper_version'', ''target_id'', ''target_class'', ''applicability_result'', ''entry_id'',
     ''family_id'', ''case_id'', ''variant_id'', ''mechanism_lineage_id'', ''case_fingerprint'',
     ''generator_or_mutation_version'', ''contamination_status'', ''exposure_status'', ''corpus_item_alias'',
     ''replicate_index'', ''prompt_fingerprint'', ''context_fingerprint'', ''tool_schema_fingerprint'',
     ''sandbox_fingerprint'', ''state_machine_fingerprint'', ''scorer_id'', ''scorer_version'',
     ''scorer_fingerprint'', ''oracle_id'', ''oracle_version'', ''oracle_fingerprint'']"

definition runtime_identity_ok :: "obj \<Rightarrow> obj \<Rightarrow> unit result" where
  "runtime_identity_ok row planned =
     (let required = str_in planned ''required_identity_certainty''; certainty = str_in row ''identity_certainty'';
          resolved = get row ''resolved_model_or_version_id''; alias = get row ''alias_limitation'' in
      if required = ''SYSTEM_SCOPE'' then
        guard (certainty = ''SYSTEM_SCOPE'' \<and> resolved = JStr SYSTEM_SCOPE_ID \<and> alias = JStr ''NOT_APPLICABLE_SYSTEM_SCOPE'')
          ''system observation identity drifted''
      else if certainty = ''EXACT'' then
        guard (required = ''EXACT'' \<and> resolved = get planned ''expected_resolved_model_or_version_id'' \<and> alias = get planned ''alias_limitation'')
          ''resolved model identity drifted or silently fell back''
      else if certainty = ''ALIAS_ONLY'' then
        guard (required = ''ALIAS_ONLY'' \<and> resolved = JNull \<and> alias = JStr ''UNVERIFIABLE_ALIAS_DISCLOSED'')
          ''unverifiable alias limitation was not preserved''
      else if certainty = ''UNKNOWN'' then
        guard (str_in row ''terminal_status'' \<notin> set MODEL_SCORABLE_TERMINALS \<and> resolved = JNull \<and> alias = get planned ''alias_limitation'')
          ''unknown runtime identity did not fail closed''
      else Inl (ValueError ''observation identity certainty drifted''))"

definition match_identity :: "obj \<Rightarrow> obj \<Rightarrow> unit result" where
  "match_identity row planned = seqE (
     map (\<lambda>k. guard (py_eq (get row k) (get planned k)) (''observation identity mismatch for '' @ k)) identity_grid_fields
     @ [guard (get row ''sampling_controls_fingerprint'' = JStr (sha256_json (get planned ''sampling_controls'')))
          ''observation sampling controls drifted'',
        guard (get row ''reasoning_controls_fingerprint'' = JStr (sha256_json (get planned ''reasoning_controls'')))
          ''observation reasoning controls drifted'',
        runtime_identity_ok row planned])"

definition grid_step :: "(string \<times> obj) list \<Rightarrow> (string \<times> obj) list \<Rightarrow> json \<Rightarrow> (string \<times> obj) list result" where
  "grid_step planned seen raw =
     bindE (validate_observation raw) (\<lambda>row.
     let i = str_in row ''attempt_id'' in
     case map_of planned i of
       None \<Rightarrow> Inl (ValueError ''observation references an unplanned attempt'')
     | Some a \<Rightarrow>
         bindE (guard (i \<notin> fst ` set seen) ''duplicate observation attempt ID'') (\<lambda>_.
         bindE (match_identity row a) (\<lambda>_. Inr (seen @ [(i, row)]))))"

record observation_grid =
  gr_manifest :: obj
  gr_planned :: "(string \<times> obj) list"
  gr_observed :: "(string \<times> obj) list"

definition gr_missing :: "observation_grid \<Rightarrow> string list" where
  "gr_missing g = sort (filter (\<lambda>i. i \<notin> fst ` set (gr_observed g)) (map fst (gr_planned g)))"

definition planned_items :: "obj \<Rightarrow> (string \<times> obj) list" where
  "planned_items m = map (\<lambda>a. (str_in a ''attempt_id'', a)) (attempts_of m)"

definition observation_grid_of :: "json \<Rightarrow> json list \<Rightarrow> obj \<Rightarrow> observation_grid result" where
  "observation_grid_of manifest observations expected =
     bindE (frozen_manifest manifest (Some expected) ''observation grid requires a FROZEN manifest'') (\<lambda>m.
     bindE (foldE (grid_step (planned_items m)) [] observations) (\<lambda>seen.
     Inr \<lparr>gr_manifest = m, gr_planned = planned_items m, gr_observed = seen\<rparr>))"

text \<open>The report of \<open>validate_observation_grid_v1\<close>.\<close>

definition validate_observation_grid :: "json \<Rightarrow> json list \<Rightarrow> obj \<Rightarrow> obj result" where
  "validate_observation_grid manifest observations expected =
     bindE (observation_grid_of manifest observations expected) (\<lambda>g.
     let dict = (\<lambda>rows. JObj (map (\<lambda>ir. (fst ir, JObj (snd ir))) rows)) in
     Inr [(''method_id'', sap_method 1), (''planned'', dict (gr_planned g)), (''observed'', dict (gr_observed g)),
          (''missing_attempt_ids'', jstrs (gr_missing g)), (''complete'', JBool (gr_missing g = []))])"

end
