(* ===== verification/BmAdjudication.thy ===== *)
theory BmAdjudication
  imports BmObservation
begin

text \<open>
  Adjudication in \<open>src/b2/bm0.py\<close>: the record of one human decision, the resolution of the
  records of an attempt against the plan of the frozen manifest, and what a resolution may
  say: a final label needs two agreeing primaries or a planned tiebreak between them.
\<close>

section \<open>Records\<close>

definition adjudication_keys :: "string list" where
  "adjudication_keys = [
     ''schema_version'', ''adjudication_id'', ''study_id'', ''attempt_id'', ''item_alias'', ''metric_id'',
     ''round_role'', ''adjudicator_type'', ''authority_role'', ''adjudicator_id'',
     ''adjudicator_configuration_fingerprint'', ''llm_judge_assistance'', ''record_status'', ''decision'',
     ''blind_to_model_identity'', ''blind_to_provider_identity'', ''blind_to_peer_decisions'',
     ''blind_to_llm_assistance_before_decision'', ''rubric_version'', ''rubric_fingerprint'', ''evidence_complete'',
     ''conflict_status'', ''rationale_code'', ''record_fingerprint'']"

definition assistance_keys :: "string list" where
  "assistance_keys = [
     ''judge_id'', ''judge_version'', ''judge_configuration_fingerprint'', ''calibration_set_fingerprint'',
     ''known_bad_control_receipt_fingerprint'', ''judge_error_audit_fingerprint'', ''final_authority'']"

definition record_label :: string where
  "record_label = ''adjudication-record''"

definition assistance_label :: string where
  "assistance_label = ''adjudication-record.llm_judge_assistance''"

definition check_assistance :: "obj \<Rightarrow> unit result" where
  "check_assistance d =
     (if get d ''llm_judge_assistance'' = JNull then Inr ()
      else bindE (bm_obj (get d ''llm_judge_assistance'') assistance_label) (\<lambda>a. seqE ([
        bm_keys a assistance_keys assistance_label,
        must (bm_identifier a ''judge_id'' assistance_label),
        must (bm_identifier a ''judge_version'' assistance_label)]
        @ map (\<lambda>k. require_sha256 (get a k) (assistance_label @ ''.'' @ k))
            [''judge_configuration_fingerprint'', ''calibration_set_fingerprint'',
             ''known_bad_control_receipt_fingerprint'', ''judge_error_audit_fingerprint'']
        @ [guard (get a ''final_authority'' = JBool False) ''LLM judge assistance cannot be final authority''])))"

definition blindness_keys :: "string list" where
  "blindness_keys = [''blind_to_model_identity'', ''blind_to_provider_identity'', ''blind_to_peer_decisions'',
     ''blind_to_llm_assistance_before_decision'']"

definition check_record_header :: "obj \<Rightarrow> unit result" where
  "check_record_header d = seqE ([
     bm_keys d adjudication_keys record_label,
     bindE (bm_text d ''schema_version'' record_label) (\<lambda>v. guard (v = ADJUDICATION_SCHEMA_VERSION) ''unsupported BM0 adjudication schema'')]
     @ map (\<lambda>k. must (bm_identifier d k record_label))
         [''adjudication_id'', ''study_id'', ''attempt_id'', ''item_alias'', ''metric_id'', ''adjudicator_id'', ''rubric_version'', ''rationale_code'']
     @ [one_of (get d ''round_role'') [''PRIMARY'', ''TIEBREAK''] ''adjudication round role is unsupported'',
        guard (get d ''adjudicator_type'' = JStr ''HUMAN'') ''final adjudication authority must be HUMAN'',
        guard (get d ''authority_role'' = JStr ''BLINDED_INDEPENDENT_HUMAN_REVIEW'') ''adjudication authority role drifted'',
        require_sha256 (get d ''adjudicator_configuration_fingerprint'') ''adjudicator_configuration_fingerprint'',
        check_assistance d,
        one_of (get d ''record_status'') [''COMPLETED'', ''ERROR''] ''adjudication record status is unsupported'',
        bindE (in_set (get d ''decision'') (JNull # map JStr [''PASS'', ''FAIL'', ''UNKNOWN''])) (\<lambda>b.
          guard b ''adjudication decision is unsupported'')]
     @ map (\<lambda>k. must (bm_boolean d k record_label)) (blindness_keys @ [''evidence_complete''])
     @ [guard (list_all (\<lambda>k. get d k = JBool True) blindness_keys) ''adjudication must remain blind to identity and peer decisions'',
        require_sha256 (get d ''rubric_fingerprint'') ''rubric_fingerprint'',
        guard (get d ''conflict_status'' = JStr ''NONE'') ''conflicted adjudicators must be excluded, not scored''])"

definition check_decision :: "obj \<Rightarrow> unit result" where
  "check_decision d =
     (let decision = get d ''decision''; evidence = (get d ''evidence_complete'' = JBool True) in
      if get d ''record_status'' = JStr ''COMPLETED'' then seqE [
        guard (decision \<noteq> JNull) ''completed adjudication requires a decision'',
        guard (\<not> (decision \<in> {JStr ''PASS'', JStr ''FAIL''} \<and> \<not> evidence)) ''PASS/FAIL adjudication requires complete evidence'',
        guard (\<not> (decision = JStr ''UNKNOWN'' \<and> evidence)) ''UNKNOWN adjudication must preserve missing evidence'']
      else guard (decision = JNull \<and> \<not> evidence) ''adjudication ERROR cannot carry a decision or complete evidence'')"

definition validate_adjudication_record :: "json \<Rightarrow> obj result" where
  "validate_adjudication_record document =
     bindE (bm_obj document record_label) (\<lambda>d.
     bindE (seqE [check_record_header d, check_decision d, assert_public_safe (JObj d)]) (\<lambda>_.
     verify_fingerprint d ''record_fingerprint'' record_label))"

section \<open>Resolution\<close>

definition completed :: "obj \<Rightarrow> bool" where
  "completed r \<longleftrightarrow> get r ''record_status'' = JStr ''COMPLETED''"

text \<open>Whether the two primaries agree, when both completed.\<close>

definition agreement :: "obj list \<Rightarrow> bool option" where
  "agreement primaries = (case filter completed primaries of
      [p, q] \<Rightarrow> Some (get p ''decision'' = get q ''decision'') | _ \<Rightarrow> None)"

definition agreement_report :: "string \<Rightarrow> json \<Rightarrow> obj list \<Rightarrow> obj list \<Rightarrow> json" where
  "agreement_report status decision primaries tiebreakers =
     (let exact = agreement primaries in JObj [
      (''reporting_method'', JStr ''RAW_EXACT_AGREEMENT_OVER_TWO_PRIMARY_HUMAN_DECISIONS''),
      (''primary_human_record_count'', jint (length primaries)),
      (''completed_primary_human_record_count'', jint (length (filter completed primaries))),
      (''exact_agreement'', case exact of Some b \<Rightarrow> JBool b | None \<Rightarrow> JNull),
      (''raw_agreement_rate'', case exact of Some b \<Rightarrow> JFloat (Fin (if b then 1 else 0)) | None \<Rightarrow> JNull),
      (''disagreement_escalated'', JBool (exact = Some False \<and> length tiebreakers = 1)),
      (''tiebreak_human_record_count'', jint (length tiebreakers)),
      (''llm_judge_assistance_record_count'', jint (length (filter (\<lambda>r. get r ''llm_judge_assistance'' \<noteq> JNull) (primaries @ tiebreakers)))),
      (''final_authority'', JStr ''BLINDED_INDEPENDENT_HUMAN_REVIEW''), (''llm_judge_final_authority'', JBool False),
      (''auditable_final_label'', JBool (decision \<in> {JStr ''PASS'', JStr ''FAIL''} \<and> decision = JStr status))])"

definition resolution_result :: "string \<Rightarrow> string \<Rightarrow> json \<Rightarrow> obj list \<Rightarrow> obj list \<Rightarrow> obj" where
  "resolution_result status reason decision primaries tiebreakers =
     [(''method_id'', sap_method 6), (''terminal_status'', JStr status), (''reason'', JStr reason), (''decision'', decision),
      (''agreement_report'', agreement_report status decision primaries tiebreakers)]"

definition seat :: "obj \<Rightarrow> string \<Rightarrow> json list" where
  "seat r k = [get r ''adjudicator_id'', get r ''adjudicator_type'', get r k]"

definition plan_seat :: "json \<Rightarrow> json list" where
  "plan_seat e = seat (items_of e) ''configuration_fingerprint''"

definition record_seat :: "obj \<Rightarrow> json list" where
  "record_seat r = seat r ''adjudicator_configuration_fingerprint''"

definition shared_fields :: "string list" where
  "shared_fields = [''study_id'', ''attempt_id'', ''item_alias'', ''metric_id'', ''rubric_version'', ''rubric_fingerprint'']"

definition round_rows :: "string \<Rightarrow> obj list \<Rightarrow> obj list" where
  "round_rows role rows = filter (\<lambda>r. get r ''round_role'' = JStr role) rows"

definition check_records :: "obj \<Rightarrow> obj \<Rightarrow> obj list \<Rightarrow> obj \<Rightarrow> unit result" where
  "check_records m plan rows first =
     (let planned = find_attempt (attempts_of m) (str_in first ''attempt_id'') in seqE ([]
      @ map (\<lambda>k. guard (list_all (\<lambda>r. get r k = get first k) rows) (''adjudication records disagree on '' @ k)) shared_fields
      @ [guard (planned \<noteq> None) ''adjudication references an unplanned attempt'',
         guard (planned \<noteq> None \<and> get first ''study_id'' = get (the planned) ''study_id'')
           ''adjudication study does not match the planned attempt'',
         guard (planned \<noteq> None \<and> get first ''item_alias'' = get (the planned) ''corpus_item_alias'')
           ''adjudication item alias does not match the planned attempt'',
         guard (get first ''metric_id'' \<in> set (elements_of (get plan ''metric_ids''))) ''adjudication metric is absent from the frozen plan'',
         guard (get first ''rubric_version'' = get plan ''rubric_version'' \<and> get first ''rubric_fingerprint'' = get plan ''rubric_fingerprint'')
           ''adjudication rubric drifted from the frozen plan'',
         guard (distinct (map (\<lambda>r. get r ''adjudicator_id'') rows)) ''adjudicators must be distinct across all rounds'']))"

definition primary_seats :: "obj \<Rightarrow> json list list" where
  "primary_seats plan = map plan_seat (elements_of (get plan ''primary_adjudicators''))"

definition check_seats :: "obj \<Rightarrow> obj list \<Rightarrow> obj list \<Rightarrow> unit result" where
  "check_seats plan primaries tiebreakers = seqE [
     guard (set (map record_seat primaries) \<subseteq> set (primary_seats plan)) ''an unplanned primary adjudicator was supplied'',
     guard (length tiebreakers \<le> 1) ''at most one predeclared tiebreak adjudicator is allowed'',
     guard (list_all (\<lambda>t. record_seat t = plan_seat (get plan ''tiebreak_adjudicator'')) tiebreakers)
       ''an unplanned tiebreak adjudicator was supplied'',
     guard (length primaries \<le> 2) ''at most two predeclared primary adjudicators are allowed'']"

definition forbid :: "obj list \<Rightarrow> string \<Rightarrow> obj \<Rightarrow> obj result" where
  "forbid tiebreakers msg r = bindE (guard (tiebreakers = []) msg) (\<lambda>_. Inr r)"

definition resolve_rows :: "obj \<Rightarrow> obj list \<Rightarrow> obj list \<Rightarrow> obj result" where
  "resolve_rows plan primaries tiebreakers =
     (let result = (\<lambda>status reason decision. resolution_result status reason decision primaries tiebreakers);
          decisions = map (\<lambda>r. get r ''decision'') primaries in
      if list_ex (\<lambda>r. get r ''record_status'' = JStr ''ERROR'') primaries then
        forbid tiebreakers ''a tiebreaker is forbidden when a primary adjudication errored''
          (result ''ERROR'' ''ADJUDICATION_INFRASTRUCTURE_ERROR'' JNull)
      else if length primaries \<noteq> 2 then
        forbid tiebreakers ''a tiebreaker requires both predeclared primary adjudications''
          (result ''UNKNOWN'' ''INCOMPLETE_OR_AMBIGUOUS_ADJUDICATION_SET'' JNull)
      else bindE (guard (set (map record_seat primaries) = set (primary_seats plan))
        ''the primary adjudicator set drifted from the frozen plan'') (\<lambda>_.
      if JStr ''UNKNOWN'' \<in> set decisions then
        forbid tiebreakers ''a tiebreaker cannot convert insufficient evidence into PASS or FAIL''
          (result ''UNKNOWN'' ''PRIMARY_INSUFFICIENT_EVIDENCE'' JNull)
      else if length (remdups decisions) = 1 then
        forbid tiebreakers ''a tiebreaker is forbidden when primaries agree''
          (result (text_in (hd decisions)) ''PRIMARY_AGREEMENT'' (hd decisions))
      else case tiebreakers of
        [t] \<Rightarrow>
          if get t ''record_status'' = JStr ''ERROR'' then Inr (result ''ERROR'' ''ADJUDICATION_INFRASTRUCTURE_ERROR'' JNull)
          else if get t ''decision'' = JStr ''UNKNOWN'' then Inr (result ''UNKNOWN'' ''TIEBREAK_INSUFFICIENT_EVIDENCE'' JNull)
          else Inr (result (str_in t ''decision'') ''PREDECLARED_TIEBREAK'' (get t ''decision''))
      | _ \<Rightarrow> Inr (result ''UNKNOWN'' ''PRIMARY_DISAGREEMENT_REQUIRES_TIEBREAK'' JNull)))"

definition resolve_adjudication :: "json \<Rightarrow> json list \<Rightarrow> obj \<Rightarrow> obj result" where
  "resolve_adjudication manifest records expected =
     bindE (frozen_manifest manifest (Some expected) ''adjudication resolution requires a FROZEN manifest'') (\<lambda>m.
     bindE (mapE validate_adjudication_record records) (\<lambda>rows.
     let plan = items_of (get m ''adjudication_plan''); primaries = round_rows ''PRIMARY'' rows; tiebreakers = round_rows ''TIEBREAK'' rows in
     case rows of
       [] \<Rightarrow> Inr (resolution_result ''UNKNOWN'' ''MISSING_PRIMARY_ADJUDICATIONS'' JNull [] [])
     | first # _ \<Rightarrow>
         bindE (check_records m plan rows first) (\<lambda>_.
         bindE (check_seats plan primaries tiebreakers) (\<lambda>_.
         resolve_rows plan primaries tiebreakers))))"

section \<open>What a resolution says\<close>

lemma completed_decision:
  assumes "validate_adjudication_record v = Inr r"
  shows "get r ''record_status'' = JStr ''ERROR'' \<or> completed r" and "completed r \<Longrightarrow> get r ''decision'' \<in> JStr ` {''PASS'', ''FAIL'', ''UNKNOWN''}"
    and "get r ''adjudicator_type'' = JStr ''HUMAN''" and "\<forall>k \<in> set blindness_keys. get r k = JBool True"
    and "get r ''decision'' \<in> {JStr ''PASS'', JStr ''FAIL''} \<Longrightarrow> get r ''evidence_complete'' = JBool True"
proof -
  from assms obtain d where c: "check_record_header d = Inr ()" "check_decision d = Inr ()"
    and f: "verify_fingerprint d ''record_fingerprint'' record_label = Inr r"
    by (auto simp: validate_adjudication_record_def bindE_eq_Inr seqE_Inr)
  note get_r = verified_get [OF f]
  from c(1) show "get r ''record_status'' = JStr ''ERROR'' \<or> completed r" "get r ''adjudicator_type'' = JStr ''HUMAN''"
    by (auto simp: check_record_header_def seqE_Inr guard_Inr one_of_Inr get_r completed_def)
  from c(1) show "\<forall>k \<in> set blindness_keys. get r k = JBool True"
    by (auto simp: check_record_header_def seqE_Inr guard_Inr get_r list_all_iff)
  from c(1) have "in_set (get d ''decision'') (JNull # map JStr [''PASS'', ''FAIL'', ''UNKNOWN'']) = Inr True"
    by (auto simp: check_record_header_def seqE_Inr bindE_eq_Inr guard_Inr)
  then have dec: "get d ''decision'' = JNull \<or> get d ''decision'' \<in> JStr ` {''PASS'', ''FAIL'', ''UNKNOWN''}"
    by (auto simp: in_set_def py_in_def split: option.splits)
  from c(2) dec show "completed r \<Longrightarrow> get r ''decision'' \<in> JStr ` {''PASS'', ''FAIL'', ''UNKNOWN''}"
    by (auto simp: check_decision_def Let_def completed_def get_r seqE_Inr guard_Inr split: if_splits)
  from c(2) show "get r ''decision'' \<in> {JStr ''PASS'', JStr ''FAIL''} \<Longrightarrow> get r ''evidence_complete'' = JBool True"
    by (auto simp: check_decision_def Let_def get_r seqE_Inr guard_Inr split: if_splits)
qed

end
