(* ===== verification/BmSample.thy ===== *)
theory BmSample
  imports BmAdjudication B2Quick
begin

text \<open>
  A concrete study for the properties of the benchmark contracts: the identities of one
  private-holdout case run by one model, a first attempt and its retry, which pass the
  validator.  Its plan, manifest, records and an observation follow in the theories above.
\<close>

definition zero_digest :: json where
  "zero_digest = JStr (''sha256:'' @ replicate 64 CHR ''0'')"

definition sample_sampling :: obj where
  "sample_sampling = [(''temperature'', JInt 0), (''top_p'', JNull), (''max_output_tokens'', JInt 256), (''seed'', JInt 7),
     (''automatic_retries'', JInt 0), (''additional_parameters_fingerprint'', zero_digest)]"

definition sample_reasoning :: obj where
  "sample_reasoning = [(''mode'', JStr ''DISABLED''), (''effort'', JNull), (''max_reasoning_tokens'', JNull),
     (''configuration_fingerprint'', zero_digest)]"

definition sample_trial :: "string \<Rightarrow> json \<Rightarrow> obj" where
  "sample_trial attempt parent = [
     (''schema_version'', JStr TRIAL_IDENTITY_SCHEMA_VERSION), (''benchmark_id'', JStr ''bench''),
     (''contract_version'', JStr WORK_ORDER_REVISION), (''study_id'', JStr ''study''), (''trial_id'', JStr ''trial''),
     (''attempt_id'', JStr attempt), (''parent_attempt_id'', parent), (''provider_subject_id'', JStr ''prov''),
     (''model_subject_id'', JStr ''model''), (''model_snapshot_id'', JStr ''snap''), (''requested_model_id'', JStr ''req''),
     (''expected_resolved_model_or_version_id'', JStr ''snap''), (''required_identity_certainty'', JStr ''EXACT''),
     (''alias_limitation'', JStr ''NONE''), (''endpoint_id'', JStr ''end''), (''capability_mode'', JStr ''DIRECT''),
     (''system_wrapper_version'', JStr ''s1''), (''developer_wrapper_version'', JStr ''d1''),
     (''sampling_controls'', JObj sample_sampling), (''reasoning_controls'', JObj sample_reasoning),
     (''target_id'', JStr ''BM0-TUT-E11-QA2-CONSTRAINT-ACTION-PERSISTENCE''), (''target_class'', JStr ''MODEL_DIRECT''),
     (''applicability_result'', JStr ''APPLICABLE''), (''entry_id'', JStr ''E11''), (''family_id'', JStr ''constraint-action-persistence''),
     (''case_id'', JStr ''case''), (''variant_id'', JStr ''v1''), (''mechanism_lineage_id'', JStr ''mech''),
     (''case_fingerprint'', zero_digest), (''generator_or_mutation_version'', JStr ''g1''),
     (''contamination_status'', JStr ''ASSESSED_CLEAR''), (''exposure_status'', JStr ''PRIVATE_UNEXPOSED_BEFORE_MANIFEST_FREEZE''),
     (''corpus_pool_id'', JStr ''PRIVATE_HIDDEN_HOLDOUT''), (''corpus_item_alias'', JStr ''alias''),
     (''corpus_item_commitment'', zero_digest), (''mutation_parent_commitment'', JNull), (''prompt_template_version'', JStr ''p1''),
     (''prompt_fingerprint'', zero_digest), (''context_fingerprint'', zero_digest), (''tool_schema_fingerprint'', zero_digest),
     (''sandbox_fingerprint'', zero_digest), (''state_machine_fingerprint'', zero_digest), (''harness_version'', JStr ''h1''),
     (''adapter_id'', JStr ''ad''), (''adapter_version'', JStr ''a1''), (''scorer_id'', JStr ''sc''), (''scorer_version'', JStr ''s1''),
     (''scorer_fingerprint'', zero_digest), (''oracle_id'', JStr ''or''), (''oracle_version'', JStr ''o1''),
     (''oracle_fingerprint'', zero_digest), (''replicate_index'', JInt 0), (''random_seed'', JInt 1),
     (''environment_fingerprint'', zero_digest)]"

lemma look_Cons: "get ((k', v) # d) k = (if k' = k then v else get d k)"
  by (simp add: get_def)

lemmas lookup_eval = look_Cons list.inject char.inject list.distinct simp_thms if_True if_False

lemma trial_get [simp]:
  "get (sample_trial attempt parent) ''schema_version'' = JStr TRIAL_IDENTITY_SCHEMA_VERSION"
  "get (sample_trial attempt parent) ''benchmark_id'' = JStr ''bench''"
  "get (sample_trial attempt parent) ''contract_version'' = JStr WORK_ORDER_REVISION"
  "get (sample_trial attempt parent) ''study_id'' = JStr ''study''"
  "get (sample_trial attempt parent) ''trial_id'' = JStr ''trial''"
  "get (sample_trial attempt parent) ''attempt_id'' = JStr attempt"
  "get (sample_trial attempt parent) ''parent_attempt_id'' = parent"
  "get (sample_trial attempt parent) ''provider_subject_id'' = JStr ''prov''"
  "get (sample_trial attempt parent) ''model_subject_id'' = JStr ''model''"
  "get (sample_trial attempt parent) ''model_snapshot_id'' = JStr ''snap''"
  "get (sample_trial attempt parent) ''requested_model_id'' = JStr ''req''"
  "get (sample_trial attempt parent) ''expected_resolved_model_or_version_id'' = JStr ''snap''"
  "get (sample_trial attempt parent) ''required_identity_certainty'' = JStr ''EXACT''"
  "get (sample_trial attempt parent) ''alias_limitation'' = JStr ''NONE''"
  "get (sample_trial attempt parent) ''endpoint_id'' = JStr ''end''"
  "get (sample_trial attempt parent) ''capability_mode'' = JStr ''DIRECT''"
  "get (sample_trial attempt parent) ''system_wrapper_version'' = JStr ''s1''"
  "get (sample_trial attempt parent) ''developer_wrapper_version'' = JStr ''d1''"
  "get (sample_trial attempt parent) ''sampling_controls'' = JObj sample_sampling"
  "get (sample_trial attempt parent) ''reasoning_controls'' = JObj sample_reasoning"
  "get (sample_trial attempt parent) ''target_id'' = JStr ''BM0-TUT-E11-QA2-CONSTRAINT-ACTION-PERSISTENCE''"
  "get (sample_trial attempt parent) ''target_class'' = JStr ''MODEL_DIRECT''"
  "get (sample_trial attempt parent) ''applicability_result'' = JStr ''APPLICABLE''"
  "get (sample_trial attempt parent) ''entry_id'' = JStr ''E11''"
  "get (sample_trial attempt parent) ''family_id'' = JStr ''constraint-action-persistence''"
  "get (sample_trial attempt parent) ''case_id'' = JStr ''case''"
  "get (sample_trial attempt parent) ''variant_id'' = JStr ''v1''"
  "get (sample_trial attempt parent) ''mechanism_lineage_id'' = JStr ''mech''"
  "get (sample_trial attempt parent) ''case_fingerprint'' = zero_digest"
  "get (sample_trial attempt parent) ''generator_or_mutation_version'' = JStr ''g1''"
  "get (sample_trial attempt parent) ''contamination_status'' = JStr ''ASSESSED_CLEAR''"
  "get (sample_trial attempt parent) ''exposure_status'' = JStr ''PRIVATE_UNEXPOSED_BEFORE_MANIFEST_FREEZE''"
  "get (sample_trial attempt parent) ''corpus_pool_id'' = JStr ''PRIVATE_HIDDEN_HOLDOUT''"
  "get (sample_trial attempt parent) ''corpus_item_alias'' = JStr ''alias''"
  "get (sample_trial attempt parent) ''corpus_item_commitment'' = zero_digest"
  "get (sample_trial attempt parent) ''mutation_parent_commitment'' = JNull"
  "get (sample_trial attempt parent) ''prompt_template_version'' = JStr ''p1''"
  "get (sample_trial attempt parent) ''prompt_fingerprint'' = zero_digest"
  "get (sample_trial attempt parent) ''context_fingerprint'' = zero_digest"
  "get (sample_trial attempt parent) ''tool_schema_fingerprint'' = zero_digest"
  "get (sample_trial attempt parent) ''sandbox_fingerprint'' = zero_digest"
  "get (sample_trial attempt parent) ''state_machine_fingerprint'' = zero_digest"
  "get (sample_trial attempt parent) ''harness_version'' = JStr ''h1''"
  "get (sample_trial attempt parent) ''adapter_id'' = JStr ''ad''"
  "get (sample_trial attempt parent) ''adapter_version'' = JStr ''a1''"
  "get (sample_trial attempt parent) ''scorer_id'' = JStr ''sc''"
  "get (sample_trial attempt parent) ''scorer_version'' = JStr ''s1''"
  "get (sample_trial attempt parent) ''scorer_fingerprint'' = zero_digest"
  "get (sample_trial attempt parent) ''oracle_id'' = JStr ''or''"
  "get (sample_trial attempt parent) ''oracle_version'' = JStr ''o1''"
  "get (sample_trial attempt parent) ''oracle_fingerprint'' = zero_digest"
  "get (sample_trial attempt parent) ''replicate_index'' = JInt 0"
  "get (sample_trial attempt parent) ''random_seed'' = JInt 1"
  "get (sample_trial attempt parent) ''environment_fingerprint'' = zero_digest"
  unfolding sample_trial_def by (simp_all only: lookup_eval)

lemma trial_fields: "map fst (sample_trial attempt parent) = trial_keys"
  by (simp add: sample_trial_def trial_keys_def)

lemma bm_keysI: "map fst d = ks \<Longrightarrow> bm_keys d ks l = Inr ()"
  by (metis bm_keys_Inr list.set_map)

lemma identifier_normal: "is_identifier s \<Longrightarrow> normal_text s"
proof -
  assume i: "is_identifier s"
  have sp: "\<not> py_isspace c" if "bm_alnum c \<or> c \<in> set ''._:@+-/''" for c
    using that by (auto simp: bm_alnum_def py_isspace_def Let_def code_def)
  from i have all: "\<forall>c \<in> set s. \<not> py_isspace c" and ne: "s \<noteq> []"
    using sp by (auto simp: is_identifier_def list_all_iff split: list.splits)
  have "dropWhile py_isspace xs = xs" if "\<forall>c \<in> set xs. \<not> py_isspace c" for xs
    using that by (cases xs) auto
  from this [of s] this [of "rev s"] all have "dropWhile py_isspace s = s" "dropWhile py_isspace (rev s) = rev s" by simp_all
  with ne show ?thesis by (simp add: normal_text_def strip_def lstrip_by_def rstrip_by_def)
qed

lemmas identifier_eval = is_identifier_def bm_alnum_def ascii

definition first_attempt :: obj where
  "first_attempt = sample_trial ''att-1'' JNull"

definition second_attempt :: obj where
  "second_attempt = sample_trial ''att-2'' (JStr ''att-1'')"

lemma trial_header_ok:
  assumes "is_identifier attempt"
  shows "check_trial_header (sample_trial attempt parent) = Inr ()"
  using assms
  by (simp add: check_trial_header_def seqE_Inr bm_keysI trial_fields trial_identifiers_def must_Inr bm_identifier_Inr
      bindE_eq_Inr bm_text_Inr guard_Inr identifier_normal identifier_eval TRIAL_IDENTITY_SCHEMA_VERSION_def WORK_ORDER_REVISION_def)

lemma zero_digest_ok [simp]: "is_sha256 zero_digest"
  by code_simp

lemma trial_parent_ok:
  assumes "is_identifier attempt" and "parent = JNull \<or> (\<exists>p. parent = JStr p \<and> is_identifier p \<and> p \<noteq> attempt)"
  shows "check_trial_parent (sample_trial attempt parent) = Inr ()"
  using assms by (auto simp: check_trial_parent_def seqE_Inr guard_Inr optional_identifier_def identifier_eval)

lemma trial_target_ok: "check_trial_target (sample_trial attempt parent) = Inr ()"
  by (simp add: check_trial_target_def seqE_Inr guard_Inr bindE_eq_Inr bm_text_Inr identifier_normal identifier_eval
      TARGET_CLASSES_def str_in_def text_in_def entry_def TARGET_IDS_BY_CLASS_def APPLICABILITY_RESULTS_def lineage_matches_def
      TARGET_LINEAGE_BY_ID_def CANONICAL_FAMILY_LINEAGE_def)

lemma trial_pool_ok: "check_trial_pool (sample_trial attempt parent) = Inr ()"
  by (simp add: check_trial_pool_def Let_def seqE_Inr guard_Inr bindE_eq_Inr bm_text_Inr identifier_normal identifier_eval
      str_in_def text_in_def EXPECTED_POOL_IDS_def CONTAMINATION_STATUSES_def POOL_EXPOSURE_STATUS_def require_sha256_Inr
      PRIMARY_ESTIMATE_POOL_ID_def)

lemma trial_subject_ok: "check_trial_subject (sample_trial attempt parent) = Inr ()"
  by (simp add: check_trial_subject_def Let_def seqE_Inr guard_Inr must_Inr bm_text_Inr identifier_normal identifier_eval
      str_in_def text_in_def SYSTEM_SCOPE_ID_def moving_aliases_def lower_def)

lemma trial_digests_ok: "trial_digests (sample_trial attempt parent) = Inr ()"
  by (simp add: trial_digests_def seqE_Inr require_sha256_Inr trial_fingerprints_def)

lemma sampling_get [simp]:
  "get sample_sampling ''temperature'' = JInt 0" "get sample_sampling ''top_p'' = JNull"
  "get sample_sampling ''max_output_tokens'' = JInt 256" "get sample_sampling ''seed'' = JInt 7"
  "get sample_sampling ''automatic_retries'' = JInt 0" "get sample_sampling ''additional_parameters_fingerprint'' = zero_digest"
  unfolding sample_sampling_def by (simp_all only: lookup_eval)

lemma reasoning_get [simp]:
  "get sample_reasoning ''mode'' = JStr ''DISABLED''" "get sample_reasoning ''effort'' = JNull"
  "get sample_reasoning ''max_reasoning_tokens'' = JNull" "get sample_reasoning ''configuration_fingerprint'' = zero_digest"
  unfolding sample_reasoning_def by (simp_all only: lookup_eval)

lemma control_fields:
  "map fst sample_sampling = [''temperature'', ''top_p'', ''max_output_tokens'', ''seed'', ''automatic_retries'', ''additional_parameters_fingerprint'']"
  "map fst sample_reasoning = [''mode'', ''effort'', ''max_reasoning_tokens'', ''configuration_fingerprint'']"
  by (simp_all add: sample_sampling_def sample_reasoning_def)

lemma trial_controls_ok:
  "check_sampling (sample_trial attempt parent) = Inr ()" "check_reasoning (sample_trial attempt parent) = Inr ()"
  by (simp_all add: check_sampling_def check_reasoning_def Let_def bindE_eq_Inr bm_obj_Inr seqE_Inr guard_Inr bm_keysI control_fields
      bounded_number_def must_Inr bm_integer_Inr optional_count_def require_sha256_Inr bm_number_def int_to_float_def to_float_def
      optional_identifier_def)

lemma trial_keys_public: "\<forall>k \<in> set trial_keys. public_text k"
  by (simp add: trial_keys_def quick_eval public_eval)

lemma zero_digest_public [simp]: "\<forall>t \<in> set (scan_strings zero_digest). public_text t"
  using sample_digest_public by (simp add: zero_digest_def del: append.simps)

lemma scan_items: "set (scan_strings_items d) = set (map fst d) \<union> (\<Union>v \<in> set (map snd d). set (scan_strings v))"
proof (induction d)
  case (Cons kv d)
  then show ?case by (cases kv) (simp add: Un_left_commute)
qed simp

lemma controls_public:
  "\<forall>t \<in> set (scan_strings_items sample_sampling). public_text t" "\<forall>t \<in> set (scan_strings_items sample_reasoning). public_text t"
  using zero_digest_public by (simp_all add: sample_sampling_def sample_reasoning_def quick_eval public_eval ball_Un)

lemma trial_public:
  assumes "public_text attempt" and "\<forall>t \<in> set (scan_strings parent). public_text t"
  shows "\<forall>t \<in> set (scan_strings (JObj (sample_trial attempt parent))). public_text t"
proof -
  have "\<forall>v \<in> set (map snd (sample_trial attempt parent)). \<forall>t \<in> set (scan_strings v). public_text t"
    using assms zero_digest_public controls_public
    by (simp add: sample_trial_def TRIAL_IDENTITY_SCHEMA_VERSION_def WORK_ORDER_REVISION_def quick_eval public_eval)
  then show ?thesis using trial_keys_public by (auto simp: scan_items trial_fields)
qed

lemma trial_valid:
  assumes "is_identifier attempt" and "public_text attempt"
    and "parent = JNull \<or> (\<exists>p. parent = JStr p \<and> is_identifier p \<and> p \<noteq> attempt \<and> public_text p)"
  shows "validate_trial_identity (JObj (sample_trial attempt parent)) = Inr (sample_trial attempt parent)"
proof -
  have "check_trial_parent (sample_trial attempt parent) = Inr ()" using assms by (intro trial_parent_ok) auto
  moreover have "assert_public_safe (JObj (sample_trial attempt parent)) = Inr ()"
    unfolding assert_public_safe_iff using assms(2,3) by (intro trial_public) auto
  ultimately show ?thesis
    using trial_header_ok [OF assms(1)]
    by (simp add: validate_trial_identity_def bindE_eq_Inr bm_obj_Inr seqE_Inr must_Inr bm_integer_Inr
        trial_target_ok trial_pool_ok trial_subject_ok trial_digests_ok trial_controls_ok)
qed

end
