(* ===== verification/BmStudy.thy ===== *)
theory BmStudy
  imports BmSample
begin

text \<open>
  The applicability declarations of the sample study: one for each of the sixteen entries,
  accepted in sequence.  A digest is a public text, which the sealed documents use.
\<close>

section \<open>Fingerprints\<close>

lemma digest_chars: "c \<in> set (sha256_text s) \<Longrightarrow> is_hex c"
  using sha256_text_shape [of s] by (auto simp: is_sha256_hex_def list_all_iff)

lemma sha256_json_ok [simp]: "is_sha256 (JStr (sha256_json v))"
  using sha256_text_shape [of "b2_canonical_json v"] by (simp add: is_sha256_def sha256_json_def is_sha256_hex_def)

lemma digest_lower: "c \<in> set (lower (sha256_json v)) \<Longrightarrow> is_hex c \<or> c \<in> {CHR ''s'', CHR ''h'', CHR '':''}"
proof -
  assume "c \<in> set (lower (sha256_json v))"
  then obtain b where b: "b \<in> set (sha256_json v)" "c = lower_char b" by (auto simp: lower_def)
  have "lower_char x = x" if "is_hex x" for x using that by (auto simp: is_hex_def lower_char_def Let_def)
  with b digest_chars show ?thesis by (fastforce simp: sha256_json_def ascii is_hex_def)
qed

lemma sha256_json_public [simp]: "public_text (sha256_json v)"
proof (rule public_fast)
  show "\<not> contains ''ERR-'' (sha256_json v)"
  proof
    assume "contains ''ERR-'' (sha256_json v)"
    then have "CHR ''R'' \<in> set (sha256_json v)" by (rule char_of_found) simp
    then show False using digest_chars by (fastforce simp: sha256_json_def ascii is_hex_def)
  qed
  have absent: "\<not> contains f (lower (sha256_json v))" if "c \<in> set f" "c \<in> {CHR ''g'', CHR ''n'', CHR ''i'', CHR ''o'', CHR ''p''}" for f c
  proof
    assume "contains f (lower (sha256_json v))"
    then have "c \<in> set (lower (sha256_json v))" using that(1) by (rule char_of_found)
    with that(2) show False using digest_lower [of c v] by (auto simp: is_hex_def ascii)
  qed
  have "list_all (\<lambda>f. list_ex (\<lambda>c. c \<in> {CHR ''g'', CHR ''n'', CHR ''i'', CHR ''o'', CHR ''p''}) f) forbidden_fragments"
    by (simp add: forbidden_fragments_def)
  with absent show "list_all (\<lambda>f. \<not> contains f (lower (sha256_json v))) forbidden_fragments"
    unfolding list_all_iff list_ex_iff by blast
qed

section \<open>Applicability\<close>

definition sample_declaration :: "lineage \<Rightarrow> obj" where
  "sample_declaration r =
     (let (result, comparison, reason, mode) =
        (if ln_target_class r = ''SYSTEM_EVAL_ONLY'' then (''NOT_APPLICABLE'', ''NOT_APPLICABLE'', ''SYSTEM_EVAL_ONLY_NO_MODEL_TRIAL'', ''SYSTEM_EVAL'')
         else if ln_target_class r = ''AGENT_STANDARDIZED'' then (''NOT_APPLICABLE'', ''NOT_APPLICABLE'', ''PROVIDER_CAPABILITY_UNAVAILABLE'', ''DIRECT'')
         else (''APPLICABLE'', ''DEFAULT_COMPARABLE'', ''DECLARED_CAPABILITY_SUPPORTED'', ''DIRECT'')) in [
      (''provider_subject_id'', JStr ''prov''), (''model_subject_id'', JStr ''model''), (''requested_model_id'', JStr ''req''),
      (''entry_id'', JStr (ln_entry_id r)), (''target_id'', JStr (ln_target_id r)), (''family_id'', JStr (ln_family_id r)),
      (''target_class'', JStr (ln_target_class r)), (''capability_mode'', JStr mode), (''applicability_result'', JStr result),
      (''comparison_result'', JStr comparison), (''reason_code'', JStr reason), (''evidence_fingerprint'', zero_digest),
      (''declared_before_execution'', JBool True)])"

definition sample_declarations :: "obj list" where
  "sample_declarations = map sample_declaration CANONICAL_FAMILY_LINEAGE"

text \<open>Declarations of one subject, all fine and of distinct entries, are accepted in sequence.\<close>

definition declaration_ok :: "string \<Rightarrow> string \<Rightarrow> string \<times> string \<Rightarrow> obj \<Rightarrow> bool" where
  "declaration_ok status subject binding r \<longleftrightarrow>
     (\<forall>l. check_declaration l r = Inr ())
     \<and> expected_semantics status r = Inr (str_in r ''applicability_result'', str_in r ''comparison_result'', str_in r ''reason_code'')
     \<and> str_in r ''model_subject_id'' = subject \<and> (str_in r ''provider_subject_id'', str_in r ''requested_model_id'') = binding"

lemma fold_declarations:
  assumes "\<forall>r \<in> set (ap_records a @ rows). declaration_ok status subject binding r"
    and "distinct (map (\<lambda>r. str_in r ''entry_id'') (ap_records a @ rows))"
    and "map_of (ap_subjects a) subject \<in> {None, Some binding}"
  shows "\<exists>b. foldE (declaration_step status) a (enumerate n (map JObj rows)) = Inr b \<and> ap_records b = ap_records a @ rows"
  using assms
proof (induction rows arbitrary: a n)
  case (Cons r rows)
  let ?b = "\<lparr>ap_records = ap_records a @ [r], ap_subjects = (subject, binding) # ap_subjects a\<rparr>"
  from Cons.prems(1) have r: "declaration_ok status subject binding r" by simp
  have "declarations a subject = ap_records a"
    using Cons.prems(1) by (auto simp: declarations_def declaration_ok_def)
  moreover from Cons.prems(2) have "str_in r ''entry_id'' \<notin> set (map (\<lambda>r. str_in r ''entry_id'') (ap_records a))" by auto
  ultimately have "declaration_step status a (n, JObj r) = Inr ?b"
    using r Cons.prems(3) by (auto simp: declaration_step_def Let_def bm_obj_def declaration_ok_def guard_def)
  moreover from Cons.IH [of ?b "Suc n"] Cons.prems
  have "\<exists>b. foldE (declaration_step status) ?b (enumerate (Suc n) (map JObj rows)) = Inr b \<and> ap_records b = ap_records ?b @ rows"
    by simp
  ultimately show ?case by simp
qed simp

lemma singleton_list: "set xs = {x} \<Longrightarrow> distinct xs \<Longrightarrow> xs = [x]"
  by (cases xs; cases "tl xs") auto

lemma applicability_valid:
  assumes "\<forall>r \<in> set rows. declaration_ok status subject binding r" and "status \<in> {''NOT_ESTABLISHED'', ''ESTABLISHED''}"
    and "map (\<lambda>r. str_in r ''entry_id'') rows = map ln_entry_id CANONICAL_FAMILY_LINEAGE"
    and "distinct (map ln_entry_id CANONICAL_FAMILY_LINEAGE)" and "rows \<noteq> []"
  shows "\<exists>b. validate_model_applicability_records (JArr (map JObj rows)) status frozen = Inr b \<and> ap_records b = rows"
proof -
  from fold_declarations [of "\<lparr>ap_records = [], ap_subjects = []\<rparr>" rows status subject binding 0] assms
  obtain b where b: "foldE (declaration_step status) \<lparr>ap_records = [], ap_subjects = []\<rparr> (enumerate 0 (map JObj rows)) = Inr b"
    "ap_records b = rows" by auto
  have "firsts (map (\<lambda>r. str_in r ''model_subject_id'') rows) = [subject]"
  proof -
    have "set (firsts (map (\<lambda>r. str_in r ''model_subject_id'') rows)) = {subject}"
      using assms(1,5) by (cases rows) (auto simp: declaration_ok_def)
    then show ?thesis using distinct_firsts by (rule singleton_list)
  qed
  moreover have "declarations b subject = rows" using assms(1) b(2) by (auto simp: declarations_def declaration_ok_def)
  moreover have "set (map (\<lambda>r. str_in r ''entry_id'') rows) = set (map ln_entry_id CANONICAL_FAMILY_LINEAGE)"
    by (simp only: assms(3))
  moreover have "rows \<noteq> []" "status = ''NOT_ESTABLISHED'' \<or> status = ''ESTABLISHED''" using assms by auto
  ultimately show ?thesis using b
    by (simp add: validate_model_applicability_records_def guard_def del: set_map)
qed

section \<open>The sample declarations\<close>

lemma entries_distinct: "distinct (map ln_entry_id CANONICAL_FAMILY_LINEAGE)"
  by (simp add: CANONICAL_FAMILY_LINEAGE_def)

lemma find_unique: "distinct (map f xs) \<Longrightarrow> x \<in> set xs \<Longrightarrow> find (\<lambda>y. f y = f x) xs = Some x"
  by (induction xs) (auto simp: image_iff)

lemma lineage_by_entry: "r \<in> set CANONICAL_FAMILY_LINEAGE \<Longrightarrow> TARGET_LINEAGE_BY_ENTRY (ln_entry_id r) = Some r"
  unfolding TARGET_LINEAGE_BY_ENTRY_def using entries_distinct by (rule find_unique)

lemma lineage_texts:
  "\<forall>r \<in> set CANONICAL_FAMILY_LINEAGE. is_identifier (ln_entry_id r) \<and> is_identifier (ln_target_id r) \<and> is_identifier (ln_family_id r)
     \<and> is_identifier (ln_target_class r)"
  by (simp add: CANONICAL_FAMILY_LINEAGE_def identifier_eval)

lemma lineage_public:
  "\<forall>r \<in> set CANONICAL_FAMILY_LINEAGE. public_text (ln_entry_id r) \<and> public_text (ln_target_id r) \<and> public_text (ln_family_id r)
     \<and> public_text (ln_target_class r)"
  by (simp add: CANONICAL_FAMILY_LINEAGE_def quick_eval public_eval)

lemma declaration_get [simp]:
  "get (sample_declaration r) ''provider_subject_id'' = JStr ''prov''" "get (sample_declaration r) ''model_subject_id'' = JStr ''model''"
  "get (sample_declaration r) ''requested_model_id'' = JStr ''req''" "get (sample_declaration r) ''entry_id'' = JStr (ln_entry_id r)"
  "get (sample_declaration r) ''target_id'' = JStr (ln_target_id r)" "get (sample_declaration r) ''family_id'' = JStr (ln_family_id r)"
  "get (sample_declaration r) ''target_class'' = JStr (ln_target_class r)"
  "get (sample_declaration r) ''evidence_fingerprint'' = zero_digest" "get (sample_declaration r) ''declared_before_execution'' = JBool True"
  by (simp_all add: sample_declaration_def look_Cons split: prod.splits)

definition model_class :: "lineage \<Rightarrow> bool" where
  "model_class r \<longleftrightarrow> ln_target_class r \<noteq> ''SYSTEM_EVAL_ONLY'' \<and> ln_target_class r \<noteq> ''AGENT_STANDARDIZED''"

lemma declaration_semantics_get [simp]:
  "get (sample_declaration r) ''capability_mode'' = JStr (if ln_target_class r = ''SYSTEM_EVAL_ONLY'' then ''SYSTEM_EVAL'' else ''DIRECT'')"
  "get (sample_declaration r) ''applicability_result'' = JStr (if model_class r then ''APPLICABLE'' else ''NOT_APPLICABLE'')"
  "get (sample_declaration r) ''comparison_result'' = JStr (if model_class r then ''DEFAULT_COMPARABLE'' else ''NOT_APPLICABLE'')"
  "get (sample_declaration r) ''reason_code'' = JStr (if model_class r then ''DECLARED_CAPABILITY_SUPPORTED''
     else if ln_target_class r = ''SYSTEM_EVAL_ONLY'' then ''SYSTEM_EVAL_ONLY_NO_MODEL_TRIAL'' else ''PROVIDER_CAPABILITY_UNAVAILABLE'')"
  by (simp_all add: sample_declaration_def model_class_def look_Cons)

lemma sample_str [simp]: "get d k = JStr s \<Longrightarrow> str_in d k = s"
  by (simp add: str_in_def text_in_def)

lemma declaration_keys: "map fst (sample_declaration r) = applicability_keys"
  by (simp add: sample_declaration_def applicability_keys_def)

lemma declaration_words:
  "is_identifier ''prov''" "is_identifier ''model''" "is_identifier ''req''" "is_identifier ''APPLICABLE''" "is_identifier ''NOT_APPLICABLE''"
  "is_identifier ''DEFAULT_COMPARABLE''" "is_identifier ''DIRECT''" "is_identifier ''SYSTEM_EVAL''"
  "is_identifier ''DECLARED_CAPABILITY_SUPPORTED''" "is_identifier ''SYSTEM_EVAL_ONLY_NO_MODEL_TRIAL''"
  "is_identifier ''PROVIDER_CAPABILITY_UNAVAILABLE''"
  by (simp_all add: identifier_eval)

lemma declaration_checked:
  assumes "r \<in> set CANONICAL_FAMILY_LINEAGE"
  shows "check_declaration l (sample_declaration r) = Inr ()"
proof -
  have r: "is_identifier (ln_entry_id r)" "is_identifier (ln_target_id r)" "is_identifier (ln_family_id r)" "is_identifier (ln_target_class r)"
    using assms lineage_texts by auto
  have "is_sha256 zero_digest" by simp
  then show ?thesis
    using r declaration_words lineage_by_entry [OF assms]
    by (simp add: check_declaration_def seqE_Inr bm_keysI declaration_keys applicability_identifiers_def must_Inr bm_identifier_Inr
        identifier_normal guard_Inr SYSTEM_SCOPE_ID_def APPLICABILITY_RESULTS_def APPLICABILITY_REASON_CODES_def
        require_sha256_Inr bindE_eq_Inr bm_boolean_Inr ex_bool_eq)
qed

lemma declaration_fine:
  assumes "r \<in> set CANONICAL_FAMILY_LINEAGE"
  shows "declaration_ok ''NOT_ESTABLISHED'' ''model'' (''prov'', ''req'') (sample_declaration r)"
  using declaration_checked [OF assms]
  by (simp add: declaration_ok_def expected_semantics_def model_class_def Let_def)

lemma sample_applicability:
  "\<exists>b. validate_model_applicability_records (JArr (map JObj sample_declarations)) ''NOT_ESTABLISHED'' frozen = Inr b
     \<and> ap_records b = sample_declarations"
proof (rule applicability_valid)
  show "\<forall>r \<in> set sample_declarations. declaration_ok ''NOT_ESTABLISHED'' ''model'' (''prov'', ''req'') r"
    using declaration_fine by (auto simp: sample_declarations_def)
  show "map (\<lambda>r. str_in r ''entry_id'') sample_declarations = map ln_entry_id CANONICAL_FAMILY_LINEAGE"
    by (simp add: sample_declarations_def)
  show "distinct (map ln_entry_id CANONICAL_FAMILY_LINEAGE)" by (rule entries_distinct)
  show "sample_declarations \<noteq> []" by (simp add: sample_declarations_def CANONICAL_FAMILY_LINEAGE_def)
qed simp

end
