(* ===== verification/BmPlan.thy ===== *)
theory BmPlan
  imports BmStudy
begin

text \<open>
  The adjudication plan and the frozen manifest of the sample study.  Both carry the digest of
  their own body, and both pass their validators.
\<close>

section \<open>The adjudication plan\<close>

definition sample_seat :: "string \<Rightarrow> json" where
  "sample_seat i = JObj [(''adjudicator_type'', JStr ''HUMAN''), (''adjudicator_id'', JStr i), (''configuration_fingerprint'', zero_digest)]"

definition plan_body :: obj where
  "plan_body = [(''plan_id'', JStr ''plan''), (''mode'', JStr ''HUMAN_HUMAN''), (''authority_order'', jstrs ADJUDICATION_AUTHORITY_ORDER),
     (''route_policy'', ADJUDICATION_ROUTE_POLICY), (''llm_judge_assistance_policy'', LLM_JUDGE_ASSISTANCE_POLICY),
     (''agreement_reporting_policy'', AGREEMENT_REPORTING_POLICY), (''metric_ids'', jstrs [''model_failure_rate'']),
     (''primary_adjudicators'', JArr [sample_seat ''adj-1'', sample_seat ''adj-2'']), (''tiebreak_adjudicator'', sample_seat ''adj-3''),
     (''rubric_version'', JStr ''r1''), (''rubric_fingerprint'', zero_digest)]"

definition sealed :: "obj \<Rightarrow> string \<Rightarrow> obj" where
  "sealed body k = body @ [(k, JStr (sha256_json (JObj body)))]"

lemma verify_sealed:
  assumes "k \<notin> fst ` set body"
  shows "verify_fingerprint (sealed body k) k l = Inr (sealed body k)"
proof -
  have "get (sealed body k) k = JStr (sha256_json (JObj body))"
    using assms by (simp add: sealed_def get_def map_add_def map_of_eq_None_iff [THEN iffD2])
  then show ?thesis using assms by (simp add: verify_fingerprint_Inr sealed_def pop_snoc)
qed

lemma get_sealed: "k' \<noteq> k \<Longrightarrow> get (sealed body k) k' = get body k'"
  by (simp add: sealed_def get_def map_add_def split: option.splits)

lemma keys_sealed: "map fst (sealed body k) = map fst body @ [k]"
  by (simp add: sealed_def)

lemma sealed_public:
  assumes "\<forall>t \<in> set (scan_strings (JObj body)). public_text t" and "public_text k"
  shows "assert_public_safe (JObj (sealed body k)) = Inr ()"
  using assms unfolding assert_public_safe_iff by (auto simp: sealed_def scan_items)

lemma plan_get [simp]:
  "get plan_body ''plan_id'' = JStr ''plan''" "get plan_body ''mode'' = JStr ''HUMAN_HUMAN''"
  "get plan_body ''authority_order'' = jstrs ADJUDICATION_AUTHORITY_ORDER" "get plan_body ''route_policy'' = ADJUDICATION_ROUTE_POLICY"
  "get plan_body ''llm_judge_assistance_policy'' = LLM_JUDGE_ASSISTANCE_POLICY"
  "get plan_body ''agreement_reporting_policy'' = AGREEMENT_REPORTING_POLICY" "get plan_body ''metric_ids'' = jstrs [''model_failure_rate'']"
  "get plan_body ''primary_adjudicators'' = JArr [sample_seat ''adj-1'', sample_seat ''adj-2'']"
  "get plan_body ''tiebreak_adjudicator'' = sample_seat ''adj-3''" "get plan_body ''rubric_version'' = JStr ''r1''"
  "get plan_body ''rubric_fingerprint'' = zero_digest"
  unfolding plan_body_def by (simp_all only: lookup_eval)

lemma policies_equal:
  "py_eq ADJUDICATION_ROUTE_POLICY ADJUDICATION_ROUTE_POLICY" "py_eq LLM_JUDGE_ASSISTANCE_POLICY LLM_JUDGE_ASSISTANCE_POLICY"
  "py_eq AGREEMENT_REPORTING_POLICY AGREEMENT_REPORTING_POLICY"
  by (rule py_eq_refl; simp add: ADJUDICATION_ROUTE_POLICY_def LLM_JUDGE_ASSISTANCE_POLICY_def AGREEMENT_REPORTING_POLICY_def)+

lemma policies_are_objects:
  "\<exists>p. ADJUDICATION_ROUTE_POLICY = JObj p" "\<exists>p. LLM_JUDGE_ASSISTANCE_POLICY = JObj p" "\<exists>p. AGREEMENT_REPORTING_POLICY = JObj p"
  by (simp_all add: ADJUDICATION_ROUTE_POLICY_def LLM_JUDGE_ASSISTANCE_POLICY_def AGREEMENT_REPORTING_POLICY_def)

lemma same_policy_refl: "get d k = p \<Longrightarrow> \<exists>q. p = JObj q \<Longrightarrow> py_eq p p \<Longrightarrow> same_policy d k p msg = Inr ()"
  by (auto simp: same_policy_def bm_obj_def guard_def)

lemma plan_words: "is_identifier ''plan''" "is_identifier ''r1''" "is_identifier ''adj-1''" "is_identifier ''adj-2''" "is_identifier ''adj-3''"
  "is_identifier ''HUMAN''" "is_identifier ''HUMAN_HUMAN''" "is_identifier ''model_failure_rate''"
  by (simp_all add: identifier_eval)

lemma string_items: "\<forall>s \<in> set ss. is_identifier s \<Longrightarrow> mapE (bm_string_item l) (enumerate n (map JStr ss)) = Inr ss"
proof (induction ss arbitrary: n)
  case (Cons s ss)
  then have "normal_text s" using identifier_normal by auto
  with Cons show ?case by (auto simp: bm_string_item_def normal_text_def blank_def)
qed simp

lemma word_list:
  "get d k = jstrs ss \<Longrightarrow> \<forall>s \<in> set ss. is_identifier s \<Longrightarrow> distinct ss \<Longrightarrow> ss \<noteq> [] \<Longrightarrow> bm_strings d k l False True = Inr ss"
  by (simp add: bm_strings_def jstrs_def string_items Let_def)

lemma plan_policies_ok: "check_plan_policies (sealed plan_body ''plan_fingerprint'') = Inr ()"
proof -
  have "bm_keys (sealed plan_body ''plan_fingerprint'') [''plan_id'', ''mode'', ''authority_order'', ''route_policy'', ''llm_judge_assistance_policy'',
       ''agreement_reporting_policy'', ''metric_ids'', ''primary_adjudicators'', ''tiebreak_adjudicator'', ''rubric_version'',
       ''rubric_fingerprint'', ''plan_fingerprint''] plan_label = Inr ()"
    by (rule bm_keysI) (simp add: keys_sealed plan_body_def)
  moreover have "bm_strings (sealed plan_body ''plan_fingerprint'') ''metric_ids'' plan_label False True = Inr [''model_failure_rate'']"
    by (rule word_list) (simp_all add: get_sealed plan_words)
  ultimately show ?thesis
    using policies_equal policies_are_objects plan_words
    by (simp add: check_plan_policies_def seqE_Inr get_sealed must_Inr bm_identifier_Inr bindE_eq_Inr bm_text_Inr identifier_normal
        guard_Inr require_sha256_Inr same_policy_refl EXPECTED_METRIC_IDS_def)
qed

lemma seat_ok: "is_identifier i \<Longrightarrow> checked_assignment (sample_seat i) l = Inr (i, text_in zero_digest)"
  by (simp add: checked_assignment_def sample_seat_def bm_obj_def bindE_eq_Inr bm_keys_Inr bm_text_Inr bm_identifier_Inr guard_Inr
      require_sha256_Inr lookup_eval plan_words identifier_normal str_in_def)

lemma plan_assignments_ok: "check_assignments (sealed plan_body ''plan_fingerprint'') = Inr ()"
  by (simp add: check_assignments_def get_sealed seat_ok plan_words guard_def)

text \<open>A value all of whose texts are public.\<close>

definition clean :: "json \<Rightarrow> bool" where
  "clean v \<longleftrightarrow> (\<forall>t \<in> set (scan_strings v). public_text t)"

lemma scan_list: "set (scan_strings_list xs) = (\<Union>v \<in> set xs. set (scan_strings v))"
  by (induction xs) simp_all

lemma clean_atoms [simp]: "clean (JStr s) \<longleftrightarrow> public_text s" "clean JNull" "clean (JBool b)" "clean (JInt i)" "clean zero_digest"
  using zero_digest_public by (simp_all add: clean_def)

lemma clean_JArr [simp]: "clean (JArr xs) \<longleftrightarrow> (\<forall>v \<in> set xs. clean v)"
  by (auto simp: clean_def scan_list)

lemma clean_JObj: "clean (JObj d) \<longleftrightarrow> (\<forall>k \<in> set (map fst d). public_text k) \<and> (\<forall>v \<in> set (map snd d). clean v)"
  by (auto simp: clean_def scan_items)

lemma clean_jstrs [simp]: "clean (jstrs xs) \<longleftrightarrow> (\<forall>s \<in> set xs. public_text s)"
  by (simp add: jstrs_def)

lemma clean_safe: "assert_public_safe v = Inr () \<longleftrightarrow> clean v"
  by (simp add: assert_public_safe_iff clean_def)

lemma clean_seat: "public_text i \<Longrightarrow> clean (sample_seat i)"
  by (simp add: sample_seat_def clean_JObj quick_eval public_eval)

lemma clean_policies: "clean ADJUDICATION_ROUTE_POLICY" "clean LLM_JUDGE_ASSISTANCE_POLICY" "clean AGREEMENT_REPORTING_POLICY"
  by (simp_all add: clean_JObj ADJUDICATION_ROUTE_POLICY_def LLM_JUDGE_ASSISTANCE_POLICY_def AGREEMENT_REPORTING_POLICY_def quick_eval public_eval)

lemma clean_plan_body: "clean (JObj plan_body)"
proof -
  have w: "public_text ''adj-1''" "public_text ''adj-2''" "public_text ''adj-3''" "\<forall>s \<in> set ADJUDICATION_AUTHORITY_ORDER. public_text s"
    "public_text ''plan''" "public_text ''HUMAN_HUMAN''" "public_text ''model_failure_rate''" "public_text ''r1''"
    by (simp_all add: ADJUDICATION_AUTHORITY_ORDER_def quick_eval public_eval)
  have "\<forall>v \<in> set (map snd plan_body). clean v" using w by (simp add: plan_body_def clean_seat clean_policies)
  moreover have "\<forall>k \<in> set (map fst plan_body). public_text k" by (simp add: plan_body_def quick_eval public_eval)
  ultimately show ?thesis by (simp only: clean_JObj simp_thms)
qed

definition sample_plan :: obj where
  "sample_plan = sealed plan_body ''plan_fingerprint''"

lemma sample_plan_valid: "validate_adjudication_plan (JObj sample_plan) = Inr sample_plan"
proof -
  have "assert_public_safe (JObj sample_plan) = Inr ()"
    unfolding sample_plan_def using clean_plan_body by (intro sealed_public) (simp_all add: clean_def quick_eval public_eval)
  moreover have "verify_fingerprint sample_plan ''plan_fingerprint'' plan_label = Inr sample_plan"
    unfolding sample_plan_def by (rule verify_sealed) (simp add: plan_body_def)
  ultimately show ?thesis
    by (simp add: validate_adjudication_plan_def bm_obj_def seqE_Inr sample_plan_def plan_policies_ok plan_assignments_ok bindE_eq_Inr)
qed

section \<open>The manifest\<close>

definition sample_attempts :: "obj list" where
  "sample_attempts = [first_attempt, second_attempt]"

definition sample_commitment :: string where
  "sample_commitment = sha256_json (JObj [
     (''commitment_scheme'', JStr ''B2-BM0-CORPUS-AGGREGATE-V1''), (''corpus_pool_id'', JStr PRIMARY_ESTIMATE_POOL_ID),
     (''item_count'', JInt 1), (''items'', JArr [JObj [(''corpus_item_alias'', JStr ''alias''), (''corpus_item_commitment'', zero_digest)]])])"

definition sample_authority :: obj where
  "sample_authority = [(''binding_status'', JStr ''BOUND''), (''authority_type'', JStr ''PRIVATE_FILE_ID''), (''authority_id'', JStr ''auth''),
     (''authority_fingerprint'', zero_digest), (''public_repository_content_status'', JStr ''ABSENT''),
     (''secret_locator_in_public_repository'', JBool False)]"

definition sample_artifacts :: obj where
  "sample_artifacts = map (\<lambda>k. (k, zero_digest)) MANIFEST_ARTIFACT_FINGERPRINT_KEYS"

definition sample_sandbox :: obj where
  "sample_sandbox = [(''status'', JStr ''NOT_ESTABLISHED''), (''evidence_refs'', JArr [])]"

definition sample_stop_rule :: obj where
  "sample_stop_rule = [(''method_id'', sap_method 0), (''outcome_blind'', JBool True), (''required_event_fields'', jstrs [''attempt_id'', ''recorded'']),
     (''forbidden_event_fields'', jstrs forbidden_event_fields), (''planned_attempt_count'', JInt 2)]"

definition manifest_body :: obj where
  "manifest_body = [
     (''schema_version'', JStr MANIFEST_SCHEMA_VERSION), (''manifest_id'', JStr ''man''), (''contract_id'', JStr WORK_ORDER_ID),
     (''contract_revision'', JStr WORK_ORDER_REVISION), (''implementation_base_sha'', JStr IMPLEMENTATION_BASE_SHA),
     (''study_state'', JStr ''FROZEN''), (''provider_roster_status'', JStr ''SELECTED''), (''corpus_commitment_status'', JStr ''SEALED''),
     (''corpus_aggregate_commitment'', JStr sample_commitment), (''adjudication_mode'', JStr ''HUMAN_HUMAN''),
     (''adjudication_plan'', JObj sample_plan), (''frozen_before_hidden_access'', JBool True),
     (''hidden_holdout_authority'', JObj sample_authority), (''comparison_classes'', jstrs DEFAULT_COMPARABLE_CLASSES),
     (''sandbox_equivalence'', JObj sample_sandbox), (''model_applicability'', JArr (map JObj sample_declarations)),
     (''artifact_fingerprints'', JObj sample_artifacts), (''planned_attempts'', JArr (map JObj sample_attempts)),
     (''planned_attempt_count'', JInt 2), (''stop_rule'', JObj sample_stop_rule)]"

definition sample_manifest :: obj where
  "sample_manifest = sealed manifest_body ''manifest_fingerprint''"

lemma manifest_body_get:
  "get manifest_body ''schema_version'' = JStr MANIFEST_SCHEMA_VERSION" "get manifest_body ''manifest_id'' = JStr ''man''"
  "get manifest_body ''contract_id'' = JStr WORK_ORDER_ID" "get manifest_body ''contract_revision'' = JStr WORK_ORDER_REVISION"
  "get manifest_body ''implementation_base_sha'' = JStr IMPLEMENTATION_BASE_SHA" "get manifest_body ''study_state'' = JStr ''FROZEN''"
  "get manifest_body ''provider_roster_status'' = JStr ''SELECTED''" "get manifest_body ''corpus_commitment_status'' = JStr ''SEALED''"
  "get manifest_body ''corpus_aggregate_commitment'' = JStr sample_commitment" "get manifest_body ''adjudication_mode'' = JStr ''HUMAN_HUMAN''"
  "get manifest_body ''adjudication_plan'' = JObj sample_plan" "get manifest_body ''frozen_before_hidden_access'' = JBool True"
  "get manifest_body ''hidden_holdout_authority'' = JObj sample_authority" "get manifest_body ''comparison_classes'' = jstrs DEFAULT_COMPARABLE_CLASSES"
  "get manifest_body ''sandbox_equivalence'' = JObj sample_sandbox" "get manifest_body ''model_applicability'' = JArr (map JObj sample_declarations)"
  "get manifest_body ''artifact_fingerprints'' = JObj sample_artifacts" "get manifest_body ''planned_attempts'' = JArr (map JObj sample_attempts)"
  "get manifest_body ''planned_attempt_count'' = JInt 2" "get manifest_body ''stop_rule'' = JObj sample_stop_rule"
  unfolding manifest_body_def by (simp_all only: lookup_eval)

lemma manifest_get:
  "k \<noteq> ''manifest_fingerprint'' \<Longrightarrow> get sample_manifest k = get manifest_body k"
  unfolding sample_manifest_def by (rule get_sealed)

lemma manifest_fields [simp]:
  "get sample_manifest ''schema_version'' = JStr MANIFEST_SCHEMA_VERSION" "get sample_manifest ''manifest_id'' = JStr ''man''"
  "get sample_manifest ''contract_id'' = JStr WORK_ORDER_ID" "get sample_manifest ''contract_revision'' = JStr WORK_ORDER_REVISION"
  "get sample_manifest ''implementation_base_sha'' = JStr IMPLEMENTATION_BASE_SHA" "get sample_manifest ''study_state'' = JStr ''FROZEN''"
  "get sample_manifest ''provider_roster_status'' = JStr ''SELECTED''" "get sample_manifest ''corpus_commitment_status'' = JStr ''SEALED''"
  "get sample_manifest ''corpus_aggregate_commitment'' = JStr sample_commitment" "get sample_manifest ''adjudication_mode'' = JStr ''HUMAN_HUMAN''"
  "get sample_manifest ''adjudication_plan'' = JObj sample_plan" "get sample_manifest ''frozen_before_hidden_access'' = JBool True"
  "get sample_manifest ''hidden_holdout_authority'' = JObj sample_authority" "get sample_manifest ''comparison_classes'' = jstrs DEFAULT_COMPARABLE_CLASSES"
  "get sample_manifest ''sandbox_equivalence'' = JObj sample_sandbox" "get sample_manifest ''model_applicability'' = JArr (map JObj sample_declarations)"
  "get sample_manifest ''artifact_fingerprints'' = JObj sample_artifacts" "get sample_manifest ''planned_attempts'' = JArr (map JObj sample_attempts)"
  "get sample_manifest ''planned_attempt_count'' = JInt 2" "get sample_manifest ''stop_rule'' = JObj sample_stop_rule"
  by (simp_all add: manifest_get manifest_body_get)

lemma manifest_words: "is_identifier ''man''" "is_identifier ''auth''" "is_identifier ''SELECTED''" "is_identifier ''SEALED''" "is_identifier ''FROZEN''"
  "is_identifier ''NOT_ESTABLISHED''" "is_identifier ''att-1''" "is_identifier ''att-2''" "is_identifier ''attempt_id''" "is_identifier ''recorded''"
  "is_identifier ''MODEL_DIRECT''" "is_identifier ''MODEL_CONTEXT_GROUNDED''"
  "\<forall>s \<in> set forbidden_event_fields. is_identifier s" "is_identifier MANIFEST_SCHEMA_VERSION"
  by (simp_all add: identifier_eval forbidden_event_fields_def MANIFEST_SCHEMA_VERSION_def)

lemma manifest_public_words: "public_text ''man''" "public_text ''manifest_fingerprint''" "\<forall>k \<in> set manifest_keys. public_text k"
  by (simp_all add: quick_eval public_eval manifest_keys_def)

lemma manifest_field_names: "map fst sample_manifest = manifest_keys"
  by (simp add: sample_manifest_def keys_sealed manifest_body_def manifest_keys_def)

lemma manifest_header_ok: "check_manifest_header sample_manifest = Inr ()"
proof -
  have "require_git_sha (JStr IMPLEMENTATION_BASE_SHA) l = Inr ()" for l
    by (simp add: require_git_sha_def guard_def IMPLEMENTATION_BASE_SHA_def is_hex_def ascii)
  then show ?thesis
    using manifest_words plan_words
    by (simp add: check_manifest_header_def seqE_Inr bm_keysI manifest_field_names bindE_eq_Inr bm_text_Inr guard_Inr must_Inr bm_identifier_Inr
        identifier_normal sample_plan_valid require_sha256_Inr bm_boolean_Inr sample_commitment_def ex_bool_eq)
qed

lemma authority_get [simp]:
  "get sample_authority ''binding_status'' = JStr ''BOUND''" "get sample_authority ''authority_type'' = JStr ''PRIVATE_FILE_ID''"
  "get sample_authority ''authority_id'' = JStr ''auth''" "get sample_authority ''authority_fingerprint'' = zero_digest"
  "get sample_authority ''public_repository_content_status'' = JStr ''ABSENT''"
  "get sample_authority ''secret_locator_in_public_repository'' = JBool False"
  unfolding sample_authority_def by (simp_all only: lookup_eval)

lemma manifest_authority_ok: "check_hidden_authority sample_manifest = Inr ()"
proof -
  have "map fst sample_authority = authority_keys" by (simp add: sample_authority_def authority_keys_def)
  then show ?thesis
    using manifest_words
    by (simp add: check_hidden_authority_def Let_def bm_obj_def seqE_Inr bm_keysI guard_Inr must_Inr bm_identifier_Inr identifier_normal
        require_sha256_Inr)
qed

lemma parts_of [simp]: "elements_of (JArr xs) = xs" "items_of (JObj d) = d"
  by (simp_all add: elements_of_def items_of_def)

lemma texts_in_jstrs [simp]: "map text_in (elements_of (jstrs xs)) = xs"
  by (simp add: jstrs_def text_in_def comp_def)

lemma sandbox_get [simp]:
  "get sample_sandbox ''status'' = JStr ''NOT_ESTABLISHED''" "get sample_sandbox ''evidence_refs'' = JArr []"
  unfolding sample_sandbox_def by (simp_all only: lookup_eval)

lemma sample_classes: "comparison_classes sample_manifest = DEFAULT_COMPARABLE_CLASSES" "sandbox_status sample_manifest = ''NOT_ESTABLISHED''"
  by (simp_all add: comparison_classes_def sandbox_status_def text_at_def field_def text_in_def)

lemma manifest_sandbox_ok: "check_sandbox sample_manifest = Inr ()"
proof -
  have "map fst sample_sandbox = [''status'', ''evidence_refs'']" by (simp add: sample_sandbox_def)
  moreover have "field (JObj sample_sandbox) ''evidence_refs'' = JArr []" by (simp add: field_def)
  moreover have "bm_strings sample_manifest ''comparison_classes'' manifest_label False True = Inr DEFAULT_COMPARABLE_CLASSES"
    by (rule word_list) (simp_all add: DEFAULT_COMPARABLE_CLASSES_def manifest_words)
  moreover have "''SYSTEM_EVAL_ONLY'' \<notin> set DEFAULT_COMPARABLE_CLASSES" by (simp add: DEFAULT_COMPARABLE_CLASSES_def)
  ultimately show ?thesis
    using manifest_words
    by (simp add: check_sandbox_def Let_def bm_obj_def seqE_Inr bm_keysI must_Inr bm_text_Inr identifier_normal guard_Inr sample_classes)
qed

lemma artifact_digests: "\<forall>kv \<in> set sample_artifacts. snd kv = zero_digest"
  by (auto simp: sample_artifacts_def)

lemma artifacts_equal: "py_eq (JObj sample_artifacts) (JObj sample_artifacts)"
  by (rule py_eq_refl) (simp_all add: sample_artifacts_def MANIFEST_ARTIFACT_FINGERPRINT_KEYS_def zero_digest_def)

lemma manifest_artifacts_ok: "check_artifacts sample_manifest (Some sample_artifacts) = Inr ()"
proof -
  have "map fst sample_artifacts = MANIFEST_ARTIFACT_FINGERPRINT_KEYS" by (simp add: sample_artifacts_def comp_def)
  then show ?thesis
    using artifact_digests artifacts_equal
    by (auto simp: check_artifacts_def Let_def bm_obj_def seqE_Inr bm_keysI require_sha256_Inr guard_Inr)
qed

lemma attempts_valid: "mapE validate_trial_identity (map JObj sample_attempts) = Inr sample_attempts"
  using trial_valid [of "''att-1''" JNull] trial_valid [of "''att-2''" "JStr ''att-1''"] manifest_words
  by (simp add: sample_attempts_def first_attempt_def second_attempt_def quick_eval public_eval)

lemma sample_attempts_of [simp]: "attempts_of sample_manifest = sample_attempts"
  by (simp add: attempts_of_def comp_def)

lemma sample_commitment_ok: "corpus_aggregate_commitment (map JObj sample_attempts) = Inr sample_commitment"
  unfolding corpus_aggregate_commitment_def attempts_valid
  by (simp add: sample_attempts_def first_attempt_def second_attempt_def no_bindings_def bind_item_def Let_def guard_def str_in_def
      text_in_def hidden_items_def sample_commitment_def PRIMARY_ESTIMATE_POOL_ID_def zero_digest_def jint_def)

lemma manifest_attempts_ok: "check_attempts sample_manifest = Inr ()"
proof -
  have "distinct (map (\<lambda>a. str_in a ''attempt_id'') sample_attempts)"
    "length (remdups (map (\<lambda>a. str_in a ''study_id'') sample_attempts)) \<le> 1" "length sample_attempts = 2"
    by (simp_all add: sample_attempts_def first_attempt_def second_attempt_def str_in_def text_in_def)
  then show ?thesis
    by (simp add: check_attempts_def Let_def seqE_Inr guard_Inr must_Inr attempts_valid sample_commitment_ok bindE_eq_Inr bm_integer_Inr)
qed

lemma sample_reads:
  "str_in (sample_trial a p) ''case_id'' = ''case''" "str_in (sample_trial a p) ''model_subject_id'' = ''model''"
  "str_in (sample_trial a p) ''target_class'' = ''MODEL_DIRECT''" "str_in (sample_trial a p) ''attempt_id'' = a"
  "str_in (sample_trial a p) ''trial_id'' = ''trial''" "str_in (sample_trial a p) ''corpus_pool_id'' = ''PRIVATE_HIDDEN_HOLDOUT''"
  by (simp_all add: str_in_def text_in_def)

lemma trial_bindings:
  "case_binding (sample_trial a p) = case_binding first_attempt" "subject_binding (sample_trial a p) = subject_binding first_attempt"
  by (simp_all add: case_binding_def subject_binding_def first_attempt_def)

lemma find_of_map: "find P (map f xs) = map_option f (find (\<lambda>x. P (f x)) xs)"
  by (induction xs) auto

lemma sample_row:
  "\<exists>r. TARGET_LINEAGE_BY_ENTRY ''E11'' = Some r \<and> ln_target_id r = ''BM0-TUT-E11-QA2-CONSTRAINT-ACTION-PERSISTENCE''
     \<and> ln_target_class r = ''MODEL_DIRECT''"
  by (simp add: TARGET_LINEAGE_BY_ENTRY_def CANONICAL_FAMILY_LINEAGE_def)

lemma sample_backed: "backed_by sample_declarations (sample_trial a p)"
proof -
  obtain r where r: "TARGET_LINEAGE_BY_ENTRY ''E11'' = Some r" "ln_target_id r = ''BM0-TUT-E11-QA2-CONSTRAINT-ACTION-PERSISTENCE''"
    "ln_target_class r = ''MODEL_DIRECT''" using sample_row by blast
  then have "find (\<lambda>r. get r ''entry_id'' = JStr ''E11'') sample_declarations = Some (sample_declaration r)"
    by (simp add: sample_declarations_def find_of_map TARGET_LINEAGE_BY_ENTRY_def)
  with r show ?thesis by (simp add: backed_by_def model_class_def)
qed

lemma sample_declared:
  assumes "ap_records ap = sample_declarations"
  shows "declarations ap ''model'' = sample_declarations" and "sample_declarations \<noteq> []"
  using assms by (simp_all add: declarations_def sample_declarations_def CANONICAL_FAMILY_LINEAGE_def)

lemma attempts_bound:
  assumes "ap_records ap = sample_declarations"
  shows "\<exists>st. foldE (bind_attempt ap) ([], []) sample_attempts = Inr st"
  using sample_declared [OF assms] sample_backed trial_bindings(1,2) [of "''att-2''" "JStr ''att-1''"]
  by (simp add: sample_attempts_def first_attempt_def second_attempt_def bind_attempt_def sample_reads Let_def guard_def)

lemma sample_controls_equal: "py_eq (JObj sample_sampling) (JObj sample_sampling)" "py_eq (JObj sample_reasoning) (JObj sample_reasoning)"
  "py_eq zero_digest zero_digest"
  by (rule py_eq_refl; simp add: sample_sampling_def sample_reasoning_def zero_digest_def)+

lemma sample_retry_identity: "list_all (\<lambda>k. py_eq (get second_attempt k) (get first_attempt k)) retry_identity_fields"
  using sample_controls_equal by (simp add: first_attempt_def second_attempt_def retry_identity_fields_def num_eq_def)

lemma second_parent: "get second_attempt ''parent_attempt_id'' = JStr ''att-1''"
  by (simp add: second_attempt_def)

lemma sample_retries_ok: "check_retries sample_attempts = Inr ()"
proof -
  have find: "find_attempt sample_attempts ''att-1'' = Some first_attempt" "find_attempt [first_attempt] ''att-1'' = Some first_attempt"
    by (simp_all add: find_attempt_def sample_attempts_def first_attempt_def sample_reads)
  have "check_retry_parent sample_attempts [] first_attempt = Inr ()" by (simp add: check_retry_parent_def first_attempt_def)
  moreover have "check_retry_parent sample_attempts [first_attempt] second_attempt = Inr ()"
    using sample_retry_identity find by (simp add: check_retry_parent_def guard_def second_parent)
  moreover have "parents_of sample_attempts = [''att-1'']"
    by (simp add: parents_of_def sample_attempts_def first_attempt_def second_attempt_def)
  moreover have "remdups (map (\<lambda>a. str_in a ''trial_id'') sample_attempts) = [''trial'']"
    "length (filter (\<lambda>a. str_in a ''trial_id'' = ''trial'' \<and> get a ''parent_attempt_id'' = JNull) sample_attempts) = 1"
    by (simp_all add: sample_attempts_def first_attempt_def second_attempt_def sample_reads)
  ultimately show ?thesis
    by (simp add: check_retries_def seqE_Inr must_Inr guard_Inr sample_attempts_def)
qed

lemma manifest_plan_ok: "check_plan sample_manifest = Inr ()" "must (declared_applicability sample_manifest) = Inr ()"
proof -
  obtain ap where ap: "declared_applicability sample_manifest = Inr ap" "ap_records ap = sample_declarations"
    using sample_applicability by (auto simp: declared_applicability_def sample_classes)
  obtain st where "foldE (bind_attempt ap) ([], []) sample_attempts = Inr st" using attempts_bound [OF ap(2)] by auto
  moreover have "list_all (\<lambda>a. str_in a ''target_class'' \<in> set DEFAULT_COMPARABLE_CLASSES) sample_attempts"
    by (simp add: sample_attempts_def first_attempt_def second_attempt_def sample_reads DEFAULT_COMPARABLE_CLASSES_def)
  ultimately show "check_plan sample_manifest = Inr ()"
    using ap sample_retries_ok by (auto simp: check_plan_def seqE_Inr guard_Inr sample_classes list_all_iff)
  show "must (declared_applicability sample_manifest) = Inr ()" by (simp add: ap)
qed

lemma stop_rule_get [simp]:
  "get sample_stop_rule ''method_id'' = sap_method 0" "get sample_stop_rule ''outcome_blind'' = JBool True"
  "get sample_stop_rule ''required_event_fields'' = jstrs [''attempt_id'', ''recorded'']"
  "get sample_stop_rule ''forbidden_event_fields'' = jstrs forbidden_event_fields" "get sample_stop_rule ''planned_attempt_count'' = JInt 2"
  unfolding sample_stop_rule_def by (simp_all only: lookup_eval)

lemma manifest_stop_rule_ok: "check_stop_rule sample_manifest = Inr ()"
proof -
  have "map fst sample_stop_rule = [''method_id'', ''outcome_blind'', ''required_event_fields'', ''forbidden_event_fields'', ''planned_attempt_count'']"
    by (simp add: sample_stop_rule_def)
  moreover have "bm_strings sample_stop_rule ''required_event_fields'' l False True = Inr [''attempt_id'', ''recorded'']" for l
    by (rule word_list) (simp_all add: manifest_words)
  moreover have "bm_strings sample_stop_rule ''forbidden_event_fields'' l False True = Inr forbidden_event_fields" for l
    by (rule word_list) (simp_all add: manifest_words, simp_all add: forbidden_event_fields_def)
  ultimately show ?thesis
    by (simp add: check_stop_rule_def Let_def bm_obj_def seqE_Inr bm_keysI guard_Inr bindE_eq_Inr bm_boolean_Inr bm_integer_Inr ex_bool_eq)
qed

lemma manifest_state_ok: "check_study_state sample_manifest = Inr ()"
proof -
  have "hidden_attempts sample_attempts \<noteq> []" "sample_attempts \<noteq> []"
    by (simp_all add: hidden_attempts_def sample_attempts_def first_attempt_def sample_reads PRIMARY_ESTIMATE_POOL_ID_def)
  then show ?thesis by (simp add: check_study_state_def sample_commitment_ok guard_def)
qed

lemma clean_declaration:
  assumes "r \<in> set CANONICAL_FAMILY_LINEAGE"
  shows "clean (JObj (sample_declaration r))"
proof -
  have keys: "\<forall>k \<in> set applicability_keys. public_text k" by (simp add: applicability_keys_def quick_eval public_eval)
  have words: "public_text ''prov''" "public_text ''model''" "public_text ''req''" "public_text ''APPLICABLE''" "public_text ''NOT_APPLICABLE''"
    "public_text ''DEFAULT_COMPARABLE''" "public_text ''DIRECT''" "public_text ''SYSTEM_EVAL''" "public_text ''DECLARED_CAPABILITY_SUPPORTED''"
    "public_text ''SYSTEM_EVAL_ONLY_NO_MODEL_TRIAL''" "public_text ''PROVIDER_CAPABILITY_UNAVAILABLE''"
    by (simp_all add: quick_eval public_eval)
  have row: "public_text (ln_entry_id r)" "public_text (ln_target_id r)" "public_text (ln_family_id r)" "public_text (ln_target_class r)"
    using lineage_public assms by auto
  have "\<forall>v \<in> set (map snd (sample_declaration r)). clean v"
    using words row by (auto simp: sample_declaration_def)
  then show ?thesis using keys by (simp add: clean_JObj declaration_keys del: set_map)
qed

lemma clean_declarations: "clean (JArr (map JObj sample_declarations))"
  using clean_declaration by (auto simp: sample_declarations_def)

lemma clean_attempts: "clean (JArr (map JObj sample_attempts))"
proof -
  have p: "public_text ''att-1''" "public_text ''att-2''" by (simp_all add: quick_eval public_eval)
  have "clean (JObj first_attempt)" unfolding clean_def first_attempt_def using p by (intro trial_public) simp_all
  moreover have "clean (JObj second_attempt)" unfolding clean_def second_attempt_def using p by (intro trial_public) simp_all
  ultimately show ?thesis by (simp add: sample_attempts_def)
qed

lemma clean_parts: "clean (JObj sample_authority)" "clean (JObj sample_sandbox)" "clean (JObj sample_artifacts)"
  by (simp_all add: clean_JObj sample_authority_def sample_sandbox_def sample_artifacts_def MANIFEST_ARTIFACT_FINGERPRINT_KEYS_def quick_eval public_eval)

lemma clean_stop_rule: "clean (JObj sample_stop_rule)"
  by (simp add: clean_JObj sample_stop_rule_def sap_method_def SAP_METHOD_IDS_def forbidden_event_fields_def quick_eval public_eval)

lemma clean_plan: "clean (JObj sample_plan)"
  using sample_plan_valid by (auto simp: validate_adjudication_plan_def bm_obj_def bindE_eq_Inr seqE_Inr clean_safe)

lemma manifest_values_clean: "\<forall>v \<in> set (map snd manifest_body). clean v"
proof -
  have "public_text MANIFEST_SCHEMA_VERSION" "public_text ''man''" "public_text WORK_ORDER_ID" "public_text WORK_ORDER_REVISION"
    "public_text IMPLEMENTATION_BASE_SHA" "public_text ''FROZEN''" "public_text ''SELECTED''" "public_text ''SEALED''" "public_text ''HUMAN_HUMAN''"
    "\<forall>c \<in> set DEFAULT_COMPARABLE_CLASSES. public_text c"
    by (simp_all add: MANIFEST_SCHEMA_VERSION_def WORK_ORDER_ID_def WORK_ORDER_REVISION_def IMPLEMENTATION_BASE_SHA_def
        DEFAULT_COMPARABLE_CLASSES_def quick_eval public_eval)
  then show ?thesis
    using clean_declarations clean_attempts clean_parts clean_stop_rule clean_plan
    by (simp add: manifest_body_def sample_commitment_def)
qed

lemma manifest_body_fields: "set (map fst manifest_body) \<subseteq> set manifest_keys"
proof -
  have "set (map fst manifest_body @ [''manifest_fingerprint'']) = set manifest_keys"
    using manifest_field_names by (simp only: sample_manifest_def keys_sealed)
  then show ?thesis by auto
qed

lemma manifest_public: "assert_public_safe (JObj sample_manifest) = Inr ()"
  unfolding sample_manifest_def
proof (rule sealed_public)
  have "clean (JObj manifest_body)"
    using manifest_values_clean manifest_public_words(3) manifest_body_fields by (auto simp: clean_JObj)
  then show "\<forall>t \<in> set (scan_strings (JObj manifest_body)). public_text t" by (simp only: clean_def)
qed (rule manifest_public_words)

theorem sample_manifest_valid: "validate_benchmark_manifest (JObj sample_manifest) (Some sample_artifacts) = Inr sample_manifest"
proof -
  have "verify_fingerprint sample_manifest ''manifest_fingerprint'' manifest_label = Inr sample_manifest"
    unfolding sample_manifest_def by (rule verify_sealed) (simp add: manifest_body_def)
  then show ?thesis
    by (simp add: validate_benchmark_manifest_def bm_obj_def seqE_Inr bindE_eq_Inr manifest_header_ok manifest_authority_ok manifest_sandbox_ok
        manifest_plan_ok manifest_artifacts_ok manifest_attempts_ok manifest_stop_rule_ok manifest_state_ok manifest_public)
qed

end
