(* ===== verification/BmOutcome.thy ===== *)
theory BmOutcome
  imports BmPlan
begin

text \<open>
  What a failure value of a validated observation means: it is only there for a model outcome that a
  successful, identified and accounted provider response supports.
\<close>

lemma observation_parts:
  assumes "validate_observation v = Inr d"
  obtains e where "\<forall>k. get d k = get e k" and "check_terminal_fields e = Inr ()" and "check_verdict e = Inr ()" and "check_unknown e = Inr ()"
    and "check_scorable e = Inr ()" and "check_unknown_response e = Inr ()" and "check_obs_subject e = Inr ()"
proof -
  from assms obtain e where c: "check_terminal_fields e = Inr ()" "check_verdict e = Inr ()" "check_unknown e = Inr ()"
      "check_scorable e = Inr ()" "check_unknown_response e = Inr ()" "check_obs_subject e = Inr ()"
    and f: "verify_fingerprint e ''observation_fingerprint'' obs_label = Inr d"
    by (auto simp: validate_observation_def bindE_eq_Inr seqE_Inr)
  from verified_get [OF f] c that show thesis by blast
qed

lemma same_reads:
  assumes "\<forall>k. get d k = get e k"
  shows "str_in d k = str_in e k" "system_only d = system_only e" "provider_succeeded d = provider_succeeded e" "accounted d = accounted e"
  using assms by (simp_all add: str_in_def system_only_def provider_succeeded_def accounted_def accounting_status_def)

text \<open>A response that a failure value may be attributed to.\<close>

definition attributable :: "obj \<Rightarrow> bool" where
  "attributable d \<longleftrightarrow> \<not> system_only d \<and> provider_succeeded d \<and> accounted d \<and> str_in d ''identity_certainty'' \<in> {''EXACT'', ''ALIAS_ONLY''}
     \<and> get d ''raw_response_fingerprint'' \<noteq> JNull \<and> get d ''evidence_complete'' = JBool True"

lemma unknown_value:
  assumes "unknown_semantics d = Some s" and "ud_model_failure_value s = JInt b"
  shows "ud_evidence_complete s" and "ud_hard_invariant_pass s = JBool (b = 0)" and "b \<in> {0, 1}"
  using assms by (auto simp: unknown_semantics_def UNKNOWN_DISPOSITION_SEMANTICS_def split: if_splits)

text \<open>C1.  An observation that counts for or against a model (a failure value 0 or 1) is a PASS with value 0, a
  FAIL with value 1 or an UNKNOWN whose value its verdict decides, and always rests on a successful,
  identified, accounted provider response with complete evidence; errors and skips never count.\<close>

theorem failure_value_attributable:
  assumes "validate_observation v = Inr d" and "get d ''model_failure_value'' = JInt b"
  shows "attributable d \<and> str_in d ''terminal_status'' \<in> {''PASS'', ''FAIL'', ''UNKNOWN''} \<and> b \<in> {0, 1}
    \<and> get d ''hard_invariant_pass'' = JBool (b = 0)
    \<and> (str_in d ''terminal_status'' = ''PASS'' \<longrightarrow> b = 0) \<and> (str_in d ''terminal_status'' = ''FAIL'' \<longrightarrow> b = 1)"
proof -
  from assms(1) obtain e where e: "\<forall>k. get d k = get e k" and c: "check_verdict e = Inr ()" "check_unknown e = Inr ()"
      "check_scorable e = Inr ()" "check_unknown_response e = Inr ()" by (rule observation_parts)
  note same = same_reads [OF e]
  let ?t = "str_in e ''terminal_status''"
  from c(1) assms(2) e have v: "expected_model_value e = JInt b" "?t = ''PASS'' \<Longrightarrow> get e ''hard_invariant_pass'' = JBool True"
      "?t = ''FAIL'' \<Longrightarrow> get e ''hard_invariant_pass'' = JBool False"
    by (auto simp: check_verdict_def Let_def seqE_Inr guard_Inr)
  then have sys: "\<not> system_only e" by (auto simp: expected_model_value_def)
  show ?thesis
  proof (cases "unknown_semantics e")
    case None
    with v(1) sys have pf: "?t = ''PASS'' \<and> b = 0 \<or> ?t = ''FAIL'' \<and> b = 1"
      by (auto simp: expected_model_value_def terminal_value_def split: if_splits)
    then have "?t \<in> set MODEL_SCORABLE_TERMINALS" by (auto simp: MODEL_SCORABLE_TERMINALS_def)
    with c(3) sys have "get e ''evidence_complete'' = JBool True \<and> get e ''raw_response_fingerprint'' \<noteq> JNull \<and> provider_succeeded e \<and> accounted e"
      "check_scorable_identity e = Inr ()"
      by (simp_all add: check_scorable_def seqE_Inr guard_Inr)
    moreover from this(2) have "str_in e ''identity_certainty'' \<in> {''EXACT'', ''ALIAS_ONLY''}"
      by (auto simp: check_scorable_identity_def Let_def split: if_splits)
    ultimately have "attributable e" using sys by (simp add: attributable_def)
    moreover have "attributable d = attributable e" using e by (simp add: attributable_def same)
    ultimately show ?thesis using pf v(2,3) e by (auto simp: same)
  next
    case (Some s)
    then have t: "?t = ''UNKNOWN''" by (auto simp: unknown_semantics_def split: if_splits)
    from v(1) sys Some have "ud_model_failure_value s = JInt b" by (simp add: expected_model_value_def)
    note u = unknown_value [OF Some this]
    from c(2) Some u have "get e ''evidence_complete'' = JBool True" "get e ''hard_invariant_pass'' = JBool (b = 0)"
      by (auto simp: check_unknown_def seqE_Inr guard_Inr)
    with c(4) sys t u e show ?thesis
      by (auto simp: attributable_def same check_unknown_response_def seqE_Inr guard_Inr)
  qed
qed

section \<open>A passing observation of the sample study\<close>

definition observed_times :: obj where
  "observed_times = [(''request_started_at'', JStr ''2026-01-01T00:00:00Z''), (''response_completed_at'', JStr ''2026-01-01T00:00:00Z'')]"

definition observed_usage :: obj where
  "observed_usage = [(''attribution_status'', JStr ''ATTRIBUTABLE''), (''input_tokens'', JInt 5), (''output_tokens'', JInt 2), (''total_tokens'', JInt 7)]"

definition observed_latency :: obj where
  "observed_latency = [(''attribution_status'', JStr ''ATTRIBUTABLE''), (''milliseconds'', JInt 20)]"

definition observed_cost :: obj where
  "observed_cost = [(''attribution_status'', JStr ''UNAVAILABLE''), (''currency'', JNull), (''amount'', JNull), (''pricing_source_fingerprint'', JNull)]"

definition observation_body :: obj where
  "observation_body = [
     (''schema_version'', JStr OBSERVATION_SCHEMA_VERSION), (''benchmark_id'', JStr ''bench''), (''contract_version'', JStr WORK_ORDER_REVISION),
     (''attempt_id'', JStr ''att-2''), (''trial_id'', JStr ''trial''), (''provider_subject_id'', JStr ''prov''),
     (''model_subject_id'', JStr ''model''), (''requested_model_id'', JStr ''req''), (''resolved_model_or_version_id'', JStr ''snap''),
     (''identity_certainty'', JStr ''EXACT''), (''alias_limitation'', JStr ''NONE''), (''provider_request_id'', JStr ''req-1''),
     (''endpoint_id'', JStr ''end''), (''capability_mode'', JStr ''DIRECT''), (''system_wrapper_version'', JStr ''s1''),
     (''developer_wrapper_version'', JStr ''d1''), (''sampling_controls_fingerprint'', JStr (sha256_json (JObj sample_sampling))), (''reasoning_controls_fingerprint'', JStr (sha256_json (JObj sample_reasoning))),
     (''target_id'', JStr ''BM0-TUT-E11-QA2-CONSTRAINT-ACTION-PERSISTENCE''), (''target_class'', JStr ''MODEL_DIRECT''), (''applicability_result'', JStr ''APPLICABLE''),
     (''entry_id'', JStr ''E11''), (''family_id'', JStr ''constraint-action-persistence''), (''case_id'', JStr ''case''),
     (''variant_id'', JStr ''v1''), (''mechanism_lineage_id'', JStr ''mech''), (''case_fingerprint'', zero_digest),
     (''generator_or_mutation_version'', JStr ''g1''), (''contamination_status'', JStr ''ASSESSED_CLEAR''), (''exposure_status'', JStr ''PRIVATE_UNEXPOSED_BEFORE_MANIFEST_FREEZE''),
     (''corpus_item_alias'', JStr ''alias''), (''replicate_index'', JInt 0), (''prompt_fingerprint'', zero_digest),
     (''context_fingerprint'', zero_digest), (''tool_schema_fingerprint'', zero_digest), (''sandbox_fingerprint'', zero_digest),
     (''state_machine_fingerprint'', zero_digest), (''timestamps'', JObj observed_times), (''raw_response_fingerprint'', zero_digest),
     (''scorer_id'', JStr ''sc''), (''scorer_version'', JStr ''s1''), (''scorer_fingerprint'', zero_digest),
     (''oracle_id'', JStr ''or''), (''oracle_version'', JStr ''o1''), (''oracle_fingerprint'', zero_digest),
     (''evidence_receipt_fingerprint'', zero_digest), (''usage'', JObj observed_usage), (''latency'', JObj observed_latency),
     (''cost'', JObj observed_cost), (''provider_terminal_status'', JStr ''SUCCESS''), (''provider_http_status'', JInt 200),
     (''terminal_status'', JStr ''PASS''), (''unknown_disposition'', JNull), (''model_failure_value'', JInt 0),
     (''system_invariant_failure_value'', JNull), (''evidence_complete'', JBool True), (''hard_invariant_pass'', JBool True),
     (''adjudication_status'', JStr ''NOT_REQUIRED'')]"

definition sample_observation :: obj where
  "sample_observation = sealed observation_body ''observation_fingerprint''"

lemma observation_body_get:
  "get observation_body ''schema_version'' = JStr OBSERVATION_SCHEMA_VERSION"
  "get observation_body ''benchmark_id'' = JStr ''bench''"
  "get observation_body ''contract_version'' = JStr WORK_ORDER_REVISION"
  "get observation_body ''attempt_id'' = JStr ''att-2''"
  "get observation_body ''trial_id'' = JStr ''trial''"
  "get observation_body ''provider_subject_id'' = JStr ''prov''"
  "get observation_body ''model_subject_id'' = JStr ''model''"
  "get observation_body ''requested_model_id'' = JStr ''req''"
  "get observation_body ''resolved_model_or_version_id'' = JStr ''snap''"
  "get observation_body ''identity_certainty'' = JStr ''EXACT''"
  "get observation_body ''alias_limitation'' = JStr ''NONE''"
  "get observation_body ''provider_request_id'' = JStr ''req-1''"
  "get observation_body ''endpoint_id'' = JStr ''end''"
  "get observation_body ''capability_mode'' = JStr ''DIRECT''"
  "get observation_body ''system_wrapper_version'' = JStr ''s1''"
  "get observation_body ''developer_wrapper_version'' = JStr ''d1''"
  "get observation_body ''sampling_controls_fingerprint'' = JStr (sha256_json (JObj sample_sampling))"
  "get observation_body ''reasoning_controls_fingerprint'' = JStr (sha256_json (JObj sample_reasoning))"
  "get observation_body ''target_id'' = JStr ''BM0-TUT-E11-QA2-CONSTRAINT-ACTION-PERSISTENCE''"
  "get observation_body ''target_class'' = JStr ''MODEL_DIRECT''"
  "get observation_body ''applicability_result'' = JStr ''APPLICABLE''"
  "get observation_body ''entry_id'' = JStr ''E11''"
  "get observation_body ''family_id'' = JStr ''constraint-action-persistence''"
  "get observation_body ''case_id'' = JStr ''case''"
  "get observation_body ''variant_id'' = JStr ''v1''"
  "get observation_body ''mechanism_lineage_id'' = JStr ''mech''"
  "get observation_body ''case_fingerprint'' = zero_digest"
  "get observation_body ''generator_or_mutation_version'' = JStr ''g1''"
  "get observation_body ''contamination_status'' = JStr ''ASSESSED_CLEAR''"
  "get observation_body ''exposure_status'' = JStr ''PRIVATE_UNEXPOSED_BEFORE_MANIFEST_FREEZE''"
  "get observation_body ''corpus_item_alias'' = JStr ''alias''"
  "get observation_body ''replicate_index'' = JInt 0"
  "get observation_body ''prompt_fingerprint'' = zero_digest"
  "get observation_body ''context_fingerprint'' = zero_digest"
  "get observation_body ''tool_schema_fingerprint'' = zero_digest"
  "get observation_body ''sandbox_fingerprint'' = zero_digest"
  "get observation_body ''state_machine_fingerprint'' = zero_digest"
  "get observation_body ''timestamps'' = JObj observed_times"
  "get observation_body ''raw_response_fingerprint'' = zero_digest"
  "get observation_body ''scorer_id'' = JStr ''sc''"
  "get observation_body ''scorer_version'' = JStr ''s1''"
  "get observation_body ''scorer_fingerprint'' = zero_digest"
  "get observation_body ''oracle_id'' = JStr ''or''"
  "get observation_body ''oracle_version'' = JStr ''o1''"
  "get observation_body ''oracle_fingerprint'' = zero_digest"
  "get observation_body ''evidence_receipt_fingerprint'' = zero_digest"
  "get observation_body ''usage'' = JObj observed_usage"
  "get observation_body ''latency'' = JObj observed_latency"
  "get observation_body ''cost'' = JObj observed_cost"
  "get observation_body ''provider_terminal_status'' = JStr ''SUCCESS''"
  "get observation_body ''provider_http_status'' = JInt 200"
  "get observation_body ''terminal_status'' = JStr ''PASS''"
  "get observation_body ''unknown_disposition'' = JNull"
  "get observation_body ''model_failure_value'' = JInt 0"
  "get observation_body ''system_invariant_failure_value'' = JNull"
  "get observation_body ''evidence_complete'' = JBool True"
  "get observation_body ''hard_invariant_pass'' = JBool True"
  "get observation_body ''adjudication_status'' = JStr ''NOT_REQUIRED''"
  unfolding observation_body_def by (simp_all only: lookup_eval)

lemma observation_get [simp]:
  "get sample_observation ''schema_version'' = JStr OBSERVATION_SCHEMA_VERSION"
  "get sample_observation ''benchmark_id'' = JStr ''bench''"
  "get sample_observation ''contract_version'' = JStr WORK_ORDER_REVISION"
  "get sample_observation ''attempt_id'' = JStr ''att-2''"
  "get sample_observation ''trial_id'' = JStr ''trial''"
  "get sample_observation ''provider_subject_id'' = JStr ''prov''"
  "get sample_observation ''model_subject_id'' = JStr ''model''"
  "get sample_observation ''requested_model_id'' = JStr ''req''"
  "get sample_observation ''resolved_model_or_version_id'' = JStr ''snap''"
  "get sample_observation ''identity_certainty'' = JStr ''EXACT''"
  "get sample_observation ''alias_limitation'' = JStr ''NONE''"
  "get sample_observation ''provider_request_id'' = JStr ''req-1''"
  "get sample_observation ''endpoint_id'' = JStr ''end''"
  "get sample_observation ''capability_mode'' = JStr ''DIRECT''"
  "get sample_observation ''system_wrapper_version'' = JStr ''s1''"
  "get sample_observation ''developer_wrapper_version'' = JStr ''d1''"
  "get sample_observation ''sampling_controls_fingerprint'' = JStr (sha256_json (JObj sample_sampling))"
  "get sample_observation ''reasoning_controls_fingerprint'' = JStr (sha256_json (JObj sample_reasoning))"
  "get sample_observation ''target_id'' = JStr ''BM0-TUT-E11-QA2-CONSTRAINT-ACTION-PERSISTENCE''"
  "get sample_observation ''target_class'' = JStr ''MODEL_DIRECT''"
  "get sample_observation ''applicability_result'' = JStr ''APPLICABLE''"
  "get sample_observation ''entry_id'' = JStr ''E11''"
  "get sample_observation ''family_id'' = JStr ''constraint-action-persistence''"
  "get sample_observation ''case_id'' = JStr ''case''"
  "get sample_observation ''variant_id'' = JStr ''v1''"
  "get sample_observation ''mechanism_lineage_id'' = JStr ''mech''"
  "get sample_observation ''case_fingerprint'' = zero_digest"
  "get sample_observation ''generator_or_mutation_version'' = JStr ''g1''"
  "get sample_observation ''contamination_status'' = JStr ''ASSESSED_CLEAR''"
  "get sample_observation ''exposure_status'' = JStr ''PRIVATE_UNEXPOSED_BEFORE_MANIFEST_FREEZE''"
  "get sample_observation ''corpus_item_alias'' = JStr ''alias''"
  "get sample_observation ''replicate_index'' = JInt 0"
  "get sample_observation ''prompt_fingerprint'' = zero_digest"
  "get sample_observation ''context_fingerprint'' = zero_digest"
  "get sample_observation ''tool_schema_fingerprint'' = zero_digest"
  "get sample_observation ''sandbox_fingerprint'' = zero_digest"
  "get sample_observation ''state_machine_fingerprint'' = zero_digest"
  "get sample_observation ''timestamps'' = JObj observed_times"
  "get sample_observation ''raw_response_fingerprint'' = zero_digest"
  "get sample_observation ''scorer_id'' = JStr ''sc''"
  "get sample_observation ''scorer_version'' = JStr ''s1''"
  "get sample_observation ''scorer_fingerprint'' = zero_digest"
  "get sample_observation ''oracle_id'' = JStr ''or''"
  "get sample_observation ''oracle_version'' = JStr ''o1''"
  "get sample_observation ''oracle_fingerprint'' = zero_digest"
  "get sample_observation ''evidence_receipt_fingerprint'' = zero_digest"
  "get sample_observation ''usage'' = JObj observed_usage"
  "get sample_observation ''latency'' = JObj observed_latency"
  "get sample_observation ''cost'' = JObj observed_cost"
  "get sample_observation ''provider_terminal_status'' = JStr ''SUCCESS''"
  "get sample_observation ''provider_http_status'' = JInt 200"
  "get sample_observation ''terminal_status'' = JStr ''PASS''"
  "get sample_observation ''unknown_disposition'' = JNull"
  "get sample_observation ''model_failure_value'' = JInt 0"
  "get sample_observation ''system_invariant_failure_value'' = JNull"
  "get sample_observation ''evidence_complete'' = JBool True"
  "get sample_observation ''hard_invariant_pass'' = JBool True"
  "get sample_observation ''adjudication_status'' = JStr ''NOT_REQUIRED''"
  by (simp_all add: sample_observation_def get_sealed observation_body_get)

lemma zero_digest_value [simp]: "zero_digest \<noteq> JNull"
  by (simp add: zero_digest_def)

lemma observation_reads [simp]:
  "str_in sample_observation ''target_class'' = ''MODEL_DIRECT''" "str_in sample_observation ''terminal_status'' = ''PASS''"
  by (simp_all add: str_in_def text_in_def)

lemma observation_fields: "map fst sample_observation = observation_keys"
  by (simp add: sample_observation_def keys_sealed observation_body_def observation_keys_def)

lemma sample_obs_header: "check_obs_header sample_observation = Inr ()"
proof -
  have "normal_text OBSERVATION_SCHEMA_VERSION" "normal_text WORK_ORDER_REVISION"
    by (rule identifier_normal, simp add: OBSERVATION_SCHEMA_VERSION_def WORK_ORDER_REVISION_def identifier_eval)+
  then show ?thesis
    by (simp add: check_obs_header_def seqE_Inr bm_keysI observation_fields bindE_eq_Inr bm_text_Inr guard_Inr must_Inr observation_identifiers_def
        bm_identifier_Inr identifier_normal identifier_eval optional_identifier_def)
qed

lemma sample_obs_target: "check_obs_target sample_observation = Inr ()"
  by (simp add: check_obs_target_def seqE_Inr text_among_def bindE_eq_Inr bm_text_Inr guard_Inr identifier_normal identifier_eval str_in_def text_in_def
      TARGET_CLASSES_def entry_def TARGET_IDS_BY_CLASS_def APPLICABILITY_RESULTS_def lineage_matches_def TARGET_LINEAGE_BY_ID_def
      CANONICAL_FAMILY_LINEAGE_def require_sha256_Inr CONTAMINATION_STATUSES_def POOL_EXPOSURE_STATUS_def alias_limitations_def)

lemma sample_obs_subject: "check_obs_subject sample_observation = Inr ()"
  by (simp add: check_obs_subject_def Let_def system_only_def subject_fields_def SYSTEM_SCOPE_ID_def str_in_def text_in_def guard_def)

lemma sample_obs_digests:
  "seqE (map (\<lambda>k. require_sha256 (get sample_observation k) (obs_label @ ''.'' @ k)) observation_fingerprints) = Inr ()"
  by (simp add: seqE_Inr observation_fingerprints_def require_sha256_Inr)

lemma times_get: "get observed_times ''request_started_at'' = JStr ''2026-01-01T00:00:00Z''"
  "get observed_times ''response_completed_at'' = JStr ''2026-01-01T00:00:00Z''"
  unfolding observed_times_def by (simp_all only: lookup_eval)

lemma observed_moment: "timestamp ''2026-01-01T00:00:00Z'' = Inr 63902822400000000"
  by code_simp

lemma observed_timestamp:
  assumes "get d k = JStr ''2026-01-01T00:00:00Z''"
  shows "bm_timestamp d k l = Inr 63902822400000000"
proof -
  have "normal_text ''2026-01-01T00:00:00Z''" by (rule identifier_normal) (simp add: identifier_eval)
  with assms have "bm_text d k l = Inr ''2026-01-01T00:00:00Z''" by (simp add: bm_text_Inr)
  then show ?thesis using observed_moment
    by (auto simp: bm_timestamp_def timestamp_def split: option.splits)
qed

lemma sample_obs_times: "check_obs_times sample_observation = Inr ()"
proof -
  have "map fst observed_times = [''request_started_at'', ''response_completed_at'']" by (simp add: observed_times_def)
  then show ?thesis
    by (simp add: check_obs_times_def Let_def bm_obj_def bm_keysI observed_timestamp times_get guard_def)
qed

lemma observed_get [simp]:
  "get observed_usage ''attribution_status'' = JStr ''ATTRIBUTABLE''" "get observed_usage ''input_tokens'' = JInt 5"
  "get observed_usage ''output_tokens'' = JInt 2" "get observed_usage ''total_tokens'' = JInt 7"
  "get observed_latency ''attribution_status'' = JStr ''ATTRIBUTABLE''" "get observed_latency ''milliseconds'' = JInt 20"
  "get observed_cost ''attribution_status'' = JStr ''UNAVAILABLE''" "get observed_cost ''currency'' = JNull" "get observed_cost ''amount'' = JNull"
  "get observed_cost ''pricing_source_fingerprint'' = JNull"
  unfolding observed_usage_def observed_latency_def observed_cost_def by (simp_all only: lookup_eval)

lemma sample_obs_accounting: "check_obs_receipts sample_observation = Inr ()" "check_accounting sample_observation = Inr ()"
proof -
  show "check_obs_receipts sample_observation = Inr ()" by (simp add: check_obs_receipts_def seqE_Inr require_sha256_Inr)
  have keys: "map fst observed_usage = ''attribution_status'' # token_keys" "map fst observed_latency = [''attribution_status'', ''milliseconds'']"
    "map fst observed_cost = [''attribution_status'', ''currency'', ''amount'', ''pricing_source_fingerprint'']"
    by (simp_all add: observed_usage_def observed_latency_def observed_cost_def token_keys_def)
  have n: "bm_number observed_latency ''milliseconds'' l = Inr 20" for l
    using rnd_of_int [of 20] by (simp add: bm_number_def int_to_float_def to_float_def)
  show "check_accounting sample_observation = Inr ()"
    by (simp add: check_accounting_def Let_def seqE_Inr bm_obj_def bm_keysI keys field_def check_usage_def check_latency_def check_cost_def n
        bm_integer_def token_keys_def all_null_def guard_def)
qed

lemma sample_obs_terminal: "check_terminal_fields sample_observation = Inr ()"
  by (simp add: check_terminal_fields_def seqE_Inr text_among_def bindE_eq_Inr bm_text_Inr guard_Inr identifier_normal identifier_eval
      provider_terminals_def TERMINAL_STATUSES_def must_Inr bm_boolean_Inr optional_bool_def optional_bit_def ex_bool_eq)

lemma sample_obs_outcome:
  "check_verdict sample_observation = Inr ()" "check_unknown sample_observation = Inr ()" "check_scorable sample_observation = Inr ()"
  "check_unknown_response sample_observation = Inr ()" "check_system_accounting sample_observation = Inr ()"
  by (simp_all add: check_verdict_def check_unknown_def check_scorable_def check_unknown_response_def check_system_accounting_def Let_def seqE_Inr
      guard_Inr unknown_semantics_def expected_model_value_def expected_system_value_def system_only_def terminal_value_def
      NON_MODEL_SCORABLE_TERMINALS_def MODEL_SCORABLE_TERMINALS_def check_scorable_identity_def str_in_def text_in_def provider_succeeded_def
      http_ok_def accounted_def accounting_status_def text_at_def field_def)

lemma observation_clean: "clean (JObj observation_body)"
proof -
  have parts: "clean (JObj observed_times)" "clean (JObj observed_usage)" "clean (JObj observed_latency)" "clean (JObj observed_cost)"
    by (simp_all add: clean_JObj observed_times_def observed_usage_def observed_latency_def observed_cost_def quick_eval public_eval)
  have "\<forall>v \<in> set (map snd observation_body). clean v"
    using parts by (simp add: observation_body_def OBSERVATION_SCHEMA_VERSION_def WORK_ORDER_REVISION_def quick_eval public_eval)
  moreover have "\<forall>k \<in> set (map fst observation_body). public_text k" by (simp add: observation_body_def quick_eval public_eval)
  ultimately show ?thesis by (simp only: clean_JObj simp_thms)
qed

lemma sample_observation_valid: "validate_observation (JObj sample_observation) = Inr sample_observation"
proof -
  have "assert_public_safe (JObj sample_observation) = Inr ()"
    unfolding sample_observation_def using observation_clean by (intro sealed_public) (simp_all add: clean_def quick_eval public_eval)
  moreover have "verify_fingerprint sample_observation ''observation_fingerprint'' obs_label = Inr sample_observation"
    unfolding sample_observation_def by (rule verify_sealed) (simp add: observation_body_def)
  moreover have "must (bm_integer sample_observation ''replicate_index'' obs_label 0) = Inr ()" by (simp add: bm_integer_def)
  ultimately show ?thesis
    using sample_obs_digests sample_obs_accounting sample_obs_outcome
    by (simp add: validate_observation_def bm_obj_def seqE_Inr sample_obs_header sample_obs_target sample_obs_subject sample_obs_times
        sample_obs_terminal bindE_eq_Inr)
qed

theorem failure_value_attributable_witness:
  "validate_observation (JObj sample_observation) = Inr sample_observation \<and> attributable sample_observation"
  using failure_value_attributable [OF sample_observation_valid, of 0] sample_observation_valid by simp

end
