(* ===== verification/BmWilson.thy ===== *)
theory BmWilson
  imports BmObservation
begin

text \<open>
  The numbers of the analysis methods of \<open>src/b2/bm0.py\<close>: rates rounded to twelve decimals, the
  correctly rounded square root of a float, the Wilson interval and the percentile bootstrap
  over case clusters, with the facts that make them intervals: rounding is monotone.
\<close>

section \<open>Rounding is monotone\<close>

lemma rhe_mono:
  assumes "x \<le> y"
  shows "rhe x \<le> rhe y"
proof (cases "\<lfloor>x\<rfloor> = \<lfloor>y\<rfloor>")
  case True
  with assms show ?thesis by (auto simp: rhe_def Let_def)
next
  case False
  with assms floor_mono [OF assms] have "\<lfloor>x\<rfloor> + 1 \<le> \<lfloor>y\<rfloor>" by linarith
  moreover have "rhe x \<le> \<lfloor>x\<rfloor> + 1" "\<lfloor>y\<rfloor> \<le> rhe y" by (auto simp: rhe_def Let_def)
  ultimately show ?thesis by linarith
qed

lemma rhe_minus: "rhe (- x) = - rhe x"
proof (cases "x = of_int \<lfloor>x\<rfloor>")
  case True
  then have "rhe x = \<lfloor>x\<rfloor>" by (metis rhe_of_int)
  moreover have "rhe (- x) = - \<lfloor>x\<rfloor>" using True by (metis of_int_minus rhe_of_int)
  ultimately show ?thesis by simp
next
  case False
  then have fl: "\<lfloor>- x\<rfloor> = - \<lfloor>x\<rfloor> - 1" by linarith
  show ?thesis unfolding rhe_def Let_def fl by (auto simp: algebra_simps)
qed

lemma rnd_minus: "rnd (- x) = - rnd x"
  by (simp add: rnd_def quantum_def rhe_minus)

lemma qexp_mono:
  assumes "0 < x" and "x \<le> y"
  shows "qexp x \<le> qexp y"
proof -
  from ilog2_bounds(1) [OF assms(1)] assms have "2 powi (ilog2 x) \<le> y" by linarith
  from ilog2_ge [OF _ this] assms have "ilog2 x \<le> ilog2 y" by linarith
  with assms show ?thesis by (simp add: qexp_def)
qed

lemma rnd_mono_pos:
  assumes "0 < x" and "x \<le> y"
  shows "rnd x \<le> rnd y"
proof (cases "qexp x = qexp y")
  case True
  with assms have "x / quantum x \<le> y / quantum y"
    by (simp add: quantum_qexp divide_right_mono)
  then have "rhe (x / quantum x) \<le> rhe (y / quantum y)" by (rule rhe_mono)
  then have "(of_int (rhe (x / quantum x)) :: rat) \<le> of_int (rhe (y / quantum y))" by (simp only: of_int_le_iff)
  then show ?thesis using assms True by (simp add: rnd_def quantum_qexp mult_right_mono)
next
  case False
  let ?k = "ilog2 y"
  have y: "0 < y" using assms by linarith
  from False qexp_mono [OF assms] have q: "qexp x < qexp y" by simp
  then have k: "qexp y = ?k - 52" "- 1021 \<le> ?k" using assms y by (auto simp: qexp_def max_def split: if_splits)
  from q k(1) assms have "ilog2 x + 1 \<le> ?k" by (auto simp: qexp_def)
  then have "(2::rat) powi (ilog2 x + 1) \<le> 2 powi ?k" by (intro power_int_increasing) auto
  with ilog2_bounds(2) [OF assms(1)] have "x \<le> 2 powi ?k" by linarith
  with assms k(2) have "rnd x \<le> 2 powi ?k" by (intro rnd_le_power) auto
  also have "\<dots> \<le> rnd y" using k(2) ilog2_bounds(1) [OF y] by (intro rnd_ge_power) auto
  finally show ?thesis .
qed

lemma rnd_mono: "x \<le> y \<Longrightarrow> rnd x \<le> rnd y"
proof -
  assume xy: "x \<le> y"
  consider "0 < x" | "x \<le> 0" "0 \<le> y" | "y < 0" using xy by linarith
  then show ?thesis
  proof cases
    case 1
    then show ?thesis using xy by (rule rnd_mono_pos)
  next
    case 2
    from 2 rnd_nonneg [of "- x"] have "rnd x \<le> 0" by (simp add: rnd_minus)
    with rnd_nonneg [OF 2(2)] show ?thesis by linarith
  next
    case 3
    with xy have "rnd (- y) \<le> rnd (- x)" by (intro rnd_mono_pos) auto
    then show ?thesis by (simp add: rnd_minus)
  qed
qed

section \<open>Twelve decimals\<close>

definition round12 :: "rat \<Rightarrow> rat" where
  "round12 x = rnd (of_int (rhe (x * 10 ^ 12)) / 10 ^ 12)"

lemma round12_mono: "x \<le> y \<Longrightarrow> round12 x \<le> round12 y"
proof -
  assume "x \<le> y"
  then have "rhe (x * 10 ^ 12) \<le> rhe (y * 10 ^ 12)" by (intro rhe_mono) simp
  then have "(of_int (rhe (x * 10 ^ 12)) :: rat) \<le> of_int (rhe (y * 10 ^ 12))" by (simp only: of_int_le_iff)
  then show ?thesis by (simp add: round12_def rnd_mono divide_right_mono)
qed

lemma round12_0 [simp]: "round12 0 = 0"
  using rhe_of_int [of 0] by (simp add: round12_def)

lemma round12_1 [simp]: "round12 1 = 1"
  using rhe_of_int [of "10 ^ 12"] by (simp add: round12_def)

lemma round12_unit: "0 \<le> x \<Longrightarrow> x \<le> 1 \<Longrightarrow> 0 \<le> round12 x \<and> round12 x \<le> 1"
  using round12_mono [of 0 x] round12_mono [of x 1] by simp

text \<open>\<open>round(a / b, 12)\<close> of two counts.\<close>

definition fl_div :: "nat \<Rightarrow> nat \<Rightarrow> rat" where
  "fl_div a b = rnd (of_nat a / of_nat b)"

definition ratio12 :: "nat \<Rightarrow> nat \<Rightarrow> rat" where
  "ratio12 a b = round12 (fl_div a b)"

definition jflt :: "rat \<Rightarrow> json" where
  "jflt x = JFloat (Fin x)"

lemma fl_div_unit: "a \<le> b \<Longrightarrow> 0 \<le> fl_div a b \<and> fl_div a b \<le> 1"
  unfolding fl_div_def by (rule rnd_unit) (auto simp: divide_le_eq_1)

lemma ratio12_unit: "a \<le> b \<Longrightarrow> 0 \<le> ratio12 a b \<and> ratio12 a b \<le> 1"
  unfolding ratio12_def using fl_div_unit by (intro round12_unit) auto

section \<open>\<open>math.sqrt\<close>\<close>

text \<open>The integer square root, two bits at a time.\<close>

fun isqrt :: "nat \<Rightarrow> nat" where
  "isqrt n = (if n = 0 then 0 else let r = 2 * isqrt (n div 4) in if (r + 1) * (r + 1) \<le> n then r + 1 else r)"

declare isqrt.simps [simp del]

lemma isqrt_bounds: "isqrt n * isqrt n \<le> n \<and> n < (isqrt n + 1) * (isqrt n + 1)"
proof (induction n rule: isqrt.induct)
  case (1 n)
  show ?case
  proof (cases "n = 0")
    case True
    then show ?thesis by (simp add: isqrt.simps [of 0])
  next
    case False
    define q where "q = isqrt (n div 4)"
    from 1 False have q: "q * q \<le> n div 4" "n div 4 < (q + 1) * (q + 1)" by (auto simp: q_def)
    have "4 * (q * q) \<le> n" using q(1) by linarith
    then have lo: "(2 * q) * (2 * q) \<le> n" by (simp add: algebra_simps)
    have "n < 4 * ((q + 1) * (q + 1))" using q(2) by linarith
    then have hi: "n < (2 * q + 2) * (2 * q + 2)" by (simp add: algebra_simps)
    have "isqrt n = (if (2 * q + 1) * (2 * q + 1) \<le> n then 2 * q + 1 else 2 * q)"
      using False by (subst isqrt.simps) (simp add: q_def Let_def)
    then show ?thesis using lo hi by (auto simp: algebra_simps)
  qed
qed

text \<open>
  A float is a multiple of \<open>2^-1074\<close>, so \<open>x * 4^600\<close> is an integer of at least 126 bits; its
  integer root has more than 55 bits, and one more bit that says whether it is exact
  decides the rounding.
\<close>

definition fl_sqrt :: "rat \<Rightarrow> rat" where
  "fl_sqrt x = (if x \<le> 0 then 0
     else let y = x * 4 ^ 600; s = isqrt (nat \<lfloor>y\<rfloor>) in
       rnd (of_nat (2 * s + (if of_nat (s * s) = y then 0 else 1)) / 2 ^ 601))"

lemma fl_sqrt_nonneg: "0 \<le> fl_sqrt x"
  by (auto simp: fl_sqrt_def Let_def intro!: rnd_nonneg)

section \<open>The Wilson interval\<close>

text \<open>The value of the literal \<open>1.959963984540054\<close>.\<close>

definition wilson_z :: rat where
  "wilson_z = 2206723267608545 / 1125899906842624"

definition suppressed_wilson :: "string \<Rightarrow> json" where
  "suppressed_wilson reason = JObj [
     (''method_id'', sap_method 4), (''terminal_status'', JStr ''NOT_EVALUABLE''), (''reason'', JStr reason),
     (''confidence_level'', jflt (rnd (19 / 20))), (''lower'', JNull), (''upper'', JNull)]"

definition wilson_center :: "rat \<Rightarrow> rat \<Rightarrow> rat \<Rightarrow> rat" where
  "wilson_center p d d2 =
     (let z2 = rnd (wilson_z * wilson_z) in rnd (rnd (p + rnd (z2 / d2)) / rnd (1 + rnd (z2 / d))))"

definition wilson_half :: "rat \<Rightarrow> rat \<Rightarrow> rat \<Rightarrow> rat" where
  "wilson_half p d d4 =
     (let z2 = rnd (wilson_z * wilson_z);
          v = rnd (rnd (rnd (p * rnd (1 - p)) + rnd (z2 / d4)) / d)
      in rnd (rnd (wilson_z * fl_sqrt v) / rnd (1 + rnd (z2 / d))))"

definition finite_value :: "flt \<Rightarrow> rat" where
  "finite_value f = (case f of Fin x \<Rightarrow> x | _ \<Rightarrow> 0)"

definition wilson_interval :: "int \<Rightarrow> int \<Rightarrow> json result" where
  "wilson_interval failures denominator =
     bindE (guard (0 \<le> failures \<and> 0 \<le> denominator \<and> failures \<le> denominator)
       ''Wilson inputs must satisfy 0 <= failures <= denominator'') (\<lambda>_.
     if denominator = 0 then Inr (suppressed_wilson ''ZERO_DENOMINATOR'')
     else
       bindE (int_to_float (2 * denominator)) (\<lambda>d2.
       bindE (int_to_float denominator) (\<lambda>d.
       bindE (int_to_float (4 * denominator)) (\<lambda>d4.
       let p = fl_div (nat failures) (nat denominator);
           center = wilson_center p (finite_value d) (finite_value d2);
           half = wilson_half p (finite_value d) (finite_value d4)
       in Inr (JObj [
         (''method_id'', sap_method 4), (''terminal_status'', JStr ''PASS''), (''reason'', JNull),
         (''confidence_level'', jflt (rnd (19 / 20))),
         (''lower'', jflt (round12 (max 0 (rnd (center - half))))),
         (''upper'', jflt (round12 (min 1 (rnd (center + half)))))])))))"

lemma int_to_float_Inr: "int_to_float i = Inr f \<Longrightarrow> f = Fin (rnd (of_int i))"
  by (auto simp: int_to_float_def to_float_def Let_def split: if_splits)

lemma wilson_z_pos: "0 < wilson_z"
  by (simp add: wilson_z_def)

lemma wilson_center_unit:
  assumes "0 \<le> p" "p \<le> 1" "0 < d" "d \<le> d2"
  shows "0 \<le> wilson_center p d d2 \<and> wilson_center p d d2 \<le> 1"
proof -
  let ?z = "rnd (wilson_z * wilson_z)"
  have z: "0 \<le> ?z" using wilson_z_pos by (intro rnd_nonneg) auto
  have "?z / d2 \<le> ?z / d" using z assms by (intro divide_left_mono) auto
  then have ab: "rnd (?z / d2) \<le> rnd (?z / d)" by (rule rnd_mono)
  have nn: "0 \<le> rnd (?z / d2)" using z assms by (intro rnd_nonneg) auto
  have num: "rnd (p + rnd (?z / d2)) \<le> rnd (1 + rnd (?z / d))" using ab assms by (intro rnd_mono) auto
  have num0: "0 \<le> rnd (p + rnd (?z / d2))" using nn assms by (intro rnd_nonneg) auto
  have "rnd 1 \<le> rnd (1 + rnd (?z / d))" using nn ab by (intro rnd_mono) auto
  then have den: "0 < rnd (1 + rnd (?z / d))" by simp
  show ?thesis unfolding wilson_center_def Let_def
    using num num0 den by (intro rnd_unit) (auto simp: divide_le_eq_1)
qed

lemma wilson_half_nonneg:
  assumes "0 < d"
  shows "0 \<le> wilson_half p d d4"
proof -
  let ?z = "rnd (wilson_z * wilson_z)"
  have z: "0 \<le> ?z" using wilson_z_pos by (intro rnd_nonneg) auto
  have "0 \<le> rnd (?z / d)" using z assms by (intro rnd_nonneg) auto
  then have "0 \<le> rnd (1 + rnd (?z / d))" by (intro rnd_nonneg) auto
  moreover have "0 \<le> rnd (wilson_z * fl_sqrt v)" for v
    using fl_sqrt_nonneg wilson_z_pos by (intro rnd_nonneg) (simp add: less_imp_le)
  ultimately show ?thesis unfolding wilson_half_def Let_def by (intro rnd_nonneg) auto
qed

text \<open>C6.  The Wilson interval of a rate lies in the unit interval with its lower end below its upper
  end, for every number of failures and every denominator, in the float arithmetic of the code.\<close>

theorem wilson_is_interval:
  assumes "wilson_interval failures denominator = Inr (JObj w)" and "0 < denominator"
  shows "\<exists>lower upper. get w ''lower'' = jflt lower \<and> get w ''upper'' = jflt upper \<and> 0 \<le> lower \<and> lower \<le> upper \<and> upper \<le> 1"
proof -
  from assms obtain d2 d d4 where f: "0 \<le> failures" "failures \<le> denominator"
    and d: "int_to_float (2 * denominator) = Inr d2" "int_to_float denominator = Inr d" "int_to_float (4 * denominator) = Inr d4"
    by (auto simp: wilson_interval_def bindE_eq_Inr guard_Inr split: if_splits)
  let ?p = "fl_div (nat failures) (nat denominator)"
  let ?c = "wilson_center ?p (finite_value d) (finite_value d2)"
  let ?h = "wilson_half ?p (finite_value d) (finite_value d4)"
  have ds: "finite_value d = rnd (of_int denominator)" "finite_value d2 = rnd (of_int (2 * denominator))"
    using int_to_float_Inr [OF d(1)] int_to_float_Inr [OF d(2)] by (simp_all add: finite_value_def)
  have "rnd 1 \<le> rnd (of_int denominator)" using assms(2) by (intro rnd_mono) simp
  then have pos: "0 < finite_value d" by (simp add: ds)
  have le: "finite_value d \<le> finite_value d2" unfolding ds using assms(2) by (intro rnd_mono) simp
  have p: "0 \<le> ?p" "?p \<le> 1" using fl_div_unit [of "nat failures" "nat denominator"] f by auto
  note c = wilson_center_unit [OF p pos le] and h = wilson_half_nonneg [OF pos, of ?p "finite_value d4"]
  have w: "get w ''lower'' = jflt (round12 (max 0 (rnd (?c - ?h))))" "get w ''upper'' = jflt (round12 (min 1 (rnd (?c + ?h))))"
    using assms f d by (auto simp: wilson_interval_def Let_def get_def guard_def)
  have "?c - ?h \<le> 1" "?c - ?h \<le> ?c + ?h" using c h by linarith+
  then have "rnd (?c - ?h) \<le> 1" "rnd (?c - ?h) \<le> rnd (?c + ?h)" using rnd_mono [of "?c - ?h" 1] by (simp_all add: rnd_mono)
  moreover have "0 \<le> rnd (?c + ?h)" using c h by (intro rnd_nonneg) auto
  ultimately have mm: "max 0 (rnd (?c - ?h)) \<le> min 1 (rnd (?c + ?h))" by simp
  have "0 \<le> round12 (max 0 (rnd (?c - ?h)))" using round12_mono [of 0 "max 0 (rnd (?c - ?h))"] by simp
  moreover have "round12 (min 1 (rnd (?c + ?h))) \<le> 1" using round12_mono [of "min 1 (rnd (?c + ?h))" 1] by simp
  ultimately show ?thesis using w round12_mono [OF mm] by blast
qed

theorem wilson_is_interval_witness:
  "\<exists>w lower upper. wilson_interval 1 4 = Inr (JObj w) \<and> get w ''lower'' = jflt lower \<and> get w ''upper'' = jflt upper
     \<and> 0 \<le> lower \<and> lower \<le> upper \<and> upper \<le> 1"
proof -
  have r: "rnd 4 = 4" "rnd 8 = 8" "rnd 16 = 16"
    using rnd_of_int [of 4] rnd_of_int [of 8] rnd_of_int [of 16] by simp_all
  obtain w where w: "wilson_interval 1 4 = Inr (JObj w)"
    by (simp add: wilson_interval_def int_to_float_def to_float_def r Let_def)
  from wilson_is_interval [OF w] w show ?thesis by auto
qed

end
