(* ===== verification/BmMetrics.thy ===== *)
theory BmMetrics
  imports BmWilson "HOL-Library.Product_Lexorder"
begin

text \<open>
  The analysis methods of \<open>src/b2/bm0.py\<close> over an identity grid: the terminal partition, the
  infrastructure error rate, the model-failure denominators, case failure probabilities and their
  family means with the case-cluster bootstrap.  A method first builds the grid, so that an invalid
  manifest or observation raises.  It reads the observations of a group in the order the attempts were
  planned; the code's order is that of arrival, and the counts and sums it takes do not depend on it.
\<close>

section \<open>Counting\<close>

definition row_status :: "obj \<Rightarrow> string" where
  "row_status row = str_in row ''terminal_status''"

definition count_status :: "obj list \<Rightarrow> string \<Rightarrow> nat" where
  "count_status rows s = length (filter (\<lambda>r. row_status r = s) rows)"

definition counts_obj :: "obj list \<Rightarrow> string list \<Rightarrow> obj" where
  "counts_obj rows statuses = map (\<lambda>s. (s, jint (count_status rows s))) statuses"

text \<open>The failure values that are 0 or 1.\<close>

definition failure_values :: "obj list \<Rightarrow> nat list" where
  "failure_values rows = concat (map (\<lambda>r. if get r ''model_failure_value'' = JInt 0 then [0]
     else if get r ''model_failure_value'' = JInt 1 then [1] else []) rows)"

definition failures_in :: "obj list \<Rightarrow> nat" where
  "failures_in rows = sum_list (failure_values rows)"

definition scorable_in :: "obj list \<Rightarrow> nat" where
  "scorable_in rows = length (failure_values rows)"

lemma failures_le_scorable: "failures_in rows \<le> scorable_in rows"
  by (induction rows) (auto simp: failures_in_def scorable_in_def failure_values_def)

lemma scorable_le: "scorable_in rows \<le> length rows"
  by (induction rows) (auto simp: scorable_in_def failure_values_def)

definition in_class :: "string list \<Rightarrow> obj \<Rightarrow> bool" where
  "in_class classes a \<longleftrightarrow> str_in a ''target_class'' \<in> set classes"

definition primary_pool :: "obj \<Rightarrow> bool" where
  "primary_pool a \<longleftrightarrow> get a ''corpus_pool_id'' = JStr PRIMARY_ESTIMATE_POOL_ID"

text \<open>The planned attempts that a method is about, and the observations of them.\<close>

definition planned_where :: "observation_grid \<Rightarrow> (obj \<Rightarrow> bool) \<Rightarrow> (string \<times> obj) list" where
  "planned_where g P = filter (\<lambda>ia. P (snd ia)) (gr_planned g)"

definition observed_of :: "observation_grid \<Rightarrow> string list \<Rightarrow> obj list" where
  "observed_of g ids = concat (map (\<lambda>i. case map_of (gr_observed g) i of Some r \<Rightarrow> [r] | None \<Rightarrow> []) ids)"

definition missing_where :: "observation_grid \<Rightarrow> (obj \<Rightarrow> bool) \<Rightarrow> string list" where
  "missing_where g P = sort (filter (\<lambda>i. map_of (gr_observed g) i = None) (map fst (planned_where g P)))"

definition subject_of :: "obj \<Rightarrow> string" where
  "subject_of a = str_in a ''model_subject_id''"

definition subjects_in :: "(string \<times> obj) list \<Rightarrow> string list" where
  "subjects_in planned = sort (remdups (map (\<lambda>ia. subject_of (snd ia)) planned))"

definition wilson_of :: "nat \<Rightarrow> nat \<Rightarrow> json result" where
  "wilson_of f n = wilson_interval (int f) (int n)"

definition jopt :: "('a \<Rightarrow> json) \<Rightarrow> 'a option \<Rightarrow> json" where
  "jopt f x = (case x of None \<Rightarrow> JNull | Some y \<Rightarrow> f y)"

section \<open>The terminal partition and infrastructure errors\<close>

definition not_scorable :: "obj \<Rightarrow> bool" where
  "not_scorable r \<longleftrightarrow> (if system_only r then get r ''system_invariant_failure_value'' = JNull else get r ''model_failure_value'' = JNull)"

definition partition_of :: "observation_grid \<Rightarrow> obj" where
  "partition_of g =
     (let planned_count = length (gr_planned g); rows = map snd (gr_observed g); missing = gr_missing g;
          non_scorable = length (filter not_scorable rows);
          status = (if planned_count = 0 \<or> missing \<noteq> [] then ''NOT_EVALUABLE'' else ''PASS'') in
      [(''method_id'', sap_method 2), (''terminal_status'', JStr status),
       (''reason'', if planned_count = 0 then JStr ''ZERO_SCHEDULED_ATTEMPTS''
          else if missing \<noteq> [] then JStr ''MISSING_PLANNED_OBSERVATIONS'' else JNull),
       (''total_attempts'', jint planned_count), (''recorded_terminal_count'', jint (length rows)),
       (''missing_attempt_ids'', jstrs missing),
       (''terminal_counts'', JObj (counts_obj rows TERMINAL_STATUSES)),
       (''scorable_terminal_count'', jint (length rows - non_scorable)),
       (''non_scorable_terminal_count'', jint non_scorable),
       (''non_scorable_attempt_rate'', if status = ''PASS'' then jflt (ratio12 non_scorable planned_count) else JNull)])"

definition typed_terminal_partition :: "json \<Rightarrow> json list \<Rightarrow> obj \<Rightarrow> obj result" where
  "typed_terminal_partition manifest observations expected =
     bindE (observation_grid_of manifest observations expected) (\<lambda>g. Inr (partition_of g))"

definition infrastructure_error_rate :: "json \<Rightarrow> json list \<Rightarrow> obj \<Rightarrow> obj result" where
  "infrastructure_error_rate manifest observations expected =
     bindE (typed_terminal_partition manifest observations expected) (\<lambda>p.
     let pass = (get p ''terminal_status'' = JStr ''PASS'');
         errors = field (get p ''terminal_counts'') ''ERROR'';
         count = (\<lambda>v. case v of JInt i \<Rightarrow> nat i | _ \<Rightarrow> 0) in
     Inr [(''method_id'', sap_method 13), (''metric_id'', JStr ''infrastructure_error_rate''),
          (''terminal_status'', get p ''terminal_status''), (''reason'', get p ''reason''),
          (''planned_attempt_count'', get p ''total_attempts''), (''recorded_attempt_count'', get p ''recorded_terminal_count''),
          (''missing_attempt_ids'', get p ''missing_attempt_ids''),
          (''infrastructure_error_count'', if pass then errors else JNull),
          (''infrastructure_error_rate'', if pass then jflt (ratio12 (count errors) (count (get p ''total_attempts''))) else JNull),
          (''model_failure_attribution'', JStr ''FORBIDDEN'')])"

section \<open>Model-failure denominators\<close>

definition metric_target_classes :: "obj \<Rightarrow> string \<Rightarrow> string list result" where
  "metric_target_classes m metric_id = (case map_of MODEL_METRIC_TARGET_CLASSES metric_id of
      None \<Rightarrow> Inl (ValueError ''unsupported model-failure metric ID'')
    | Some classes \<Rightarrow>
        bindE (guard (set classes \<subseteq> set (comparison_classes m))
          (''metric '' @ metric_id @ '' is not active under the frozen comparison classes'')) (\<lambda>_.
        bindE (guard (\<not> (metric_id = ''sandboxed_agent_failure_rate'' \<and> sandbox_status m \<noteq> ''ESTABLISHED''))
          ''sandboxed agent failure cannot run without established equivalence'') (\<lambda>_.
        Inr classes)))"

definition excluded_counts :: "obj list \<Rightarrow> json" where
  "excluded_counts rows = JObj (counts_obj rows NON_MODEL_SCORABLE_TERMINALS
     @ [(''UNKNOWN'', jint (length (filter (\<lambda>r. row_status r = ''UNKNOWN'' \<and> get r ''model_failure_value'' = JNull) rows)))])"

definition model_row :: "nat \<Rightarrow> obj list \<Rightarrow> bool \<Rightarrow> obj result" where
  "model_row planned_count rows missing =
     (let failures = failures_in rows; denominator = scorable_in rows; shown = \<not> missing; scored = shown \<and> denominator \<noteq> 0 in
      bindE (if missing then Inr (suppressed_wilson ''MISSING_PLANNED_OBSERVATIONS'') else wilson_of failures denominator) (\<lambda>interval.
      Inr [(''terminal_status'', JStr (if scored then ''PASS'' else ''NOT_EVALUABLE'')),
           (''reason'', if missing then JStr ''MISSING_PLANNED_OBSERVATIONS''
              else if denominator = 0 then JStr ''ZERO_MODEL_SCORABLE_DENOMINATOR'' else JNull),
           (''planned_attempt_count'', jint planned_count), (''recorded_attempt_count'', jint (length rows)),
           (''failure_count'', if shown then jint failures else JNull),
           (''model_scorable_denominator'', if shown then jint denominator else JNull),
           (''failure_rate'', if scored then jflt (ratio12 failures denominator) else JNull),
           (''excluded_terminal_counts'', if shown then excluded_counts rows else JNull),
           (''wilson_95'', interval)]))"

definition comparable :: "string list \<Rightarrow> obj \<Rightarrow> bool" where
  "comparable classes a \<longleftrightarrow> in_class classes a \<and> primary_pool a"

definition model_rows :: "observation_grid \<Rightarrow> string list \<Rightarrow> (string \<times> obj) list result" where
  "model_rows g classes =
     (let planned = planned_where g (comparable classes); missing = missing_where g (comparable classes) \<noteq> [] in
      mapE (\<lambda>s. let ids = map fst (filter (\<lambda>ia. subject_of (snd ia) = s) planned) in
          bindE (model_row (length ids) (observed_of g ids) missing) (\<lambda>row. Inr (s, row)))
        (subjects_in planned))"

definition model_failure_denominator :: "json \<Rightarrow> json list \<Rightarrow> string \<Rightarrow> obj \<Rightarrow> obj result" where
  "model_failure_denominator manifest observations metric_id expected =
     bindE (observation_grid_of manifest observations expected) (\<lambda>g.
     bindE (metric_target_classes (gr_manifest g) metric_id) (\<lambda>classes.
     bindE (model_rows g classes) (\<lambda>by_model.
     let missing = missing_where g (comparable classes);
         reason = (if missing \<noteq> [] then JStr ''MISSING_PLANNED_OBSERVATIONS''
           else if by_model = [] then JStr ''NO_PREDECLARED_METRIC_ATTEMPTS''
           else if list_ex (\<lambda>sr. get (snd sr) ''terminal_status'' \<noteq> JStr ''PASS'') by_model
             then JStr ''ONE_OR_MORE_ZERO_MODEL_SCORABLE_DENOMINATORS''
           else JNull) in
     Inr [(''method_id'', sap_method 3), (''metric_id'', JStr metric_id),
          (''terminal_status'', JStr (if reason = JNull then ''PASS'' else ''NOT_EVALUABLE'')), (''reason'', reason),
          (''missing_attempt_ids'', jstrs missing), (''target_classes'', jstrs classes),
          (''corpus_pool'', JStr PRIMARY_ESTIMATE_POOL_ID),
          (''by_model'', JObj (map (\<lambda>sr. (fst sr, JObj (snd sr))) by_model)),
          (''ranking_emitted'', JBool False), (''claim_scope'', JStr ''DESCRIPTIVE_CONTRACT_ONLY'')])))"

section \<open>Case failure probabilities\<close>

type_synonym case_key = "string \<times> string \<times> string \<times> string \<times> string"

definition case_key_of :: "obj \<Rightarrow> case_key" where
  "case_key_of a = (subject_of a, str_in a ''entry_id'', str_in a ''family_id'', str_in a ''case_id'', str_in a ''variant_id'')"

record case_estimate =
  ce_key :: case_key
  ce_status :: string
  ce_reason :: json
  ce_planned :: nat
  ce_recorded :: nat
  ce_failures :: "nat option"
  ce_denominator :: "nat option"
  ce_cfp :: "rat option"
  ce_interval :: json

definition ce_entry_id :: "case_estimate \<Rightarrow> string" where
  "ce_entry_id c = fst (snd (ce_key c))"

definition ce_family_id :: "case_estimate \<Rightarrow> string" where
  "ce_family_id c = fst (snd (snd (ce_key c)))"

definition ce_case_id :: "case_estimate \<Rightarrow> string" where
  "ce_case_id c = fst (snd (snd (snd (ce_key c))))"

definition case_dict :: "case_estimate \<Rightarrow> json" where
  "case_dict c = JObj [
     (''entry_id'', JStr (ce_entry_id c)), (''family_id'', JStr (ce_family_id c)), (''case_id'', JStr (ce_case_id c)),
     (''variant_id'', JStr (snd (snd (snd (snd (ce_key c)))))), (''terminal_status'', JStr (ce_status c)), (''reason'', ce_reason c),
     (''planned_trial_count'', jint (ce_planned c)), (''recorded_trial_count'', jint (ce_recorded c)),
     (''failure_count'', jopt jint (ce_failures c)), (''model_scorable_denominator'', jopt jint (ce_denominator c)),
     (''cfp'', jopt jflt (ce_cfp c)), (''wilson_95'', ce_interval c)]"

definition active :: "observation_grid \<Rightarrow> obj \<Rightarrow> bool" where
  "active g a \<longleftrightarrow> in_class (comparison_classes (gr_manifest g)) a"

definition case_estimate_of :: "observation_grid \<Rightarrow> case_key \<Rightarrow> case_estimate result" where
  "case_estimate_of g key =
     (let mine = (\<lambda>a. active g a \<and> case_key_of a = key); rows = observed_of g (map fst (planned_where g mine));
          failures = failures_in rows; denominator = scorable_in rows; missing = missing_where g mine \<noteq> [] in
      bindE (if missing then Inr (suppressed_wilson ''MISSING_PLANNED_OBSERVATIONS'')
             else if denominator = 0 then wilson_of 0 0 else wilson_of failures denominator) (\<lambda>interval.
      Inr \<lparr>ce_key = key,
           ce_status = (if missing \<or> denominator = 0 then ''NOT_EVALUABLE'' else ''PASS''),
           ce_reason = (if missing then JStr ''MISSING_PLANNED_OBSERVATIONS''
             else if denominator = 0 then JStr ''ZERO_CASE_SCORABLE_DENOMINATOR'' else JNull),
           ce_planned = length (planned_where g mine), ce_recorded = length rows,
           ce_failures = (if missing then None else Some failures),
           ce_denominator = (if missing then None else Some denominator),
           ce_cfp = (if missing \<or> denominator = 0 then None else Some (ratio12 failures denominator)),
           ce_interval = interval\<rparr>))"

definition case_keys :: "observation_grid \<Rightarrow> case_key list" where
  "case_keys g = sort (remdups (map (\<lambda>ia. case_key_of (snd ia)) (planned_where g (active g))))"

record cfp_report =
  cf_status :: string
  cf_reason :: json
  cf_classes :: "string list"
  cf_missing :: "string list"
  cf_by_model :: "(string \<times> case_estimate list) list"

definition case_failure_report :: "observation_grid \<Rightarrow> cfp_report result" where
  "case_failure_report g =
     bindE (mapE (\<lambda>s. bindE (mapE (case_estimate_of g) (filter (\<lambda>k. fst k = s) (case_keys g))) (\<lambda>cases. Inr (s, cases)))
       (sort (remdups (map fst (case_keys g))))) (\<lambda>by_model.
     let missing = missing_where g (active g);
         pass = (by_model \<noteq> [] \<and> missing = [] \<and> list_all (\<lambda>sc. list_all (\<lambda>c. ce_status c = ''PASS'') (snd sc)) by_model) in
     Inr \<lparr>cf_status = (if pass then ''PASS'' else ''NOT_EVALUABLE''),
          cf_reason = (if by_model = [] then JStr ''NO_PREDECLARED_MODEL_CASES''
            else if missing \<noteq> [] then JStr ''MISSING_PLANNED_OBSERVATIONS''
            else if \<not> pass then JStr ''ONE_OR_MORE_ZERO_CASE_SCORABLE_DENOMINATORS'' else JNull),
          cf_classes = comparison_classes (gr_manifest g), cf_missing = missing, cf_by_model = by_model\<rparr>)"

definition case_failure_probability :: "json \<Rightarrow> json list \<Rightarrow> obj \<Rightarrow> obj result" where
  "case_failure_probability manifest observations expected =
     bindE (observation_grid_of manifest observations expected) (\<lambda>g.
     bindE (case_failure_report g) (\<lambda>r.
     Inr [(''method_id'', sap_method 8), (''metric_id'', JStr ''case_failure_probability''),
          (''terminal_status'', JStr (cf_status r)), (''reason'', cf_reason r),
          (''comparison_classes'', jstrs (cf_classes r)), (''missing_attempt_ids'', jstrs (cf_missing r)),
          (''by_model'', JObj (map (\<lambda>sc. (fst sc, JObj [(''distinct_case_count'', jint (length (snd sc))),
             (''cases'', JArr (map case_dict (snd sc)))])) (cf_by_model r))),
          (''repeated_trials_count_as_distinct_cases'', JBool False)]))"

section \<open>Family means and the case-cluster bootstrap\<close>

text \<open>
  \<open>draw n k\<close> is the index that the \<open>k\<close>-th call of \<open>rng.choice\<close> picks from \<open>n\<close> values.  The
  generator \<open>random.Random(20260904)\<close> is one such stream; what is shown holds for all.
  \<open>sum\<close> adds floats from the left, as Python 3.11 does.
\<close>

type_synonym draws = "nat \<Rightarrow> nat \<Rightarrow> nat"

definition fl_sum :: "rat list \<Rightarrow> rat" where
  "fl_sum xs = foldl (\<lambda>s x. rnd (s + x)) 0 xs"

definition fl_mean :: "rat list \<Rightarrow> rat" where
  "fl_mean xs = rnd (fl_sum xs / of_nat (length xs))"

definition resample :: "draws \<Rightarrow> rat list \<Rightarrow> nat \<Rightarrow> rat list" where
  "resample draw values r = map (\<lambda>j. values ! draw (length values) (r * length values + j)) [0..<length values]"

definition resamples :: nat where
  "resamples = 10000"

definition percentile :: "(rat \<Rightarrow> int) \<Rightarrow> rat \<Rightarrow> nat" where
  "percentile round_to q = nat (round_to (rnd (of_nat (resamples - 1) * rnd q)))"

definition bootstrap_report :: "string \<Rightarrow> json \<Rightarrow> nat \<Rightarrow> json \<Rightarrow> json \<Rightarrow> json" where
  "bootstrap_report status reason n lower_end upper_end = JObj [
     (''method_id'', sap_method 10), (''terminal_status'', JStr status), (''reason'', reason),
     (''confidence_level'', jflt (rnd (19 / 20))), (''distinct_case_cluster_count'', jint n),
     (''resamples'', jint resamples), (''seed'', JInt 20260904), (''lower'', lower_end), (''upper'', upper_end)]"

definition check_estimate :: "string \<times> json \<Rightarrow> rat result" where
  "check_estimate kv =
     bindE (guard (fst kv \<noteq> []) ''FCFR cluster keys must be non-empty case IDs'') (\<lambda>_.
     let e = ValueError ''FCFR case estimates must be finite probabilities'';
         check = (\<lambda>f. case f of Fin x \<Rightarrow> if 0 \<le> x \<and> x \<le> 1 then Inr x else Inl e | _ \<Rightarrow> Inl e) in
     case snd kv of
       JInt i \<Rightarrow> bindE (int_to_float i) check
     | JFloat f \<Rightarrow> check f
     | _ \<Rightarrow> Inl e)"

definition case_cluster_bootstrap :: "draws \<Rightarrow> json \<Rightarrow> json result" where
  "case_cluster_bootstrap draw case_estimates = (case case_estimates of
      JObj d \<Rightarrow>
        bindE (mapE check_estimate (sort_key fst d)) (\<lambda>values.
        if length values < 2 then
          Inr (bootstrap_report ''NOT_EVALUABLE'' (JStr ''FEWER_THAN_TWO_DISTINCT_CASE_CLUSTERS'') (length values) JNull JNull)
        else let bootstrap = sort (map (\<lambda>r. fl_mean (resample draw values r)) [0..<resamples]) in
          Inr (bootstrap_report ''PASS'' JNull (length values)
            (jflt (round12 (bootstrap ! percentile floor (1 / 40)))) (jflt (round12 (bootstrap ! percentile ceiling (39 / 40))))))
    | _ \<Rightarrow> Inl (ValueError ''FCFR case estimates must be keyed by distinct case_id''))"

record family_estimate =
  fe_entry_id :: string
  fe_family_id :: string
  fe_status :: string
  fe_cases :: nat
  fe_trials :: nat
  fe_fcfr :: "rat option"
  fe_bootstrap :: json

definition family_dict :: "family_estimate \<Rightarrow> json" where
  "family_dict f = JObj [
     (''entry_id'', JStr (fe_entry_id f)), (''family_id'', JStr (fe_family_id f)), (''terminal_status'', JStr (fe_status f)),
     (''reason'', if fe_status f = ''PASS'' then JNull else JStr ''INCOMPLETE_OR_NONSCORABLE_CASE_CLUSTER''),
     (''distinct_case_count'', jint (fe_cases f)), (''total_recorded_trial_count'', jint (fe_trials f)),
     (''fcfr'', jopt jflt (fe_fcfr f)), (''case_cluster_bootstrap_95'', fe_bootstrap f)]"

text \<open>The dictionary of estimates: one per case id, the last of them.\<close>

definition case_estimates :: "case_estimate list \<Rightarrow> obj" where
  "case_estimates cases = foldl (\<lambda>d c. put d (ce_case_id c) (jopt jflt (ce_cfp c))) [] (filter (\<lambda>c. ce_status c = ''PASS'') cases)"

definition flt_in :: "json \<Rightarrow> rat" where
  "flt_in v = (case v of JFloat (Fin x) \<Rightarrow> x | _ \<Rightarrow> 0)"

definition family_estimate_of :: "draws \<Rightarrow> string \<times> string \<Rightarrow> case_estimate list \<Rightarrow> family_estimate result" where
  "family_estimate_of draw key cases =
     (let estimates = case_estimates cases;
          invalid = (list_ex (\<lambda>c. ce_status c \<noteq> ''PASS'') cases \<or> estimates = []) in
      bindE (case_cluster_bootstrap draw (if invalid then JObj [] else JObj estimates)) (\<lambda>uncertainty.
      Inr \<lparr>fe_entry_id = fst key, fe_family_id = snd key,
           fe_status = (if invalid then ''NOT_EVALUABLE'' else ''PASS''),
           fe_cases = length cases, fe_trials = sum_list (map ce_recorded cases),
           fe_fcfr = (if invalid then None else Some (round12 (fl_mean (map (\<lambda>kv. flt_in (snd kv)) estimates)))),
           fe_bootstrap = uncertainty\<rparr>))"

definition family_estimates :: "draws \<Rightarrow> case_estimate list \<Rightarrow> family_estimate list result" where
  "family_estimates draw cases =
     (let key = (\<lambda>c. (ce_entry_id c, ce_family_id c)) in
      mapE (\<lambda>k. family_estimate_of draw k (filter (\<lambda>c. key c = k) cases)) (sort (remdups (map key cases))))"

definition family_conditional_failure_rate :: "draws \<Rightarrow> json \<Rightarrow> json list \<Rightarrow> obj \<Rightarrow> obj result" where
  "family_conditional_failure_rate draw manifest observations expected =
     bindE (observation_grid_of manifest observations expected) (\<lambda>g.
     bindE (case_failure_report g) (\<lambda>r.
     bindE (mapE (\<lambda>sc. bindE (family_estimates draw (snd sc)) (\<lambda>fs. Inr (fst sc, fs))) (cf_by_model r)) (\<lambda>by_model.
     let pass = (cf_status r = ''PASS'' \<and> list_all (\<lambda>sf. list_all (\<lambda>f. fe_status f = ''PASS'') (snd sf)) by_model) in
     Inr [(''method_id'', sap_method 9), (''metric_id'', JStr ''family_conditional_failure_rate''),
          (''terminal_status'', JStr (if pass then ''PASS'' else ''NOT_EVALUABLE'')),
          (''reason'', if pass then JNull else if cf_reason r = JNull then JStr ''INCOMPLETE_CASE_CLUSTER'' else cf_reason r),
          (''by_model'', JObj (map (\<lambda>sf. (fst sf, JObj [(''distinct_family_entry_count'', jint (length (snd sf))),
             (''families'', JArr (map family_dict (snd sf)))])) by_model)),
          (''estimator'', JStr ''UNWEIGHTED_MEAN_OF_DISTINCT_CASE_CFP''), (''case_cluster_unit'', JStr ''case_id''),
          (''repeated_trials_count_as_distinct_cases'', JBool False)])))"

end
