(* ===== verification/BmCompare.thy ===== *)
theory BmCompare
  imports BmMetrics
begin

text \<open>
  The remaining methods of \<open>src/b2/bm0.py\<close>: control false positives, within-case instability,
  the bounded pilot design, the system invariant rate and the paired comparison of two models,
  whose retry ordinals are counted by a loop over parents.
\<close>

section \<open>Control false positives\<close>

definition control_attempt :: "observation_grid \<Rightarrow> obj \<Rightarrow> bool" where
  "control_attempt g a \<longleftrightarrow> active g a \<and> get a ''corpus_pool_id'' = JStr ''CONTROL''"

definition control_row :: "obj list \<Rightarrow> bool \<Rightarrow> obj result" where
  "control_row rows missing =
     (let failures = failures_in rows; denominator = scorable_in rows; pass = (denominator \<noteq> 0 \<and> \<not> missing) in
      bindE (if missing then Inr (suppressed_wilson ''MISSING_PLANNED_CONTROL_OBSERVATIONS'') else wilson_of failures denominator) (\<lambda>interval.
      Inr [(''terminal_status'', JStr (if pass then ''PASS'' else ''NOT_EVALUABLE'')),
           (''reason'', if pass then JNull else if missing then JStr ''MISSING_PLANNED_CONTROL_OBSERVATIONS''
              else JStr ''ZERO_CONTROL_SCORABLE_DENOMINATOR''),
           (''false_positive_count'', if missing then JNull else jint failures),
           (''control_scorable_denominator'', if missing then JNull else jint denominator),
           (''cfpr'', if pass then jflt (ratio12 failures denominator) else JNull),
           (''wilson_95'', interval)]))"

definition control_rows :: "observation_grid \<Rightarrow> (string \<times> obj) list result" where
  "control_rows g =
     mapE (\<lambda>s. let mine = (\<lambda>a. control_attempt g a \<and> subject_of a = s) in
         bindE (control_row (observed_of g (map fst (planned_where g mine))) (missing_where g mine \<noteq> [])) (\<lambda>row. Inr (s, row)))
       (subjects_in (planned_where g (control_attempt g)))"

definition row_passes :: "string \<times> obj \<Rightarrow> bool" where
  "row_passes sr \<longleftrightarrow> get (snd sr) ''terminal_status'' = JStr ''PASS''"

definition control_false_positive_rate :: "json \<Rightarrow> json list \<Rightarrow> obj \<Rightarrow> obj result" where
  "control_false_positive_rate manifest observations expected =
     bindE (observation_grid_of manifest observations expected) (\<lambda>g.
     bindE (control_rows g) (\<lambda>by_model.
     let pass = (by_model \<noteq> [] \<and> list_all row_passes by_model) in
     Inr [(''method_id'', sap_method 11), (''metric_id'', JStr ''control_false_positive_rate''),
          (''terminal_status'', JStr (if pass then ''PASS'' else ''NOT_EVALUABLE'')),
          (''reason'', if pass then JNull else JStr ''CONTROL_GRID_NOT_SCORABLE''),
          (''missing_attempt_ids'', jstrs (missing_where g (control_attempt g))),
          (''by_model'', JObj (map (\<lambda>sr. (fst sr, JObj (snd sr))) by_model))]))"

section \<open>Within-case instability\<close>

definition eligible_case :: "case_estimate \<Rightarrow> bool" where
  "eligible_case c \<longleftrightarrow> ce_status c = ''PASS'' \<and> (case ce_denominator c of Some n \<Rightarrow> 2 \<le> n | None \<Rightarrow> False)"

definition switching_case :: "case_estimate \<Rightarrow> bool" where
  "switching_case c \<longleftrightarrow> (case (ce_failures c, ce_denominator c) of (Some f, Some n) \<Rightarrow> 0 < f \<and> f < n | _ \<Rightarrow> False)"

definition instability_row :: "case_estimate list \<Rightarrow> obj" where
  "instability_row cases =
     (let eligible = filter eligible_case cases; switching = filter switching_case eligible in
      [(''terminal_status'', JStr (if eligible \<noteq> [] then ''PASS'' else ''NOT_EVALUABLE'')),
       (''reason'', if eligible \<noteq> [] then JNull else JStr ''NO_REPEAT_ELIGIBLE_CASES''),
       (''eligible_distinct_case_count'', jint (length eligible)),
       (''switching_distinct_case_count'', jint (length switching)),
       (''within_case_instability'', if eligible \<noteq> [] then jflt (ratio12 (length switching) (length eligible)) else JNull),
       (''switching_case_ids'', jstrs (sort (map ce_case_id switching)))])"

definition within_case_instability :: "json \<Rightarrow> json list \<Rightarrow> obj \<Rightarrow> obj result" where
  "within_case_instability manifest observations expected =
     bindE (observation_grid_of manifest observations expected) (\<lambda>g.
     bindE (case_failure_report g) (\<lambda>r.
     let by_model = map (\<lambda>sc. (fst sc, instability_row (snd sc))) (cf_by_model r);
         pass = (by_model \<noteq> [] \<and> list_all row_passes by_model) in
     Inr [(''method_id'', sap_method 12), (''metric_id'', JStr ''within_case_instability''),
          (''terminal_status'', JStr (if pass then ''PASS'' else ''NOT_EVALUABLE'')),
          (''reason'', if pass then JNull else JStr ''NO_REPEAT_ELIGIBLE_CASES''),
          (''by_model'', JObj (map (\<lambda>sr. (fst sr, JObj (snd sr))) by_model)),
          (''repeated_trials_count_as_distinct_cases'', JBool False)]))"

section \<open>The bounded pilot design\<close>

definition pilot_root :: "obj \<Rightarrow> bool" where
  "pilot_root a \<longleftrightarrow> get a ''parent_attempt_id'' = JNull \<and> \<not> system_only a \<and> get a ''applicability_result'' = JStr ''APPLICABLE''"

definition pilot_group :: "obj \<Rightarrow> string \<times> string \<times> string" where
  "pilot_group a = (subject_of a, str_in a ''entry_id'', str_in a ''family_id'')"

definition pilot_case :: "obj \<Rightarrow> string \<times> string" where
  "pilot_case a = (str_in a ''case_id'', str_in a ''variant_id'')"

text \<open>One root of the loop, with the roots before it.\<close>

definition check_pilot_root :: "obj list \<Rightarrow> obj \<Rightarrow> unit result" where
  "check_pilot_root before a = seqE [
     guard (str_in a ''trial_id'' \<notin> set (map (\<lambda>b. str_in b ''trial_id'') before)) ''bounded pilot root trial IDs must be unique'',
     guard (\<not> list_ex (\<lambda>b. pilot_group b = pilot_group a \<and> pilot_case b = pilot_case a \<and> get b ''replicate_index'' = get a ''replicate_index'') before)
       ''repeated attempts cannot masquerade as distinct pilot replicates'']"

definition pilot_case_summary :: "obj list \<Rightarrow> string \<times> string \<Rightarrow> json result" where
  "pilot_case_summary members k =
     (let n = length (filter (\<lambda>a. pilot_case a = k) members) in
      bindE (guard (2 \<le> n \<and> n \<le> 5) ''bounded pilot replicate count is outside the frozen range'') (\<lambda>_.
      Inr (JObj [(''case_id'', JStr (fst k)), (''variant_id'', JStr (snd k)), (''replicate_count'', jint n)])))"

definition pilot_group_summary :: "obj list \<Rightarrow> string \<times> string \<times> string \<Rightarrow> json result" where
  "pilot_group_summary roots k =
     (let members = filter (\<lambda>a. pilot_group a = k) roots; cases = sort (remdups (map pilot_case members)) in
      bindE (guard (2 \<le> length cases \<and> length cases \<le> 8) ''bounded pilot distinct-case count is outside the frozen range'') (\<lambda>_.
      bindE (mapE (pilot_case_summary members) cases) (\<lambda>summaries.
      Inr (JObj [(''model_subject_id'', JStr (fst k)), (''entry_id'', JStr (fst (snd k))), (''family_id'', JStr (snd (snd k))),
        (''distinct_case_count'', jint (length cases)), (''cases'', JArr summaries)]))))"

definition bounded_pilot_design :: "json list \<Rightarrow> obj result" where
  "bounded_pilot_design planned_attempts =
     bindE (mapE validate_trial_identity planned_attempts) (\<lambda>attempts.
     let roots = filter pilot_root attempts in
     bindE (guard (roots \<noteq> []) ''bounded pilot requires applicable model root trials'') (\<lambda>_.
     bindE (mapE (\<lambda>ia. check_pilot_root (take (fst ia) roots) (snd ia)) (enumerate 0 roots)) (\<lambda>_.
     bindE (mapE (pilot_group_summary roots) (sort (remdups (map pilot_group roots)))) (\<lambda>groups.
     Inr [(''method_id'', sap_method 14), (''design_rule_id'', JStr ''BOUNDED-PILOT-FIXED-SUITE-V1''),
          (''purpose'', JStr ''BOUNDED_PILOT_MECHANISM_CONDITIONED_FREQUENCY_EVIDENCE''), (''terminal_status'', JStr ''PASS''),
          (''group_count'', jint (length groups)), (''groups'', JArr groups), (''outcome_fields_read'', JBool False),
          (''precision_claimed'', JBool False), (''significance_or_superiority_claimed'', JBool False)]))))"

section \<open>The system invariant rate\<close>

definition system_attempt :: "obj \<Rightarrow> bool" where
  "system_attempt a \<longleftrightarrow> system_only a \<and> primary_pool a"

definition system_rate_of :: "observation_grid \<Rightarrow> obj result" where
  "system_rate_of g =
     (let ids = map fst (planned_where g system_attempt); missing = missing_where g system_attempt;
          rows = observed_of g ids; failures = count_status rows ''FAIL''; denominator = count_status rows ''PASS'' + failures;
          shown = (missing = []);
          reason = (if missing \<noteq> [] then JStr ''MISSING_PLANNED_SYSTEM_OBSERVATIONS''
            else if ids = [] then JStr ''NO_PREDECLARED_SYSTEM_ATTEMPTS''
            else if denominator = 0 then JStr ''ZERO_SYSTEM_SCORABLE_DENOMINATOR'' else JNull) in
      bindE (if shown then wilson_of failures denominator else Inr (suppressed_wilson ''MISSING_PLANNED_SYSTEM_OBSERVATIONS'')) (\<lambda>interval.
      Inr [(''method_id'', sap_method 7), (''terminal_status'', JStr (if reason = JNull then ''PASS'' else ''NOT_EVALUABLE'')), (''reason'', reason),
           (''planned_system_attempt_count'', jint (length ids)), (''corpus_pool'', JStr PRIMARY_ESTIMATE_POOL_ID),
           (''missing_attempt_ids'', jstrs missing), (''recorded_system_attempt_count'', jint (length rows)),
           (''failure_count'', if shown then jint failures else JNull),
           (''system_scorable_denominator'', if shown then jint denominator else JNull),
           (''failure_rate'', if shown \<and> denominator \<noteq> 0 then jflt (ratio12 failures denominator) else JNull),
           (''excluded_terminal_counts'', if shown then JObj (counts_obj rows NON_DEFINITIVE_TERMINALS) else JNull),
           (''wilson_95'', interval), (''model_attribution_emitted'', JBool False), (''ranking_emitted'', JBool False),
           (''claim_scope'', JStr ''SYSTEM_ONLY_NOT_MODEL_QUALITY'')]))"

definition system_invariant_failure_rate :: "json \<Rightarrow> json list \<Rightarrow> obj \<Rightarrow> obj result" where
  "system_invariant_failure_rate manifest observations expected =
     bindE (observation_grid_of manifest observations expected) system_rate_of"

section \<open>The paired comparison\<close>

text \<open>
  \<open>while parent_id is not None: ordinal += 1; parent_id = planned[parent_id]["parent_attempt_id"]\<close>,
  with fuel: the number of planned attempts is enough on every validated manifest.
\<close>

fun retry_ordinal :: "nat \<Rightarrow> (string \<times> obj) list \<Rightarrow> json \<Rightarrow> nat result" where
  "retry_ordinal 0 planned parent = Inl (Exc ''OutOfFuel'' [])"
| "retry_ordinal (Suc n) planned parent = (case parent of
      JStr p \<Rightarrow> (case map_of planned p of
          None \<Rightarrow> Inl (KeyError (py_repr p))
        | Some a \<Rightarrow> bindE (retry_ordinal n planned (get a ''parent_attempt_id'')) (\<lambda>k. Inr (Suc k)))
    | _ \<Rightarrow> Inr 0)"

definition ordinal_of :: "(string \<times> obj) list \<Rightarrow> obj \<Rightarrow> nat result" where
  "ordinal_of planned a = retry_ordinal (Suc (length planned)) planned (get a ''parent_attempt_id'')"

type_synonym pair_key = "string \<times> string \<times> string \<times> string \<times> int \<times> nat"

definition pair_key_of :: "(string \<times> nat) list \<Rightarrow> obj \<Rightarrow> pair_key" where
  "pair_key_of ordinals row =
     (str_in row ''entry_id'', str_in row ''family_id'', str_in row ''case_id'', str_in row ''variant_id'',
      (case get row ''replicate_index'' of JInt i \<Rightarrow> i | _ \<Rightarrow> 0),
      (case map_of ordinals (str_in row ''attempt_id'') of Some n \<Rightarrow> n | None \<Rightarrow> 0))"

definition not_comparable :: "string \<Rightarrow> string list \<Rightarrow> string \<Rightarrow> nat \<Rightarrow> obj" where
  "not_comparable metric_id classes reason excluded =
     [(''method_id'', sap_method 5), (''metric_id'', JStr metric_id), (''target_classes'', jstrs classes),
      (''terminal_status'', JStr ''NOT_EVALUABLE''), (''reason'', JStr reason), (''paired_scorable_count'', JInt 0),
      (''excluded_pair_count'', jint excluded), (''left_failure_rate'', JNull), (''right_failure_rate'', JNull),
      (''failure_rate_delta_left_minus_right'', JNull), (''corpus_pool'', JStr PRIMARY_ESTIMATE_POOL_ID), (''ranking_emitted'', JBool False)]"

definition paired_rows :: "observation_grid \<Rightarrow> string list \<Rightarrow> (string \<times> nat) list \<Rightarrow> string \<Rightarrow> (pair_key \<times> obj) list result" where
  "paired_rows g classes ordinals s =
     (let selected = filter (\<lambda>r. subject_of r = s \<and> in_class classes r
            \<and> (case map_of (gr_planned g) (str_in r ''attempt_id'') of Some a \<Rightarrow> primary_pool a | None \<Rightarrow> False)) (map snd (gr_observed g));
          keyed = map (\<lambda>r. (pair_key_of ordinals r, r)) selected in
      bindE (guard (distinct (map fst keyed)) ''duplicate paired comparison identity'') (\<lambda>_. Inr keyed))"

definition scored_value :: "obj \<Rightarrow> nat option" where
  "scored_value r = (if get r ''model_failure_value'' = JInt 0 then Some 0 else if get r ''model_failure_value'' = JInt 1 then Some 1 else None)"

definition same_identity :: "observation_grid \<Rightarrow> obj \<Rightarrow> obj \<Rightarrow> bool" where
  "same_identity g l r = (case (map_of (gr_planned g) (str_in l ''attempt_id''), map_of (gr_planned g) (str_in r ''attempt_id'')) of
      (Some a, Some b) \<Rightarrow> list_all (\<lambda>k. py_eq (get a k) (get b k)) PAIR_COMPATIBILITY_FIELDS
    | _ \<Rightarrow> False)"

definition paired_values :: "(pair_key \<times> obj) list \<Rightarrow> (pair_key \<times> obj) list \<Rightarrow> (nat \<times> nat) list" where
  "paired_values left right = concat (map (\<lambda>k. case (map_of left k, map_of right k) of
      (Some l, Some r) \<Rightarrow> (case (scored_value l, scored_value r) of (Some a, Some b) \<Rightarrow> [(a, b)] | _ \<Rightarrow> [])
    | _ \<Rightarrow> []) (sort (map fst left)))"

definition paired_report :: "string \<Rightarrow> string list \<Rightarrow> nat \<Rightarrow> (nat \<times> nat) list \<Rightarrow> obj" where
  "paired_report metric_id classes pairs values =
     (let n = length values; l = fl_div (sum_list (map fst values)) n; r = fl_div (sum_list (map snd values)) n in
      [(''method_id'', sap_method 5), (''metric_id'', JStr metric_id), (''target_classes'', jstrs classes),
       (''terminal_status'', JStr ''PASS''), (''reason'', JNull), (''paired_scorable_count'', jint n),
       (''excluded_pair_count'', jint (pairs - n)), (''left_failure_rate'', jflt (round12 l)), (''right_failure_rate'', jflt (round12 r)),
       (''failure_rate_delta_left_minus_right'', jflt (round12 (rnd (l - r)))),
       (''corpus_pool'', JStr PRIMARY_ESTIMATE_POOL_ID), (''ranking_emitted'', JBool False)])"

definition compare_rows :: "observation_grid \<Rightarrow> string \<Rightarrow> string list \<Rightarrow> (pair_key \<times> obj) list \<Rightarrow> (pair_key \<times> obj) list \<Rightarrow> obj" where
  "compare_rows g metric_id classes left right =
     (if left = [] \<or> set (map fst left) \<noteq> set (map fst right) then not_comparable metric_id classes ''UNPAIRED_PREDECLARED_DESIGN'' 0
      else if \<not> list_all (\<lambda>kl. case map_of right (fst kl) of Some r \<Rightarrow> same_identity g (snd kl) r | None \<Rightarrow> False) left
        then not_comparable metric_id classes ''PAIRED_IDENTITY_MISMATCH'' 0
      else let values = paired_values left right in
        if values = [] then not_comparable metric_id classes ''ZERO_PAIRED_MODEL_SCORABLE_DENOMINATOR'' (length left)
        else paired_report metric_id classes (length left) values)"

definition paired_complete_case :: "json \<Rightarrow> json list \<Rightarrow> string \<Rightarrow> string \<Rightarrow> string \<Rightarrow> obj \<Rightarrow> obj result" where
  "paired_complete_case manifest observations left_id right_id metric_id expected =
     bindE (guard (left_id \<noteq> right_id) ''paired comparison requires two distinct model subjects'') (\<lambda>_.
     bindE (observation_grid_of manifest observations expected) (\<lambda>g.
     bindE (metric_target_classes (gr_manifest g) metric_id) (\<lambda>classes.
     if missing_where g (\<lambda>a. comparable classes a \<and> subject_of a \<in> {left_id, right_id}) \<noteq> []
     then Inr (not_comparable metric_id classes ''MISSING_PLANNED_OBSERVATIONS'' 0)
     else
       bindE (mapE (\<lambda>ia. bindE (ordinal_of (gr_planned g) (snd ia)) (\<lambda>n. Inr (fst ia, n))) (gr_planned g)) (\<lambda>ordinals.
       bindE (paired_rows g classes ordinals left_id) (\<lambda>left.
       bindE (paired_rows g classes ordinals right_id) (\<lambda>right.
       Inr (compare_rows g metric_id classes left right)))))))"

end
