(* ===== verification/BmStop.thy ===== *)
theory BmStop
  imports BmPlan BmCompare
begin

text \<open>
  What the benchmark contracts of \<open>src/b2/bm0.py\<close> guarantee about a frozen manifest: the stopping rule
  stops exactly when every planned attempt is recorded and reads nothing else, the loop over retry
  parents ends, and a failure rate is only reported over a complete grid.
\<close>

section \<open>What a valid manifest keeps\<close>

lemma manifest_parts:
  assumes "validate_benchmark_manifest v e = Inr m"
  shows "distinct (planned_ids m)" and "check_retries (attempts_of m) = Inr ()"
proof -
  from assms obtain d where c: "check_attempts d = Inr ()" "check_plan d = Inr ()"
    and f: "verify_fingerprint d ''manifest_fingerprint'' manifest_label = Inr m"
    by (auto simp: validate_benchmark_manifest_def bindE_eq_Inr seqE_Inr)
  have same: "attempts_of m = attempts_of d" by (simp add: attempts_of_def verified_get [OF f])
  from c(1) show "distinct (planned_ids m)" by (simp add: planned_ids_def same check_attempts_def Let_def seqE_Inr guard_Inr)
  from c(2) show "check_retries (attempts_of m) = Inr ()" by (auto simp: same check_plan_def bindE_eq_Inr seqE_Inr)
qed

lemma frozen_Inr: "frozen_manifest v e msg = Inr m \<longleftrightarrow> validate_benchmark_manifest v e = Inr m \<and> get m ''study_state'' = JStr ''FROZEN''"
  by (auto simp: frozen_manifest_def bindE_eq_Inr guard_Inr)

lemma sample_frozen: "frozen_manifest (JObj sample_manifest) (Some sample_artifacts) msg = Inr sample_manifest"
  by (simp add: frozen_Inr sample_manifest_valid)

lemma sample_planned: "planned_ids sample_manifest = [''att-1'', ''att-2'']"
  "planned_items sample_manifest = [(''att-1'', first_attempt), (''att-2'', second_attempt)]"
  by (simp_all add: planned_ids_def planned_items_def sample_attempts_def first_attempt_def second_attempt_def sample_reads)

lemma identifier_read: "get d k = JStr s \<Longrightarrow> is_identifier s \<Longrightarrow> bm_identifier d k l = Inr s"
  using identifier_normal by (simp add: bm_identifier_Inr)

lemma mapE_every: "mapE f xs = Inr ys \<Longrightarrow> x \<in> set xs \<Longrightarrow> \<exists>y. f x = Inr y"
  by (induction xs arbitrary: ys) (auto simp: bindE_eq_Inr)

section \<open>The stopping rule\<close>

definition says_recorded :: "string \<Rightarrow> json \<Rightarrow> bool" where
  "says_recorded i e \<longleftrightarrow> field e ''attempt_id'' = JStr i \<and> field e ''recorded'' = JBool True"

definition blind_event :: "string list \<Rightarrow> json \<Rightarrow> bool" where
  "blind_event planned e \<longleftrightarrow> (\<exists>d. e = JObj d \<and> fst ` set d = {''attempt_id'', ''recorded''} \<and> str_in d ''attempt_id'' \<in> set planned)"

lemma event_step_Inr:
  assumes "event_step planned seen (n, e) = Inr seen'"
  shows "\<exists>i r. seen' = seen @ [(i, r)] \<and> field e ''attempt_id'' = JStr i \<and> field e ''recorded'' = JBool r \<and> blind_event planned e"
  using assms by (auto simp: event_step_def Let_def bindE_eq_Inr bm_obj_Inr bm_keys_Inr bm_identifier_Inr bm_boolean_Inr guard_Inr
      field_def blind_event_def str_in_def text_in_def)

lemma events_seen:
  assumes "foldE (event_step planned) seen (enumerate n events) = Inr seen'"
  shows "(\<forall>e \<in> set events. blind_event planned e)
    \<and> (i \<in> set (map fst (filter snd seen')) \<longleftrightarrow> i \<in> set (map fst (filter snd seen)) \<or> (\<exists>e \<in> set events. says_recorded i e))"
  using assms
proof (induction events arbitrary: n seen)
  case (Cons e events)
  then obtain seen1 where step: "event_step planned seen (n, e) = Inr seen1"
    and rest: "foldE (event_step planned) seen1 (enumerate (Suc n) events) = Inr seen'" by (auto simp: bindE_eq_Inr)
  from event_step_Inr [OF step] obtain j r where one: "seen1 = seen @ [(j, r)]" "field e ''attempt_id'' = JStr j"
    "field e ''recorded'' = JBool r" "blind_event planned e" by blast
  then have "i \<in> set (map fst (filter snd seen1)) \<longleftrightarrow> i \<in> set (map fst (filter snd seen)) \<or> says_recorded i e"
    by (auto simp: says_recorded_def)
  with Cons.IH [OF rest] one(4) show ?case by auto
qed simp

text \<open>C4.  The stopping rule stops exactly when every planned attempt has a recorded event, and it only
  accepts events that carry an identity and a presence bit: a document with an outcome field raises.\<close>

theorem stop_iff_all_recorded:
  assumes "fixed_attempt_stop manifest events expected = Inr r" and "validate_benchmark_manifest manifest (Some expected) = Inr m"
  shows "get r ''decision'' = JStr (if \<forall>i \<in> set (planned_ids m). \<exists>e \<in> set events. says_recorded i e then ''STOP'' else ''CONTINUE'')
    \<and> (\<forall>e \<in> set events. blind_event (planned_ids m) e)"
proof -
  from assms obtain seen where seen: "foldE (event_step (planned_ids m)) [] (enumerate 0 events) = Inr seen"
    and r: "get r ''decision'' = JStr (if sort (filter (\<lambda>i. i \<notin> set (map fst (filter snd seen))) (planned_ids m)) = [] then ''STOP'' else ''CONTINUE'')"
    by (auto simp: fixed_attempt_stop_def bindE_eq_Inr frozen_Inr Let_def get_def)
  note e = events_seen [OF seen]
  have "sort (filter (\<lambda>i. i \<notin> set (map fst (filter snd seen))) (planned_ids m)) = []
      \<longleftrightarrow> (\<forall>i \<in> set (planned_ids m). i \<in> set (map fst (filter snd seen)))"
    by (metis (no_types, lifting) filter_empty_conv list.size(3) length_0_conv length_sort)
  then show ?thesis using e r by simp
qed

theorem stop_iff_all_recorded_witness:
  "\<exists>r. fixed_attempt_stop (JObj sample_manifest) [JObj [(''attempt_id'', JStr ''att-2''), (''recorded'', JBool True)],
      JObj [(''attempt_id'', JStr ''att-1''), (''recorded'', JBool True)]] sample_artifacts = Inr r \<and> get r ''decision'' = JStr ''STOP''"
proof -
  let ?e = "[JObj [(''attempt_id'', JStr ''att-2''), (''recorded'', JBool True)], JObj [(''attempt_id'', JStr ''att-1''), (''recorded'', JBool True)]]"
  have "foldE (event_step (planned_ids sample_manifest)) [] (enumerate 0 ?e) = Inr [(''att-2'', True), (''att-1'', True)]"
    using manifest_words
    by (simp add: event_step_def Let_def sample_planned bm_obj_def bm_keysI identifier_read bm_boolean_def guard_def look_Cons)
  then obtain r where r: "fixed_attempt_stop (JObj sample_manifest) ?e sample_artifacts = Inr r"
    by (simp add: fixed_attempt_stop_def sample_frozen Let_def)
  from stop_iff_all_recorded [OF r sample_manifest_valid] r show ?thesis by (auto simp: sample_planned says_recorded_def field_def look_Cons)
qed

section \<open>Retry chains end\<close>

lemma retry_parent_before:
  assumes "check_retries xs = Inr ()" and "j < length xs" and "get (xs ! j) ''parent_attempt_id'' = JStr p"
  shows "\<exists>i < j. str_in (xs ! i) ''attempt_id'' = p"
proof -
  from assms(1) obtain ys where ys: "mapE (\<lambda>ia. check_retry_parent xs (take (fst ia) xs) (snd ia)) (enumerate 0 xs) = Inr ys"
    unfolding check_retries_def seqE_Inr by (auto simp: must_Inr)
  have "(j, xs ! j) \<in> set (enumerate 0 xs)" using assms(2) by (simp add: in_set_enumerate_eq)
  from mapE_every [OF ys this] have "check_retry_parent xs (take j xs) (xs ! j) = Inr ()" by simp
  with assms(3) have "find_attempt (take j xs) p \<noteq> None"
    by (auto simp: check_retry_parent_def bindE_eq_Inr guard_Inr split: option.splits)
  then obtain a where "a \<in> set (take j xs)" "str_in a ''attempt_id'' = p" by (auto simp: find_attempt_def find_Some_iff in_set_conv_nth)
  then show ?thesis using assms(2) by (auto simp: in_set_conv_nth)
qed

lemma ordinal_exists:
  assumes "check_retries xs = Inr ()" and "distinct (map (\<lambda>a. str_in a ''attempt_id'') xs)" and "j < length xs" and "j < n"
  shows "\<exists>k \<le> j. retry_ordinal n (map (\<lambda>a. (str_in a ''attempt_id'', a)) xs) (get (xs ! j) ''parent_attempt_id'') = Inr k"
  using assms(3,4)
proof (induction j arbitrary: n rule: less_induct)
  case (less j)
  then obtain n' where n: "n = Suc n'" by (cases n) auto
  let ?planned = "map (\<lambda>a. (str_in a ''attempt_id'', a)) xs"
  show ?case
  proof (cases "\<exists>p. get (xs ! j) ''parent_attempt_id'' = JStr p")
    case True
    then obtain p where p: "get (xs ! j) ''parent_attempt_id'' = JStr p" ..
    from retry_parent_before [OF assms(1) less.prems(1) p] obtain i where i: "i < j" "str_in (xs ! i) ''attempt_id'' = p" by blast
    have "map_of ?planned p = Some (xs ! i)"
      using i less.prems(1) assms(2) by (intro map_of_is_SomeI) (auto simp: comp_def intro!: nth_mem image_eqI [where x = "xs ! i"])
    moreover obtain k where "k \<le> i" "retry_ordinal n' ?planned (get (xs ! i) ''parent_attempt_id'') = Inr k"
      using less.IH [of i n'] i less.prems n by auto
    ultimately show ?thesis using i p n by (intro exI [of _ "Suc k"]) simp
  qed (use n in \<open>auto split: json.splits\<close>)
qed

text \<open>C5.  The loop that counts the retries of an attempt by walking its parents ends for every planned
  attempt of every grid, and counts fewer steps than there are planned attempts.\<close>

theorem retry_ordinals_end:
  assumes "observation_grid_of manifest observations expected = Inr g" and "(i, a) \<in> set (gr_planned g)"
  shows "\<exists>k < length (gr_planned g). ordinal_of (gr_planned g) a = Inr k"
proof -
  from assms obtain m where m: "validate_benchmark_manifest manifest (Some expected) = Inr m" "gr_planned g = planned_items m"
    by (auto simp: observation_grid_of_def bindE_eq_Inr frozen_Inr)
  from assms(2) m(2) obtain j where j: "j < length (attempts_of m)" "a = attempts_of m ! j"
    by (auto simp: planned_items_def in_set_conv_nth)
  from ordinal_exists [OF manifest_parts(2) [OF m(1)] _ j(1), of "Suc (length (planned_items m))"] manifest_parts(1) [OF m(1)] j
  show ?thesis unfolding ordinal_of_def m(2) by (auto simp: planned_items_def planned_ids_def)
qed

lemma sample_empty_grid:
  "observation_grid_of (JObj sample_manifest) [] sample_artifacts
     = Inr \<lparr>gr_manifest = sample_manifest, gr_planned = planned_items sample_manifest, gr_observed = []\<rparr>"
  by (simp add: observation_grid_of_def sample_frozen)

theorem retry_ordinals_end_witness:
  "\<exists>k < 2. ordinal_of (planned_items sample_manifest) second_attempt = Inr k"
  using retry_ordinals_end [OF sample_empty_grid, of "''att-2''" second_attempt] by (simp add: sample_planned numeral_2_eq_2)

section \<open>Failure rates\<close>

definition incomplete :: "observation_grid \<Rightarrow> string list \<Rightarrow> bool" where
  "incomplete g classes \<longleftrightarrow> list_ex (\<lambda>ia. comparable classes (snd ia) \<and> map_of (gr_observed g) (fst ia) = None) (gr_planned g)"

definition rows_of :: "observation_grid \<Rightarrow> string list \<Rightarrow> string \<Rightarrow> obj list" where
  "rows_of g classes s = observed_of g (map fst (filter (\<lambda>ia. subject_of (snd ia) = s) (planned_where g (comparable classes))))"

definition failed_rows :: "obj list \<Rightarrow> nat" where
  "failed_rows rows = length (filter (\<lambda>r. get r ''model_failure_value'' = JInt 1) rows)"

definition scored_rows :: "obj list \<Rightarrow> nat" where
  "scored_rows rows = length (filter (\<lambda>r. get r ''model_failure_value'' \<in> {JInt 0, JInt 1}) rows)"

lemma counts_filter: "failures_in rows = failed_rows rows" "scorable_in rows = scored_rows rows"
  by (induction rows) (auto simp: failures_in_def scorable_in_def failure_values_def failed_rows_def scored_rows_def)

lemma missing_incomplete: "missing_where g (comparable classes) \<noteq> [] \<longleftrightarrow> incomplete g classes"
proof -
  have "sort xs = [] \<longleftrightarrow> xs = []" for xs :: "string list" by (metis length_0_conv length_sort)
  then have "missing_where g (comparable classes) = [] \<longleftrightarrow> \<not> incomplete g classes"
    by (force simp: missing_where_def planned_where_def incomplete_def list_ex_iff filter_empty_conv)
  then show ?thesis by simp
qed

lemma model_row_fields:
  assumes "model_row n rows missing = Inr row"
  shows "get row ''failure_rate'' = (if missing \<or> scored_rows rows = 0 then JNull else jflt (ratio12 (failed_rows rows) (scored_rows rows)))"
    and "get row ''failure_count'' = (if missing then JNull else jint (failed_rows rows))"
    and "get row ''model_scorable_denominator'' = (if missing then JNull else jint (scored_rows rows))"
  using assms by (auto simp: model_row_def Let_def bindE_eq_Inr counts_filter look_Cons)

lemma model_rows_sound:
  assumes "model_rows g classes = Inr by_model" and "(s, row) \<in> set by_model"
  shows "\<exists>n. model_row n (rows_of g classes s) (incomplete g classes) = Inr row"
proof -
  from assms obtain s' where "bindE (model_row (length (map fst (filter (\<lambda>ia. subject_of (snd ia) = s') (planned_where g (comparable classes)))))
      (rows_of g classes s') (missing_where g (comparable classes) \<noteq> [])) (\<lambda>row. Inr (s', row)) = Inr (s, row)"
    unfolding model_rows_def Let_def rows_of_def by (elim mapE_set)
  then show ?thesis by (auto simp: bindE_eq_Inr missing_incomplete)
qed

text \<open>C2.  A model failure report says PASS only if no comparable planned attempt is unobserved; each of
  its rows then gives the number of failed and of scored observations of that model and their ratio, which
  lies in the unit interval, and on an incomplete grid every row withholds all three.\<close>

theorem failure_rate_needs_grid:
  assumes "model_failure_denominator manifest observations metric_id expected = Inr r"
    and "observation_grid_of manifest observations expected = Inr g"
    and "metric_target_classes (gr_manifest g) metric_id = Inr classes"
  shows "(get r ''terminal_status'' = JStr ''PASS'' \<longrightarrow> \<not> incomplete g classes)
    \<and> (\<forall>(s, row) \<in> set (items_of (get r ''by_model'')). let rows = rows_of g classes s; f = failed_rows rows; n = scored_rows rows in
        if incomplete g classes
        then field row ''failure_rate'' = JNull \<and> field row ''failure_count'' = JNull \<and> field row ''model_scorable_denominator'' = JNull
        else field row ''failure_count'' = jint f \<and> field row ''model_scorable_denominator'' = jint n
          \<and> field row ''failure_rate'' = (if n = 0 then JNull else jflt (ratio12 f n)) \<and> 0 \<le> ratio12 f n \<and> ratio12 f n \<le> 1)"
proof -
  from assms obtain by_model where rows: "model_rows g classes = Inr by_model"
    and r: "get r ''by_model'' = JObj (map (\<lambda>sr. (fst sr, JObj (snd sr))) by_model)"
      "get r ''terminal_status'' = JStr ''PASS'' \<Longrightarrow> missing_where g (comparable classes) = []"
    by (auto simp: model_failure_denominator_def bindE_eq_Inr Let_def look_Cons split: if_splits)
  have unit: "0 \<le> ratio12 (failed_rows xs) (scored_rows xs) \<and> ratio12 (failed_rows xs) (scored_rows xs) \<le> 1" for xs
    using ratio12_unit failures_le_scorable [of xs] by (simp add: counts_filter)
  have "field (JObj row) k = get row k" for row k by (simp add: field_def)
  moreover have "\<exists>n. model_row n (rows_of g classes s) (incomplete g classes) = Inr row" if "(s, row) \<in> set by_model" for s row
    using model_rows_sound [OF rows that] .
  ultimately have "\<forall>(s, row) \<in> set (items_of (get r ''by_model'')). \<exists>d n. row = JObj d \<and> model_row n (rows_of g classes s) (incomplete g classes) = Inr d"
    by (auto simp: r)
  then show ?thesis using unit r(2) missing_incomplete [of g classes]
    by (auto simp: Let_def field_def model_row_fields)
qed

theorem failure_rate_needs_grid_witness:
  "\<exists>r. model_failure_denominator (JObj sample_manifest) [] ''model_failure_rate'' sample_artifacts = Inr r
     \<and> get r ''terminal_status'' \<noteq> JStr ''PASS''"
proof -
  let ?g = "\<lparr>gr_manifest = sample_manifest, gr_planned = planned_items sample_manifest, gr_observed = []\<rparr>"
  have c: "metric_target_classes (gr_manifest ?g) ''model_failure_rate'' = Inr DEFAULT_COMPARABLE_CLASSES"
    by (simp add: metric_target_classes_def MODEL_METRIC_TARGET_CLASSES_def sample_classes guard_def DEFAULT_COMPARABLE_CLASSES_def)
  have inc: "incomplete ?g DEFAULT_COMPARABLE_CLASSES"
    by (simp add: incomplete_def sample_planned comparable_def in_class_def primary_pool_def first_attempt_def sample_reads
        DEFAULT_COMPARABLE_CLASSES_def PRIMARY_ESTIMATE_POOL_ID_def)
  have "\<exists>by_model. model_rows ?g DEFAULT_COMPARABLE_CLASSES = Inr by_model"
    unfolding model_rows_def Let_def missing_incomplete [THEN eqTrueI [OF iffD2], OF inc]
    by (rule mapE_total) (simp add: model_row_def Let_def)
  then obtain r where r: "model_failure_denominator (JObj sample_manifest) [] ''model_failure_rate'' sample_artifacts = Inr r"
    using c by (auto simp: model_failure_denominator_def sample_empty_grid Let_def)
  from failure_rate_needs_grid [OF r sample_empty_grid c] inc r show ?thesis by blast
qed

end
