(* ===== verification/BmLabel.thy ===== *)
theory BmLabel
  imports BmStop
begin

text \<open>
  What a final label of \<open>resolve_adjudication_v1\<close> rests on: both planned human primaries, who
  agree or whose disagreement the planned tiebreaker settles.
\<close>

lemma record_reads: "validate_adjudication_record v = Inr r \<Longrightarrow> get r k = get (items_of v) k"
  by (auto simp: validate_adjudication_record_def bindE_eq_Inr bm_obj_Inr verified_get items_of_def)

definition decided :: "obj \<Rightarrow> bool" where
  "decided r \<longleftrightarrow> completed r \<and> get r ''decision'' \<in> {JStr ''PASS'', JStr ''FAIL''}"

definition fine_record :: "obj \<Rightarrow> bool" where
  "fine_record r \<longleftrightarrow> (get r ''record_status'' = JStr ''ERROR'' \<or> completed r)
     \<and> (completed r \<longrightarrow> get r ''decision'' \<in> JStr ` {''PASS'', ''FAIL'', ''UNKNOWN''})"

lemma fine_decided: "fine_record r \<Longrightarrow> get r ''record_status'' \<noteq> JStr ''ERROR'' \<Longrightarrow> get r ''decision'' \<noteq> JStr ''UNKNOWN'' \<Longrightarrow> decided r"
  by (auto simp: fine_record_def decided_def)

lemma resolution_decision [simp]: "get (resolution_result st re d P T) ''decision'' = d"
  by (simp add: resolution_result_def look_Cons)

lemma resolved_label:
  assumes "resolve_rows plan P T = Inr r" and "get r ''decision'' = JStr s" and "\<forall>x \<in> set P \<union> set T. fine_record x"
  shows "\<exists>p q. P = [p, q] \<and> decided p \<and> decided q \<and> {record_seat p, record_seat q} = set (primary_seats plan)
    \<and> (get p ''decision'' = JStr s \<and> get q ''decision'' = JStr s
       \<or> get p ''decision'' \<noteq> get q ''decision'' \<and> (\<exists>t. T = [t] \<and> decided t \<and> get t ''decision'' = JStr s))"
proof -
  from assms(1,2) have two: "length P = 2" and no_error: "\<forall>x \<in> set P. get x ''record_status'' \<noteq> JStr ''ERROR''"
    by (auto simp: resolve_rows_def Let_def forbid_def bindE_eq_Inr list_ex_iff split: if_splits)
  from two obtain p q where P: "P = [p, q]" by (auto simp: numeral_2_eq_2 length_Suc_conv)
  from assms(1,2) P no_error have seats: "{record_seat p, record_seat q} = set (primary_seats plan)"
    and known: "get p ''decision'' \<noteq> JStr ''UNKNOWN''" "get q ''decision'' \<noteq> JStr ''UNKNOWN''"
    by (auto simp: resolve_rows_def Let_def forbid_def bindE_eq_Inr guard_Inr split: if_splits)
  with assms(3) P no_error have dec: "decided p" "decided q" using fine_decided by auto
  show ?thesis
  proof (cases "get p ''decision'' = get q ''decision''")
    case True
    with assms(1,2) P no_error known have "get p ''decision'' = JStr s"
      by (auto simp: resolve_rows_def Let_def forbid_def bindE_eq_Inr guard_Inr)
    with True P dec seats show ?thesis by auto
  next
    case False
    with assms(1,2) P no_error known obtain t where t: "T = [t]" "get t ''record_status'' \<noteq> JStr ''ERROR''"
      "get t ''decision'' \<noteq> JStr ''UNKNOWN''" "get t ''decision'' = JStr s"
      by (auto simp: resolve_rows_def Let_def bindE_eq_Inr guard_Inr split: list.splits if_splits)
    then have "decided t" using assms(3) fine_decided by auto
    with False P dec seats t show ?thesis by auto
  qed
qed

text \<open>A record of the round \<open>role\<close> that is a completed blind human decision on complete evidence.\<close>

definition blind_decision :: "json \<Rightarrow> string \<Rightarrow> json \<Rightarrow> bool" where
  "blind_decision v role d \<longleftrightarrow> get (items_of v) ''round_role'' = JStr role \<and> get (items_of v) ''record_status'' = JStr ''COMPLETED''
     \<and> get (items_of v) ''adjudicator_type'' = JStr ''HUMAN'' \<and> (\<forall>k \<in> set blindness_keys. get (items_of v) k = JBool True)
     \<and> get (items_of v) ''evidence_complete'' = JBool True \<and> get (items_of v) ''decision'' = d"

lemma record_seat_reads: "validate_adjudication_record v = Inr r \<Longrightarrow> record_seat r = record_seat (items_of v)"
  by (simp add: record_seat_def seat_def record_reads)

lemma blind_decisionI:
  assumes "validate_adjudication_record v = Inr r" and "decided r" and "get r ''round_role'' = JStr role"
  shows "blind_decision v role (get r ''decision'')"
  using assms completed_decision [OF assms(1)] by (simp add: blind_decision_def decided_def completed_def record_reads)

text \<open>C3.  A final label is PASS or FAIL and rests on two supplied records of the two planned primaries, each a
  completed blind human decision on complete evidence: either both decided the label, or they disagree and
  a record of the planned tiebreaker, as complete and blind, decided it.\<close>

theorem final_label_needs_humans:
  assumes "resolve_adjudication manifest records expected = Inr r" and "get r ''decision'' = JStr s"
    and "validate_benchmark_manifest manifest (Some expected) = Inr m"
  shows "\<exists>v \<in> set records. \<exists>w \<in> set records. \<exists>d e. s \<in> {''PASS'', ''FAIL''} \<and> blind_decision v ''PRIMARY'' d \<and> blind_decision w ''PRIMARY'' e
    \<and> {record_seat (items_of v), record_seat (items_of w)} = set (primary_seats (items_of (get m ''adjudication_plan'')))
    \<and> (d = JStr s \<and> e = JStr s \<or> d \<noteq> e \<and> (\<exists>t \<in> set records. blind_decision t ''TIEBREAK'' (JStr s)
         \<and> record_seat (items_of t) = plan_seat (get (items_of (get m ''adjudication_plan'')) ''tiebreak_adjudicator'')))"
proof -
  let ?plan = "items_of (get m ''adjudication_plan'')"
  obtain rows where rows: "mapE validate_adjudication_record records = Inr rows"
    using assms(1) by (auto simp: resolve_adjudication_def bindE_eq_Inr)
  have seats: "check_seats ?plan (round_rows ''PRIMARY'' rows) (round_rows ''TIEBREAK'' rows) = Inr ()"
    and res: "resolve_rows ?plan (round_rows ''PRIMARY'' rows) (round_rows ''TIEBREAK'' rows) = Inr r"
    using assms rows by (cases rows; auto simp: resolve_adjudication_def bindE_eq_Inr frozen_Inr Let_def)+
  have source: "\<exists>v \<in> set records. validate_adjudication_record v = Inr x" if "x \<in> set rows" for x
    using mapE_set [OF rows that] by blast
  have fine: "fine_record x" if "x \<in> set rows" for x
    using source [OF that] completed_decision(1,2) by (auto simp: fine_record_def)
  have in_rows: "set (round_rows role rows) \<subseteq> set rows" "\<forall>x \<in> set (round_rows role rows). get x ''round_role'' = JStr role" for role
    by (auto simp: round_rows_def)
  from resolved_label [OF res assms(2)] fine in_rows obtain p q where pq: "round_rows ''PRIMARY'' rows = [p, q]" "decided p" "decided q"
      "{record_seat p, record_seat q} = set (primary_seats ?plan)"
    and label: "get p ''decision'' = JStr s \<and> get q ''decision'' = JStr s
      \<or> get p ''decision'' \<noteq> get q ''decision'' \<and> (\<exists>t. round_rows ''TIEBREAK'' rows = [t] \<and> decided t \<and> get t ''decision'' = JStr s)"
    by blast
  have given: "\<exists>v \<in> set records. blind_decision v role (get x ''decision'') \<and> record_seat (items_of v) = record_seat x"
    if "x \<in> set (round_rows role rows)" "decided x" for x role
  proof -
    from that(1) in_rows [of role] have x: "x \<in> set rows" "get x ''round_role'' = JStr role" by auto
    from source [OF x(1)] obtain v where v: "v \<in> set records" "validate_adjudication_record v = Inr x" by blast
    from blind_decisionI [OF v(2) that(2) x(2)] record_seat_reads [OF v(2)] v(1) show ?thesis by auto
  qed
  obtain v where v: "v \<in> set records" "blind_decision v ''PRIMARY'' (get p ''decision'')" "record_seat (items_of v) = record_seat p"
    using given [of p "''PRIMARY''"] pq by auto
  obtain w where w: "w \<in> set records" "blind_decision w ''PRIMARY'' (get q ''decision'')" "record_seat (items_of w) = record_seat q"
    using given [of q "''PRIMARY''"] pq by auto
  have tie: "\<exists>t \<in> set records. blind_decision t ''TIEBREAK'' (JStr s) \<and> record_seat (items_of t) = plan_seat (get ?plan ''tiebreak_adjudicator'')"
    if "get p ''decision'' \<noteq> get q ''decision''"
  proof -
    from label that obtain t where t: "round_rows ''TIEBREAK'' rows = [t]" "decided t" "get t ''decision'' = JStr s" by auto
    moreover from seats t have "record_seat t = plan_seat (get ?plan ''tiebreak_adjudicator'')"
      by (auto simp: check_seats_def seqE_Inr guard_Inr)
    ultimately show ?thesis using given [of t "''TIEBREAK''"] by auto
  qed
  have "s \<in> {''PASS'', ''FAIL''}" using label pq(2) by (auto simp: decided_def)
  moreover have "{record_seat (items_of v), record_seat (items_of w)} = set (primary_seats ?plan)" using v(3) w(3) pq(4) by simp
  moreover have "get p ''decision'' = JStr s \<and> get q ''decision'' = JStr s
      \<or> get p ''decision'' \<noteq> get q ''decision'' \<and> (\<exists>t \<in> set records. blind_decision t ''TIEBREAK'' (JStr s)
          \<and> record_seat (items_of t) = plan_seat (get ?plan ''tiebreak_adjudicator''))"
    using label tie by blast
  ultimately show ?thesis using v(1,2) w(1,2) by (intro bexI [OF _ v(1)] bexI [OF _ w(1)] exI conjI)
qed

section \<open>Two agreeing primaries of the sample study\<close>

definition record_body :: "string \<Rightarrow> obj" where
  "record_body i = [(''schema_version'', JStr ADJUDICATION_SCHEMA_VERSION), (''adjudication_id'', JStr i), (''study_id'', JStr ''study''),
     (''attempt_id'', JStr ''att-1''), (''item_alias'', JStr ''alias''), (''metric_id'', JStr ''model_failure_rate''), (''round_role'', JStr ''PRIMARY''),
     (''adjudicator_type'', JStr ''HUMAN''), (''authority_role'', JStr ''BLINDED_INDEPENDENT_HUMAN_REVIEW''), (''adjudicator_id'', JStr i),
     (''adjudicator_configuration_fingerprint'', zero_digest), (''llm_judge_assistance'', JNull), (''record_status'', JStr ''COMPLETED''),
     (''decision'', JStr ''FAIL''), (''blind_to_model_identity'', JBool True), (''blind_to_provider_identity'', JBool True),
     (''blind_to_peer_decisions'', JBool True), (''blind_to_llm_assistance_before_decision'', JBool True), (''rubric_version'', JStr ''r1''),
     (''rubric_fingerprint'', zero_digest), (''evidence_complete'', JBool True), (''conflict_status'', JStr ''NONE''), (''rationale_code'', JStr ''r1'')]"

definition sample_record :: "string \<Rightarrow> obj" where
  "sample_record i = sealed (record_body i) ''record_fingerprint''"

lemma record_body_get:
  "get (record_body i) ''schema_version'' = JStr ADJUDICATION_SCHEMA_VERSION" "get (record_body i) ''adjudication_id'' = JStr i"
  "get (record_body i) ''study_id'' = JStr ''study''" "get (record_body i) ''attempt_id'' = JStr ''att-1''" "get (record_body i) ''item_alias'' = JStr ''alias''"
  "get (record_body i) ''metric_id'' = JStr ''model_failure_rate''" "get (record_body i) ''round_role'' = JStr ''PRIMARY''"
  "get (record_body i) ''adjudicator_type'' = JStr ''HUMAN''" "get (record_body i) ''authority_role'' = JStr ''BLINDED_INDEPENDENT_HUMAN_REVIEW''"
  "get (record_body i) ''adjudicator_id'' = JStr i" "get (record_body i) ''adjudicator_configuration_fingerprint'' = zero_digest"
  "get (record_body i) ''llm_judge_assistance'' = JNull" "get (record_body i) ''record_status'' = JStr ''COMPLETED''" "get (record_body i) ''decision'' = JStr ''FAIL''"
  "get (record_body i) ''blind_to_model_identity'' = JBool True" "get (record_body i) ''blind_to_provider_identity'' = JBool True"
  "get (record_body i) ''blind_to_peer_decisions'' = JBool True" "get (record_body i) ''blind_to_llm_assistance_before_decision'' = JBool True"
  "get (record_body i) ''rubric_version'' = JStr ''r1''" "get (record_body i) ''rubric_fingerprint'' = zero_digest"
  "get (record_body i) ''evidence_complete'' = JBool True" "get (record_body i) ''conflict_status'' = JStr ''NONE''" "get (record_body i) ''rationale_code'' = JStr ''r1''"
  unfolding record_body_def by (simp_all only: lookup_eval)

lemma sample_record_get: "k \<noteq> ''record_fingerprint'' \<Longrightarrow> get (sample_record i) k = get (record_body i) k"
  unfolding sample_record_def by (rule get_sealed)

lemma record_words: "is_identifier ''study''" "is_identifier ''alias''" "public_text ''adj-1''" "public_text ''adj-2''"
  by (simp_all add: identifier_eval quick_eval public_eval)

lemma record_header_ok:
  assumes "is_identifier i"
  shows "check_record_header (sample_record i) = Inr ()"
proof -
  have "map fst (sample_record i) = adjudication_keys" by (simp add: sample_record_def keys_sealed record_body_def adjudication_keys_def)
  moreover have "in_set (JStr ''FAIL'') (JNull # map JStr [''PASS'', ''FAIL'', ''UNKNOWN'']) = Inr True"
    by (simp add: in_set_def py_in_def unhashable_def)
  moreover have "normal_text ADJUDICATION_SCHEMA_VERSION"
    by (rule identifier_normal) (simp add: ADJUDICATION_SCHEMA_VERSION_def identifier_eval)
  ultimately show ?thesis
    using assms plan_words record_words manifest_words
    by (simp add: check_record_header_def seqE_Inr bm_keysI must_Inr bm_identifier_Inr bm_text_Inr bindE_eq_Inr guard_Inr identifier_normal
        sample_record_get record_body_get require_sha256_Inr check_assistance_def blindness_keys_def bm_boolean_Inr ex_bool_eq)
qed

lemma record_body_clean:
  assumes "public_text i"
  shows "clean (JObj (record_body i))"
proof -
  have "\<forall>v \<in> set (map snd (record_body i)). clean v"
    using assms by (simp add: record_body_def ADJUDICATION_SCHEMA_VERSION_def quick_eval public_eval)
  moreover have "\<forall>k \<in> set (map fst (record_body i)). public_text k" by (simp add: record_body_def quick_eval public_eval)
  ultimately show ?thesis by (simp only: clean_JObj simp_thms)
qed

lemma sample_record_valid:
  assumes "is_identifier i" and "public_text i"
  shows "validate_adjudication_record (JObj (sample_record i)) = Inr (sample_record i)"
proof -
  have "assert_public_safe (JObj (sample_record i)) = Inr ()"
    unfolding sample_record_def using record_body_clean [OF assms(2)] by (intro sealed_public) (simp_all add: clean_def quick_eval public_eval)
  moreover have "verify_fingerprint (sample_record i) ''record_fingerprint'' record_label = Inr (sample_record i)"
    unfolding sample_record_def by (rule verify_sealed) (simp add: record_body_def)
  moreover have "check_decision (sample_record i) = Inr ()"
    by (simp add: check_decision_def Let_def sample_record_get record_body_get seqE_Inr guard_Inr)
  ultimately show ?thesis
    by (simp add: validate_adjudication_record_def bm_obj_def seqE_Inr record_header_ok [OF assms(1)] bindE_eq_Inr)
qed

lemma sample_plan_get:
  "get sample_plan ''metric_ids'' = jstrs [''model_failure_rate'']" "get sample_plan ''rubric_version'' = JStr ''r1''"
  "get sample_plan ''rubric_fingerprint'' = zero_digest" "get sample_plan ''primary_adjudicators'' = JArr [sample_seat ''adj-1'', sample_seat ''adj-2'']"
  unfolding sample_plan_def by (simp_all add: get_sealed)

lemma sample_resolution:
  "\<exists>r. resolve_adjudication (JObj sample_manifest) [JObj (sample_record ''adj-1''), JObj (sample_record ''adj-2'')] sample_artifacts = Inr r
     \<and> get r ''decision'' = JStr ''FAIL''"
proof -
  let ?rows = "[sample_record ''adj-1'', sample_record ''adj-2'']"
  have valid: "mapE validate_adjudication_record (map JObj ?rows) = Inr ?rows"
    using sample_record_valid plan_words record_words by simp
  have parts: "round_rows ''PRIMARY'' ?rows = ?rows" "round_rows ''TIEBREAK'' ?rows = []"
    by (simp_all add: round_rows_def sample_record_get record_body_get)
  have seats: "map record_seat ?rows = primary_seats sample_plan"
    by (simp add: primary_seats_def sample_plan_get record_seat_def plan_seat_def seat_def sample_seat_def sample_record_get record_body_get look_Cons)
  have "find_attempt sample_attempts ''att-1'' = Some first_attempt"
    by (simp add: find_attempt_def sample_attempts_def first_attempt_def sample_reads)
  then have "check_records sample_manifest sample_plan ?rows (sample_record ''adj-1'') = Inr ()"
    by (simp add: check_records_def Let_def seqE_Inr guard_Inr shared_fields_def sample_record_get record_body_get str_in_def text_in_def
        sample_plan_get first_attempt_def jstrs_def)
  moreover have "check_seats sample_plan ?rows [] = Inr ()" by (simp add: check_seats_def seqE_Inr guard_Inr flip: seats)
  moreover have "resolve_rows sample_plan ?rows [] = Inr (resolution_result ''FAIL'' ''PRIMARY_AGREEMENT'' (JStr ''FAIL'') ?rows [])"
    by (simp add: resolve_rows_def Let_def forbid_def guard_def sample_record_get record_body_get text_in_def flip: seats)
  ultimately show ?thesis using valid parts
    by (simp add: resolve_adjudication_def sample_frozen Let_def)
qed

theorem final_label_needs_humans_witness:
  "\<exists>r. resolve_adjudication (JObj sample_manifest) [JObj (sample_record ''adj-1''), JObj (sample_record ''adj-2'')] sample_artifacts = Inr r
     \<and> get r ''decision'' = JStr ''FAIL'' \<and> (\<exists>v \<in> {sample_record ''adj-1'', sample_record ''adj-2''}. \<exists>d. blind_decision (JObj v) ''PRIMARY'' d)"
proof -
  from sample_resolution obtain r
    where r: "resolve_adjudication (JObj sample_manifest) [JObj (sample_record ''adj-1''), JObj (sample_record ''adj-2'')] sample_artifacts = Inr r"
      "get r ''decision'' = JStr ''FAIL''" by blast
  from final_label_needs_humans [OF r sample_manifest_valid] r show ?thesis by auto
qed

end
