(* ===== verification/BmBootstrap.thy ===== *)
theory BmBootstrap
  imports BmCompare
begin

text \<open>
  The case-cluster bootstrap of \<open>fcfr_case_cluster_bootstrap_v1\<close>: whatever the generator draws, the
  reported percentiles are the ends of an interval of probabilities.
\<close>

lemma check_estimate_unit:
  assumes "check_estimate kv = Inr x"
  shows "0 \<le> x \<and> x \<le> 1"
proof -
  have unit: "0 \<le> x \<and> x \<le> 1" if "(case f of Fin y \<Rightarrow> if 0 \<le> y \<and> y \<le> 1 then Inr y else Inl e | _ \<Rightarrow> Inl e) = Inr x" for f and e :: exc
    using that by (cases f) (auto split: if_splits)
  show ?thesis
    using assms unit by (cases "snd kv") (simp_all add: check_estimate_def Let_def bindE_eq_Inr guard_Inr, blast+)
qed

lemma fl_sum_snoc: "fl_sum (xs @ [x]) = rnd (fl_sum xs + x)"
  by (simp add: fl_sum_def)

lemma fl_sum_bounds:
  assumes "\<forall>x \<in> set xs. 0 \<le> x \<and> x \<le> 1" and "length xs < 2 ^ 53"
  shows "0 \<le> fl_sum xs \<and> fl_sum xs \<le> of_nat (length xs)"
  using assms
proof (induction xs rule: rev_induct)
  case (snoc x xs)
  then have ih: "0 \<le> fl_sum xs" "fl_sum xs \<le> of_nat (length xs)" and x: "0 \<le> x" "x \<le> 1" by auto
  have "rnd (fl_sum xs + x) \<le> rnd (of_int (int (length xs) + 1))" using ih x by (intro rnd_mono) simp
  also have "\<dots> = of_int (int (length xs) + 1)" using snoc.prems(2) by (intro rnd_of_int) simp
  finally show ?case using ih x by (simp add: fl_sum_snoc rnd_nonneg)
qed (simp add: fl_sum_def)

lemma fl_mean_unit:
  assumes "\<forall>x \<in> set xs. 0 \<le> x \<and> x \<le> 1" and "length xs < 2 ^ 53" and "xs \<noteq> []"
  shows "0 \<le> fl_mean xs \<and> fl_mean xs \<le> 1"
  using fl_sum_bounds [OF assms(1,2)] assms(3) unfolding fl_mean_def by (intro rnd_unit) (auto simp: divide_le_eq_1)

lemma resample_values:
  assumes "\<forall>n k. 0 < n \<longrightarrow> draw n k < n" and "vals \<noteq> []"
  shows "set (resample draw vals r) \<subseteq> set vals" and "length (resample draw vals r) = length vals"
  using assms by (auto simp: resample_def)

lemma percentile_ordered: "percentile floor (1 / 40) \<le> percentile ceiling (39 / 40)" "percentile ceiling (39 / 40) < resamples"
proof -
  have "rnd (1 / 40) \<le> rnd (39 / 40)" by (intro rnd_mono) simp
  then have "rnd (of_nat (resamples - 1) * rnd (1 / 40)) \<le> rnd (of_nat (resamples - 1) * rnd (39 / 40))"
    by (intro rnd_mono mult_left_mono) simp_all
  then have "\<lfloor>rnd (of_nat (resamples - 1) * rnd (1 / 40))\<rfloor> \<le> \<lceil>rnd (of_nat (resamples - 1) * rnd (39 / 40))\<rceil>" by linarith
  then show "percentile floor (1 / 40) \<le> percentile ceiling (39 / 40)" unfolding percentile_def by (rule nat_mono)
  have "rnd (39 / 40) \<le> rnd 1" by (intro rnd_mono) simp
  then have "rnd (of_nat (resamples - 1) * rnd (39 / 40)) \<le> rnd (of_int 9999)"
    by (intro rnd_mono) (simp add: resamples_def)
  also have "\<dots> = of_int 9999" by (intro rnd_of_int) simp
  finally have "\<lceil>rnd (of_nat (resamples - 1) * rnd (39 / 40))\<rceil> \<le> 9999" by (simp add: ceiling_le_iff)
  then show "percentile ceiling (39 / 40) < resamples" unfolding percentile_def resamples_def by linarith
qed

text \<open>C7.  Whatever indices the random generator picks, a bootstrap interval that is reported lies in the unit
  interval and its lower end does not exceed its upper end, in the float arithmetic of the code.\<close>

theorem bootstrap_interval:
  assumes "case_cluster_bootstrap draw (JObj d) = Inr (JObj w)" and "get w ''terminal_status'' = JStr ''PASS''"
    and "\<forall>n k. 0 < n \<longrightarrow> draw n k < n" and "length d < 2 ^ 53"
  shows "\<exists>lower upper. get w ''lower'' = jflt lower \<and> get w ''upper'' = jflt upper \<and> 0 \<le> lower \<and> lower \<le> upper \<and> upper \<le> 1"
proof -
  from assms(1) obtain vals where vals: "mapE check_estimate (sort_key fst d) = Inr vals"
    by (auto simp: case_cluster_bootstrap_def bindE_eq_Inr)
  have unit: "\<forall>x \<in> set vals. 0 \<le> x \<and> x \<le> 1" using mapE_set [OF vals] check_estimate_unit by metis
  have len: "length vals = length d" using mapE_length [OF vals] by simp
  let ?b = "sort (map (\<lambda>r. fl_mean (resample draw vals r)) [0..<resamples])"
  let ?lo = "?b ! percentile floor (1 / 40)" and ?hi = "?b ! percentile ceiling (39 / 40)"
  from assms(1,2) vals have two: "2 \<le> length vals"
    and w: "get w ''lower'' = jflt (round12 ?lo)" "get w ''upper'' = jflt (round12 ?hi)"
    by (auto simp: case_cluster_bootstrap_def bootstrap_report_def get_def Let_def split: if_splits)
  from two have ne: "vals \<noteq> []" by auto
  have means: "0 \<le> x \<and> x \<le> 1" if "x \<in> set ?b" for x
  proof -
    from that obtain r where x: "x = fl_mean (resample draw vals r)" by auto
    note s = resample_values [OF assms(3) ne, of r]
    from ne s(2) have "resample draw vals r \<noteq> []" by auto
    then show ?thesis unfolding x using s unit len assms(4) by (intro fl_mean_unit) auto
  qed
  have size: "length ?b = resamples" by simp
  have "?lo \<le> ?hi" using percentile_ordered size by (intro sorted_nth_mono) simp_all
  then have "round12 ?lo \<le> round12 ?hi" by (rule round12_mono)
  moreover have "?lo \<in> set ?b" "?hi \<in> set ?b" using percentile_ordered size by (intro nth_mem; simp)+
  ultimately show ?thesis using w round12_unit means by blast
qed

theorem bootstrap_interval_witness:
  "\<exists>w lower upper. case_cluster_bootstrap (\<lambda>n k. k mod n) (JObj [(''c1'', JInt 0), (''c2'', JInt 1)]) = Inr (JObj w)
     \<and> get w ''lower'' = jflt lower \<and> get w ''upper'' = jflt upper \<and> 0 \<le> lower \<and> lower \<le> upper \<and> upper \<le> 1"
proof -
  have "mapE check_estimate (sort_key fst [(''c1'', JInt 0), (''c2'', JInt 1)]) = Inr [0, 1]"
    by (simp add: check_estimate_def guard_def int_to_float_def to_float_def)
  then obtain w where w: "case_cluster_bootstrap (\<lambda>n k. k mod n) (JObj [(''c1'', JInt 0), (''c2'', JInt 1)]) = Inr (JObj w)"
    "get w ''terminal_status'' = JStr ''PASS''"
    by (simp add: case_cluster_bootstrap_def bootstrap_report_def Let_def get_def)
  from bootstrap_interval [OF w] w show ?thesis by simp
qed

end
