(* ===== verification/Spec2Isabelle.thy ===== *)
theory Spec2Isabelle
  imports EvalStore CupJudge CupSearchPro B2Qa1 B2Qa2 V23Witness BmOutcome BmLabel BmBootstrap
begin

text \<open>
  A verification development of the LLM evaluation lab, a Python program in four parts that share
  JSON documents, SHA-256 fingerprints and the rule that a validator raises or returns.

  \<^item> \<^bold>\<open>Evaluation lab\<close> (\<open>src/evaluation_lab.py\<close>): case suites in Markdown, closure policies and two
    experiments over them, a store of immutable runs with a read-only query API.
  \<^item> \<^bold>\<open>Search cup\<close> (\<open>src/search_cup/\<close>): a match between four entrants that search through a budgeted
    proxy and freeze their submissions, judged behind a hidden registry; and its version 2.3, search
    specifications with a resource ledger and a receipt.
  \<^item> \<^bold>\<open>B2 quality profiles\<close> (\<open>src/b2/qa0.py\<close>, \<open>qa1.py\<close>, \<open>qa2.py\<close>): seeds scored by frozen rules and
    receipts with a gate.
  \<^item> \<^bold>\<open>B2 benchmark contracts\<close> (\<open>src/b2/bm0.py\<close>): a frozen manifest of planned attempts, observations of
    them, analysis methods and human adjudication.

  \<^bold>\<open>Shared theories.\<close>  \<open>Prelude\<close> has exceptions as values (\<open>exc + 'a\<close>; \<open>bindE\<close>, \<open>mapE\<close> and \<open>foldE\<close> are
  sequencing, comprehensions and loops that may raise) and the collection \<open>exc_elims\<close> of facts that say
  when such a term returns.  \<open>PyText\<close>, \<open>Ascii\<close>, \<open>PyFloat\<close>, \<open>PyJson\<close>, \<open>JsonText\<close>, \<open>PyDatetime\<close> and \<open>Sha256\<close>
  model what the source uses of the language and its standard library: strings over the first 256 code
  points with their UTF-8, binary64 floats as rationals with one rounding function, JSON values with Python's
  equality and its canonical text, \<open>json.loads\<close>, \<open>datetime.fromisoformat\<close>, and SHA-256 on 32-bit words.
  \<open>PyUnicode\<close> has \<open>urllib.parse.unquote\<close> with its UTF-8 decoder on lists of code points, and the character
  classes that \<open>re\<close> uses on them.
  \<open>Journal\<close> states the interface of every component that records what happened, as the locales
  \<open>journal\<close>, \<open>strict_journal\<close> and \<open>keyed_journal\<close>: what a log keeps through any sequence of requests is
  proved there once.  The experiment store (\<open>EvalStore\<close>) and the trace of the search proxy (\<open>CupTools\<close>)
  interpret them.

  \<^bold>\<open>Evaluation lab.\<close>  \<open>EvalLoaders\<close> and \<open>EvalHistorical\<close> read and validate the documents
  (\<open>load_case_suite\<close>, \<open>load_historical_benchmark\<close>); the content of a file is an argument.  \<open>EvalPolicies\<close>
  models the policies, the grading and the two experiments, and shows which verdict they give.
  \<open>EvalStore\<close> models the SQLite table as a list of rows in the order of insertion, the writer and the routes,
  and shows that a run is read back, that rows never change and which status a route answers.

  \<^bold>\<open>Search cup.\<close>  \<open>CupContracts\<close> and \<open>CupSubmission\<close> (\<open>contracts.py\<close>) are the frozen dataclasses with
  their checks, freezing and thawing; \<open>CupTools\<close> (\<open>tools.py\<close>) the budgeted proxy as a state with its traces,
  whose backend and clock are arguments; \<open>CupRunner\<close> (\<open>runner.py\<close>, \<open>providers.py\<close>) the match, an entrant being a
  tree of tool calls; \<open>CupJudge\<close> (\<open>judge.py\<close>) the registry gate and the scores; \<open>CupSearchPro\<close>
  (\<open>search_pro.py\<close>) the adapter, with the HTTP transport as an argument, and the smoke test.
  Version 2.3: \<open>V23Schema\<close> (\<open>v23_schema.py\<close>) is the schema vocabulary and its validator, refined by an
  inductive conformance relation; \<open>V23Safety\<close> and \<open>V23Spec\<close> (\<open>protocol_v23.py\<close>) are the content scanner
  with its six patterns as regular expressions over code points, the seal, and the specification with its controls and
  claims; \<open>V23Canon\<close> shows that key order does not matter; \<open>V23Accounting\<close> (\<open>v23_accounting.py\<close>) is the ledger and
  the receipt, \<open>V23Ledger\<close> their invariant, \<open>V23Receipt\<close> that a receipt validates and what PASS means.
  \<open>V23Sample\<close> and \<open>V23Witness\<close> hold a concrete specification and ledger.

  \<^bold>\<open>B2 quality profiles.\<close>  \<open>B2Seeds\<close> (\<open>qa0.py\<close>) has fingerprints, public safety and the seed validators;
  \<open>B2Qa0\<close>, \<open>B2Qa1\<close> and \<open>B2Qa2\<close> the family scorers, results and receipts; \<open>B2Pairing\<close> what the receipts share.
  The locale \<open>case_scorer\<close> states what scoring promises its receipts; each profile interprets it.  The lemmas show
  which inputs a scorer passes and when a gate says PASS.  \<open>B2Quick\<close> decides that a text is public in one pass.

  \<^bold>\<open>B2 benchmark contracts.\<close>  \<open>BmCore\<close> has the frozen tables and the field readers; \<open>BmTrial\<close> trial
  identities, the adjudication plan, the corpus commitment and the applicability declarations;
  \<open>BmManifest\<close> \<open>validate_benchmark_manifest\<close> and \<open>fixed_attempt_stop_v1\<close>; \<open>BmObservation\<close>
  \<open>validate_observation\<close> and the identity grid; \<open>BmWilson\<close>, \<open>BmMetrics\<close> and \<open>BmCompare\<close> the fifteen
  analysis methods; \<open>BmAdjudication\<close> the records and their resolution.  Each validator is a list of checks in the
  order of the source (\<open>seqE\<close>), one definition per block.  \<open>BmStop\<close>, \<open>BmOutcome\<close>, \<open>BmLabel\<close> and \<open>BmBootstrap\<close>
  show what a stop decision, a failure value, a failure rate, a final label and an interval rest on.
  \<open>BmSample\<close>, \<open>BmStudy\<close> and \<open>BmPlan\<close> build one frozen study that passes every validator; the
  properties are applied to it.

  \<^bold>\<open>Fuel and parameters.\<close>  The JSON parser has fuel, twice the length of the text; the walk over retry
  parents in the ledger (\<open>retry_root\<close>) and in the manifest (\<open>retry_ordinal\<close>) has fuel, the number of events and of
  planned attempts; in each case it is shown to be enough.  The draws of \<open>random.Random\<close>, clocks, file
  contents, search backends, HTTP transports and entrants are arguments, and what is shown holds for all of them.

  \<^bold>\<open>Not modelled.\<close>  Documents with characters beyond code point 255 (percent escapes may decode to them), so
  \<open>json.loads\<close> refuses the escapes of such characters; the limit of 4300 digits that Python puts on printing and
  reading integers; the failure of the web framework to serialise NaN and infinities in a response; command lines, printing and Markdown or HTML rendering;
  the document validators of \<open>bm0.py\<close> that compare checked-in files with literal tables; the live harness
  (\<open>bm1.py\<close>, \<open>bm1_live.py\<close>), the blind bridge (\<open>blind_eval.py\<close>, \<open>blind_handoff.py\<close>), which rest on services
  and cryptography outside the repository; the projections of \<open>qa3.py\<close>; of version 2.3, the judgment
  packages and retriever, which need Unicode normal forms, the authoring scripts of fixed instances and the FTS5 source.
\<close>

end
